(* ===== verification/Prelude.thy ===== *)
theory Prelude
  imports Main "HOL-Library.Multiset"
begin

text \<open>
  Shared vocabulary of the development: results with an error, bounded integers as the
  code converts them, and tables of rows as the SQL statements of
  src/crates/jit-storage/src/lib.rs read and write them.  A Rust \<open>Result<T, E>\<close> is
  \<open>'e + 'a\<close> with \<open>Inl\<close> for \<open>Err\<close>; a table is the list of its rows in insertion
  order, looked up and updated through its primary key.
\<close>

named_theorems table_simps \<open>lookup, update and append on tables of rows\<close>
named_theorems op_defs \<open>the registry operations, for unfolding\<close>

section \<open>Results\<close>

definition rbind :: "'e + 'a \<Rightarrow> ('a \<Rightarrow> 'e + 'b) \<Rightarrow> 'e + 'b" where
  "rbind r k = (case r of Inl e \<Rightarrow> Inl e | Inr x \<Rightarrow> k x)"

definition ok_or :: "'e \<Rightarrow> 'a option \<Rightarrow> 'e + 'a" where
  "ok_or e x = (case x of None \<Rightarrow> Inl e | Some v \<Rightarrow> Inr v)"

definition ensure :: "bool \<Rightarrow> 'e \<Rightarrow> 'e + unit" where
  "ensure b e = (if b then Inr () else Inl e)"

lemma rbind_simps [simp]: "rbind (Inl e) k = Inl e" "rbind (Inr x) k = k x"
  by (simp_all add: rbind_def)

lemma rbind_Inr_iff: "rbind r k = Inr y \<longleftrightarrow> (\<exists>x. r = Inr x \<and> k x = Inr y)"
  by (cases r) auto

lemma rbind_Inl_iff: "rbind r k = Inl e \<longleftrightarrow> r = Inl e \<or> (\<exists>x. r = Inr x \<and> k x = Inl e)"
  by (cases r) auto

lemma ok_or_simps [simp]: "ok_or e None = Inl e" "ok_or e (Some x) = Inr x"
  by (simp_all add: ok_or_def)

lemma ok_or_Inr_iff [simp]: "ok_or e x = Inr v \<longleftrightarrow> x = Some v"
  by (cases x) auto

lemma ok_or_Inl_iff [simp]: "ok_or e x = Inl e' \<longleftrightarrow> x = None \<and> e' = e"
  by (cases x) auto

lemma ensure_simps [simp]: "ensure True e = Inr ()" "ensure False e = Inl e"
  by (simp_all add: ensure_def)

lemma ensure_Inr_iff [simp]: "ensure b e = Inr u \<longleftrightarrow> b"
  by (simp add: ensure_def)

lemma ensure_Inl_iff [simp]: "ensure b e = Inl e' \<longleftrightarrow> \<not> b \<and> e' = e"
  by (auto simp: ensure_def)

fun mapM :: "('a \<Rightarrow> 'e + 'b) \<Rightarrow> 'a list \<Rightarrow> 'e + 'b list" where
  "mapM f [] = Inr []"
| "mapM f (x # xs) = rbind (f x) (\<lambda>y. rbind (mapM f xs) (\<lambda>ys. Inr (y # ys)))"

lemma mapM_Inr_iff: "mapM f xs = Inr ys \<longleftrightarrow> list_all2 (\<lambda>x y. f x = Inr y) xs ys"
  by (induction xs arbitrary: ys) (auto simp: rbind_Inr_iff list_all2_Cons1)

section \<open>Bounded integers\<close>

definition i64_max :: int where "i64_max = 9223372036854775807"
definition i64_min :: int where "i64_min = - 9223372036854775808"
definition u64_max :: nat where "u64_max = 18446744073709551615"
definition u32_max :: nat where "u32_max = 4294967295"
definition i32_max :: int where "i32_max = 2147483647"

text \<open>\<open>i64::try_from\<close> of an unsigned value, \<open>u64::try_from\<close> of an \<open>i64\<close>, and checked addition.\<close>

definition i64_try_from :: "nat \<Rightarrow> int option" where
  "i64_try_from n = (if int n \<le> i64_max then Some (int n) else None)"

definition u64_try_from :: "int \<Rightarrow> nat option" where
  "u64_try_from i = (if 0 \<le> i then Some (nat i) else None)"

definition i64_checked :: "int \<Rightarrow> int option" where
  "i64_checked i = (if i64_min \<le> i \<and> i \<le> i64_max then Some i else None)"

definition u64_checked_add :: "nat \<Rightarrow> nat \<Rightarrow> nat option" where
  "u64_checked_add a b = (if a + b \<le> u64_max then Some (a + b) else None)"

lemma i64_try_from_Some [simp]: "i64_try_from n = Some i \<longleftrightarrow> int n \<le> i64_max \<and> i = int n"
  by (auto simp: i64_try_from_def)

lemma i64_try_from_None [simp]: "i64_try_from n = None \<longleftrightarrow> i64_max < int n"
  by (auto simp: i64_try_from_def)

lemma u64_try_from_Some [simp]: "u64_try_from i = Some n \<longleftrightarrow> 0 \<le> i \<and> n = nat i"
  by (auto simp: u64_try_from_def)

lemma i64_checked_Some [simp]:
  "i64_checked i = Some j \<longleftrightarrow> i64_min \<le> i \<and> i \<le> i64_max \<and> j = i"
  by (auto simp: i64_checked_def)

text \<open>Comparisons with large numerals, evaluated in binary.\<close>

lemma le_numeral_code [code_unfold]: "(n::nat) \<le> numeral k \<longleftrightarrow> int n \<le> numeral k"
  by simp

lemma less_numeral_code [code_unfold]: "(n::nat) < numeral k \<longleftrightarrow> int n < numeral k"
  by simp

lemma numeral_less_code [code_unfold]: "numeral k < (n::nat) \<longleftrightarrow> numeral k < int n"
  by simp

lemma nat_of_num_times_code [code_unfold]: "nat_of_num a * nat_of_num b = nat_of_num (a * b)"
  by (simp only: nat_of_num_numeral numeral_mult)

lemma nat_of_num_order_code [code_unfold]:
  "nat_of_num k < n \<longleftrightarrow> numeral k < int n" "n < nat_of_num k \<longleftrightarrow> int n < numeral k"
  "n \<le> nat_of_num k \<longleftrightarrow> int n \<le> numeral k" "nat_of_num k \<le> n \<longleftrightarrow> numeral k \<le> int n"
  by (simp_all add: nat_of_num_numeral)

lemma u64_max_code [code_unfold]: "n \<le> u64_max \<longleftrightarrow> int n \<le> 18446744073709551615"
  by (simp add: u64_max_def)

section \<open>Tables of rows\<close>

definition lookup :: "('r \<Rightarrow> 'k) \<Rightarrow> 'k \<Rightarrow> 'r list \<Rightarrow> 'r option" where
  "lookup key k rows = find (\<lambda>r. key r = k) rows"

definition upd :: "('r \<Rightarrow> 'k) \<Rightarrow> 'k \<Rightarrow> ('r \<Rightarrow> 'r) \<Rightarrow> 'r list \<Rightarrow> 'r list" where
  "upd key k f rows = map (\<lambda>r. if key r = k then f r else r) rows"

definition upsert :: "('r \<Rightarrow> 'k) \<Rightarrow> 'k \<Rightarrow> ('r \<Rightarrow> 'r) \<Rightarrow> 'r \<Rightarrow> 'r list \<Rightarrow> 'r list" where
  "upsert key k f new rows =
     (if lookup key k rows = None then rows @ [new] else upd key k f rows)"

text \<open>\<open>INSERT \<dots> ON CONFLICT DO UPDATE\<close> is \<^const>\<open>upsert\<close>; \<open>ON CONFLICT DO NOTHING\<close> is:\<close>

definition insert_new :: "('r \<Rightarrow> 'k) \<Rightarrow> 'r \<Rightarrow> 'r list \<Rightarrow> 'r list" where
  "insert_new key new rows =
     (if lookup key (key new) rows = None then rows @ [new] else rows)"

lemma lookup_Nil [table_simps, simp]: "lookup key k [] = None"
  by (simp add: lookup_def)

lemma lookup_Cons [table_simps]:
  "lookup key k (r # rows) = (if key r = k then Some r else lookup key k rows)"
  by (simp add: lookup_def)

lemma lookup_Some_key: "lookup key k rows = Some r \<Longrightarrow> key r = k"
  by (induction rows) (auto simp: lookup_Cons split: if_splits)

lemma lookup_Some_mem: "lookup key k rows = Some r \<Longrightarrow> r \<in> set rows"
  by (induction rows) (auto simp: lookup_Cons split: if_splits)

lemma lookup_None_iff: "lookup key k rows = None \<longleftrightarrow> (\<forall>r\<in>set rows. key r \<noteq> k)"
  by (induction rows) (auto simp: lookup_Cons)

lemma lookup_mem: "distinct (map key rows) \<Longrightarrow> r \<in> set rows \<Longrightarrow> lookup key (key r) rows = Some r"
  by (induction rows) (auto simp: lookup_Cons rev_image_eqI)

lemma lookup_None_image: "lookup key k rows = None \<longleftrightarrow> k \<notin> key ` set rows"
  by (auto simp: lookup_None_iff)

lemma lookup_iff:
  "distinct (map key rows) \<Longrightarrow> lookup key k rows = Some r \<longleftrightarrow> r \<in> set rows \<and> key r = k"
  using lookup_mem lookup_Some_mem lookup_Some_key by metis

lemma lookup_append [table_simps]:
  "lookup key k (rows @ more) =
     (case lookup key k rows of None \<Rightarrow> lookup key k more | Some r \<Rightarrow> Some r)"
  by (induction rows) (auto simp: lookup_Cons)

lemma upd_Nil [simp]: "upd key k f [] = []"
  by (simp add: upd_def)

lemma upd_Cons: "upd key k f (r # rows) = (if key r = k then f r else r) # upd key k f rows"
  by (simp add: upd_def)

lemma lookup_upd [table_simps]:
  assumes "\<And>r. key (f r) = key r"
  shows "lookup key k' (upd key k f rows) =
    (if k' = k then map_option f (lookup key k rows) else lookup key k' rows)"
  by (induction rows) (auto simp: lookup_Cons upd_Cons assms)

lemma map_key_upd [table_simps]:
  assumes "\<And>r. g (f r) = g r"
  shows "map g (upd key k f rows) = map g rows"
  by (induction rows) (auto simp: upd_Cons assms)

lemma length_upd [table_simps]: "length (upd key k f rows) = length rows"
  by (simp add: upd_def)

lemma set_updD: "r \<in> set (upd key k f rows) \<Longrightarrow>
  (\<exists>q\<in>set rows. key q = k \<and> r = f q) \<or> (r \<in> set rows \<and> key r \<noteq> k)"
  by (induction rows) (auto simp: upd_Cons split: if_splits)

lemma upd_absent: "lookup key k rows = None \<Longrightarrow> upd key k f rows = rows"
  by (induction rows) (auto simp: upd_Cons lookup_Cons split: if_splits)

lemma upd_cong_present:
  assumes "\<And>r. lookup key k rows = Some r \<Longrightarrow> f r = g r" and "distinct (map key rows)"
  shows "upd key k f rows = upd key k g rows"
  unfolding upd_def
proof (rule map_cong [OF refl])
  fix r assume "r \<in> set rows"
  with assms show "(if key r = k then f r else r) = (if key r = k then g r else r)"
    using lookup_mem [of key rows r] by auto
qed

lemma lookup_upsert:
  assumes "\<And>r. key (f r) = key r" and "key new = k"
  shows "lookup key k' (upsert key k f new rows) =
    (if k' = k then Some (case lookup key k rows of None \<Rightarrow> new | Some r \<Rightarrow> f r)
     else lookup key k' rows)"
  using assms
  by (auto simp: upsert_def lookup_append lookup_upd lookup_Cons split: option.splits)

lemma distinct_upsert:
  assumes "\<And>r. key (f r) = key r" and "key new = k"
  shows "distinct (map key (upsert key k f new rows)) \<longleftrightarrow> distinct (map key rows)"
  using assms by (auto simp: upsert_def map_key_upd lookup_None_iff)

lemma lookup_insert_new:
  "lookup key k (insert_new key new rows) =
     (if k = key new then Some (case lookup key k rows of None \<Rightarrow> new | Some r \<Rightarrow> r)
      else lookup key k rows)"
  by (auto simp: insert_new_def lookup_append lookup_Cons split: option.splits)

lemma distinct_insert_new:
  "distinct (map key (insert_new key new rows)) \<longleftrightarrow> distinct (map key rows)"
  by (auto simp: insert_new_def lookup_None_iff)

section \<open>Ordering rows\<close>

text \<open>\<open>ORDER BY\<close> with a comparison given as a predicate: a stable insertion sort.\<close>

fun insert_by :: "('a \<Rightarrow> 'a \<Rightarrow> bool) \<Rightarrow> 'a \<Rightarrow> 'a list \<Rightarrow> 'a list" where
  "insert_by le x [] = [x]"
| "insert_by le x (y # ys) = (if le x y then x # y # ys else y # insert_by le x ys)"

fun sort_by :: "('a \<Rightarrow> 'a \<Rightarrow> bool) \<Rightarrow> 'a list \<Rightarrow> 'a list" where
  "sort_by le [] = []"
| "sort_by le (x # xs) = insert_by le x (sort_by le xs)"

lemma mset_insert_by [simp]: "mset (insert_by le x xs) = add_mset x (mset xs)"
  by (induction xs) auto

lemma mset_sort_by [simp]: "mset (sort_by le xs) = mset xs"
  by (induction xs) auto

lemma set_sort_by [simp]: "set (sort_by le xs) = set xs"
  by (metis mset_sort_by set_mset_mset)

lemma length_sort_by [simp]: "length (sort_by le xs) = length xs"
  by (metis mset_sort_by size_mset)

lemma set_insert_by [simp]: "set (insert_by le x xs) = insert x (set xs)"
  by (induction xs) auto

lemma sorted_insert_by:
  assumes "\<And>a b. le a b \<or> le b a" and "\<And>a b c. le a b \<Longrightarrow> le b c \<Longrightarrow> le a c"
    and "sorted_wrt le xs"
  shows "sorted_wrt le (insert_by le x xs)"
  using assms(3)
proof (induction xs)
  case (Cons y ys)
  then show ?case using assms(1,2) by (auto dest: bspec)
qed simp

lemma sorted_sort_by:
  assumes "\<And>a b. le a b \<or> le b a" and "\<And>a b c. le a b \<Longrightarrow> le b c \<Longrightarrow> le a c"
  shows "sorted_wrt le (sort_by le xs)"
  by (induction xs) (simp_all add: assms sorted_insert_by)

end
