(* ===== verification/Rust_Text.thy ===== *)
theory Rust_Text
  imports Prelude
begin

text \<open>
  The parts of Rust's \<open>str\<close> the code uses.  A \<open>String\<close> is its UTF-8 bytes, one \<open>char\<close>
  of HOL per byte, so \<^const>\<open>length\<close> is Rust's \<open>len()\<close>; \<open>chars\<close> cuts the bytes into
  characters by their lead bytes, and \<open>trim\<close> removes Unicode white space as Rust does.
\<close>

section \<open>Bytes and characters\<close>

abbreviation byte :: "char \<Rightarrow> nat" where
  "byte c \<equiv> of_char c"

definition is_ascii_lowercase :: "char \<Rightarrow> bool" where
  "is_ascii_lowercase c = (97 \<le> byte c \<and> byte c \<le> 122)"

definition is_ascii_uppercase :: "char \<Rightarrow> bool" where
  "is_ascii_uppercase c = (65 \<le> byte c \<and> byte c \<le> 90)"

definition is_ascii_digit :: "char \<Rightarrow> bool" where
  "is_ascii_digit c = (48 \<le> byte c \<and> byte c \<le> 57)"

definition is_ascii_alphanumeric :: "char \<Rightarrow> bool" where
  "is_ascii_alphanumeric c = (is_ascii_lowercase c \<or> is_ascii_uppercase c \<or> is_ascii_digit c)"

definition is_ascii_hexdigit :: "char \<Rightarrow> bool" where
  "is_ascii_hexdigit c = (is_ascii_digit c \<or> (97 \<le> byte c \<and> byte c \<le> 102)
     \<or> (65 \<le> byte c \<and> byte c \<le> 70))"

definition ascii_lower_char :: "char \<Rightarrow> char" where
  "ascii_lower_char c = (if is_ascii_uppercase c then char_of (byte c + 32) else c)"

definition to_ascii_lowercase :: "string \<Rightarrow> string" where
  "to_ascii_lowercase s = map ascii_lower_char s"

definition eq_ignore_ascii_case :: "string \<Rightarrow> string \<Rightarrow> bool" where
  "eq_ignore_ascii_case s t = (to_ascii_lowercase s = to_ascii_lowercase t)"

text \<open>The number of bytes of the UTF-8 character a lead byte opens.\<close>

definition char_width :: "char \<Rightarrow> nat" where
  "char_width c = (if byte c < 128 then 1 else if byte c < 224 then 2
                   else if byte c < 240 then 3 else 4)"

fun chars :: "string \<Rightarrow> string list" where
  "chars [] = []"
| "chars (c # cs) =
     (c # take (char_width c - 1) cs) # chars (drop (char_width c - 1) cs)"

lemma concat_chars [simp]: "concat (chars s) = s"
  by (induction s rule: chars.induct) auto

lemma chars_nonempty: "ch \<in> set (chars s) \<Longrightarrow> ch \<noteq> []"
  by (induction s rule: chars.induct) auto

lemma chars_eq_Nil [simp]: "chars s = [] \<longleftrightarrow> s = []"
  by (cases s) auto

lemma length_chars_le: "length (chars s) \<le> length s"
  by (induction s rule: chars.induct) auto

definition ascii :: "string \<Rightarrow> bool" where
  "ascii s = list_all (\<lambda>c. byte c < 128) s"

lemma chars_ascii: "ascii s \<Longrightarrow> chars s = map (\<lambda>c. [c]) s"
  by (induction s) (auto simp: ascii_def char_width_def)

text \<open>A character of one ASCII byte that satisfies a byte predicate.\<close>

fun ascii_char :: "(char \<Rightarrow> bool) \<Rightarrow> string \<Rightarrow> bool" where
  "ascii_char p [c] = (byte c < 128 \<and> p c)"
| "ascii_char p _ = False"

lemma ascii_char_iff: "ascii_char p ch \<longleftrightarrow> (\<exists>c. ch = [c] \<and> byte c < 128 \<and> p c)"
  by (cases "(p, ch)" rule: ascii_char.cases) auto

lemma list_all_chars_ascii:
  "list_all (ascii_char p) (chars s) \<longleftrightarrow> list_all (\<lambda>c. byte c < 128 \<and> p c) s"
proof (induction s rule: chars.induct)
  case (2 c cs)
  show ?case
  proof (cases "byte c < 128")
    case True
    with 2 show ?thesis by (simp add: char_width_def)
  next
    case False
    then show ?thesis by (auto simp: ascii_char_iff)
  qed
qed simp

text \<open>Valid UTF-8 as far as the code relies on it: every character has the length its lead byte
  announces, and exactly the bytes after the first are continuation bytes.\<close>

definition continuation :: "char \<Rightarrow> bool" where
  "continuation c = (128 \<le> byte c \<and> byte c < 192)"

definition wf_char :: "string \<Rightarrow> bool" where
  "wf_char ch = (case ch of
     [] \<Rightarrow> False
   | c # cs \<Rightarrow> length ch = char_width c \<and> \<not> continuation c \<and> list_all continuation cs)"

definition utf8 :: "string \<Rightarrow> bool" where
  "utf8 s = list_all wf_char (chars s)"

lemma chars_append:
  assumes "wf_char ch"
  shows "chars (ch @ s) = ch # chars s"
  using assms by (cases ch) (auto simp: wf_char_def)

lemma chars_concat: "list_all wf_char chs \<Longrightarrow> chars (concat chs) = chs"
  by (induction chs) (auto simp: chars_append)

lemma utf8_concat: "list_all wf_char chs \<Longrightarrow> utf8 (concat chs)"
  by (simp add: utf8_def chars_concat)

lemma wf_char_ascii: "byte c < 128 \<Longrightarrow> wf_char [c]"
  by (simp add: wf_char_def char_width_def continuation_def)

lemma utf8_take: "utf8 s \<Longrightarrow> utf8 (concat (take n (chars s)))"
  by (rule utf8_concat) (auto simp: utf8_def list_all_iff dest: in_set_takeD)

section \<open>White space and trimming\<close>

text \<open>The characters with Unicode's \<open>White_Space\<close> property, in UTF-8.\<close>

definition white_space :: "string list" where
  "white_space =
    [[CHR 0x09], [CHR 0x0A], [CHR 0x0B], [CHR 0x0C], [CHR 0x0D], [CHR 0x20],
     [CHR 0xC2, CHR 0x85], [CHR 0xC2, CHR 0xA0], [CHR 0xE1, CHR 0x9A, CHR 0x80],
     [CHR 0xE2, CHR 0x80, CHR 0x80], [CHR 0xE2, CHR 0x80, CHR 0x81],
     [CHR 0xE2, CHR 0x80, CHR 0x82], [CHR 0xE2, CHR 0x80, CHR 0x83],
     [CHR 0xE2, CHR 0x80, CHR 0x84], [CHR 0xE2, CHR 0x80, CHR 0x85],
     [CHR 0xE2, CHR 0x80, CHR 0x86], [CHR 0xE2, CHR 0x80, CHR 0x87],
     [CHR 0xE2, CHR 0x80, CHR 0x88], [CHR 0xE2, CHR 0x80, CHR 0x89],
     [CHR 0xE2, CHR 0x80, CHR 0x8A], [CHR 0xE2, CHR 0x80, CHR 0xA8],
     [CHR 0xE2, CHR 0x80, CHR 0xA9], [CHR 0xE2, CHR 0x80, CHR 0xAF],
     [CHR 0xE2, CHR 0x81, CHR 0x9F], [CHR 0xE3, CHR 0x80, CHR 0x80]]"

definition is_whitespace :: "string \<Rightarrow> bool" where
  "is_whitespace ch = (ch \<in> set white_space)"

definition trim :: "string \<Rightarrow> string" where
  "trim s = concat (rev (dropWhile is_whitespace (rev (dropWhile is_whitespace (chars s)))))"

lemma length_concat_dropWhile: "length (concat (dropWhile p xs)) \<le> length (concat xs)"
  by (induction xs) auto

lemma length_concat_rev: "length (concat (rev xs)) = length (concat xs)"
  by (induction xs) auto

lemma length_trim: "length (trim s) \<le> length s"
proof -
  have "length (trim s) \<le> length (concat (dropWhile is_whitespace (chars s)))"
    unfolding trim_def length_concat_rev
    by (rule order_trans [OF length_concat_dropWhile]) (simp add: length_concat_rev)
  also have "\<dots> \<le> length s"
    using length_concat_dropWhile [of is_whitespace "chars s"] by simp
  finally show ?thesis .
qed

lemma trim_Nil [simp]: "trim [] = []"
  by (simp add: trim_def)

section \<open>Prefixes, searching and splitting\<close>

definition starts_with :: "string \<Rightarrow> string \<Rightarrow> bool" where
  "starts_with s p = (take (length p) s = p)"

definition strip_prefix :: "string \<Rightarrow> string \<Rightarrow> string option" where
  "strip_prefix p s = (if starts_with s p then Some (drop (length p) s) else None)"

definition trim_end_matches :: "char \<Rightarrow> string \<Rightarrow> string" where
  "trim_end_matches c s = rev (dropWhile (\<lambda>x. x = c) (rev s))"

fun contains_str :: "string \<Rightarrow> string \<Rightarrow> bool" where
  "contains_str [] p = (p = [])"
| "contains_str (c # cs) p = (starts_with (c # cs) p \<or> contains_str cs p)"

text \<open>\<open>split_once\<close> at the first occurrence, \<open>rsplit_once\<close> at the last.\<close>

fun split_once :: "string \<Rightarrow> string \<Rightarrow> (string \<times> string) option" where
  "split_once p [] = (if p = [] then Some ([], []) else None)"
| "split_once p (c # cs) =
     (if starts_with (c # cs) p then Some ([], drop (length p) (c # cs))
      else map_option (\<lambda>(a, b). (c # a, b)) (split_once p cs))"

fun rsplit_once :: "char \<Rightarrow> string \<Rightarrow> (string \<times> string) option" where
  "rsplit_once d [] = None"
| "rsplit_once d (c # cs) =
     (case rsplit_once d cs of
        Some (a, b) \<Rightarrow> Some (c # a, b)
      | None \<Rightarrow> if c = d then Some ([], cs) else None)"

fun split_char :: "char \<Rightarrow> string \<Rightarrow> string list" where
  "split_char d [] = [[]]"
| "split_char d (c # cs) =
     (if c = d then [] # split_char d cs
      else (case split_char d cs of [] \<Rightarrow> [[c]] | w # ws \<Rightarrow> (c # w) # ws))"

lemma split_char_nonempty [simp]: "split_char d s \<noteq> []"
  by (induction s) (auto split: list.split)

lemma starts_with_iff: "starts_with s p \<longleftrightarrow> (\<exists>t. s = p @ t)"
  unfolding starts_with_def by (metis append_eq_conv_conj append_take_drop_id)

lemma starts_with_Nil [simp]: "starts_with s []"
  by (simp add: starts_with_def)

lemma strip_prefix_Some [simp]: "strip_prefix p s = Some t \<longleftrightarrow> s = p @ t"
  by (auto simp: strip_prefix_def starts_with_iff)

lemma split_once_Some: "split_once p s = Some (a, b) \<Longrightarrow> s = a @ p @ b"
  by (induction p s arbitrary: a b rule: split_once.induct)
    (auto simp: starts_with_iff split: if_splits)

lemma rsplit_once_Some: "rsplit_once d s = Some (a, b) \<Longrightarrow> s = a @ d # b \<and> d \<notin> set b"
proof (induction d s arbitrary: a b rule: rsplit_once.induct)
  case (2 d c cs)
  have none: "rsplit_once d cs = None \<Longrightarrow> d \<notin> set cs" for cs
    by (induction cs) (auto split: option.splits if_splits)
  show ?case using 2 none by (auto split: option.splits if_splits)
qed simp

lemma rsplit_once_append: "d \<notin> set b \<Longrightarrow> rsplit_once d (a @ d # b) = Some (a, b)"
proof (induction a)
  case Nil
  then have "rsplit_once d b = None" by (induction b) auto
  then show ?case by simp
qed simp

lemma rsplit_once_None: "d \<notin> set s \<Longrightarrow> rsplit_once d s = None"
  by (induction s) auto

lemma contains_str_iff: "contains_str s p \<longleftrightarrow> (\<exists>a b. s = a @ p @ b)"
proof (induction s p rule: contains_str.induct)
  case (2 c cs p)
  show ?case
  proof
    assume "contains_str (c # cs) p"
    then consider "starts_with (c # cs) p" | "contains_str cs p" by auto
    then show "\<exists>a b. c # cs = a @ p @ b"
    proof cases
      case 1
      then show ?thesis unfolding starts_with_iff by (metis append_Nil)
    next
      case 2
      with "2.IH" show ?thesis by (metis append_Cons)
    qed
  next
    assume "\<exists>a b. c # cs = a @ p @ b"
    then obtain a b where ab: "c # cs = a @ p @ b" by blast
    then show "contains_str (c # cs) p"
    proof (cases a)
      case Nil
      with ab have "starts_with (c # cs) p" unfolding starts_with_iff by auto
      then show ?thesis by simp
    next
      case (Cons x xs)
      with ab "2.IH" show ?thesis by auto
    qed
  qed
qed simp

section \<open>Decimal numbers\<close>

definition digit_char :: "nat \<Rightarrow> char" where
  "digit_char n = char_of (48 + n)"

fun show_nat :: "nat \<Rightarrow> string" where
  "show_nat n = (if n < 10 then [digit_char n] else show_nat (n div 10) @ [digit_char (n mod 10)])"

declare show_nat.simps [simp del]

definition show_int :: "int \<Rightarrow> string" where
  "show_int i = (if i < 0 then CHR ''-'' # show_nat (nat (- i)) else show_nat (nat i))"

fun digits_val :: "nat \<Rightarrow> string \<Rightarrow> nat option" where
  "digits_val acc [] = Some acc"
| "digits_val acc (c # cs) =
     (if is_ascii_digit c then digits_val (10 * acc + (byte c - 48)) cs else None)"

text \<open>\<open>str::parse::<u64>\<close>: an optional plus sign, at least one digit, no overflow.\<close>

definition parse_u64 :: "string \<Rightarrow> nat option" where
  "parse_u64 s =
     (let ds = (case s of [] \<Rightarrow> [] | c # cs \<Rightarrow> if c = CHR ''+'' then cs else s)
      in if ds = [] then None
         else case digits_val 0 ds of
                None \<Rightarrow> None
              | Some n \<Rightarrow> if n \<le> u64_max then Some n else None)"

lemma byte_digit_char [simp]: "n < 10 \<Longrightarrow> byte (digit_char n) = 48 + n"
  by (simp add: digit_char_def)

lemma is_digit_digit_char [simp]: "n < 10 \<Longrightarrow> is_ascii_digit (digit_char n)"
  by (simp add: is_ascii_digit_def)

lemma digits_val_append:
  "digits_val acc (xs @ ys) =
     (case digits_val acc xs of None \<Rightarrow> None | Some a \<Rightarrow> digits_val a ys)"
  by (induction xs arbitrary: acc) auto

lemma digits_val_show_nat: "digits_val 0 (show_nat n) = Some n"
proof (induction n rule: show_nat.induct)
  case (1 n)
  show ?case
    by (subst show_nat.simps) (use 1 in \<open>auto simp: digits_val_append\<close>)
qed

lemma show_nat_nonempty [simp]: "show_nat n \<noteq> []"
  by (subst show_nat.simps) simp

lemma show_nat_digits: "c \<in> set (show_nat n) \<Longrightarrow> is_ascii_digit c"
proof (induction n rule: show_nat.induct)
  case (1 n)
  from "1.prems" show ?case
    by (subst (asm) show_nat.simps) (use "1.IH" in \<open>auto split: if_splits\<close>)
qed

lemma not_digit_plus: "\<not> is_ascii_digit CHR ''+''" "\<not> is_ascii_digit CHR ''@''"
    "\<not> is_ascii_digit CHR ''-''" "\<not> is_ascii_digit CHR ''.''" "\<not> is_ascii_digit CHR ''e''"
    "\<not> is_ascii_digit CHR ''E''"
  by (simp_all add: is_ascii_digit_def)

lemma parse_u64_show_nat: "n \<le> u64_max \<Longrightarrow> parse_u64 (show_nat n) = Some n"
proof -
  assume "n \<le> u64_max"
  moreover obtain c cs where "show_nat n = c # cs"
    using show_nat_nonempty by (metis neq_Nil_conv)
  moreover from this have "c \<noteq> CHR ''+''"
    using show_nat_digits [of c n] not_digit_plus(1) by auto
  ultimately show ?thesis
    using digits_val_show_nat [of n] by (simp add: parse_u64_def)
qed

lemma parse_u64_bound: "parse_u64 s = Some n \<Longrightarrow> n \<le> u64_max"
  by (auto simp: parse_u64_def Let_def split: if_splits option.splits)

lemma show_nat_inj: "show_nat m = show_nat n \<Longrightarrow> m = n"
  by (metis digits_val_show_nat option.inject)

end
