(* ===== verification/Domain.thy ===== *)
theory Domain
  imports Rust_Text
begin

text \<open>
  src/crates/jit-domain/src/lib.rs: the validated names and intents, the life cycle of a
  tool version and the transitions the domain permits.  The interface \<open>enum_codec\<close> states
  what every string-encoded enumeration of the code promises to the tables that store it.
\<close>

section \<open>Enumerations stored as strings\<close>

locale enum_codec =
  fixes as_str :: "'a \<Rightarrow> string"
    and parse :: "string \<Rightarrow> 'a option"
  assumes parse_as_str: "parse (as_str x) = Some x"
    and as_str_parse: "parse s = Some x \<Longrightarrow> as_str x = s"
begin

lemma parse_iff: "parse s = Some x \<longleftrightarrow> s = as_str x"
  using parse_as_str as_str_parse by blast

lemma as_str_inj: "as_str x = as_str y \<longleftrightarrow> x = y"
  using parse_as_str by (metis option.inject)

lemma parse_None: "parse s = None \<longleftrightarrow> (\<forall>x. s \<noteq> as_str x)"
  using parse_iff by (metis not_Some_eq)

end

section \<open>Tool names and intents\<close>

datatype domain_error = InvalidToolName | InvalidIntent | InvalidVersionStatus string

datatype tool_name = ToolName (tool_name_str: string)
datatype tool_intent = ToolIntent (tool_intent_str: string)

definition max_tool_name_len :: nat where "max_tool_name_len = 64"
definition max_description_len :: nat where "max_description_len = 4096"

definition tool_name_from_str :: "string \<Rightarrow> domain_error + tool_name" where
  "tool_name_from_str value =
     (if value = [] \<or> length value > max_tool_name_len then Inl InvalidToolName
      else case chars value of
        [] \<Rightarrow> Inl InvalidToolName
      | first # characters \<Rightarrow>
          if \<not> ascii_char is_ascii_lowercase first \<and> \<not> ascii_char is_ascii_digit first
          then Inl InvalidToolName
          else if \<not> list_all (\<lambda>character.
                 ascii_char is_ascii_lowercase character \<or> ascii_char is_ascii_digit character
                 \<or> character = ''-'' \<or> character = ''_'') characters
          then Inl InvalidToolName
          else Inr (ToolName value))"

definition tool_intent_from_str :: "string \<Rightarrow> domain_error + tool_intent" where
  "tool_intent_from_str value0 =
     (let value = trim value0
      in if value = [] \<or> length value > max_description_len then Inl InvalidIntent
         else Inr (ToolIntent value))"

definition tool_name_byte :: "char \<Rightarrow> bool" where
  "tool_name_byte c = (is_ascii_lowercase c \<or> is_ascii_digit c \<or> c = CHR ''-'' \<or> c = CHR ''_'')"

lemma tool_name_byte_ascii: "tool_name_byte c \<Longrightarrow> byte c < 128"
  by (auto simp: tool_name_byte_def is_ascii_lowercase_def is_ascii_digit_def)

lemma dash_underscore_ascii: "byte CHR ''-'' < (128::nat)" "byte CHR ''_'' < (128::nat)"
  by simp_all

lemma name_character_iff:
  "(ascii_char is_ascii_lowercase ch \<or> ascii_char is_ascii_digit ch \<or> ch = ''-'' \<or> ch = ''_'')
     \<longleftrightarrow> ascii_char tool_name_byte ch"
proof -
  have "ch = ''-'' \<longleftrightarrow> ascii_char (\<lambda>c. c = CHR ''-'') ch" "ch = ''_'' \<longleftrightarrow> ascii_char (\<lambda>c. c = CHR ''_'') ch"
    unfolding ascii_char_iff by (metis dash_underscore_ascii)+
  then show ?thesis
    unfolding ascii_char_iff tool_name_byte_def by blast
qed

lemma tool_name_from_str_iff:
  "tool_name_from_str s = Inr n \<longleftrightarrow>
     n = ToolName s \<and> length s \<le> 64 \<and> list_all tool_name_byte s \<and>
     (\<exists>c cs. s = c # cs \<and> (is_ascii_lowercase c \<or> is_ascii_digit c))"
proof (cases s)
  case (Cons c cs)
  let ?rest = "chars (drop (char_width c - 1) cs)"
  have head: "ascii_char is_ascii_lowercase (c # take (char_width c - 1) cs)
      \<or> ascii_char is_ascii_digit (c # take (char_width c - 1) cs)
      \<longleftrightarrow> is_ascii_lowercase c \<or> is_ascii_digit c"
    by (auto simp: ascii_char_iff char_width_def is_ascii_lowercase_def is_ascii_digit_def)
  have all: "list_all (ascii_char tool_name_byte) ?rest \<longleftrightarrow> list_all tool_name_byte cs"
    if "is_ascii_lowercase c \<or> is_ascii_digit c"
  proof -
    from that have "char_width c = 1"
      by (auto simp: char_width_def is_ascii_lowercase_def is_ascii_digit_def)
    then have "list_all (ascii_char tool_name_byte) ?rest
        \<longleftrightarrow> list_all (\<lambda>c. byte c < 128 \<and> tool_name_byte c) cs"
      unfolding list_all_chars_ascii by simp
    then show ?thesis
      by (metis (mono_tags, lifting) list.pred_cong tool_name_byte_ascii)
  qed
  show ?thesis
    unfolding tool_name_from_str_def name_character_iff using Cons head all
    by (auto simp: max_tool_name_len_def tool_name_byte_def [of c])
qed (simp add: tool_name_from_str_def)

lemma tool_intent_from_str_iff:
  "tool_intent_from_str s = Inr i \<longleftrightarrow> i = ToolIntent (trim s) \<and> trim s \<noteq> [] \<and> length (trim s) \<le> 4096"
  by (auto simp: tool_intent_from_str_def Let_def max_description_len_def)

text \<open>A valid name holds no separator of a path, a reference or a query.\<close>

lemma tool_name_safe:
  assumes "tool_name_from_str s = Inr n"
  shows "CHR ''/'' \<notin> set s" "CHR ''@'' \<notin> set s" "CHR ''.'' \<notin> set s" "CHR ''?'' \<notin> set s"
  using assms
  by (auto simp: tool_name_from_str_iff list_all_iff tool_name_byte_def is_ascii_lowercase_def
      is_ascii_digit_def dest!: bspec)

section \<open>The life cycle of a version\<close>

datatype tool_version_status =
  Draft | ContractReady | Synthesizing | Building | Validating
  | Ready | Rejected | Deprecated | Revoked

fun version_status_as_str :: "tool_version_status \<Rightarrow> string" where
  "version_status_as_str Draft = ''draft''"
| "version_status_as_str ContractReady = ''contract_ready''"
| "version_status_as_str Synthesizing = ''synthesizing''"
| "version_status_as_str Building = ''building''"
| "version_status_as_str Validating = ''validating''"
| "version_status_as_str Ready = ''ready''"
| "version_status_as_str Rejected = ''rejected''"
| "version_status_as_str Deprecated = ''deprecated''"
| "version_status_as_str Revoked = ''revoked''"

definition version_status_from_str :: "string \<Rightarrow> domain_error + tool_version_status" where
  "version_status_from_str value =
     (if value = ''draft'' then Inr Draft
      else if value = ''contract_ready'' then Inr ContractReady
      else if value = ''synthesizing'' then Inr Synthesizing
      else if value = ''building'' then Inr Building
      else if value = ''validating'' then Inr Validating
      else if value = ''ready'' then Inr Ready
      else if value = ''rejected'' then Inr Rejected
      else if value = ''deprecated'' then Inr Deprecated
      else if value = ''revoked'' then Inr Revoked
      else Inl (InvalidVersionStatus value))"

fun can_transition_to :: "tool_version_status \<Rightarrow> tool_version_status \<Rightarrow> bool" where
  "can_transition_to Draft ContractReady = True"
| "can_transition_to ContractReady Synthesizing = True"
| "can_transition_to Synthesizing Building = True"
| "can_transition_to Synthesizing Rejected = True"
| "can_transition_to Building Validating = True"
| "can_transition_to Building Rejected = True"
| "can_transition_to Validating Ready = True"
| "can_transition_to Validating Rejected = True"
| "can_transition_to Ready Deprecated = True"
| "can_transition_to Ready Revoked = True"
| "can_transition_to Deprecated Revoked = True"
| "can_transition_to _ _ = False"

definition right_option :: "'e + 'a \<Rightarrow> 'a option" where
  "right_option r = (case r of Inl _ \<Rightarrow> None | Inr x \<Rightarrow> Some x)"

interpretation version_status: enum_codec version_status_as_str
  "\<lambda>s. right_option (version_status_from_str s)"
proof unfold_locales
  show "right_option (version_status_from_str (version_status_as_str x)) = Some x" for x
    by (cases x) (simp_all add: version_status_from_str_def right_option_def)
  show "right_option (version_status_from_str s) = Some x \<Longrightarrow> version_status_as_str x = s" for s x
    by (auto simp: version_status_from_str_def right_option_def split: if_splits)
qed

lemma version_status_from_as [simp]:
  "version_status_from_str (version_status_as_str x) = Inr x"
  using version_status.parse_as_str [of x]
  by (simp add: right_option_def split: sum.splits)

text \<open>The transitions climb; the only way up to \<^const>\<open>Ready\<close> goes through every stage.\<close>

fun version_rank :: "tool_version_status \<Rightarrow> nat" where
  "version_rank Draft = 0"
| "version_rank ContractReady = 1"
| "version_rank Synthesizing = 2"
| "version_rank Building = 3"
| "version_rank Validating = 4"
| "version_rank Ready = 5"
| "version_rank Rejected = 8"
| "version_rank Deprecated = 6"
| "version_rank Revoked = 7"

lemma transition_rank: "can_transition_to a b \<Longrightarrow> version_rank a < version_rank b"
  by (cases a; cases b) simp_all

lemma transition_inv:
  "can_transition_to a Ready \<Longrightarrow> a = Validating"
  "can_transition_to a Validating \<Longrightarrow> a = Building"
  "can_transition_to a Building \<Longrightarrow> a = Synthesizing"
  "can_transition_to a Synthesizing \<Longrightarrow> a = ContractReady"
  "can_transition_to a ContractReady \<Longrightarrow> a = Draft"
  by (cases a; simp)+

lemma no_transition_to_Draft [simp]: "\<not> can_transition_to a Draft"
  by (cases a) simp_all

lemma transitions_rank: "can_transition_to\<^sup>+\<^sup>+ a b \<Longrightarrow> version_rank a < version_rank b"
  by (induction rule: tranclp_induct) (auto dest: transition_rank)

lemma terminal_statuses:
  "\<not> can_transition_to Rejected b" "\<not> can_transition_to Revoked b"
  by (cases b; simp)+

lemma path_to_ready_rev:
  assumes "successively (\<lambda>b a. can_transition_to a b) (Ready # ss)" "last (Ready # ss) = Draft"
  shows "ss = [Validating, Building, Synthesizing, ContractReady, Draft]"
proof -
  obtain t1 where 1: "ss = Validating # t1"
    using assms by (cases ss) (auto dest: transition_inv)
  obtain t2 where 2: "t1 = Building # t2"
    using assms 1 by (cases t1) (auto dest: transition_inv)
  obtain t3 where 3: "t2 = Synthesizing # t3"
    using assms 1 2 by (cases t2) (auto dest: transition_inv)
  obtain t4 where 4: "t3 = ContractReady # t4"
    using assms 1 2 3 by (cases t3) (auto dest: transition_inv)
  obtain t5 where 5: "t4 = Draft # t5"
    using assms 1 2 3 4 by (cases t4) (auto dest: transition_inv)
  have "t5 = []"
    using assms 1 2 3 4 5 by (cases t5) auto
  with 1 2 3 4 5 show ?thesis by simp
qed

end
