(* ===== verification/Json_Value.thy ===== *)
theory Json_Value
  imports Rust_Text
begin

text \<open>
  \<open>serde_json::Value\<close> as the code builds and reads it: a number keeps the three cases of
  \<open>serde_json::Number\<close> (a float is its printed text), an object is the ordered list of the
  entries of its \<open>BTreeMap\<close>.  Writing a value out (\<open>serde_json::to_vec\<close>) belongs to the
  library and is a parameter of the theories that use it.
\<close>

section \<open>Values\<close>

datatype number = PosInt nat | NegInt int | Float string

datatype json =
    JNull
  | JBool bool
  | JNumber number
  | JString string
  | JArray "json list"
  | JObject "(string \<times> json) list"

fun number_to_string :: "number \<Rightarrow> string" where
  "number_to_string (PosInt n) = show_nat n"
| "number_to_string (NegInt i) = show_int i"
| "number_to_string (Float s) = s"

text \<open>\<open>String\<close> compares byte by byte.\<close>

fun str_less :: "string \<Rightarrow> string \<Rightarrow> bool" where
  "str_less _ [] = False"
| "str_less [] (_ # _) = True"
| "str_less (a # as) (b # bs) = (byte a < (byte b :: nat) \<or> (a = b \<and> str_less as bs))"

lemma str_less_irrefl [simp]: "\<not> str_less s s"
  by (induction s) simp_all

lemma str_less_trans: "str_less a b \<Longrightarrow> str_less b c \<Longrightarrow> str_less a c"
proof (induction a b arbitrary: c rule: str_less.induct)
  case (3 a as b bs)
  then show ?case by (cases c) auto
next
  case (2 v va)
  then show ?case by (cases c) auto
qed simp

lemma str_less_linear: "str_less a b \<or> a = b \<or> str_less b a"
proof (induction a b rule: str_less.induct)
  case (3 a as b bs)
  then show ?case by (auto simp: nat_neq_iff)
next
  case (1 s)
  then show ?case by (cases s) auto
qed simp

text \<open>\<open>BTreeMap::insert\<close>.\<close>

fun put :: "string \<Rightarrow> 'v \<Rightarrow> (string \<times> 'v) list \<Rightarrow> (string \<times> 'v) list" where
  "put k v [] = [(k, v)]"
| "put k v ((k', v') # m) =
     (if k = k' then (k, v) # m else if str_less k k' then (k, v) # (k', v') # m
      else (k', v') # put k v m)"

definition json_object :: "(string \<times> json) list \<Rightarrow> json" where
  "json_object kvs = JObject (foldl (\<lambda>m (k, v). put k v m) [] kvs)"

lemma map_of_put [simp]: "map_of (put k v m) = (map_of m)(k \<mapsto> v)"
  by (induction k v m rule: put.induct) auto

lemma set_put_keys [simp]: "fst ` set (put k v m) = insert k (fst ` set m)"
  by (induction k v m rule: put.induct) auto

lemma sorted_put: "sorted_wrt str_less (map fst m) \<Longrightarrow> sorted_wrt str_less (map fst (put k v m))"
proof (induction k v m rule: put.induct)
  case (2 k v k' v' m)
  then show ?case
    using str_less_linear [of k k'] set_put_keys [of k v m]
    by (auto simp: image_iff) (metis str_less_trans fst_conv)+
qed simp

section \<open>Reading values\<close>

definition json_get :: "string \<Rightarrow> json \<Rightarrow> json option" where
  "json_get k v = (case v of JObject m \<Rightarrow> map_of m k | _ \<Rightarrow> None)"

text \<open>\<open>Value::pointer\<close> on a path of names (no name of the code is an array index).\<close>

fun pointer :: "string list \<Rightarrow> json \<Rightarrow> json option" where
  "pointer [] v = Some v"
| "pointer (k # ks) v = (case json_get k v of None \<Rightarrow> None | Some w \<Rightarrow> pointer ks w)"

definition as_str :: "json \<Rightarrow> string option" where
  "as_str v = (case v of JString s \<Rightarrow> Some s | _ \<Rightarrow> None)"

definition as_array :: "json \<Rightarrow> json list option" where
  "as_array v = (case v of JArray xs \<Rightarrow> Some xs | _ \<Rightarrow> None)"

definition as_bool :: "json \<Rightarrow> bool option" where
  "as_bool v = (case v of JBool b \<Rightarrow> Some b | _ \<Rightarrow> None)"

definition as_u64 :: "json \<Rightarrow> nat option" where
  "as_u64 v = (case v of JNumber (PosInt n) \<Rightarrow> Some n | _ \<Rightarrow> None)"

definition json_nat :: "nat \<Rightarrow> json" where
  "json_nat n = JNumber (PosInt n)"

definition json_int :: "int \<Rightarrow> json" where
  "json_int i = JNumber (if i < 0 then NegInt i else PosInt (nat i))"

definition json_opt :: "('a \<Rightarrow> json) \<Rightarrow> 'a option \<Rightarrow> json" where
  "json_opt f x = (case x of None \<Rightarrow> JNull | Some v \<Rightarrow> f v)"

lemmas json_read = json_get_def as_str_def as_array_def as_bool_def as_u64_def

lemma map_of_puts:
  "map_of (foldl (\<lambda>m (k, v). put k v m) acc kvs) = map_of acc ++ map_of (rev kvs)"
proof (induction kvs arbitrary: acc)
  case (Cons kv kvs)
  then show ?case by (cases kv) (simp add: map_add_def fun_eq_iff split: option.split)
qed simp

lemma get_json_object [simp]: "json_get k (json_object kvs) = map_of (rev kvs) k"
  by (simp add: json_get_def json_object_def map_of_puts)

text \<open>\<open>Vec<String>\<close> and its \<open>serde\<close> image.\<close>

definition strings_to_value :: "string list \<Rightarrow> json" where
  "strings_to_value ss = JArray (map JString ss)"

definition list_from_value :: "(json \<Rightarrow> 'a option) \<Rightarrow> json \<Rightarrow> 'a list option" where
  "list_from_value f v = (case as_array v of None \<Rightarrow> None | Some xs \<Rightarrow> those (map f xs))"

definition strings_from_value :: "json \<Rightarrow> string list option" where
  "strings_from_value v = list_from_value as_str v"

lemma list_from_value_roundtrip:
  assumes "\<And>x. dec (enc x) = Some x"
  shows "list_from_value dec (JArray (map enc xs)) = Some xs"
  by (induction xs) (simp_all add: list_from_value_def as_array_def assms)

lemma strings_roundtrip [simp]: "strings_from_value (strings_to_value ss) = Some ss"
  unfolding strings_from_value_def strings_to_value_def
  by (rule list_from_value_roundtrip) (simp add: as_str_def)

lemma str_less_asym: "str_less a b \<Longrightarrow> \<not> str_less b a"
  using str_less_trans str_less_irrefl by blast

lemma sorted_keys_distinct: "sorted_wrt str_less xs \<Longrightarrow> distinct xs"
  by (induction xs) auto

end
