(* ===== verification/Protocol.thy ===== *)
theory Protocol
  imports Domain Json_Value
begin

text \<open>
  src/crates/jit-protocol/src/lib.rs: the messages the server, the worker and the client
  exchange, their enumerations with the strings that stand for them, and the JSON images of
  the values the registry keeps in JSONB columns.  A decoder accepts the object form, the
  only one the encoders write.
\<close>

section \<open>Enumerations\<close>

definition max_input_samples :: nat where "max_input_samples = 8"
definition max_input_sample_bytes :: nat where "max_input_sample_bytes = 256 * 1024"
definition max_input_samples_total_bytes :: nat where
  "max_input_samples_total_bytes = 1024 * 1024"

datatype io_format = Text | Json

fun io_format_as_str :: "io_format \<Rightarrow> string" where
  "io_format_as_str Text = ''text''"
| "io_format_as_str Json = ''json''"

definition io_format_parse :: "string \<Rightarrow> io_format option" where
  "io_format_parse value =
     (if value = ''text'' then Some Text
      else if value = ''json'' then Some Json
      else None)"

datatype job_status = JQueued | JRunning | JAwaitingInput | JReady | JRejected

fun job_status_as_str :: "job_status \<Rightarrow> string" where
  "job_status_as_str JQueued = ''queued''"
| "job_status_as_str JRunning = ''running''"
| "job_status_as_str JAwaitingInput = ''awaiting_input''"
| "job_status_as_str JReady = ''ready''"
| "job_status_as_str JRejected = ''rejected''"

definition job_status_parse :: "string \<Rightarrow> job_status option" where
  "job_status_parse value =
     (if value = ''queued'' then Some JQueued
      else if value = ''running'' then Some JRunning
      else if value = ''awaiting_input'' then Some JAwaitingInput
      else if value = ''ready'' then Some JReady
      else if value = ''rejected'' then Some JRejected
      else None)"

fun is_terminal :: "job_status \<Rightarrow> bool" where
  "is_terminal JReady = True"
| "is_terminal JRejected = True"
| "is_terminal _ = False"

datatype job_stage =
  SQueued | SContract | SSynthesizing | SBuilding | SValidating | SRepairing
  | SAwaitingInput | SComplete

fun job_stage_as_str :: "job_stage \<Rightarrow> string" where
  "job_stage_as_str SQueued = ''queued''"
| "job_stage_as_str SContract = ''contract''"
| "job_stage_as_str SSynthesizing = ''synthesizing''"
| "job_stage_as_str SBuilding = ''building''"
| "job_stage_as_str SValidating = ''validating''"
| "job_stage_as_str SRepairing = ''repairing''"
| "job_stage_as_str SAwaitingInput = ''awaiting_input''"
| "job_stage_as_str SComplete = ''complete''"

definition job_stage_parse :: "string \<Rightarrow> job_stage option" where
  "job_stage_parse value =
     (if value = ''queued'' then Some SQueued
      else if value = ''contract'' then Some SContract
      else if value = ''synthesizing'' then Some SSynthesizing
      else if value = ''building'' then Some SBuilding
      else if value = ''validating'' then Some SValidating
      else if value = ''repairing'' then Some SRepairing
      else if value = ''awaiting_input'' then Some SAwaitingInput
      else if value = ''complete'' then Some SComplete
      else None)"

datatype job_input_kind = Clarification | SourceApproval | ExampleCorrection

fun job_input_kind_as_str :: "job_input_kind \<Rightarrow> string" where
  "job_input_kind_as_str Clarification = ''clarification''"
| "job_input_kind_as_str SourceApproval = ''source_approval''"
| "job_input_kind_as_str ExampleCorrection = ''example_correction''"

definition job_input_kind_parse :: "string \<Rightarrow> job_input_kind option" where
  "job_input_kind_parse value =
     (if value = ''clarification'' then Some Clarification
      else if value = ''source_approval'' then Some SourceApproval
      else if value = ''example_correction'' then Some ExampleCorrection
      else None)"

datatype http_method = Get

fun http_method_as_str :: "http_method \<Rightarrow> string" where
  "http_method_as_str Get = ''GET''"

interpretation io_format: enum_codec io_format_as_str io_format_parse
proof unfold_locales
  show "io_format_parse (io_format_as_str x) = Some x" for x
    by (cases x) (simp_all add: io_format_parse_def)
  show "io_format_parse s = Some x \<Longrightarrow> io_format_as_str x = s" for s x
    by (auto simp: io_format_parse_def split: if_splits)
qed

interpretation job_status: enum_codec job_status_as_str job_status_parse
proof unfold_locales
  show "job_status_parse (job_status_as_str x) = Some x" for x
    by (cases x) (simp_all add: job_status_parse_def)
  show "job_status_parse s = Some x \<Longrightarrow> job_status_as_str x = s" for s x
    by (auto simp: job_status_parse_def split: if_splits)
qed

interpretation job_stage: enum_codec job_stage_as_str job_stage_parse
proof unfold_locales
  show "job_stage_parse (job_stage_as_str x) = Some x" for x
    by (cases x) (simp_all add: job_stage_parse_def)
  show "job_stage_parse s = Some x \<Longrightarrow> job_stage_as_str x = s" for s x
    by (auto simp: job_stage_parse_def split: if_splits)
qed

interpretation job_input_kind: enum_codec job_input_kind_as_str job_input_kind_parse
proof unfold_locales
  show "job_input_kind_parse (job_input_kind_as_str x) = Some x" for x
    by (cases x) (simp_all add: job_input_kind_parse_def)
  show "job_input_kind_parse s = Some x \<Longrightarrow> job_input_kind_as_str x = s" for s x
    by (auto simp: job_input_kind_parse_def split: if_splits)
qed

lemmas parse_as_str [simp] = io_format.parse_as_str job_status.parse_as_str
  job_stage.parse_as_str job_input_kind.parse_as_str

section \<open>Messages\<close>

record tool_example =
  te_input :: string
  te_output :: string

record registration_request =
  rq_intent :: string
  rq_input_format :: io_format
  rq_output_format :: io_format
  rq_examples :: "tool_example list"
  rq_input_samples :: "string list"

record registration_response =
  rp_tool :: string
  rp_revision :: nat
  rp_status :: tool_version_status
  rp_job_id :: string

record revoke_response =
  rv_tool :: string
  rv_revision :: nat
  rv_status :: tool_version_status
  rv_stable_revision :: "nat option"

record job_error =
  je_code :: string
  je_message :: string
  je_details :: "json option"

record job_input_choice =
  jc_value :: string
  jc_label :: string
  jc_description :: "string option"

record pending_job_input =
  pi_id :: string
  pi_kind :: job_input_kind
  pi_prompt :: string
  pi_choices :: "job_input_choice list"
  pi_context :: json
  pi_created_at :: string

datatype job_input_answer =
    TextAnswer string
  | ApproveAnswer
  | RejectAnswer "string option"

record job_answer_request =
  ja_input_id :: string
  ja_answer :: job_input_answer

record job_response =
  jr_job_id :: string
  jr_tool :: string
  jr_revision :: nat
  jr_status :: job_status
  jr_stage :: job_stage
  jr_version_status :: tool_version_status
  jr_error :: "job_error option"
  jr_pending_input :: "pending_job_input option"
  jr_created_at :: string
  jr_updated_at :: string

record tool_version_summary =
  vs_revision :: nat
  vs_requested_intent :: string
  vs_description :: string
  vs_status :: tool_version_status
  vs_input_format :: io_format
  vs_output_format :: io_format
  vs_assumptions :: "string list"
  vs_contract :: "json option"
  vs_artifact_digest :: "string option"
  vs_validation_summary :: "json option"
  vs_error :: "job_error option"

record tool_summary_response =
  ts_tool :: string
  ts_stable_revision :: "nat option"
  ts_latest_revision :: nat
  ts_selected :: tool_version_summary

record tool_list_item =
  tl_tool :: string
  tl_stable_revision :: "nat option"
  tl_latest_revision :: nat
  tl_selected_revision :: nat
  tl_description :: string
  tl_status :: tool_version_status
  tl_input_format :: io_format
  tl_output_format :: io_format

record tool_list_response =
  tlr_tools :: "tool_list_item list"
  tlr_next_offset :: "nat option"

record tool_version_list_item =
  vl_revision :: nat
  vl_description :: string
  vl_status :: tool_version_status
  vl_input_format :: io_format
  vl_output_format :: io_format
  vl_artifact_digest :: "string option"
  vl_error :: "job_error option"
  vl_created_at :: string
  vl_updated_at :: string

record tool_version_list_response =
  vlr_tool :: string
  vlr_stable_revision :: "nat option"
  vlr_latest_revision :: nat
  vlr_versions :: "tool_version_list_item list"
  vlr_next_offset :: "nat option"

record job_list_response =
  jlr_jobs :: "job_response list"
  jlr_next_offset :: "nat option"

record http_capability =
  hc_scheme :: string
  hc_host :: string
  hc_port :: nat
  hc_method :: http_method
  hc_path_prefix :: string
  hc_query_keys :: "string list"
  hc_purpose :: string

record http_capability_grant =
  hg_approval_hash :: string
  hg_capability :: http_capability

record http_fixture =
  hf_request_url :: string
  hf_response_url :: string
  hf_status :: nat
  hf_content_type :: string
  hf_body :: string

record http_capability_approval =
  ha_capability_hash :: string
  ha_capability :: http_capability
  ha_status :: string
  ha_approved_at :: string
  ha_revoked_at :: "string option"
  ha_revoked_reason :: "string option"

record tool_artifact_manifest =
  am_format_version :: nat
  am_runtime :: string
  am_input_format :: io_format
  am_output_format :: io_format
  am_source_sha256 :: string
  am_http_capabilities :: "http_capability_grant list"

record tool_artifact_test_case =
  atc_name :: string
  atc_args :: "string list"
  atc_stdin :: string
  atc_expected_stdout :: string
  atc_expected_exit_code :: int

record invocation_request =
  iq_revision :: "nat option"
  iq_args :: "string list"
  iq_content_type :: string
  iq_stdin_base64 :: string
  iq_timeout_ms :: "nat option"

record invocation_response =
  ir_invocation_id :: string
  ir_resolved_revision :: nat
  ir_exit_code :: int
  ir_stdout_base64 :: string
  ir_stderr_base64 :: string
  ir_duration_ms :: nat

record error_response =
  er_code :: string
  er_message :: string
  er_request_id :: string
  er_details :: "json option"

definition error_response_new :: "string \<Rightarrow> string \<Rightarrow> string \<Rightarrow> error_response" where
  "error_response_new code message request_id =
     \<lparr>er_code = code, er_message = message, er_request_id = request_id, er_details = None\<rparr>"

section \<open>JSON images\<close>

definition get_string :: "string \<Rightarrow> json \<Rightarrow> string option" where
  "get_string k v = Option.bind (json_get k v) as_str"

text \<open>An optional field that is skipped when absent: missing or \<open>null\<close> reads as \<open>None\<close>.\<close>

definition get_opt_string :: "string \<Rightarrow> json \<Rightarrow> string option option" where
  "get_opt_string k v =
     (case json_get k v of None \<Rightarrow> Some None | Some JNull \<Rightarrow> Some None
      | Some w \<Rightarrow> map_option Some (as_str w))"

definition opt_field :: "string \<Rightarrow> json option \<Rightarrow> (string \<times> json) list" where
  "opt_field k x = (case x of None \<Rightarrow> [] | Some v \<Rightarrow> [(k, v)])"

definition example_to_value :: "tool_example \<Rightarrow> json" where
  "example_to_value e =
     json_object [(''input'', JString (te_input e)), (''output'', JString (te_output e))]"

definition example_from_value :: "json \<Rightarrow> tool_example option" where
  "example_from_value v =
     (case (get_string ''input'' v, get_string ''output'' v) of
        (Some i, Some out) \<Rightarrow> Some \<lparr>te_input = i, te_output = out\<rparr>
      | _ \<Rightarrow> None)"

definition examples_to_value :: "tool_example list \<Rightarrow> json" where
  "examples_to_value es = JArray (map example_to_value es)"

definition examples_from_value :: "json \<Rightarrow> tool_example list option" where
  "examples_from_value v = list_from_value example_from_value v"

definition choice_to_value :: "job_input_choice \<Rightarrow> json" where
  "choice_to_value c =
     json_object ([(''value'', JString (jc_value c)), (''label'', JString (jc_label c))]
       @ opt_field ''description'' (map_option JString (jc_description c)))"

definition choice_from_value :: "json \<Rightarrow> job_input_choice option" where
  "choice_from_value v =
     (case (get_string ''value'' v, get_string ''label'' v, get_opt_string ''description'' v) of
        (Some value, Some label, Some description) \<Rightarrow>
          Some \<lparr>jc_value = value, jc_label = label, jc_description = description\<rparr>
      | _ \<Rightarrow> None)"

definition choices_to_value :: "job_input_choice list \<Rightarrow> json" where
  "choices_to_value cs = JArray (map choice_to_value cs)"

definition choices_from_value :: "json \<Rightarrow> job_input_choice list option" where
  "choices_from_value v = list_from_value choice_from_value v"

fun answer_to_value :: "job_input_answer \<Rightarrow> json" where
  "answer_to_value (TextAnswer text) =
     json_object [(''type'', JString ''text''), (''text'', JString text)]"
| "answer_to_value ApproveAnswer = json_object [(''type'', JString ''approve'')]"
| "answer_to_value (RejectAnswer reason) =
     json_object ((''type'', JString ''reject'') # opt_field ''reason'' (map_option JString reason))"

definition answer_from_value :: "json \<Rightarrow> job_input_answer option" where
  "answer_from_value v =
     (case get_string ''type'' v of
        None \<Rightarrow> None
      | Some ty \<Rightarrow>
          if ty = ''text'' then map_option TextAnswer (get_string ''text'' v)
          else if ty = ''approve'' then Some ApproveAnswer
          else if ty = ''reject'' then map_option RejectAnswer (get_opt_string ''reason'' v)
          else None)"

definition capability_to_value :: "http_capability \<Rightarrow> json" where
  "capability_to_value c =
     json_object
       [(''scheme'', JString (hc_scheme c)), (''host'', JString (hc_host c)),
        (''port'', json_nat (hc_port c)), (''method'', JString (http_method_as_str (hc_method c))),
        (''path_prefix'', JString (hc_path_prefix c)),
        (''query_keys'', strings_to_value (hc_query_keys c)),
        (''purpose'', JString (hc_purpose c))]"

definition capability_from_value :: "json \<Rightarrow> http_capability option" where
  "capability_from_value v =
     (case (get_string ''scheme'' v, get_string ''host'' v, Option.bind (json_get ''port'' v) as_u64,
            get_string ''method'' v, get_string ''path_prefix'' v,
            (case json_get ''query_keys'' v of None \<Rightarrow> Some [] | Some w \<Rightarrow> strings_from_value w),
            get_string ''purpose'' v) of
        (Some sch, Some host, Some port, Some meth, Some prefix, Some keys, Some purpose) \<Rightarrow>
          if port \<le> 65535 \<and> meth = ''GET''
          then Some \<lparr>hc_scheme = sch, hc_host = host, hc_port = port, hc_method = Get,
                     hc_path_prefix = prefix, hc_query_keys = keys, hc_purpose = purpose\<rparr>
          else None
      | _ \<Rightarrow> None)"

lemma as_str_JString [simp]: "as_str (JString s) = Some s"
  by (simp add: as_str_def)

lemma as_u64_json_nat [simp]: "as_u64 (json_nat n) = Some n"
  by (simp add: as_u64_def json_nat_def)

lemma example_roundtrip [simp]: "example_from_value (example_to_value e) = Some e"
  by (simp add: example_from_value_def example_to_value_def get_string_def)

lemma choice_roundtrip [simp]: "choice_from_value (choice_to_value c) = Some c"
  by (cases "jc_description c")
    (simp_all add: choice_from_value_def choice_to_value_def get_string_def get_opt_string_def
      opt_field_def)

lemma answer_roundtrip [simp]: "answer_from_value (answer_to_value a) = Some a"
proof (cases a)
  case (RejectAnswer reason)
  then show ?thesis
    by (cases reason)
      (simp_all add: answer_from_value_def get_string_def get_opt_string_def opt_field_def)
qed (simp_all add: answer_from_value_def get_string_def)

lemma capability_roundtrip:
  "hc_port c \<le> 65535 \<Longrightarrow> capability_from_value (capability_to_value c) = Some c"
  by (cases "hc_method c")
    (simp add: capability_from_value_def capability_to_value_def get_string_def)

lemma examples_roundtrip [simp]: "examples_from_value (examples_to_value es) = Some es"
  unfolding examples_from_value_def examples_to_value_def
  by (rule list_from_value_roundtrip) simp

lemma choices_roundtrip [simp]: "choices_from_value (choices_to_value cs) = Some cs"
  unfolding choices_from_value_def choices_to_value_def
  by (rule list_from_value_roundtrip) simp

end
