(* ===== verification/Schema.thy ===== *)
theory Schema
  imports Protocol
begin

text \<open>
  The tables of src/migrations/*.sql, the errors and helpers of
  src/crates/jit-storage/src/lib.rs, and the parameters of the registry: the functions of
  PostgreSQL and of the crates the statements call.  A row is a record, a table the list of
  its rows in insertion order, a timestamp a number of microseconds, a UUID its 128-bit
  number (PostgreSQL orders UUIDs that way).  An operation takes the time \<open>now()\<close> reads in
  its transaction, and either fails, leaving the tables as they were, or returns its
  result with the tables it commits.
\<close>

section \<open>Rows\<close>

type_synonym uuid = nat
type_synonym time = int

record tool_row =
  t_id :: uuid
  t_name :: string
  t_latest_revision :: int
  t_stable_revision :: "int option"
  t_created_at :: time
  t_updated_at :: time

record version_row =
  v_tool_id :: uuid
  v_revision :: int
  v_requested_intent :: string
  v_description :: string
  v_input_format :: string
  v_output_format :: string
  v_examples :: json
  v_status :: string
  v_contract :: "json option"
  v_assumptions :: json
  v_artifact_digest :: "string option"
  v_validation_summary :: "json option"
  v_error_code :: "string option"
  v_error_message :: "string option"
  v_created_at :: time
  v_updated_at :: time

record job_row =
  j_id :: uuid
  j_tool_id :: uuid
  j_revision :: int
  j_idempotency_key :: string
  j_request_fingerprint :: string
  j_input_samples :: json
  j_status :: string
  j_stage :: string
  j_attempts :: int
  j_available_at :: time
  j_lease_until :: "time option"
  j_worker_id :: "string option"
  j_error_code :: "string option"
  j_error_message :: "string option"
  j_details :: "json option"
  j_created_at :: time
  j_updated_at :: time

record input_row =
  i_id :: uuid
  i_job_id :: uuid
  i_agent_call_id :: string
  i_kind :: string
  i_prompt :: string
  i_choices :: json
  i_context :: json
  i_resume_stage :: string
  i_status :: string
  i_answer :: "json option"
  i_created_at :: time
  i_answered_at :: "time option"

record run_row =
  ar_job_id :: uuid
  ar_engine :: string
  ar_engine_version :: string
  ar_checkpoint :: json
  ar_trace_bytes :: int
  ar_created_at :: time
  ar_updated_at :: time

record event_row =
  ev_id :: nat
  ev_job_id :: uuid
  ev_kind :: string
  ev_payload :: json
  ev_payload_size :: int
  ev_created_at :: time

record archive_row =
  ta_job_id :: uuid
  ta_event_count :: int
  ta_events :: json
  ta_archived_at :: time

record artifact_row =
  af_digest :: string
  af_relative_path :: string
  af_size_bytes :: int
  af_manifest :: json
  af_validation_summary :: json
  af_created_at :: time

record invocation_row =
  iv_id :: uuid
  iv_tool_id :: uuid
  iv_revision :: int
  iv_artifact_digest :: string
  iv_status :: string
  iv_exit_code :: "int option"
  iv_duration_ms :: "int option"
  iv_stdin_size :: int
  iv_stdout_size :: "int option"
  iv_stderr_size :: "int option"
  iv_created_at :: time
  iv_finished_at :: "time option"

record heartbeat_row =
  hb_worker_id :: string
  hb_version :: string
  hb_last_seen_at :: time

record approval_row =
  ap_capability_hash :: string
  ap_capability :: json
  ap_status :: string
  ap_approved_by_job :: "uuid option"
  ap_approved_at :: time
  ap_revoked_at :: "time option"
  ap_revoked_reason :: "string option"

record db =
  tools :: "tool_row list"
  versions :: "version_row list"
  jobs :: "job_row list"
  inputs :: "input_row list"
  runs :: "run_row list"
  events :: "event_row list"
  archives :: "archive_row list"
  artifacts :: "artifact_row list"
  invocations :: "invocation_row list"
  heartbeats :: "heartbeat_row list"
  approvals :: "approval_row list"
  next_event_id :: nat

definition v_key :: "version_row \<Rightarrow> uuid \<times> int" where
  "v_key v = (v_tool_id v, v_revision v)"

abbreviation job_version :: "job_row \<Rightarrow> uuid \<times> int" where
  "job_version j \<equiv> (j_tool_id j, j_revision j)"

definition empty_db :: db where
  "empty_db = \<lparr>tools = [], versions = [], jobs = [], inputs = [], runs = [], events = [],
     archives = [], artifacts = [], invocations = [], heartbeats = [], approvals = [],
     next_event_id = 1\<rparr>"

section \<open>Errors and external functions\<close>

datatype storage_error =
    ToolNotFound
  | VersionNotFound
  | VersionNotRevocable string
  | JobNotFound
  | JobNotCancellable string
  | InvalidCancellationReason
  | JobInputNotFound
  | InvalidJobInputAnswer
  | HttpCapabilityNotFound
  | InvalidRevocationReason
  | IdempotencyConflict
  | ToolNotReady
  | ArtifactNotFound
  | JobLeaseLost
  | Invariant string
  | Database
  | Migration
  | JsonError

type_synonym 'a sres = "storage_error + 'a"
type_synonym 'a committed = "storage_error + 'a \<times> db"

text \<open>
  What the code calls outside its repository: \<open>serde_json::to_vec\<close> of a value and of a
  registration request, the hexadecimal SHA-256 digest, the text form of UUIDs and
  timestamps, \<open>{:?}\<close> of a string, PostgreSQL's \<open>lower\<close>, its collation, its JSON form
  of a timestamp and the text it prints for a JSONB value.
\<close>

record ext =
  x_to_vec :: "json \<Rightarrow> string"
  x_request_to_vec :: "registration_request \<Rightarrow> string"
  x_sha256 :: "string \<Rightarrow> string"
  x_show_uuid :: "uuid \<Rightarrow> string"
  x_parse_uuid :: "string \<Rightarrow> uuid option"
  x_rfc3339 :: "time \<Rightarrow> string"
  x_debug :: "string \<Rightarrow> string"
  x_lower :: "string \<Rightarrow> string"
  x_text_le :: "string \<Rightarrow> string \<Rightarrow> bool"
  x_pg_time :: "time \<Rightarrow> string"
  x_pg_text :: "json \<Rightarrow> string"

section \<open>Helpers of the registry\<close>

definition to_u64 :: "int \<Rightarrow> string \<Rightarrow> nat sres" where
  "to_u64 value field = ok_or (Invariant (field @ '' must not be negative'')) (u64_try_from value)"

definition opt_to_u64 :: "int option \<Rightarrow> string \<Rightarrow> nat option sres" where
  "opt_to_u64 value field =
     (case value of None \<Rightarrow> Inr None | Some i \<Rightarrow> rbind (to_u64 i field) (\<lambda>n. Inr (Some n)))"

definition parse_job_input_kind :: "ext \<Rightarrow> string \<Rightarrow> job_input_kind sres" where
  "parse_job_input_kind x value =
     ok_or (Invariant (''unknown job input kind '' @ x_debug x value)) (job_input_kind_parse value)"

definition parse_version_status :: "ext \<Rightarrow> string \<Rightarrow> tool_version_status sres" where
  "parse_version_status x value =
     (case version_status_from_str value of
        Inl _ \<Rightarrow> Inl (Invariant (''unknown tool version status '' @ x_debug x value))
      | Inr s \<Rightarrow> Inr s)"

definition parse_job_status :: "ext \<Rightarrow> string \<Rightarrow> job_status sres" where
  "parse_job_status x value =
     ok_or (Invariant (''unknown job status '' @ x_debug x value)) (job_status_parse value)"

definition parse_job_stage :: "ext \<Rightarrow> string \<Rightarrow> job_stage sres" where
  "parse_job_stage x value =
     ok_or (Invariant (''unknown job stage '' @ x_debug x value)) (job_stage_parse value)"

definition parse_io_format :: "ext \<Rightarrow> string \<Rightarrow> io_format sres" where
  "parse_io_format x value =
     ok_or (Invariant (''unknown I/O format '' @ x_debug x value)) (io_format_parse value)"

definition next_offset :: "bool \<Rightarrow> int \<Rightarrow> nat \<Rightarrow> nat option" where
  "next_offset has_more offset limit =
     (if has_more
      then (case u64_try_from offset of None \<Rightarrow> None | Some off \<Rightarrow> u64_checked_add off limit)
      else None)"

fun validate_job_input_answer :: "job_input_kind \<Rightarrow> job_input_answer \<Rightarrow> unit sres" where
  "validate_job_input_answer Clarification (TextAnswer text) =
     (if trim text \<noteq> [] \<and> length text \<le> 4096 then Inr () else Inl InvalidJobInputAnswer)"
| "validate_job_input_answer SourceApproval ApproveAnswer = Inr ()"
| "validate_job_input_answer SourceApproval (RejectAnswer reason) =
     (if (case reason of None \<Rightarrow> True | Some r \<Rightarrow> length r \<le> 4096) then Inr ()
      else Inl InvalidJobInputAnswer)"
| "validate_job_input_answer ExampleCorrection ApproveAnswer = Inr ()"
| "validate_job_input_answer ExampleCorrection (RejectAnswer reason) =
     (if (case reason of None \<Rightarrow> True | Some r \<Rightarrow> length r \<le> 4096) then Inr ()
      else Inl InvalidJobInputAnswer)"
| "validate_job_input_answer _ _ = Inl InvalidJobInputAnswer"

definition registration_fingerprint :: "ext \<Rightarrow> tool_name \<Rightarrow> registration_request \<Rightarrow> string" where
  "registration_fingerprint x name request =
     x_sha256 x (tool_name_str name @ [CHR 0x00] @ x_request_to_vec x request)"

definition row_error :: "string option \<Rightarrow> string option \<Rightarrow> json option \<Rightarrow> job_error option" where
  "row_error error_code error_message details =
     (case (error_code, error_message) of
        (Some code, Some message) \<Rightarrow>
          Some \<lparr>je_code = code, je_message = message, je_details = details\<rparr>
      | _ \<Rightarrow> None)"

lemma to_u64_Inr [simp]: "to_u64 i f = Inr n \<longleftrightarrow> 0 \<le> i \<and> n = nat i"
  by (simp add: to_u64_def)

lemma to_u64_nonneg [simp]: "0 \<le> i \<Longrightarrow> to_u64 i f = Inr (nat i)"
  by (simp add: to_u64_def u64_try_from_def)

lemma opt_to_u64_nonneg:
  "(\<And>i. r = Some i \<Longrightarrow> 0 \<le> i) \<Longrightarrow> opt_to_u64 r f = Inr (map_option nat r)"
  by (cases r) (auto simp: opt_to_u64_def rbind_Inr_iff)

lemma parse_stored [simp]:
  "parse_job_input_kind x (job_input_kind_as_str k) = Inr k"
  "parse_version_status x (version_status_as_str s) = Inr s"
  "parse_job_status x (job_status_as_str js) = Inr js"
  "parse_job_stage x (job_stage_as_str st) = Inr st"
  "parse_io_format x (io_format_as_str f) = Inr f"
  by (simp_all add: parse_job_input_kind_def parse_version_status_def parse_job_status_def
      parse_job_stage_def parse_io_format_def)

lemma next_offset_Some:
  "0 \<le> offset \<Longrightarrow> offset \<le> i64_max \<Longrightarrow> limit \<le> u32_max \<Longrightarrow>
    next_offset has_more offset limit = (if has_more then Some (nat offset + limit) else None)"
  by (auto simp: next_offset_def u64_checked_add_def i64_max_def u32_max_def u64_max_def
      u64_try_from_def)

lemma validate_answer_kinds:
  "validate_job_input_answer kind answer = Inr () \<Longrightarrow>
     (kind = Clarification \<longleftrightarrow> (\<exists>t. answer = TextAnswer t))"
  by (cases "(kind, answer)" rule: validate_job_input_answer.cases) (auto split: if_splits)

end
