(* ===== verification/Registry_Read.thy ===== *)
theory Registry_Read
  imports Schema
begin

text \<open>
  The queries of \<open>Registry\<close> in src/crates/jit-storage/src/lib.rs: looking up a job, the
  paged lists of jobs, tools and versions, resolving the artifact of a version, and the
  reads of the agent's inputs, approvals and artifacts.  A join is a lookup per joined
  table; the paged lists share the interface \<open>paged_source\<close>.
\<close>

section \<open>Joins\<close>

definition find_tool :: "string \<Rightarrow> db \<Rightarrow> tool_row option" where
  "find_tool name d = lookup t_name name (tools d)"

definition find_version :: "uuid \<Rightarrow> int \<Rightarrow> db \<Rightarrow> version_row option" where
  "find_version tool_id revision d = lookup v_key (tool_id, revision) (versions d)"

definition find_job :: "uuid \<Rightarrow> db \<Rightarrow> job_row option" where
  "find_job job_id d = lookup j_id job_id (jobs d)"

definition find_run :: "uuid \<Rightarrow> db \<Rightarrow> run_row option" where
  "find_run job_id d = lookup ar_job_id job_id (runs d)"

type_synonym job_join = "job_row \<times> tool_row \<times> version_row \<times> input_row option"

definition pending_inputs :: "uuid \<Rightarrow> db \<Rightarrow> input_row list" where
  "pending_inputs job_id d =
     filter (\<lambda>i. i_job_id i = job_id \<and> i_status i = ''pending'') (inputs d)"

definition join_job :: "db \<Rightarrow> job_row \<Rightarrow> job_join list" where
  "join_job d j =
     (case lookup t_id (j_tool_id j) (tools d) of
        None \<Rightarrow> []
      | Some t \<Rightarrow> (case find_version (j_tool_id j) (j_revision j) d of
          None \<Rightarrow> []
        | Some v \<Rightarrow> (case pending_inputs (j_id j) d of
            [] \<Rightarrow> [(j, t, v, None)]
          | is \<Rightarrow> map (\<lambda>i. (j, t, v, Some i)) is)))"

definition map_job :: "ext \<Rightarrow> job_join \<Rightarrow> job_response sres" where
  "map_job x = (\<lambda>(j, t, v, qi).
     let error = row_error (j_error_code j) (j_error_message j) (j_details j) in
     rbind (case qi of
              None \<Rightarrow> Inr None
            | Some i \<Rightarrow>
                rbind (parse_job_input_kind x (i_kind i)) (\<lambda>kind.
                rbind (ok_or JsonError (choices_from_value (i_choices i))) (\<lambda>choices.
                Inr (Some \<lparr>pi_id = x_show_uuid x (i_id i), pi_kind = kind, pi_prompt = i_prompt i,
                           pi_choices = choices, pi_context = i_context i,
                           pi_created_at = x_rfc3339 x (i_created_at i)\<rparr>))))
       (\<lambda>pending_input.
     rbind (to_u64 (j_revision j) ''revision'') (\<lambda>revision.
     rbind (parse_job_status x (j_status j)) (\<lambda>status.
     rbind (parse_job_stage x (j_stage j)) (\<lambda>stage.
     rbind (parse_version_status x (v_status v)) (\<lambda>version_status.
     Inr \<lparr>jr_job_id = x_show_uuid x (j_id j), jr_tool = t_name t, jr_revision = revision,
          jr_status = status, jr_stage = stage, jr_version_status = version_status,
          jr_error = error, jr_pending_input = pending_input,
          jr_created_at = x_rfc3339 x (j_created_at j),
          jr_updated_at = x_rfc3339 x (j_updated_at j)\<rparr>))))))"

definition get_job :: "ext \<Rightarrow> uuid \<Rightarrow> db \<Rightarrow> job_response sres" where
  "get_job x job_id d =
     (case find_job job_id d of
        None \<Rightarrow> Inl JobNotFound
      | Some j \<Rightarrow> (case join_job d j of [] \<Rightarrow> Inl JobNotFound | row # _ \<Rightarrow> map_job x row))"

section \<open>Paged lists\<close>

text \<open>\<open>LIMIT limit + 1 OFFSET offset\<close>, then the extra row only tells that there are more.\<close>

definition page_rows :: "'r list \<Rightarrow> int \<Rightarrow> int \<Rightarrow> 'r list" where
  "page_rows rows row_limit offset = take (nat row_limit) (drop (nat offset) rows)"

definition list_jobs_rows :: "job_status option \<Rightarrow> db \<Rightarrow> job_join list" where
  "list_jobs_rows status d =
     sort_by (\<lambda>a b. j_created_at (fst b) < j_created_at (fst a) \<or>
                  j_created_at (fst b) = j_created_at (fst a) \<and> j_id (fst b) \<le> j_id (fst a))
       (concat (map (join_job d)
         (filter (\<lambda>j. case status of None \<Rightarrow> True | Some s \<Rightarrow> j_status j = job_status_as_str s)
           (jobs d))))"

definition list_jobs :: "ext \<Rightarrow> job_status option \<Rightarrow> nat \<Rightarrow> nat \<Rightarrow> db \<Rightarrow> job_list_response sres" where
  "list_jobs x status limit offset d =
     rbind (ok_or (Invariant ''job list limit overflow'') (i64_checked (int limit + 1))) (\<lambda>row_limit.
     rbind (ok_or (Invariant ''job list offset exceeds PostgreSQL BIGINT'') (i64_try_from offset)) (\<lambda>offset.
     let rows = page_rows (list_jobs_rows status d) row_limit offset;
         has_more = (length rows > limit)
     in rbind (mapM (map_job x) (take limit rows)) (\<lambda>js.
     Inr \<lparr>jlr_jobs = js, jlr_next_offset = next_offset has_more offset limit\<rparr>)))"

definition tool_matches :: "ext \<Rightarrow> string \<Rightarrow> bool \<Rightarrow> tool_version_status option
    \<Rightarrow> tool_row \<times> version_row \<Rightarrow> bool" where
  "tool_matches x query include_unready status = (\<lambda>(t, v).
     (include_unready \<or> t_stable_revision t \<noteq> None) \<and>
     (case status of None \<Rightarrow> True | Some s \<Rightarrow> v_status v = version_status_as_str s) \<and>
     (query = [] \<or> contains_str (x_lower x (t_name t)) (x_lower x query)
        \<or> contains_str (x_lower x (v_description v)) (x_lower x query)))"

definition tool_match_rank :: "ext \<Rightarrow> string \<Rightarrow> tool_row \<Rightarrow> nat" where
  "tool_match_rank x query t =
     (if x_lower x (t_name t) = x_lower x query then 0
      else if concat (take (length (chars query)) (chars (x_lower x (t_name t)))) = x_lower x query
      then 1 else 2)"

definition selected_revision :: "tool_row \<Rightarrow> int" where
  "selected_revision t =
     (case t_stable_revision t of None \<Rightarrow> t_latest_revision t | Some r \<Rightarrow> r)"

definition list_tools_rows :: "ext \<Rightarrow> string \<Rightarrow> bool \<Rightarrow> tool_version_status option \<Rightarrow> db
    \<Rightarrow> (tool_row \<times> version_row) list" where
  "list_tools_rows x query include_unready status d =
     sort_by (\<lambda>a b. tool_match_rank x query (fst a) < tool_match_rank x query (fst b) \<or>
                  tool_match_rank x query (fst a) = tool_match_rank x query (fst b) \<and>
                  x_text_le x (t_name (fst a)) (t_name (fst b)))
       (filter (tool_matches x query include_unready status)
         (concat (map (\<lambda>t. case find_version (t_id t) (selected_revision t) d of
                             None \<Rightarrow> [] | Some v \<Rightarrow> [(t, v)]) (tools d))))"

definition map_tool_item :: "ext \<Rightarrow> tool_row \<times> version_row \<Rightarrow> tool_list_item sres" where
  "map_tool_item x = (\<lambda>(t, v).
     rbind (opt_to_u64 (t_stable_revision t) ''stable_revision'') (\<lambda>stable_revision.
     rbind (to_u64 (t_latest_revision t) ''latest_revision'') (\<lambda>latest_revision.
     rbind (to_u64 (v_revision v) ''selected_revision'') (\<lambda>selected.
     rbind (parse_version_status x (v_status v)) (\<lambda>status.
     rbind (parse_io_format x (v_input_format v)) (\<lambda>input_format.
     rbind (parse_io_format x (v_output_format v)) (\<lambda>output_format.
     Inr \<lparr>tl_tool = t_name t, tl_stable_revision = stable_revision,
          tl_latest_revision = latest_revision, tl_selected_revision = selected,
          tl_description = v_description v, tl_status = status,
          tl_input_format = input_format, tl_output_format = output_format\<rparr>)))))))"

definition list_tools :: "ext \<Rightarrow> string \<Rightarrow> bool \<Rightarrow> tool_version_status option \<Rightarrow> nat \<Rightarrow> nat \<Rightarrow> db
    \<Rightarrow> tool_list_response sres" where
  "list_tools x query0 include_unready status limit offset d =
     (let query = trim query0 in
     rbind (ok_or (Invariant ''tool list limit overflow'') (i64_checked (int limit + 1))) (\<lambda>row_limit.
     rbind (ok_or (Invariant ''tool list offset exceeds PostgreSQL BIGINT'') (i64_try_from offset)) (\<lambda>offset.
     let rows = page_rows (list_tools_rows x query include_unready status d) row_limit offset;
         has_more = (length rows > limit)
     in rbind (mapM (map_tool_item x) (take limit rows)) (\<lambda>ts.
     Inr \<lparr>tlr_tools = ts, tlr_next_offset = next_offset has_more offset limit\<rparr>))))"

definition inspect_tool :: "ext \<Rightarrow> tool_name \<Rightarrow> nat option \<Rightarrow> db \<Rightarrow> tool_summary_response sres" where
  "inspect_tool x name requested_revision d =
     rbind (ok_or ToolNotFound (find_tool (tool_name_str name) d)) (\<lambda>t.
     rbind (to_u64 (t_latest_revision t) ''latest_revision'') (\<lambda>latest_revision.
     rbind (opt_to_u64 (t_stable_revision t) ''stable_revision'') (\<lambda>stable_revision.
     let selected = (case requested_revision of Some r \<Rightarrow> r | None \<Rightarrow>
                      (case stable_revision of Some r \<Rightarrow> r | None \<Rightarrow> latest_revision)) in
     rbind (ok_or (Invariant ''revision exceeds PostgreSQL BIGINT'') (i64_try_from selected)) (\<lambda>selected_i64.
     rbind (ok_or VersionNotFound (find_version (t_id t) selected_i64 d)) (\<lambda>v.
     let error = row_error (v_error_code v) (v_error_message v) None in
     rbind (to_u64 (v_revision v) ''revision'') (\<lambda>revision.
     rbind (parse_version_status x (v_status v)) (\<lambda>status.
     rbind (parse_io_format x (v_input_format v)) (\<lambda>input_format.
     rbind (parse_io_format x (v_output_format v)) (\<lambda>output_format.
     rbind (ok_or JsonError (strings_from_value (v_assumptions v))) (\<lambda>assumptions.
     Inr \<lparr>ts_tool = tool_name_str name, ts_stable_revision = stable_revision,
          ts_latest_revision = latest_revision,
          ts_selected =
            \<lparr>vs_revision = revision, vs_requested_intent = v_requested_intent v,
             vs_description = v_description v, vs_status = status,
             vs_input_format = input_format, vs_output_format = output_format,
             vs_assumptions = assumptions, vs_contract = v_contract v,
             vs_artifact_digest = v_artifact_digest v,
             vs_validation_summary = v_validation_summary v, vs_error = error\<rparr>\<rparr>))))))))))"

definition map_version_item :: "ext \<Rightarrow> version_row \<Rightarrow> tool_version_list_item sres" where
  "map_version_item x v =
     (let error = row_error (v_error_code v) (v_error_message v) None in
     rbind (to_u64 (v_revision v) ''revision'') (\<lambda>revision.
     rbind (parse_version_status x (v_status v)) (\<lambda>status.
     rbind (parse_io_format x (v_input_format v)) (\<lambda>input_format.
     rbind (parse_io_format x (v_output_format v)) (\<lambda>output_format.
     Inr \<lparr>vl_revision = revision, vl_description = v_description v, vl_status = status,
          vl_input_format = input_format, vl_output_format = output_format,
          vl_artifact_digest = v_artifact_digest v, vl_error = error,
          vl_created_at = x_rfc3339 x (v_created_at v),
          vl_updated_at = x_rfc3339 x (v_updated_at v)\<rparr>)))))"

definition list_versions_rows :: "uuid \<Rightarrow> db \<Rightarrow> version_row list" where
  "list_versions_rows tool_id d =
     sort_by (\<lambda>a b. v_revision b \<le> v_revision a) (filter (\<lambda>v. v_tool_id v = tool_id) (versions d))"

definition list_tool_versions :: "ext \<Rightarrow> tool_name \<Rightarrow> nat \<Rightarrow> nat \<Rightarrow> db
    \<Rightarrow> tool_version_list_response sres" where
  "list_tool_versions x name limit offset d =
     rbind (ok_or ToolNotFound (find_tool (tool_name_str name) d)) (\<lambda>t.
     rbind (to_u64 (t_latest_revision t) ''latest_revision'') (\<lambda>latest_revision.
     rbind (opt_to_u64 (t_stable_revision t) ''stable_revision'') (\<lambda>stable_revision.
     rbind (ok_or (Invariant ''version list limit overflow'') (i64_checked (int limit + 1))) (\<lambda>row_limit.
     rbind (ok_or (Invariant ''version list offset exceeds PostgreSQL BIGINT'') (i64_try_from offset)) (\<lambda>offset.
     let rows = page_rows (list_versions_rows (t_id t) d) row_limit offset;
         has_more = (length rows > limit)
     in rbind (mapM (map_version_item x) (take limit rows)) (\<lambda>vs.
     Inr \<lparr>vlr_tool = tool_name_str name, vlr_stable_revision = stable_revision,
          vlr_latest_revision = latest_revision, vlr_versions = vs,
          vlr_next_offset = next_offset has_more offset limit\<rparr>))))))"

section \<open>Artifacts of versions\<close>

definition artifact_digest_for_version :: "tool_name \<Rightarrow> nat \<Rightarrow> db \<Rightarrow> string sres" where
  "artifact_digest_for_version name revision d =
     rbind (ok_or VersionNotFound (i64_try_from revision)) (\<lambda>revision.
     rbind (ok_or VersionNotFound
              (Option.bind (find_tool (tool_name_str name) d) (\<lambda>t. find_version (t_id t) revision d)))
       (\<lambda>v. ok_or ArtifactNotFound (v_artifact_digest v)))"

record resolved_tool =
  rt_tool_id :: uuid
  rt_revision :: nat
  rt_artifact_digest :: string
  rt_input_format :: io_format
  rt_output_format :: io_format

definition resolve_tool :: "ext \<Rightarrow> tool_name \<Rightarrow> nat option \<Rightarrow> db \<Rightarrow> resolved_tool sres" where
  "resolve_tool x name requested_revision d =
     rbind (case requested_revision of
              None \<Rightarrow> Inr None
            | Some r \<Rightarrow> rbind (ok_or VersionNotFound (i64_try_from r)) (\<lambda>i. Inr (Some i))) (\<lambda>revision.
     rbind (ok_or ToolNotFound (find_tool (tool_name_str name) d)) (\<lambda>t.
     let coalesced = (case revision of Some r \<Rightarrow> Some r | None \<Rightarrow> t_stable_revision t);
         v = Option.bind coalesced (\<lambda>r. find_version (t_id t) r d) in
     rbind (ok_or ToolNotReady coalesced) (\<lambda>selected.
     if map_option v_status v \<noteq> Some ''ready'' then Inl ToolNotReady
     else
     rbind (to_u64 selected ''revision'') (\<lambda>revision.
     rbind (ok_or (Invariant ''ready version has no artifact'') (Option.bind v v_artifact_digest)) (\<lambda>digest.
     rbind (rbind (ok_or (Invariant ''ready version has no input format'') (map_option v_input_format v))
              (parse_io_format x)) (\<lambda>input_format.
     rbind (rbind (ok_or (Invariant ''ready version has no output format'') (map_option v_output_format v))
              (parse_io_format x)) (\<lambda>output_format.
     Inr \<lparr>rt_tool_id = t_id t, rt_revision = revision, rt_artifact_digest = digest,
          rt_input_format = input_format, rt_output_format = output_format\<rparr>)))))))"

section \<open>Workers, approvals and inputs\<close>

definition has_recent_worker :: "time \<Rightarrow> db \<Rightarrow> bool" where
  "has_recent_worker now d = list_ex (\<lambda>h. now - 30 * 1000000 < hb_last_seen_at h) (heartbeats d)"

definition is_http_capability_approved :: "string \<Rightarrow> db \<Rightarrow> bool" where
  "is_http_capability_approved capability_hash d =
     list_ex (\<lambda>a. ap_capability_hash a = capability_hash \<and> ap_status a = ''active'') (approvals d)"

definition all_http_capabilities_approved :: "string list \<Rightarrow> db \<Rightarrow> bool" where
  "all_http_capabilities_approved capability_hashes d =
     (if capability_hashes = [] then True
      else let active = length (filter (\<lambda>a. ap_capability_hash a \<in> set capability_hashes
                                         \<and> ap_status a = ''active'') (approvals d))
           in int active = (case i64_try_from (length capability_hashes) of
                              None \<Rightarrow> i64_max | Some n \<Rightarrow> n))"

definition list_http_capability_approvals :: "ext \<Rightarrow> db \<Rightarrow> http_capability_approval list sres" where
  "list_http_capability_approvals x d =
     mapM (\<lambda>a. rbind (ok_or JsonError (capability_from_value (ap_capability a))) (\<lambda>c.
         Inr \<lparr>ha_capability_hash = ap_capability_hash a, ha_capability = c, ha_status = ap_status a,
              ha_approved_at = x_rfc3339 x (ap_approved_at a),
              ha_revoked_at = map_option (x_rfc3339 x) (ap_revoked_at a),
              ha_revoked_reason = ap_revoked_reason a\<rparr>))
       (sort_by (\<lambda>a b. ap_approved_at b < ap_approved_at a \<or>
                    ap_approved_at a = ap_approved_at b \<and>
                    x_text_le x (ap_capability_hash a) (ap_capability_hash b)) (approvals d))"

definition answered_job_input :: "uuid \<Rightarrow> string \<Rightarrow> db \<Rightarrow> job_input_answer option sres" where
  "answered_job_input job_id agent_call_id d =
     (case find (\<lambda>i. i_job_id i = job_id \<and> i_agent_call_id i = agent_call_id
                   \<and> i_status i = ''answered'') (inputs d) of
        None \<Rightarrow> Inr None
      | Some i \<Rightarrow> (case i_answer i of
          None \<Rightarrow> Inl Database
        | Some v \<Rightarrow> rbind (ok_or JsonError (answer_from_value v)) (\<lambda>a. Inr (Some a))))"

definition string_values :: "json option \<Rightarrow> string list" where
  "string_values v = (case Option.bind v as_array of None \<Rightarrow> [] | Some xs \<Rightarrow> List.map_filter as_str xs)"

definition referenced_artifacts_inner :: "uuid option \<Rightarrow> db \<Rightarrow> string set \<times> string set" where
  "referenced_artifacts_inner excluded_job_id d =
     (let digests = map af_digest (artifacts d);
          sources = List.map_filter (\<lambda>a. Option.bind (json_get ''source_sha256'' (af_manifest a)) as_str)
                      (artifacts d);
          active = filter (\<lambda>r. case find_job (ar_job_id r) d of
                     None \<Rightarrow> False
                   | Some j \<Rightarrow> (j_status j = ''running'' \<or> j_status j = ''awaiting_input'')
                               \<and> excluded_job_id \<noteq> Some (j_id j)) (runs d)
      in (set (digests @ concat (map (\<lambda>r. string_values
                (pointer [''workspace'', ''candidate_digests''] (ar_checkpoint r))) active)),
          set (sources @ concat (map (\<lambda>r. string_values
                (pointer [''workspace'', ''candidate_sources''] (ar_checkpoint r))) active))))"

definition referenced_artifacts :: "db \<Rightarrow> string set \<times> string set" where
  "referenced_artifacts d = referenced_artifacts_inner None d"

definition referenced_artifacts_excluding_job :: "uuid \<Rightarrow> db \<Rightarrow> string set \<times> string set" where
  "referenced_artifacts_excluding_job job_id d = referenced_artifacts_inner (Some job_id) d"

end
