(* ===== verification/Registry.thy ===== *)
theory Registry
  imports Registry_Read
begin

text \<open>
  The statements and transactions of \<open>Registry\<close> in src/crates/jit-storage/src/lib.rs that
  change the tables.  Every argument the code draws from outside (the time of the
  transaction, a fresh UUID, the rows other sessions hold locked) is an argument; an
  error rolls the transaction back, so it carries no tables.
\<close>

section \<open>Registration\<close>

definition agent_trace_limit_bytes :: int where "agent_trace_limit_bytes = 512 * 1024"
definition agent_event_payload_limit_bytes :: nat where
  "agent_event_payload_limit_bytes = 16 * 1024"
definition agent_terminal_event_reserve_bytes :: int where
  "agent_terminal_event_reserve_bytes = 512"

definition register_existing :: "ext \<Rightarrow> string \<Rightarrow> job_row \<Rightarrow> tool_row \<Rightarrow> version_row \<Rightarrow> db
    \<Rightarrow> registration_response committed" where
  "register_existing x fingerprint j t v d =
     (if j_request_fingerprint j \<noteq> fingerprint then Inl IdempotencyConflict
      else rbind (to_u64 (j_revision j) ''revision'') (\<lambda>revision.
           rbind (parse_version_status x (v_status v)) (\<lambda>status.
           Inr (\<lparr>rp_tool = t_name t, rp_revision = revision, rp_status = status,
                 rp_job_id = x_show_uuid x (j_id j)\<rparr>, d))))"

definition new_tool_row :: "time \<Rightarrow> uuid \<Rightarrow> string \<Rightarrow> tool_row" where
  "new_tool_row now tool_id name =
     \<lparr>t_id = tool_id, t_name = name, t_latest_revision = 0, t_stable_revision = None,
      t_created_at = now, t_updated_at = now\<rparr>"

definition new_version_row :: "time \<Rightarrow> uuid \<Rightarrow> int \<Rightarrow> registration_request \<Rightarrow> version_row" where
  "new_version_row now tool_id revision request =
     \<lparr>v_tool_id = tool_id, v_revision = revision, v_requested_intent = rq_intent request,
      v_description = rq_intent request,
      v_input_format = io_format_as_str (rq_input_format request),
      v_output_format = io_format_as_str (rq_output_format request),
      v_examples = examples_to_value (rq_examples request), v_status = ''draft'',
      v_contract = None, v_assumptions = JArray [], v_artifact_digest = None,
      v_validation_summary = None, v_error_code = None, v_error_message = None,
      v_created_at = now, v_updated_at = now\<rparr>"

definition new_job_row :: "time \<Rightarrow> uuid \<Rightarrow> uuid \<Rightarrow> int \<Rightarrow> string \<Rightarrow> string
    \<Rightarrow> registration_request \<Rightarrow> job_row" where
  "new_job_row now job_id tool_id revision idempotency_key fingerprint request =
     \<lparr>j_id = job_id, j_tool_id = tool_id, j_revision = revision,
      j_idempotency_key = idempotency_key, j_request_fingerprint = fingerprint,
      j_input_samples = strings_to_value (rq_input_samples request), j_status = ''queued'',
      j_stage = ''queued'', j_attempts = 0, j_available_at = now, j_lease_until = None,
      j_worker_id = None, j_error_code = None, j_error_message = None, j_details = None,
      j_created_at = now, j_updated_at = now\<rparr>"

definition insert_tool :: "time \<Rightarrow> uuid \<Rightarrow> string \<Rightarrow> db \<Rightarrow> storage_error + db" where
  "insert_tool now tool_id name d =
     (if find_tool name d \<noteq> None then Inr d
      else if lookup t_id tool_id (tools d) \<noteq> None then Inl Database
      else Inr (d\<lparr>tools := tools d @ [new_tool_row now tool_id name]\<rparr>))"

definition insert_version :: "version_row \<Rightarrow> db \<Rightarrow> storage_error + db" where
  "insert_version v d =
     (if lookup v_key (v_key v) (versions d) \<noteq> None \<or> lookup t_id (v_tool_id v) (tools d) = None
      then Inl Database
      else Inr (d\<lparr>versions := versions d @ [v]\<rparr>))"

definition insert_job :: "job_row \<Rightarrow> db \<Rightarrow> storage_error + db" where
  "insert_job j d =
     (if find_job (j_id j) d \<noteq> None
         \<or> lookup j_idempotency_key (j_idempotency_key j) (jobs d) \<noteq> None
         \<or> lookup v_key (job_version j) (versions d) = None
      then Inl Database
      else Inr (d\<lparr>jobs := jobs d @ [j]\<rparr>))"

definition register_new :: "ext \<Rightarrow> time \<Rightarrow> uuid \<Rightarrow> uuid \<Rightarrow> tool_name \<Rightarrow> registration_request
    \<Rightarrow> string \<Rightarrow> string \<Rightarrow> db \<Rightarrow> registration_response committed" where
  "register_new x now tool_id job_id name request idempotency_key fingerprint d =
     rbind (insert_tool now tool_id (tool_name_str name) d) (\<lambda>d.
     rbind (ok_or Database (find_tool (tool_name_str name) d)) (\<lambda>t.
     rbind (ok_or (Invariant ''revision overflow'') (i64_checked (t_latest_revision t + 1))) (\<lambda>revision.
     let d = d\<lparr>tools := upd t_id (t_id t) (\<lambda>t. t\<lparr>t_latest_revision := revision, t_updated_at := now\<rparr>)
                        (tools d)\<rparr> in
     rbind (insert_version (new_version_row now (t_id t) revision request) d) (\<lambda>d.
     rbind (insert_job (new_job_row now job_id (t_id t) revision idempotency_key fingerprint request) d) (\<lambda>d.
     rbind (to_u64 revision ''revision'') (\<lambda>revision.
     Inr (\<lparr>rp_tool = tool_name_str name, rp_revision = revision, rp_status = Draft,
           rp_job_id = x_show_uuid x job_id\<rparr>, d)))))))"

definition register :: "ext \<Rightarrow> time \<Rightarrow> uuid \<Rightarrow> uuid \<Rightarrow> tool_name \<Rightarrow> registration_request \<Rightarrow> string
    \<Rightarrow> db \<Rightarrow> registration_response committed" where
  "register x now tool_id job_id name request idempotency_key d =
     (let fingerprint = registration_fingerprint x name request in
      case lookup j_idempotency_key idempotency_key (jobs d) of
        Some j \<Rightarrow>
          (case (lookup t_id (j_tool_id j) (tools d), find_version (j_tool_id j) (j_revision j) d) of
             (Some t, Some v) \<Rightarrow> register_existing x fingerprint j t v d
           | _ \<Rightarrow> register_new x now tool_id job_id name request idempotency_key fingerprint d)
      | None \<Rightarrow> register_new x now tool_id job_id name request idempotency_key fingerprint d)"

section \<open>Revocation, heartbeats and approvals\<close>

definition max_revision :: "int list \<Rightarrow> int option" where
  "max_revision rs = (if rs = [] then None else Some (Max (set rs)))"

definition update_version :: "uuid \<times> int \<Rightarrow> (version_row \<Rightarrow> version_row) \<Rightarrow> db \<Rightarrow> db" where
  "update_version k f d = d\<lparr>versions := upd v_key k f (versions d)\<rparr>"

definition update_job :: "uuid \<Rightarrow> (job_row \<Rightarrow> job_row) \<Rightarrow> db \<Rightarrow> db" where
  "update_job job_id f d = d\<lparr>jobs := upd j_id job_id f (jobs d)\<rparr>"

text \<open>\<open>UPDATE tool_versions v \<dots> FROM synthesis_jobs j WHERE j.id = $1 AND \<dots>\<close>\<close>

definition update_version_of_job :: "uuid \<Rightarrow> (version_row \<Rightarrow> version_row) \<Rightarrow> db \<Rightarrow> db" where
  "update_version_of_job job_id f d =
     (case find_job job_id d of None \<Rightarrow> d | Some j \<Rightarrow> update_version (job_version j) f d)"

definition set_stable_revision :: "time \<Rightarrow> uuid \<Rightarrow> int option \<Rightarrow> db \<Rightarrow> db" where
  "set_stable_revision now tool_id revision d =
     d\<lparr>tools := upd t_id tool_id (\<lambda>t. t\<lparr>t_stable_revision := revision, t_updated_at := now\<rparr>) (tools d)\<rparr>"

definition fallback_revision :: "uuid \<Rightarrow> int \<Rightarrow> db \<Rightarrow> int option" where
  "fallback_revision tool_id revision d =
     max_revision (map v_revision (filter (\<lambda>v. v_tool_id v = tool_id \<and> v_status v = ''ready''
        \<and> v_revision v \<noteq> revision) (versions d)))"

definition revoke_tool_version :: "ext \<Rightarrow> time \<Rightarrow> tool_name \<Rightarrow> nat \<Rightarrow> string \<Rightarrow> db
    \<Rightarrow> revoke_response committed" where
  "revoke_tool_version x now name revision0 reason d =
     rbind (ok_or VersionNotFound (i64_try_from revision0)) (\<lambda>revision.
     rbind (ok_or ToolNotFound (find_tool (tool_name_str name) d)) (\<lambda>t.
     rbind (ok_or VersionNotFound (find_version (t_id t) revision d)) (\<lambda>v.
     if \<not> (v_status v = ''ready'' \<or> v_status v = ''deprecated'')
     then Inl (VersionNotRevocable (v_status v))
     else
     let d = update_version (t_id t, revision)
               (\<lambda>v. v\<lparr>v_status := ''revoked'', v_error_code := Some ''revoked'',
                      v_error_message := Some reason, v_updated_at := now\<rparr>) d;
         fallback = fallback_revision (t_id t) revision d;
         (next_stable, d) =
           (if t_stable_revision t = Some revision
            then (fallback, set_stable_revision now (t_id t) fallback d)
            else (t_stable_revision t, d))
     in
     rbind (to_u64 revision ''revision'') (\<lambda>revision.
     rbind (opt_to_u64 next_stable ''stable_revision'') (\<lambda>next_stable.
     Inr (\<lparr>rv_tool = tool_name_str name, rv_revision = revision, rv_status = Revoked,
           rv_stable_revision = next_stable\<rparr>, d))))))"

definition record_worker_heartbeat :: "time \<Rightarrow> string \<Rightarrow> string \<Rightarrow> db \<Rightarrow> unit committed" where
  "record_worker_heartbeat now worker_id version d =
     Inr ((), d\<lparr>heartbeats := upsert hb_worker_id worker_id
                 (\<lambda>h. h\<lparr>hb_version := version, hb_last_seen_at := now\<rparr>)
                 \<lparr>hb_worker_id = worker_id, hb_version = version, hb_last_seen_at = now\<rparr>
                 (heartbeats d)\<rparr>)"

definition approve_http_capability :: "time \<Rightarrow> string \<Rightarrow> http_capability \<Rightarrow> uuid \<Rightarrow> db
    \<Rightarrow> unit committed" where
  "approve_http_capability now capability_hash capability job_id d =
     (if find_job job_id d = None then Inl Database
      else Inr ((), d\<lparr>approvals := upsert ap_capability_hash capability_hash
                 (\<lambda>a. a\<lparr>ap_capability := capability_to_value capability, ap_status := ''active'',
                        ap_approved_by_job := Some job_id, ap_approved_at := now,
                        ap_revoked_at := None\<rparr>)
                 \<lparr>ap_capability_hash = capability_hash,
                  ap_capability = capability_to_value capability, ap_status = ''active'',
                  ap_approved_by_job = Some job_id, ap_approved_at = now,
                  ap_revoked_at = None, ap_revoked_reason = None\<rparr> (approvals d)\<rparr>))"

definition revoke_http_capability :: "time \<Rightarrow> string \<Rightarrow> string \<Rightarrow> db \<Rightarrow> unit committed" where
  "revoke_http_capability now capability_hash reason d =
     (if trim reason = [] \<or> length reason > 4096 then Inl InvalidRevocationReason
      else if \<not> (case lookup ap_capability_hash capability_hash (approvals d) of
                   None \<Rightarrow> False | Some a \<Rightarrow> ap_status a = ''active'')
      then Inl HttpCapabilityNotFound
      else Inr ((), d\<lparr>approvals := upd ap_capability_hash capability_hash
                 (\<lambda>a. a\<lparr>ap_status := ''revoked'', ap_revoked_at := Some now,
                        ap_revoked_reason := Some (trim reason)\<rparr>) (approvals d)\<rparr>))"

section \<open>Claiming and leasing jobs\<close>

record agent_checkpoint_record =
  cp_engine :: string
  cp_engine_version :: string
  cp_checkpoint :: json

record claimed_synthesis_job =
  cj_job_id :: uuid
  cj_tool_id :: uuid
  cj_tool :: string
  cj_revision :: nat
  cj_intent :: string
  cj_input_format :: io_format
  cj_output_format :: io_format
  cj_examples :: "tool_example list"
  cj_input_samples :: "string list"
  cj_attempts :: nat
  cj_agent_checkpoint :: "agent_checkpoint_record option"

definition claimable :: "time \<Rightarrow> job_row \<Rightarrow> bool" where
  "claimable now j =
     ((j_status j = ''queued'' \<and> j_available_at j \<le> now) \<or>
      (j_status j = ''running'' \<and> (case j_lease_until j of None \<Rightarrow> False | Some l \<Rightarrow> l < now)))"

definition claim_candidate :: "time \<Rightarrow> (uuid \<Rightarrow> bool) \<Rightarrow> db \<Rightarrow> job_row option" where
  "claim_candidate now locked d =
     (case sort_by (\<lambda>a b. j_created_at a \<le> j_created_at b)
             (filter (\<lambda>j. claimable now j \<and> \<not> locked (j_id j)) (jobs d)) of
        [] \<Rightarrow> None
      | j # _ \<Rightarrow> Some j)"

definition claim_job_row :: "time \<Rightarrow> string \<Rightarrow> int \<Rightarrow> job_row \<Rightarrow> job_row" where
  "claim_job_row now worker_id lease_seconds j =
     j\<lparr>j_status := ''running'',
       j_stage := (if j_status j = ''queued'' \<and> j_stage j = ''queued'' then ''contract'' else j_stage j),
       j_attempts := j_attempts j + (if j_status j = ''queued'' \<and> j_stage j \<noteq> ''queued'' then 0 else 1),
       j_worker_id := Some worker_id,
       j_lease_until := Some (now + lease_seconds * 1000000),
       j_updated_at := now\<rparr>"

definition claim_version_row :: "time \<Rightarrow> version_row \<Rightarrow> version_row" where
  "claim_version_row now v =
     (if v_status v = ''draft'' \<or> v_status v = ''contract_ready'' \<or> v_status v = ''synthesizing''
      then v\<lparr>v_status := ''synthesizing'', v_updated_at := now\<rparr> else v)"

definition claim_checkpoint :: "run_row option \<Rightarrow> agent_checkpoint_record option sres" where
  "claim_checkpoint ar =
     (case (map_option ar_engine ar, map_option ar_engine_version ar, map_option ar_checkpoint ar) of
        (Some engine, Some engine_version, Some checkpoint) \<Rightarrow>
          Inr (Some \<lparr>cp_engine = engine, cp_engine_version = engine_version,
                     cp_checkpoint = checkpoint\<rparr>)
      | (None, None, None) \<Rightarrow> Inr None
      | _ \<Rightarrow> Inl (Invariant ''partial synthesis agent checkpoint''))"

definition claimed_job :: "ext \<Rightarrow> uuid \<Rightarrow> db \<Rightarrow> claimed_synthesis_job sres" where
  "claimed_job x job_id d =
     rbind (ok_or Database (find_job job_id d)) (\<lambda>j.
     rbind (ok_or Database (lookup t_id (j_tool_id j) (tools d))) (\<lambda>t.
     rbind (ok_or Database (find_version (j_tool_id j) (j_revision j) d)) (\<lambda>v.
     rbind (claim_checkpoint (find_run job_id d)) (\<lambda>checkpoint.
     rbind (to_u64 (j_revision j) ''revision'') (\<lambda>revision.
     rbind (parse_io_format x (v_input_format v)) (\<lambda>input_format.
     rbind (parse_io_format x (v_output_format v)) (\<lambda>output_format.
     rbind (ok_or JsonError (examples_from_value (v_examples v))) (\<lambda>examples.
     rbind (ok_or JsonError (strings_from_value (j_input_samples j))) (\<lambda>samples.
     Inr \<lparr>cj_job_id = job_id, cj_tool_id = j_tool_id j, cj_tool = t_name t,
          cj_revision = revision, cj_intent = v_requested_intent v,
          cj_input_format = input_format, cj_output_format = output_format,
          cj_examples = examples, cj_input_samples = samples,
          cj_attempts = nat (j_attempts j), cj_agent_checkpoint = checkpoint\<rparr>)))))))))"

definition claim_synthesis_job :: "ext \<Rightarrow> time \<Rightarrow> (uuid \<Rightarrow> bool) \<Rightarrow> string \<Rightarrow> int \<Rightarrow> db
    \<Rightarrow> claimed_synthesis_job option committed" where
  "claim_synthesis_job x now locked worker_id lease_seconds d =
     (case claim_candidate now locked d of
        None \<Rightarrow> Inr (None, d)
      | Some j \<Rightarrow>
          if j_attempts (claim_job_row now worker_id lease_seconds j) > i32_max then Inl Database
          else
          let d = update_job (j_id j) (claim_job_row now worker_id lease_seconds) d;
              d = update_version_of_job (j_id j) (claim_version_row now) d
          in rbind (claimed_job x (j_id j) d) (\<lambda>claimed. Inr (Some claimed, d)))"

text \<open>\<open>WHERE id = $1 AND worker_id = $2 AND status = 'running'\<close>\<close>

definition leases :: "string \<Rightarrow> job_row \<Rightarrow> bool" where
  "leases worker_id j = (j_worker_id j = Some worker_id \<and> j_status j = ''running'')"

definition leased_job :: "uuid \<Rightarrow> string \<Rightarrow> db \<Rightarrow> job_row sres" where
  "leased_job job_id worker_id d =
     (case find_job job_id d of
        None \<Rightarrow> Inl JobLeaseLost
      | Some j \<Rightarrow> if leases worker_id j then Inr j else Inl JobLeaseLost)"

definition renew_job_lease :: "time \<Rightarrow> uuid \<Rightarrow> string \<Rightarrow> int \<Rightarrow> db \<Rightarrow> unit committed" where
  "renew_job_lease now job_id worker_id lease_seconds d =
     rbind (leased_job job_id worker_id d) (\<lambda>_.
     Inr ((), update_job job_id
       (\<lambda>j. j\<lparr>j_lease_until := Some (now + lease_seconds * 1000000), j_updated_at := now\<rparr>) d))"

end
