(* ===== verification/Registry_Jobs.thy ===== *)
theory Registry_Jobs
  imports Registry
begin

text \<open>
  The life of a synthesis job in src/crates/jit-storage/src/lib.rs after it is claimed:
  the agent's checkpoint and trace, suspension for input and its answer, the stages, the
  contract, publication, rejection and cancellation; then the invocations of a published
  version.
\<close>

section \<open>The agent's trace\<close>

lemma payload_limit_code [code_unfold]:
  "n \<le> agent_event_payload_limit_bytes \<longleftrightarrow> int n \<le> 16384"
  by (simp add: agent_event_payload_limit_bytes_def)

definition payload_size_of :: "ext \<Rightarrow> json \<Rightarrow> int" where
  "payload_size_of x v = min (int (length (x_to_vec x v))) i32_max"

definition oversized_payload :: "ext \<Rightarrow> json \<Rightarrow> json" where
  "oversized_payload x payload =
     json_object
       [(''omitted'', JBool True), (''bytes'', json_nat (length (x_to_vec x payload))),
        (''sha256'', JString (x_sha256 x (x_to_vec x payload))),
        (''reason'', JString ''event payload exceeded 16 KiB'')]"

definition bounded_event_payload :: "ext \<Rightarrow> json \<Rightarrow> json \<times> int" where
  "bounded_event_payload x payload =
     (let encoded = x_to_vec x payload in
      if length encoded \<le> agent_event_payload_limit_bytes then (payload, payload_size_of x payload)
      else (oversized_payload x payload, payload_size_of x (oversized_payload x payload)))"

definition omitted_payload :: json where
  "omitted_payload =
     json_object [(''omitted'', JBool True),
                  (''reason'', JString ''agent trace byte budget exhausted'')]"

definition i64_saturating_sub :: "int \<Rightarrow> int \<Rightarrow> int" where
  "i64_saturating_sub a b = max i64_min (min i64_max (a - b))"

definition insert_event :: "time \<Rightarrow> uuid \<Rightarrow> string \<Rightarrow> json \<Rightarrow> int \<Rightarrow> db \<Rightarrow> db" where
  "insert_event now job_id kind payload payload_size d =
     d\<lparr>events := events d @ [\<lparr>ev_id = next_event_id d, ev_job_id = job_id, ev_kind = kind,
                               ev_payload = payload, ev_payload_size = payload_size,
                               ev_created_at = now\<rparr>],
       next_event_id := next_event_id d + 1,
       runs := upd ar_job_id job_id
                 (\<lambda>r. r\<lparr>ar_trace_bytes := ar_trace_bytes r + payload_size, ar_updated_at := now\<rparr>)
                 (runs d)\<rparr>"

definition append_agent_event_in_transaction :: "ext \<Rightarrow> time \<Rightarrow> uuid \<Rightarrow> string \<Rightarrow> json \<Rightarrow> int \<Rightarrow> db
    \<Rightarrow> storage_error + db" where
  "append_agent_event_in_transaction x now job_id kind payload0 trace_limit_bytes d =
     (let (payload, payload_size) = bounded_event_payload x payload0 in
      case find_run job_id d of
        None \<Rightarrow> Inl (Invariant ''agent run missing before event'')
      | Some r \<Rightarrow>
          let remaining = i64_saturating_sub trace_limit_bytes (ar_trace_bytes r) in
          if payload_size \<le> remaining
          then Inr (insert_event now job_id kind payload payload_size d)
          else let size = payload_size_of x omitted_payload in
               if size > remaining then Inr d
               else Inr (insert_event now job_id kind omitted_payload size d))"

definition ensure_job_owner :: "uuid \<Rightarrow> string \<Rightarrow> db \<Rightarrow> unit sres" where
  "ensure_job_owner job_id worker_id d =
     (case find_job job_id d of
        None \<Rightarrow> Inl JobLeaseLost
      | Some j \<Rightarrow>
          if j_worker_id j = Some worker_id \<and> (j_status j = ''running'' \<or> j_status j = ''ready'')
          then Inr () else Inl JobLeaseLost)"

definition append_agent_event :: "ext \<Rightarrow> time \<Rightarrow> uuid \<Rightarrow> string \<Rightarrow> string \<Rightarrow> json \<Rightarrow> db
    \<Rightarrow> unit committed" where
  "append_agent_event x now job_id worker_id kind payload d =
     rbind (ensure_job_owner job_id worker_id d) (\<lambda>_.
     rbind (append_agent_event_in_transaction x now job_id kind payload
              (agent_trace_limit_bytes - agent_terminal_event_reserve_bytes) d) (\<lambda>d.
     Inr ((), d)))"

definition save_agent_checkpoint :: "time \<Rightarrow> uuid \<Rightarrow> string \<Rightarrow> string \<Rightarrow> string \<Rightarrow> json \<Rightarrow> db
    \<Rightarrow> unit committed" where
  "save_agent_checkpoint now job_id worker_id engine engine_version checkpoint d =
     rbind (ensure_job_owner job_id worker_id d) (\<lambda>_.
     Inr ((), d\<lparr>runs := upsert ar_job_id job_id
            (\<lambda>r. r\<lparr>ar_engine := engine, ar_engine_version := engine_version,
                   ar_checkpoint := checkpoint, ar_updated_at := now\<rparr>)
            \<lparr>ar_job_id = job_id, ar_engine = engine, ar_engine_version = engine_version,
             ar_checkpoint = checkpoint, ar_trace_bytes = 0, ar_created_at = now,
             ar_updated_at = now\<rparr> (runs d)\<rparr>))"

definition event_archive_entry :: "ext \<Rightarrow> event_row \<Rightarrow> json" where
  "event_archive_entry x e =
     json_object [(''id'', json_nat (ev_id e)), (''kind'', JString (ev_kind e)),
                  (''payload'', ev_payload e), (''created_at'', JString (x_pg_time x (ev_created_at e)))]"

definition compactable_events :: "time \<Rightarrow> db \<Rightarrow> event_row list" where
  "compactable_events now d =
     filter (\<lambda>e. case find_job (ev_job_id e) d of
               None \<Rightarrow> False
             | Some j \<Rightarrow> (j_status j = ''ready'' \<or> j_status j = ''rejected'')
                         \<and> j_updated_at j < now - 7 * 24 * 3600 * 1000000) (events d)"

definition archive_of :: "ext \<Rightarrow> time \<Rightarrow> event_row list \<Rightarrow> uuid \<Rightarrow> archive_row" where
  "archive_of x now es job_id =
     (let mine = filter (\<lambda>e. ev_job_id e = job_id) es in
      \<lparr>ta_job_id = job_id, ta_event_count = int (length mine),
       ta_events = JArray (map (event_archive_entry x)
                      (sort_by (\<lambda>a b. ev_id a \<le> ev_id b) mine)),
       ta_archived_at = now\<rparr>)"

definition compact_agent_traces :: "ext \<Rightarrow> time \<Rightarrow> db \<Rightarrow> nat committed" where
  "compact_agent_traces x now d =
     (let es = compactable_events now d;
          new_archives = filter (\<lambda>a. lookup ta_job_id (ta_job_id a) (archives d) = None)
                           (map (archive_of x now es) (remdups (map ev_job_id es)));
          all_archives = archives d @ new_archives
      in Inr (length new_archives,
              d\<lparr>archives := all_archives,
                events := filter (\<lambda>e. lookup ta_job_id (ev_job_id e) all_archives = None)
                            (events d)\<rparr>))"

section \<open>Input from the user\<close>

record new_job_input =
  ni_id :: uuid
  ni_agent_call_id :: string
  ni_kind :: job_input_kind
  ni_prompt :: string
  ni_choices :: "job_input_choice list"
  ni_context :: json

definition insert_input :: "time \<Rightarrow> uuid \<Rightarrow> string \<Rightarrow> new_job_input \<Rightarrow> db \<Rightarrow> storage_error + db" where
  "insert_input now job_id resume_stage inp d =
     (if lookup i_id (ni_id inp) (inputs d) \<noteq> None \<or> pending_inputs job_id d \<noteq> []
      then Inl Database
      else Inr (d\<lparr>inputs := inputs d @
            [\<lparr>i_id = ni_id inp, i_job_id = job_id, i_agent_call_id = ni_agent_call_id inp,
              i_kind = job_input_kind_as_str (ni_kind inp), i_prompt = ni_prompt inp,
              i_choices = choices_to_value (ni_choices inp), i_context = ni_context inp,
              i_resume_stage = resume_stage, i_status = ''pending'', i_answer = None,
              i_created_at = now, i_answered_at = None\<rparr>]\<rparr>))"

definition suspend_job_for_input :: "ext \<Rightarrow> time \<Rightarrow> uuid \<Rightarrow> string \<Rightarrow> new_job_input \<Rightarrow> db
    \<Rightarrow> uuid committed" where
  "suspend_job_for_input x now job_id worker_id inp d =
     rbind (leased_job job_id worker_id d) (\<lambda>j.
     let resume_stage = j_stage j in
     if resume_stage = ''queued'' \<or> resume_stage = ''awaiting_input'' \<or> resume_stage = ''complete''
     then Inl (Invariant (''cannot suspend a job from stage '' @ x_debug x resume_stage))
     else case find (\<lambda>i. i_job_id i = job_id \<and> i_agent_call_id i = ni_agent_call_id inp) (inputs d) of
       Some existing \<Rightarrow> Inr (i_id existing, d)
     | None \<Rightarrow>
         rbind (insert_input now job_id resume_stage inp d) (\<lambda>d.
         rbind (append_agent_event_in_transaction x now job_id ''input_requested''
                  (json_object [(''input_id'', JString (x_show_uuid x (ni_id inp))),
                                (''kind'', JString (job_input_kind_as_str (ni_kind inp))),
                                (''prompt'', JString (ni_prompt inp)),
                                (''context'', ni_context inp)])
                  (agent_trace_limit_bytes - agent_terminal_event_reserve_bytes) d) (\<lambda>d.
         Inr (ni_id inp, update_job job_id
                (\<lambda>j. j\<lparr>j_status := ''awaiting_input'', j_stage := ''awaiting_input'',
                       j_worker_id := None, j_lease_until := None, j_updated_at := now\<rparr>) d))))"

definition answer_input_rows :: "(input_row \<Rightarrow> bool) \<Rightarrow> time \<Rightarrow> json \<Rightarrow> input_row list \<Rightarrow> input_row list" where
  "answer_input_rows p now answer rows =
     map (\<lambda>i. if p i then i\<lparr>i_status := ''answered'', i_answer := Some answer,
                            i_answered_at := Some now\<rparr> else i) rows"

definition answer_job_input_tx :: "ext \<Rightarrow> time \<Rightarrow> uuid \<Rightarrow> job_answer_request \<Rightarrow> db
    \<Rightarrow> unit committed" where
  "answer_job_input_tx x now job_id request d =
     rbind (ok_or JobInputNotFound (x_parse_uuid x (ja_input_id request))) (\<lambda>input_id.
     rbind (ok_or JobInputNotFound
              (find (\<lambda>i. i_id i = input_id \<and> i_job_id i = job_id \<and> i_status i = ''pending''
                      \<and> map_option j_status (find_job job_id d) = Some ''awaiting_input'') (inputs d)))
       (\<lambda>i.
     rbind (parse_job_input_kind x (i_kind i)) (\<lambda>kind.
     rbind (validate_job_input_answer kind (ja_answer request)) (\<lambda>_.
     let resume_stage = i_resume_stage i;
         answer = answer_to_value (ja_answer request);
         d = d\<lparr>inputs := answer_input_rows (\<lambda>i. i_id i = input_id) now answer (inputs d)\<rparr>;
         d = update_job job_id
               (\<lambda>j. j\<lparr>j_status := ''queued'', j_stage := resume_stage, j_available_at := now,
                      j_worker_id := None, j_lease_until := None, j_updated_at := now\<rparr>) d
     in rbind (append_agent_event_in_transaction x now job_id ''input_answered''
                 (json_object [(''input_id'', JString (x_show_uuid x input_id)), (''answer'', answer)])
                 (agent_trace_limit_bytes - agent_terminal_event_reserve_bytes) d) (\<lambda>d.
     Inr ((), d))))))"

text \<open>The transaction commits, then \<open>get_job\<close> reads the job back.\<close>

definition answer_job_input :: "ext \<Rightarrow> time \<Rightarrow> uuid \<Rightarrow> job_answer_request \<Rightarrow> db
    \<Rightarrow> storage_error + (job_response sres \<times> db)" where
  "answer_job_input x now job_id request d =
     rbind (answer_job_input_tx x now job_id request d) (\<lambda>(_, d).
     Inr (get_job x job_id d, d))"

section \<open>Stages, contract and outcome\<close>

text \<open>Two statements, each committed on its own.\<close>

definition set_job_stage_job :: "time \<Rightarrow> uuid \<Rightarrow> string \<Rightarrow> job_stage \<Rightarrow> db \<Rightarrow> unit committed" where
  "set_job_stage_job now job_id worker_id stage d =
     rbind (leased_job job_id worker_id d) (\<lambda>_.
     Inr ((), update_job job_id
       (\<lambda>j. j\<lparr>j_stage := job_stage_as_str stage, j_lease_until := Some (now + 300 * 1000000),
              j_updated_at := now\<rparr>) d))"

fun stage_version_status :: "job_stage \<Rightarrow> string option" where
  "stage_version_status SBuilding = Some ''building''"
| "stage_version_status SValidating = Some ''validating''"
| "stage_version_status SContract = Some ''synthesizing''"
| "stage_version_status SSynthesizing = Some ''synthesizing''"
| "stage_version_status SRepairing = Some ''synthesizing''"
| "stage_version_status SQueued = None"
| "stage_version_status SAwaitingInput = None"
| "stage_version_status SComplete = None"

definition set_job_stage_version :: "time \<Rightarrow> uuid \<Rightarrow> job_stage \<Rightarrow> db \<Rightarrow> db" where
  "set_job_stage_version now job_id stage d =
     (case stage_version_status stage of
        None \<Rightarrow> d
      | Some status \<Rightarrow>
          update_version_of_job job_id (\<lambda>v. v\<lparr>v_status := status, v_updated_at := now\<rparr>) d)"

definition set_job_stage :: "time \<Rightarrow> uuid \<Rightarrow> string \<Rightarrow> job_stage \<Rightarrow> db \<Rightarrow> unit committed" where
  "set_job_stage now job_id worker_id stage d =
     rbind (set_job_stage_job now job_id worker_id stage d) (\<lambda>(_, d).
     Inr ((), set_job_stage_version now job_id stage d))"

text \<open>\<open>$3->>'summary'\<close>: the text of a string, the JSON text of any other value, else NULL.\<close>

definition json_text :: "ext \<Rightarrow> json \<Rightarrow> string option" where
  "json_text x v = (case v of JNull \<Rightarrow> None | JString s \<Rightarrow> Some s | _ \<Rightarrow> Some (x_pg_text x v))"

definition save_contract :: "ext \<Rightarrow> time \<Rightarrow> uuid \<Rightarrow> string \<Rightarrow> json \<Rightarrow> string list \<Rightarrow> db
    \<Rightarrow> unit committed" where
  "save_contract x now job_id worker_id contract assumptions d =
     rbind (leased_job job_id worker_id d) (\<lambda>j.
     rbind (ok_or JobLeaseLost (find_version (j_tool_id j) (j_revision j) d)) (\<lambda>_.
     case Option.bind (json_get ''summary'' contract) (json_text x) of
       None \<Rightarrow> Inl Database
     | Some description \<Rightarrow>
         Inr ((), update_version (job_version j)
           (\<lambda>v. v\<lparr>v_contract := Some contract, v_description := description,
                  v_assumptions := strings_to_value assumptions, v_updated_at := now\<rparr>) d)))"

record published_artifact =
  pa_digest :: string
  pa_relative_path :: string
  pa_size_bytes :: int
  pa_manifest :: json
  pa_contract :: json
  pa_assumptions :: json
  pa_validation_summary :: json

definition insert_artifact :: "time \<Rightarrow> published_artifact \<Rightarrow> db \<Rightarrow> storage_error + db" where
  "insert_artifact now a d =
     (if pa_size_bytes a < 0 then Inl Database
      else Inr (d\<lparr>artifacts := insert_new af_digest
             \<lparr>af_digest = pa_digest a, af_relative_path = pa_relative_path a,
              af_size_bytes = pa_size_bytes a, af_manifest = pa_manifest a,
              af_validation_summary = pa_validation_summary a, af_created_at = now\<rparr>
             (artifacts d)\<rparr>))"

definition publish_version_row :: "time \<Rightarrow> published_artifact \<Rightarrow> version_row \<Rightarrow> version_row" where
  "publish_version_row now a v =
     v\<lparr>v_status := ''ready'', v_contract := Some (pa_contract a),
       v_assumptions := pa_assumptions a, v_artifact_digest := Some (pa_digest a),
       v_validation_summary := Some (pa_validation_summary a), v_error_code := None,
       v_error_message := None, v_updated_at := now\<rparr>"

definition publish_job :: "ext \<Rightarrow> time \<Rightarrow> uuid \<Rightarrow> string \<Rightarrow> published_artifact \<Rightarrow> db
    \<Rightarrow> unit committed" where
  "publish_job x now job_id worker_id a d =
     rbind (leased_job job_id worker_id d) (\<lambda>j.
     rbind (insert_artifact now a d) (\<lambda>d.
     let d = update_version (job_version j) (publish_version_row now a) d;
         d = set_stable_revision now (j_tool_id j) (Some (j_revision j)) d;
         d = update_job job_id
               (\<lambda>j. j\<lparr>j_status := ''ready'', j_stage := ''complete'', j_lease_until := None,
                      j_updated_at := now\<rparr>) d
     in rbind (append_agent_event_in_transaction x now job_id ''candidate_validated''
                 (json_object [(''digest'', JString (pa_digest a))]) agent_trace_limit_bytes d) (\<lambda>d.
     Inr ((), d))))"

definition reject_job :: "time \<Rightarrow> uuid \<Rightarrow> string \<Rightarrow> string \<Rightarrow> string \<Rightarrow> json option \<Rightarrow> db
    \<Rightarrow> unit committed" where
  "reject_job now job_id worker_id code message details d =
     rbind (leased_job job_id worker_id d) (\<lambda>_.
     let d = update_job job_id
               (\<lambda>j. j\<lparr>j_status := ''rejected'', j_stage := ''complete'', j_error_code := Some code,
                      j_error_message := Some message, j_details := details,
                      j_lease_until := None, j_updated_at := now\<rparr>) d
     in Inr ((), update_version_of_job job_id
               (\<lambda>v. v\<lparr>v_status := ''rejected'', v_error_code := Some code,
                      v_error_message := Some message, v_updated_at := now\<rparr>) d))"

definition cancelled_message :: string where
  "cancelled_message = ''synthesis job cancelled by user''"

definition cancelled_job_row :: "time \<Rightarrow> string \<Rightarrow> job_row \<Rightarrow> job_row" where
  "cancelled_job_row now reason j =
     j\<lparr>j_status := ''rejected'', j_stage := ''complete'', j_error_code := Some ''user_cancelled'',
       j_error_message := Some cancelled_message,
       j_details := Some (json_object [(''reason'', JString reason)]),
       j_worker_id := None, j_lease_until := None, j_updated_at := now\<rparr>"

definition cancelled_version_row :: "time \<Rightarrow> version_row \<Rightarrow> version_row" where
  "cancelled_version_row now v =
     v\<lparr>v_status := ''rejected'', v_error_code := Some ''user_cancelled'',
       v_error_message := Some cancelled_message, v_updated_at := now\<rparr>"

definition cancelled_inputs :: "time \<Rightarrow> uuid \<Rightarrow> string \<Rightarrow> input_row list \<Rightarrow> input_row list" where
  "cancelled_inputs now job_id reason rows =
     answer_input_rows (\<lambda>i. i_job_id i = job_id \<and> i_status i = ''pending'') now
       (json_object [(''type'', JString ''reject''), (''reason'', JString reason)]) rows"

definition cancel_job_rows :: "time \<Rightarrow> uuid \<Rightarrow> string \<Rightarrow> db \<Rightarrow> db" where
  "cancel_job_rows now job_id reason d =
     (let d = update_job job_id (cancelled_job_row now reason) d;
          d = update_version_of_job job_id (cancelled_version_row now) d
      in d\<lparr>inputs := cancelled_inputs now job_id reason (inputs d)\<rparr>)"

definition cancel_job :: "ext \<Rightarrow> time \<Rightarrow> uuid \<Rightarrow> string \<Rightarrow> db \<Rightarrow> unit committed" where
  "cancel_job x now job_id reason0 d =
     (let reason = trim reason0 in
      if reason = [] \<or> length reason > 4096 then Inl InvalidCancellationReason
      else
      rbind (ok_or JobNotFound (find_job job_id d)) (\<lambda>j.
      if j_status j = ''ready'' \<or> j_status j = ''rejected''
      then Inl (JobNotCancellable (j_status j))
      else
      rbind (append_agent_event_in_transaction x now job_id ''job_cancelled''
               (json_object [(''reason'', JString reason)]) agent_trace_limit_bytes
               (cancel_job_rows now job_id reason d)) (\<lambda>d.
      Inr ((), d))))"

section \<open>Invocations\<close>

definition saturate_i64 :: "nat \<Rightarrow> int" where
  "saturate_i64 n = (case i64_try_from n of None \<Rightarrow> i64_max | Some i \<Rightarrow> i)"

definition start_invocation :: "time \<Rightarrow> uuid \<Rightarrow> resolved_tool \<Rightarrow> nat \<Rightarrow> db \<Rightarrow> unit committed" where
  "start_invocation now invocation_id resolved stdin_size d =
     rbind (ok_or VersionNotFound (i64_try_from (rt_revision resolved))) (\<lambda>revision.
     if lookup iv_id invocation_id (invocations d) \<noteq> None
        \<or> find_version (rt_tool_id resolved) revision d = None
        \<or> lookup af_digest (rt_artifact_digest resolved) (artifacts d) = None
     then Inl Database
     else Inr ((), d\<lparr>invocations := invocations d @
            [\<lparr>iv_id = invocation_id, iv_tool_id = rt_tool_id resolved, iv_revision = revision,
              iv_artifact_digest = rt_artifact_digest resolved, iv_status = ''running'',
              iv_exit_code = None, iv_duration_ms = None, iv_stdin_size = saturate_i64 stdin_size,
              iv_stdout_size = None, iv_stderr_size = None, iv_created_at = now,
              iv_finished_at = None\<rparr>]\<rparr>))"

definition invocation_statuses :: "string list" where
  "invocation_statuses = [''running'', ''succeeded'', ''failed'', ''timed_out'']"

definition finish_invocation :: "time \<Rightarrow> uuid \<Rightarrow> string \<Rightarrow> int option \<Rightarrow> nat \<Rightarrow> nat \<Rightarrow> nat \<Rightarrow> db
    \<Rightarrow> unit committed" where
  "finish_invocation now invocation_id status exit_code duration_ms stdout_size stderr_size d =
     (if status \<notin> set invocation_statuses \<and> lookup iv_id invocation_id (invocations d) \<noteq> None
      then Inl Database
      else Inr ((), d\<lparr>invocations := upd iv_id invocation_id
             (\<lambda>r. r\<lparr>iv_status := status, iv_exit_code := exit_code,
                    iv_duration_ms := Some (saturate_i64 duration_ms),
                    iv_stdout_size := Some (saturate_i64 stdout_size),
                    iv_stderr_size := Some (saturate_i64 stderr_size),
                    iv_finished_at := Some now\<rparr>) (invocations d)\<rparr>))"

end
