(* ===== verification/Registry_Tables.thy ===== *)
theory Registry_Tables
  imports Registry_Jobs
begin

text \<open>
  What the statements of the registry do to the tables: lookups after each of them, and
  the constraints of src/migrations (primary keys, unique columns and foreign keys) with
  the proof that every statement keeps them.
\<close>

section \<open>Lookups after a statement\<close>

lemmas find_defs = find_tool_def find_version_def find_job_def find_run_def

lemmas statement_defs = update_version_def update_job_def set_stable_revision_def
  set_job_stage_version_def

lemma v_key_update [simp]:
  "v_key (v\<lparr>v_status := s\<rparr>) = v_key v" "v_key (v\<lparr>v_updated_at := t\<rparr>) = v_key v"
  "v_key (v\<lparr>v_error_code := c\<rparr>) = v_key v" "v_key (v\<lparr>v_error_message := c\<rparr>) = v_key v"
  "v_key (v\<lparr>v_contract := w\<rparr>) = v_key v" "v_key (v\<lparr>v_assumptions := a\<rparr>) = v_key v"
  "v_key (v\<lparr>v_artifact_digest := g\<rparr>) = v_key v" "v_key (v\<lparr>v_description := e\<rparr>) = v_key v"
  "v_key (v\<lparr>v_validation_summary := b\<rparr>) = v_key v"
  by (simp_all add: v_key_def)

lemma v_key_rows [simp]:
  "v_key (publish_version_row now a v) = v_key v"
  "v_key (claim_version_row now v) = v_key v"
  "v_key (new_version_row now tid n rq) = (tid, n)"
  by (simp_all add: publish_version_row_def claim_version_row_def new_version_row_def v_key_def)

lemma claim_job_row_fields [simp]:
  "j_id (claim_job_row now w l j) = j_id j"
  "j_tool_id (claim_job_row now w l j) = j_tool_id j"
  "j_revision (claim_job_row now w l j) = j_revision j"
  "j_idempotency_key (claim_job_row now w l j) = j_idempotency_key j"
  "j_created_at (claim_job_row now w l j) = j_created_at j"
  "j_worker_id (claim_job_row now w l j) = Some w"
  "j_lease_until (claim_job_row now w l j) = Some (now + l * 1000000)"
  "j_status (claim_job_row now w l j) = ''running''"
  by (simp_all add: claim_job_row_def)

text \<open>The columns an update of a job row never writes.\<close>

definition keeps_job :: "(job_row \<Rightarrow> job_row) \<Rightarrow> bool" where
  "keeps_job f \<longleftrightarrow> (\<forall>j. j_id (f j) = j_id j \<and> j_tool_id (f j) = j_tool_id j
     \<and> j_revision (f j) = j_revision j \<and> j_idempotency_key (f j) = j_idempotency_key j)"

definition keeps_version :: "(version_row \<Rightarrow> version_row) \<Rightarrow> bool" where
  "keeps_version g \<longleftrightarrow> (\<forall>v. v_tool_id (g v) = v_tool_id v \<and> v_revision (g v) = v_revision v
     \<and> v_input_format (g v) = v_input_format v \<and> v_output_format (g v) = v_output_format v
     \<and> v_examples (g v) = v_examples v)"

lemma keeps_jobD:
  assumes "keeps_job f"
  shows "j_id (f j) = j_id j" "j_tool_id (f j) = j_tool_id j" "j_revision (f j) = j_revision j"
    "j_idempotency_key (f j) = j_idempotency_key j"
  using assms by (auto simp: keeps_job_def)

lemma keeps_versionD:
  assumes "keeps_version g"
  shows "v_tool_id (g v) = v_tool_id v" "v_revision (g v) = v_revision v" "v_key (g v) = v_key v"
    "v_input_format (g v) = v_input_format v" "v_output_format (g v) = v_output_format v"
    "v_examples (g v) = v_examples v"
  using assms by (auto simp: keeps_version_def v_key_def)

lemma keeps_version_rows [simp]:
  "keeps_version (publish_version_row now a)" "keeps_version (claim_version_row now)"
  by (simp_all add: keeps_version_def publish_version_row_def claim_version_row_def)

lemma keeps_claim [simp]: "keeps_job (claim_job_row now w l)"
  by (simp add: keeps_job_def)

lemma find_job_update [table_simps]:
  "keeps_job f \<Longrightarrow> find_job k' (update_job k f d) =
     (if k' = k then map_option f (find_job k d) else find_job k' d)"
  by (simp add: find_job_def update_job_def lookup_upd keeps_jobD)

lemma find_version_update [table_simps]:
  "keeps_version g \<Longrightarrow> find_version t r (update_version k g d) =
     (if (t, r) = k then map_option g (lookup v_key k (versions d)) else find_version t r d)"
  by (auto simp: find_version_def update_version_def lookup_upd keeps_versionD)

lemma find_frame [simp]:
  "find_job k (update_version kv g d) = find_job k d"
  "find_job k (set_stable_revision now tid s d) = find_job k d"
  "find_version t r (update_job k f d) = find_version t r d"
  "find_version t r (set_stable_revision now tid s d) = find_version t r d"
  "find_run k (update_job k' f d) = find_run k d"
  "find_run k (update_version kv g d) = find_run k d"
  "find_run k (set_stable_revision now tid s d) = find_run k d"
  "pending_inputs k (update_job k' f d) = pending_inputs k d"
  "pending_inputs k (update_version kv g d) = pending_inputs k d"
  "pending_inputs k (set_stable_revision now tid s d) = pending_inputs k d"
  by (simp_all add: find_defs statement_defs pending_inputs_def)

lemma tables_frame [simp]:
  "versions (update_job k f d) = versions d" "tools (update_job k f d) = tools d"
  "inputs (update_job k f d) = inputs d" "runs (update_job k f d) = runs d"
  "events (update_job k f d) = events d" "archives (update_job k f d) = archives d"
  "artifacts (update_job k f d) = artifacts d" "invocations (update_job k f d) = invocations d"
  "heartbeats (update_job k f d) = heartbeats d" "approvals (update_job k f d) = approvals d"
  "next_event_id (update_job k f d) = next_event_id d"
  "jobs (update_version kv g d) = jobs d" "tools (update_version kv g d) = tools d"
  "inputs (update_version kv g d) = inputs d" "runs (update_version kv g d) = runs d"
  "events (update_version kv g d) = events d" "archives (update_version kv g d) = archives d"
  "artifacts (update_version kv g d) = artifacts d"
  "invocations (update_version kv g d) = invocations d"
  "heartbeats (update_version kv g d) = heartbeats d"
  "approvals (update_version kv g d) = approvals d"
  "next_event_id (update_version kv g d) = next_event_id d"
  "jobs (set_stable_revision now tid s d) = jobs d"
  "versions (set_stable_revision now tid s d) = versions d"
  "inputs (set_stable_revision now tid s d) = inputs d"
  "runs (set_stable_revision now tid s d) = runs d"
  "events (set_stable_revision now tid s d) = events d"
  "archives (set_stable_revision now tid s d) = archives d"
  "artifacts (set_stable_revision now tid s d) = artifacts d"
  "invocations (set_stable_revision now tid s d) = invocations d"
  "heartbeats (set_stable_revision now tid s d) = heartbeats d"
  "approvals (set_stable_revision now tid s d) = approvals d"
  "next_event_id (set_stable_revision now tid s d) = next_event_id d"
  by (simp_all add: statement_defs)

lemma update_version_of_job_Some:
  "find_job k d = Some j \<Longrightarrow> update_version_of_job k g d = update_version (job_version j) g d"
  by (simp add: update_version_of_job_def)

lemma find_run_event [table_simps]:
  "find_run k' (insert_event now k kind p n d) =
     (if k' = k then map_option (\<lambda>r. r\<lparr>ar_trace_bytes := ar_trace_bytes r + n, ar_updated_at := now\<rparr>)
                       (find_run k d) else find_run k' d)"
  by (simp add: find_run_def insert_event_def lookup_upd)

lemma event_frame [simp]:
  "jobs (insert_event now k kind p n d) = jobs d"
  "versions (insert_event now k kind p n d) = versions d"
  "tools (insert_event now k kind p n d) = tools d"
  "inputs (insert_event now k kind p n d) = inputs d"
  "archives (insert_event now k kind p n d) = archives d"
  "artifacts (insert_event now k kind p n d) = artifacts d"
  "invocations (insert_event now k kind p n d) = invocations d"
  "heartbeats (insert_event now k kind p n d) = heartbeats d"
  "approvals (insert_event now k kind p n d) = approvals d"
  "find_job k' (insert_event now k kind p n d) = find_job k' d"
  "find_version t r (insert_event now k kind p n d) = find_version t r d"
  "pending_inputs k' (insert_event now k kind p n d) = pending_inputs k' d"
  by (simp_all add: insert_event_def find_defs pending_inputs_def)

lemma leased_jobE:
  assumes "leased_job k w d = Inr j"
  shows "find_job k d = Some j" "j_worker_id j = Some w" "j_status j = ''running''"
  using assms by (auto simp: leased_job_def leases_def split: option.splits if_splits)

lemma leased_job_Inl: "leased_job k w d = Inl e \<Longrightarrow> e = JobLeaseLost"
  by (auto simp: leased_job_def split: option.splits if_splits)

lemma ensure_job_ownerE:
  assumes "ensure_job_owner k w d = Inr u"
  obtains j where "find_job k d = Some j" "j_worker_id j = Some w"
    "j_status j = ''running'' \<or> j_status j = ''ready''"
  using assms by (auto simp: ensure_job_owner_def split: option.splits if_splits)

lemma pending_inputs_answer:
  "pending_inputs k (d\<lparr>inputs := answer_input_rows p now a (inputs d)\<rparr>) =
     filter (\<lambda>i. \<not> p i) (pending_inputs k d)"
proof -
  have "filter (\<lambda>i. i_job_id i = k \<and> i_status i = ''pending'') (answer_input_rows p now a rows) =
    filter (\<lambda>i. \<not> p i) (filter (\<lambda>i. i_job_id i = k \<and> i_status i = ''pending'') rows)" for rows
    by (induction rows) (auto simp: answer_input_rows_def)
  then show ?thesis by (simp add: pending_inputs_def)
qed

text \<open>Appending an event: nothing, or one event charged to the run of its job.\<close>

lemma append_event_cases:
  assumes "append_agent_event_in_transaction x now k kind payload limit d = Inr d'"
  obtains (run) r where "find_run k d = Some r"
    and "d' = d \<or> (\<exists>p n. d' = insert_event now k kind p n d \<and> n = payload_size_of x p
           \<and> n \<le> i64_saturating_sub limit (ar_trace_bytes r))"
proof -
  obtain p n where pn: "bounded_event_payload x payload = (p, n)" by fastforce
  then have n: "n = payload_size_of x p"
    by (auto simp: bounded_event_payload_def Let_def split: if_splits)
  from assms obtain r where r: "find_run k d = Some r"
    by (auto simp: append_agent_event_in_transaction_def pn split: option.splits)
  have "d' = d \<or> d' = insert_event now k kind p n d
          \<and> n \<le> i64_saturating_sub limit (ar_trace_bytes r)
      \<or> d' = insert_event now k kind omitted_payload (payload_size_of x omitted_payload) d
          \<and> payload_size_of x omitted_payload \<le> i64_saturating_sub limit (ar_trace_bytes r)"
    using assms r
    by (auto simp: append_agent_event_in_transaction_def pn Let_def split: if_splits)
  with n r that show ?thesis by blast
qed

lemma payload_size_nonneg: "0 \<le> payload_size_of x p"
  by (simp add: payload_size_of_def i32_max_def)

end
