(* ===== verification/Registry_Invariant.thy ===== *)
theory Registry_Invariant
  imports Registry_Tables
begin

text \<open>
  The invariant of the registry's tables: unique keys and references, a job and its version in matching
  states, leases exactly on running jobs, one pending question exactly on suspended jobs, the byte
  budget of the trace, and stable pointers that lead to a ready version with a stored artifact.
\<close>

section \<open>The invariant\<close>

definition keys_ok :: "db \<Rightarrow> bool" where
  "keys_ok d \<longleftrightarrow>
     distinct (map t_id (tools d)) \<and> distinct (map t_name (tools d)) \<and>
     distinct (map v_key (versions d)) \<and> distinct (map j_id (jobs d)) \<and>
     distinct (map j_idempotency_key (jobs d)) \<and> distinct (map job_version (jobs d)) \<and>
     distinct (map i_id (inputs d)) \<and> distinct (map ar_job_id (runs d)) \<and>
     distinct (map ta_job_id (archives d)) \<and> distinct (map af_digest (artifacts d)) \<and>
     distinct (map iv_id (invocations d)) \<and> distinct (map hb_worker_id (heartbeats d)) \<and>
     distinct (map ap_capability_hash (approvals d))"

definition working_stages :: "string list" where
  "working_stages = [''contract'', ''synthesizing'', ''building'', ''validating'', ''repairing'']"

definition working_statuses :: "string list" where
  "working_statuses = [''synthesizing'', ''building'', ''validating'']"

definition tool_ok :: "tool_row \<Rightarrow> bool" where
  "tool_ok t \<longleftrightarrow> 0 \<le> t_latest_revision t \<and> t_latest_revision t \<le> i64_max"

definition version_ok :: "db \<Rightarrow> version_row \<Rightarrow> bool" where
  "version_ok d v \<longleftrightarrow>
     (case lookup t_id (v_tool_id v) (tools d) of
        None \<Rightarrow> False
      | Some t \<Rightarrow> 1 \<le> v_revision v \<and> v_revision v \<le> t_latest_revision t) \<and>
     io_format_parse (v_input_format v) \<noteq> None \<and> io_format_parse (v_output_format v) \<noteq> None \<and>
     examples_from_value (v_examples v) \<noteq> None \<and>
     lookup job_version (v_key v) (jobs d) \<noteq> None"

definition input_ok :: "db \<Rightarrow> input_row \<Rightarrow> bool" where
  "input_ok d i \<longleftrightarrow>
     find_job (i_job_id i) d \<noteq> None \<and> job_input_kind_parse (i_kind i) \<noteq> None \<and>
     choices_from_value (i_choices i) \<noteq> None \<and> i_resume_stage i \<in> set working_stages \<and>
     (i_status i = ''pending'' \<or> i_status i = ''answered'' \<and> i_answer i \<noteq> None)"

definition run_ok :: "db \<Rightarrow> run_row \<Rightarrow> bool" where
  "run_ok d r \<longleftrightarrow> find_job (ar_job_id r) d \<noteq> None \<and> 0 \<le> ar_trace_bytes r"

definition refs_ok :: "db \<Rightarrow> bool" where
  "refs_ok d \<longleftrightarrow>
     (\<forall>t\<in>set (tools d). tool_ok t) \<and> (\<forall>v\<in>set (versions d). version_ok d v) \<and>
     (\<forall>i\<in>set (inputs d). input_ok d i) \<and> (\<forall>r\<in>set (runs d). run_ok d r)"

text \<open>The states of a job with those of its version.\<close>

definition coherent :: "string \<Rightarrow> string \<Rightarrow> string \<Rightarrow> bool" where
  "coherent status stage version_status \<longleftrightarrow>
     status = ''queued'' \<and> stage = ''queued'' \<and> version_status = ''draft'' \<or>
     (status = ''queued'' \<or> status = ''running'') \<and> stage \<in> set working_stages
       \<and> version_status \<in> set working_statuses \<or>
     status = ''awaiting_input'' \<and> stage = ''awaiting_input''
       \<and> version_status \<in> set working_statuses \<or>
     status = ''ready'' \<and> stage = ''complete''
       \<and> (version_status = ''ready'' \<or> version_status = ''revoked'') \<or>
     status = ''rejected'' \<and> stage = ''complete'' \<and> version_status = ''rejected''"

definition lease_ok :: "job_row \<Rightarrow> bool" where
  "lease_ok j \<longleftrightarrow>
     (j_status j = ''running'' \<longleftrightarrow> j_lease_until j \<noteq> None) \<and>
     (j_status j = ''running'' \<longrightarrow> j_worker_id j \<noteq> None) \<and>
     (j_status j = ''queued'' \<or> j_status j = ''awaiting_input'' \<longrightarrow> j_worker_id j = None)"

definition terminal :: "string \<Rightarrow> bool" where
  "terminal status \<longleftrightarrow> status = ''ready'' \<or> status = ''rejected''"

definition trace_budget :: "string \<Rightarrow> int" where
  "trace_budget status =
     (if terminal status then agent_trace_limit_bytes
      else agent_trace_limit_bytes - agent_terminal_event_reserve_bytes)"

definition budget_ok :: "db \<Rightarrow> job_row \<Rightarrow> bool" where
  "budget_ok d j \<longleftrightarrow>
     (case find_run (j_id j) d of None \<Rightarrow> True | Some r \<Rightarrow> ar_trace_bytes r \<le> trace_budget (j_status j))"

definition job_ok :: "db \<Rightarrow> job_row \<Rightarrow> bool" where
  "job_ok d j \<longleftrightarrow>
     (case find_version (j_tool_id j) (j_revision j) d of
        None \<Rightarrow> False
      | Some v \<Rightarrow> coherent (j_status j) (j_stage j) (v_status v)) \<and>
     lease_ok j \<and> 0 \<le> j_attempts j \<and> strings_from_value (j_input_samples j) \<noteq> None \<and>
     length (pending_inputs (j_id j) d) = (if j_status j = ''awaiting_input'' then 1 else 0) \<and>
     (j_status j = ''awaiting_input'' \<longrightarrow> find_run (j_id j) d \<noteq> None) \<and>
     budget_ok d j"

definition jobs_ok :: "db \<Rightarrow> bool" where
  "jobs_ok d \<longleftrightarrow> (\<forall>j\<in>set (jobs d). job_ok d j)"

definition stored_bytes :: "uuid \<Rightarrow> db \<Rightarrow> int" where
  "stored_bytes job_id d = sum_list (map ev_payload_size (filter (\<lambda>e. ev_job_id e = job_id) (events d)))"

definition trace_ok :: "db \<Rightarrow> bool" where
  "trace_ok d \<longleftrightarrow>
     (\<forall>r\<in>set (runs d). stored_bytes (ar_job_id r) d \<le> ar_trace_bytes r) \<and>
     (\<forall>e\<in>set (events d). 0 \<le> ev_payload_size e \<and> ev_id e < next_event_id d
        \<and> find_run (ev_job_id e) d \<noteq> None) \<and>
     sorted_wrt (\<lambda>a b. ev_id a < ev_id b) (events d)"

definition stable_ok :: "db \<Rightarrow> bool" where
  "stable_ok d \<longleftrightarrow>
     (\<forall>t\<in>set (tools d). case t_stable_revision t of
        None \<Rightarrow> True
      | Some r \<Rightarrow> map_option v_status (find_version (t_id t) r d) = Some ''ready'')"

definition artifacts_ok :: "db \<Rightarrow> bool" where
  "artifacts_ok d \<longleftrightarrow>
     (\<forall>v\<in>set (versions d). v_status v = ''ready'' \<longrightarrow>
        map_option (\<lambda>g. lookup af_digest g (artifacts d) \<noteq> None) (v_artifact_digest v) = Some True)"

definition registry_inv :: "db \<Rightarrow> bool" where
  "registry_inv d \<longleftrightarrow> keys_ok d \<and> refs_ok d \<and> jobs_ok d \<and> trace_ok d \<and> stable_ok d \<and> artifacts_ok d"

lemma invI:
  "keys_ok d \<Longrightarrow> refs_ok d \<Longrightarrow> jobs_ok d \<Longrightarrow> trace_ok d \<Longrightarrow> stable_ok d \<Longrightarrow> artifacts_ok d \<Longrightarrow> registry_inv d"
  by (simp add: registry_inv_def)

lemma invD:
  assumes "registry_inv d"
  shows "keys_ok d" "refs_ok d" "jobs_ok d" "trace_ok d" "stable_ok d" "artifacts_ok d"
  using assms by (simp_all add: registry_inv_def)

lemma inv_empty: "registry_inv empty_db"
  by (simp add: registry_inv_def keys_ok_def refs_ok_def jobs_ok_def trace_ok_def stable_ok_def
      artifacts_ok_def empty_db_def)

section \<open>Rows and lookups\<close>

lemma ball_upd:
  assumes "distinct (map key rows)" "\<And>r. r \<in> set rows \<Longrightarrow> key r \<noteq> k \<Longrightarrow> P r"
    and "\<And>r. lookup key k rows = Some r \<Longrightarrow> P (f r)"
  shows "\<forall>r\<in>set (upd key k f rows). P r"
proof
  fix r assume "r \<in> set (upd key k f rows)"
  then consider (new) q where "q \<in> set rows" "key q = k" "r = f q"
    | (old) "r \<in> set rows" "key r \<noteq> k"
    by (auto dest: set_updD)
  then show "P r"
  proof cases
    case new
    with lookup_mem [OF assms(1)] have "lookup key k rows = Some q" by blast
    with assms(3) new(3) show ?thesis by simp
  qed (simp add: assms(2))
qed

lemma find_job_iff: "keys_ok d \<Longrightarrow> find_job k d = Some j \<longleftrightarrow> j \<in> set (jobs d) \<and> j_id j = k"
  unfolding find_job_def by (rule lookup_iff) (simp add: keys_ok_def)

lemma find_version_iff:
  "keys_ok d \<Longrightarrow> find_version t r d = Some v \<longleftrightarrow> v \<in> set (versions d) \<and> v_key v = (t, r)"
  unfolding find_version_def by (rule lookup_iff) (simp add: keys_ok_def)

lemma find_run_iff: "keys_ok d \<Longrightarrow> find_run k d = Some r \<longleftrightarrow> r \<in> set (runs d) \<and> ar_job_id r = k"
  unfolding find_run_def by (rule lookup_iff) (simp add: keys_ok_def)

lemma same_job_version:
  assumes "keys_ok d" "j \<in> set (jobs d)" "j' \<in> set (jobs d)" "job_version j = job_version j'"
  shows "j = j'"
proof -
  from assms(1) have inj: "inj_on job_version (set (jobs d))"
    unfolding keys_ok_def distinct_map by blast
  show ?thesis by (rule inj_onD [OF inj assms(4,2,3)])
qed

lemma job_ok_of: "registry_inv d \<Longrightarrow> find_job k d = Some j \<Longrightarrow> job_ok d j"
  using invD(1,3) by (auto simp: jobs_ok_def find_job_iff)

lemma job_ok_version:
  assumes "job_ok d j"
  obtains v where "find_version (j_tool_id j) (j_revision j) d = Some v"
    "coherent (j_status j) (j_stage j) (v_status v)"
  using assms by (auto simp: job_ok_def split: option.splits)

end
