(* ===== verification/Registry_Keep.thy ===== *)
theory Registry_Keep
  imports Registry_Invariant
begin

text \<open>
  Which parts of the registry's invariant a single statement keeps, and the frame lemmas
  for the parts that tie a job to its version: an operation that changes one job leaves
  every other job, version and stable pointer valid.
\<close>

section \<open>Keys\<close>

lemma keys_update_job: "keeps_job f \<Longrightarrow> keys_ok (update_job k f d) = keys_ok d"
  by (simp add: keys_ok_def update_job_def map_key_upd keeps_jobD)

lemma keys_update_version: "keeps_version g \<Longrightarrow> keys_ok (update_version k g d) = keys_ok d"
  by (simp add: keys_ok_def update_version_def map_key_upd keeps_versionD)

lemma keys_set_stable: "keys_ok (set_stable_revision now tid s d) = keys_ok d"
  by (simp add: keys_ok_def set_stable_revision_def map_key_upd)

lemma keys_insert_event: "keys_ok (insert_event now k kind p n d) = keys_ok d"
  by (simp add: keys_ok_def insert_event_def map_key_upd)

lemma keys_answer_inputs:
  "keys_ok (d\<lparr>inputs := answer_input_rows p now a (inputs d)\<rparr>) = keys_ok d"
proof -
  have "map i_id (answer_input_rows p now a rows) = map i_id rows" for rows
    by (induction rows) (simp_all add: answer_input_rows_def)
  then show ?thesis by (simp add: keys_ok_def)
qed

lemma keys_insert_input:
  "insert_input now k st inp d = Inr d' \<Longrightarrow> keys_ok d \<Longrightarrow> keys_ok d'"
  by (auto simp: insert_input_def keys_ok_def lookup_None_image split: if_splits)

lemma keys_insert_artifact:
  "insert_artifact now a d = Inr d' \<Longrightarrow> keys_ok d \<Longrightarrow> keys_ok d'"
  by (auto simp: insert_artifact_def keys_ok_def distinct_insert_new split: if_splits)

lemma keys_append_event:
  "append_agent_event_in_transaction x now k kind p limit d = Inr d' \<Longrightarrow> keys_ok d' = keys_ok d"
  by (erule append_event_cases) (auto simp: keys_insert_event)

lemmas keys_keep = keys_update_job keys_update_version keys_set_stable keys_insert_event
  keys_answer_inputs

section \<open>References\<close>

lemma refs_update_job:
  assumes "refs_ok d" "keeps_job f"
  shows "refs_ok (update_job k f d)"
proof -
  have "find_job i (update_job k f d) = None \<longleftrightarrow> find_job i d = None" for i
    using assms(2) by (simp add: find_job_update)
  moreover have "lookup job_version kv (jobs (update_job k f d)) = None
      \<longleftrightarrow> lookup job_version kv (jobs d) = None" for kv
    unfolding lookup_None_image image_set
    using assms(2) by (simp add: update_job_def map_key_upd keeps_jobD del: set_map)
  ultimately show ?thesis
    using assms(1) by (simp add: refs_ok_def version_ok_def input_ok_def run_ok_def)
qed

lemma refs_update_version:
  assumes "refs_ok d" "keeps_version g"
  shows "refs_ok (update_version k g d)"
proof -
  have "version_ok d (g v) \<longleftrightarrow> version_ok d v" for v
    by (simp add: version_ok_def keeps_versionD [OF assms(2)] cong: option.case_cong)
  moreover have "\<forall>v\<in>set (versions d). version_ok d v"
    using assms(1) by (simp add: refs_ok_def)
  ultimately have "\<forall>v\<in>set (versions (update_version k g d)). version_ok d v"
    unfolding update_version_def by (auto dest!: set_updD)
  then show ?thesis
    using assms(1) by (simp add: refs_ok_def version_ok_def input_ok_def run_ok_def)
qed

lemma refs_set_stable:
  assumes "refs_ok d"
  shows "refs_ok (set_stable_revision now tid s d)"
proof -
  let ?f = "\<lambda>t. t\<lparr>t_stable_revision := s, t_updated_at := now\<rparr>"
  have look: "lookup t_id i (tools (set_stable_revision now tid s d)) =
      (if i = tid then map_option ?f (lookup t_id tid (tools d)) else lookup t_id i (tools d))" for i
    by (simp add: set_stable_revision_def lookup_upd)
  have "\<forall>v\<in>set (versions d). version_ok (set_stable_revision now tid s d) v"
    using assms by (auto simp: refs_ok_def version_ok_def look split: option.splits)
  moreover have "\<forall>t\<in>set (tools (set_stable_revision now tid s d)). tool_ok t"
    using assms by (auto simp: refs_ok_def set_stable_revision_def tool_ok_def dest!: set_updD)
  ultimately show ?thesis
    using assms by (simp add: refs_ok_def input_ok_def run_ok_def)
qed

lemma refs_insert_event:
  assumes "refs_ok d" "0 \<le> n"
  shows "refs_ok (insert_event now k kind p n d)"
  using assms
  by (auto simp: refs_ok_def version_ok_def input_ok_def run_ok_def insert_event_def find_job_def
      dest!: set_updD)

lemma refs_append_event:
  assumes "append_agent_event_in_transaction x now k kind p limit d = Inr d'" "refs_ok d"
  shows "refs_ok d'"
  using assms(1)
proof (rule append_event_cases)
qed (use assms(2) refs_insert_event payload_size_nonneg in auto)

lemma refs_answer_inputs:
  assumes "refs_ok d"
  shows "refs_ok (d\<lparr>inputs := answer_input_rows p now a (inputs d)\<rparr>)"
  using assms
  by (auto simp: refs_ok_def version_ok_def input_ok_def run_ok_def answer_input_rows_def
      find_job_def)

lemma refs_insert_input:
  assumes "insert_input now k st inp d = Inr d'" "refs_ok d" "find_job k d \<noteq> None"
    "st \<in> set working_stages"
  shows "refs_ok d'"
  using assms
  by (auto simp: insert_input_def refs_ok_def version_ok_def input_ok_def run_ok_def find_job_def
      split: if_splits)

lemma refs_insert_artifact:
  "insert_artifact now a d = Inr d' \<Longrightarrow> refs_ok d \<Longrightarrow> refs_ok d'"
  by (auto simp: insert_artifact_def refs_ok_def version_ok_def input_ok_def run_ok_def find_job_def
      split: if_splits)

lemmas refs_keep = refs_update_job refs_update_version refs_set_stable refs_answer_inputs

section \<open>The trace\<close>

lemma trace_frame:
  assumes "trace_ok d" "runs d' = runs d" "events d' = events d" "next_event_id d' = next_event_id d"
  shows "trace_ok d'"
  using assms by (simp add: trace_ok_def stored_bytes_def find_run_def)

lemma trace_insert_event:
  assumes t: "trace_ok d" and r: "find_run k d \<noteq> None" and n: "0 \<le> n"
  shows "trace_ok (insert_event now k kind p n d)"
proof -
  let ?d = "insert_event now k kind p n d"
  have stored: "stored_bytes i ?d = stored_bytes i d + (if i = k then n else 0)" for i
    by (simp add: stored_bytes_def insert_event_def)
  have "\<forall>q\<in>set (runs ?d). stored_bytes (ar_job_id q) ?d \<le> ar_trace_bytes q"
    using t unfolding stored
    by (auto simp: trace_ok_def insert_event_def dest!: set_updD)
  moreover have "\<forall>e\<in>set (events ?d). 0 \<le> ev_payload_size e \<and> ev_id e < next_event_id ?d
      \<and> find_run (ev_job_id e) ?d \<noteq> None"
    using t r n unfolding find_run_event by (auto simp: trace_ok_def insert_event_def less_Suc_eq)
  moreover have "sorted_wrt (\<lambda>a b. ev_id a < ev_id b) (events ?d)"
    using t by (auto simp: trace_ok_def insert_event_def sorted_wrt_append)
  ultimately show ?thesis by (simp add: trace_ok_def)
qed

lemma trace_append_event:
  assumes "append_agent_event_in_transaction x now k kind p limit d = Inr d'" "trace_ok d"
  shows "trace_ok d'"
  using assms(1)
proof (rule append_event_cases)
qed (use assms(2) trace_insert_event payload_size_nonneg in auto)

section \<open>Jobs, stable pointers and artifacts\<close>

text \<open>One job and its version change; every other job stays valid.\<close>

lemma jobs_ok_change:
  assumes inv: "keys_ok d" "jobs_ok d" and j: "find_job k d = Some j" and f: "keeps_job f"
    and jobs': "jobs d' = upd j_id k f (jobs d)"
    and versions': "\<And>t r. (t, r) \<noteq> job_version j \<Longrightarrow> find_version t r d' = find_version t r d"
    and pending': "\<And>i. i \<noteq> k \<Longrightarrow> pending_inputs i d' = pending_inputs i d"
    and runs': "\<And>i. i \<noteq> k \<Longrightarrow> find_run i d' = find_run i d"
    and new: "job_ok d' (f j)"
  shows "jobs_ok d'"
proof -
  have "\<forall>q\<in>set (upd j_id k f (jobs d)). job_ok d' q"
  proof (rule ball_upd)
    show "distinct (map j_id (jobs d))" using inv(1) by (simp add: keys_ok_def)
    show "job_ok d' (f q)" if "lookup j_id k (jobs d) = Some q" for q
      using that j new by (simp add: find_job_def)
    fix q assume q: "q \<in> set (jobs d)" "j_id q \<noteq> k"
    have "j \<in> set (jobs d)" "j_id j = k" using j inv(1) by (simp_all add: find_job_iff)
    then have "job_version q \<noteq> job_version j"
      using same_job_version [OF inv(1) q(1)] q(2) by blast
    then have "find_version (j_tool_id q) (j_revision q) d' = find_version (j_tool_id q) (j_revision q) d"
      by (rule versions')
    moreover have "job_ok d q" using inv(2) q(1) by (simp add: jobs_ok_def)
    ultimately show "job_ok d' q"
      using pending' [OF q(2)] runs' [OF q(2)] by (simp add: job_ok_def budget_ok_def)
  qed
  then show ?thesis by (simp add: jobs_ok_def jobs')
qed

lemma stable_ok_change:
  assumes "stable_ok d" "tools d' = tools d"
    and "\<And>t r. map_option v_status (find_version t r d) = Some ''ready'' \<Longrightarrow>
        map_option v_status (find_version t r d') = Some ''ready''"
  shows "stable_ok d'"
  using assms by (auto simp: stable_ok_def split: option.splits)

lemma artifacts_ok_update:
  assumes "artifacts_ok d"
    and "\<And>v. v \<in> set (versions d) \<Longrightarrow> v_status (g v) = ''ready'' \<Longrightarrow>
        v_status v = ''ready'' \<and> v_artifact_digest (g v) = v_artifact_digest v"
  shows "artifacts_ok (update_version k g d)"
  unfolding artifacts_ok_def
proof
  fix r assume "r \<in> set (versions (update_version k g d))"
  then consider (new) q where "q \<in> set (versions d)" "r = g q" | (old) "r \<in> set (versions d)"
    by (auto simp: update_version_def dest: set_updD)
  then show "v_status r = ''ready'' \<longrightarrow> map_option (\<lambda>h. lookup af_digest h
      (artifacts (update_version k g d)) \<noteq> None) (v_artifact_digest r) = Some True"
    by cases (use assms in \<open>auto simp: artifacts_ok_def\<close>)
qed

lemma artifacts_ok_frame:
  assumes "artifacts_ok d" "versions d' = versions d" "artifacts d' = artifacts d"
  shows "artifacts_ok d'"
  using assms by (simp add: artifacts_ok_def)

end
