(* ===== verification/Registry_Change.thy ===== *)
theory Registry_Change
  imports Registry_Keep
begin

text \<open>
  The change of one job with its version, the form most transactions of the registry have: the new
  rows must be coherent and the rest of the invariant follows.
\<close>

section \<open>One job changes\<close>

lemma coherent_simps [simp]:
  "coherent ''running'' st vs \<longleftrightarrow> st \<in> set working_stages \<and> vs \<in> set working_statuses"
  "coherent ''awaiting_input'' st vs \<longleftrightarrow> st = ''awaiting_input'' \<and> vs \<in> set working_statuses"
  "coherent ''ready'' st vs \<longleftrightarrow> st = ''complete'' \<and> (vs = ''ready'' \<or> vs = ''revoked'')"
  "coherent ''rejected'' st vs \<longleftrightarrow> st = ''complete'' \<and> vs = ''rejected''"
  "coherent ''queued'' st vs \<longleftrightarrow> st = ''queued'' \<and> vs = ''draft''
     \<or> st \<in> set working_stages \<and> vs \<in> set working_statuses"
  by (auto simp: coherent_def)

lemma terminal_simps [simp]:
  "terminal ''ready''" "terminal ''rejected''" "\<not> terminal ''running''" "\<not> terminal ''queued''"
  "\<not> terminal ''awaiting_input''"
  by (simp_all add: terminal_def)

lemma not_ready_working [simp]: "''ready'' \<notin> set working_statuses"
  by (simp add: working_statuses_def)

lemma coherent_status:
  "coherent s st vs \<Longrightarrow> s \<in> {''queued'', ''running'', ''awaiting_input'', ''ready'', ''rejected''}"
  by (auto simp: coherent_def)

lemma coherent_not_ready: "coherent s st vs \<Longrightarrow> s \<noteq> ''ready'' \<Longrightarrow> vs \<noteq> ''ready''"
  by (auto simp: coherent_def working_statuses_def)

lemma update_id [simp]:
  "update_job k (\<lambda>j. j) d = d" "update_version kv (\<lambda>v. v) d = d"
  by (simp_all add: update_job_def update_version_def upd_def)

lemma trace_budget_mono: "(terminal s \<Longrightarrow> terminal s') \<Longrightarrow> trace_budget s \<le> trace_budget s'"
  by (simp add: trace_budget_def agent_terminal_event_reserve_bytes_def)

definition change :: "uuid \<Rightarrow> job_row \<Rightarrow> (job_row \<Rightarrow> job_row) \<Rightarrow> (version_row \<Rightarrow> version_row)
    \<Rightarrow> input_row list \<Rightarrow> db \<Rightarrow> db" where
  "change k j f g ins d = (update_version (job_version j) g (update_job k f d))\<lparr>inputs := ins\<rparr>"

lemma change_frame [simp]:
  "runs (change k j f g ins d) = runs d" "events (change k j f g ins d) = events d"
  "tools (change k j f g ins d) = tools d" "artifacts (change k j f g ins d) = artifacts d"
  "next_event_id (change k j f g ins d) = next_event_id d"
  "inputs (change k j f g ins d) = ins" "find_run i (change k j f g ins d) = find_run i d"
  by (simp_all add: change_def find_run_def)

lemma change_core:
  assumes inv: "registry_inv d" and j: "find_job k d = Some j"
    and v: "find_version (j_tool_id j) (j_revision j) d = Some v"
    and f: "keeps_job f" and g: "keeps_version g"
    and ids: "distinct (map i_id ins)" and ok: "\<forall>i\<in>set ins. input_ok d i"
    and others: "\<And>i. i \<noteq> k \<Longrightarrow> pending_inputs i (d\<lparr>inputs := ins\<rparr>) = pending_inputs i d"
    and mine: "length (pending_inputs k (d\<lparr>inputs := ins\<rparr>)) =
      (if j_status (f j) = ''awaiting_input'' then 1 else 0)"
    and run: "j_status (f j) = ''awaiting_input'' \<Longrightarrow> find_run k d \<noteq> None"
    and coh: "coherent (j_status (f j)) (j_stage (f j)) (v_status (g v))"
    and lease: "lease_ok (f j)" and attempts: "0 \<le> j_attempts (f j)"
    and samples: "j_input_samples (f j) = j_input_samples j"
    and fin: "terminal (j_status j) \<Longrightarrow> terminal (j_status (f j))"
  shows "keys_ok (change k j f g ins d)" "refs_ok (change k j f g ins d)"
    "jobs_ok (change k j f g ins d)" "trace_ok (change k j f g ins d)"
proof -
  let ?d = "change k j f g ins d" and ?base = "update_version (job_version j) g (update_job k f d)"
  have k: "j_id j = k" using j invD(1) [OF inv] by (simp add: find_job_iff)
  have keys0: "keys_ok ?base"
    using invD(1) [OF inv] by (simp add: keys_update_version [OF g] keys_update_job [OF f])
  then have keys: "keys_ok ?d" using ids by (simp add: change_def keys_ok_def)
  have refs0: "refs_ok ?base"
    by (intro refs_update_version [OF _ g] refs_update_job [OF _ f] invD(2) [OF inv])
  have job_exists: "find_job i ?d = None \<longleftrightarrow> find_job i d = None" for i
    using find_job_update [OF f, of i k d] by (simp add: change_def find_job_def)
  have "input_ok ?d i \<longleftrightarrow> input_ok d i" for i
    unfolding input_ok_def job_exists ..
  with ok have "\<forall>i\<in>set ins. input_ok ?d i" by blast
  with refs0 have refs: "refs_ok ?d"
    by (simp add: refs_ok_def change_def version_ok_def run_ok_def find_job_def)
  have look: "find_version t r ?d = (if (t, r) = job_version j then Some (g v) else find_version t r d)" for t r
    using find_version_update [OF g, of t r "job_version j" "update_job k f d"] v
    by (simp add: change_def find_version_def)
  have pend: "pending_inputs i ?d = pending_inputs i (d\<lparr>inputs := ins\<rparr>)" for i
    by (simp add: pending_inputs_def)
  have budget: "budget_ok ?d (f j)"
    using job_ok_of [OF inv j] order_trans [OF _ trace_budget_mono [OF fin]]
    by (auto simp: job_ok_def budget_ok_def keeps_jobD [OF f] split: option.splits)
  have new: "job_ok ?d (f j)"
    using job_ok_of [OF inv j] coh lease attempts mine run budget samples
    by (simp add: job_ok_def look pend keeps_jobD [OF f] k)
  have jobs: "jobs_ok ?d"
  proof (rule jobs_ok_change [OF invD(1,3) [OF inv] j f _ _ _ _ new])
    show "jobs ?d = upd j_id k f (jobs d)" by (simp add: change_def update_job_def)
    show "find_version t r ?d = find_version t r d" if "(t, r) \<noteq> job_version j" for t r
      unfolding look if_not_P [OF that] ..
    show "pending_inputs i ?d = pending_inputs i d" if "i \<noteq> k" for i
      using others [OF that] pend by simp
  qed simp
  have trace: "trace_ok ?d"
    by (rule trace_frame [OF invD(4) [OF inv]]) simp_all
  show "keys_ok ?d" by (rule keys)
  show "refs_ok ?d" by (rule refs)
  show "jobs_ok ?d" by (rule jobs)
  show "trace_ok ?d" by (rule trace)
qed

text \<open>A version that is not ready, before and after, touches no stable pointer.\<close>

lemma change_stable:
  assumes inv: "registry_inv d" and v: "find_version (j_tool_id j) (j_revision j) d = Some v"
    and g: "keeps_version g" and nr: "v_status v \<noteq> ''ready''"
  shows "stable_ok (change k j f g ins d)"
proof (rule stable_ok_change [OF invD(5) [OF inv]])
  fix t r
  assume r: "map_option v_status (find_version t r d) = Some ''ready''"
  have "find_version t r (change k j f g ins d) =
      (if (t, r) = job_version j then map_option g (lookup v_key (job_version j) (versions d))
       else find_version t r d)"
    using find_version_update [OF g, of t r "job_version j" "update_job k f d"]
    by (simp add: change_def find_version_def)
  moreover have "\<not> (t = j_tool_id j \<and> r = j_revision j)" using r nr v by auto
  ultimately show "map_option v_status (find_version t r (change k j f g ins d)) = Some ''ready''"
    using r by auto
qed simp

lemma change_artifacts:
  assumes inv: "registry_inv d" and v: "find_version (j_tool_id j) (j_revision j) d = Some v"
    and g: "keeps_version g" and nr: "v_status (g v) \<noteq> ''ready''"
  shows "artifacts_ok (change k j f g ins d)"
proof -
  have "\<forall>r\<in>set (upd v_key (job_version j) g (versions d)). v_status r = ''ready'' \<longrightarrow>
      map_option (\<lambda>h. lookup af_digest h (artifacts d) \<noteq> None) (v_artifact_digest r) = Some True"
  proof (rule ball_upd)
    show "distinct (map v_key (versions d))" using invD(1) [OF inv] by (simp add: keys_ok_def)
    fix r assume "lookup v_key (job_version j) (versions d) = Some r"
    with v nr show "v_status (g r) = ''ready'' \<longrightarrow> map_option (\<lambda>h. lookup af_digest h (artifacts d)
        \<noteq> None) (v_artifact_digest (g r)) = Some True"
      by (simp add: find_version_def)
  qed (use invD(6) [OF inv] in \<open>simp add: artifacts_ok_def\<close>)
  then show ?thesis by (simp add: artifacts_ok_def change_def update_version_def)
qed

lemma change_inv:
  assumes "registry_inv d" "find_job k d = Some j" "find_version (j_tool_id j) (j_revision j) d = Some v"
    "keeps_job f" "keeps_version g"
    "distinct (map i_id ins)" "\<forall>i\<in>set ins. input_ok d i"
    "\<And>i. i \<noteq> k \<Longrightarrow> pending_inputs i (d\<lparr>inputs := ins\<rparr>) = pending_inputs i d"
    "length (pending_inputs k (d\<lparr>inputs := ins\<rparr>)) = (if j_status (f j) = ''awaiting_input'' then 1 else 0)"
    "j_status (f j) = ''awaiting_input'' \<Longrightarrow> find_run k d \<noteq> None"
    "coherent (j_status (f j)) (j_stage (f j)) (v_status (g v))" "lease_ok (f j)"
    "0 \<le> j_attempts (f j)" "j_input_samples (f j) = j_input_samples j"
    "terminal (j_status j) \<Longrightarrow> terminal (j_status (f j))"
    "v_status v \<noteq> ''ready''" "v_status (g v) \<noteq> ''ready''"
  shows "registry_inv (change k j f g ins d)"
  by (rule invI [OF change_core [OF assms(1-15)] change_stable [OF assms(1,3,5,16)]
        change_artifacts [OF assms(1,3,5,17)]])

text \<open>The same when no question is asked or answered.\<close>

lemma change_inv_same:
  assumes inv: "registry_inv d" and j: "find_job k d = Some j"
    and v: "find_version (j_tool_id j) (j_revision j) d = Some v"
    and "keeps_job f" "keeps_version g"
    and aw: "j_status (f j) = ''awaiting_input'' \<longleftrightarrow> j_status j = ''awaiting_input''"
    and "coherent (j_status (f j)) (j_stage (f j)) (v_status (g v))" "lease_ok (f j)"
    "0 \<le> j_attempts (f j)" "j_input_samples (f j) = j_input_samples j"
    "terminal (j_status j) \<Longrightarrow> terminal (j_status (f j))"
    "v_status v \<noteq> ''ready''" "v_status (g v) \<noteq> ''ready''"
  shows "registry_inv (update_version (job_version j) g (update_job k f d))"
proof -
  have "registry_inv (change k j f g (inputs d) d)"
    using assms job_ok_of [OF inv j] invD(1,2) [OF inv]
    by (intro change_inv) (auto simp: job_ok_def keys_ok_def refs_ok_def find_job_iff)
  moreover have "change k j f g (inputs d) d = update_version (job_version j) g (update_job k f d)"
    by (simp add: change_def update_version_def update_job_def)
  ultimately show ?thesis by simp
qed

end
