(* ===== verification/Registry_Events.thy ===== *)
theory Registry_Events
  imports Registry_Change
begin

text \<open>
  Appending events within the budget of the trace and saving checkpoints keep the registry's
  invariant.
\<close>

section \<open>Events and checkpoints\<close>

lemma saturating_sub_bound:
  assumes "0 \<le> n" "n \<le> i64_saturating_sub limit t" "0 \<le> t" "limit \<le> agent_trace_limit_bytes"
  shows "t + n \<le> limit"
  using assms
  by (auto simp: i64_saturating_sub_def agent_trace_limit_bytes_def i64_min_def i64_max_def
      max_def min_def split: if_splits)

lemma inv_append_event:
  assumes inv: "registry_inv d" and j: "find_job k d = Some j"
    and a: "append_agent_event_in_transaction x now k kind p limit d = Inr d'"
    and limit: "limit \<le> trace_budget (j_status j)"
  shows "registry_inv d'"
proof -
  from a obtain r where r: "find_run k d = Some r" and "d' = d \<or> (\<exists>p n. d' = insert_event now k kind p n d
      \<and> n = payload_size_of x p \<and> n \<le> i64_saturating_sub limit (ar_trace_bytes r))"
    by (rule append_event_cases)
  then consider "d' = d" | p' n where "d' = insert_event now k kind p' n d" "0 \<le> n"
      "n \<le> i64_saturating_sub limit (ar_trace_bytes r)"
    using payload_size_nonneg by blast
  then show ?thesis
  proof cases
    case 1 with inv show ?thesis by simp
  next
    case 2
    have k: "j_id j = k" using j invD(1) [OF inv] by (simp add: find_job_iff)
    have "0 \<le> ar_trace_bytes r"
      using r invD(1,2) [OF inv] by (auto simp: refs_ok_def run_ok_def find_run_iff)
    moreover have "limit \<le> agent_trace_limit_bytes"
      using limit by (auto simp: trace_budget_def agent_terminal_event_reserve_bytes_def split: if_splits)
    ultimately have bytes: "ar_trace_bytes r + n \<le> trace_budget (j_status j)"
      using saturating_sub_bound 2(2,3) limit by (meson order_trans)
    show ?thesis
    proof (rule invI)
      show "keys_ok d'" using 2 keys_insert_event invD(1) [OF inv] by simp
      show "refs_ok d'" using 2 refs_insert_event [OF invD(2) [OF inv]] by simp
      show "trace_ok d'" using 2 trace_insert_event [OF invD(4) [OF inv]] r by simp
      show "stable_ok d'" by (rule stable_ok_change [OF invD(5) [OF inv]]) (simp_all add: 2)
      show "artifacts_ok d'" by (rule artifacts_ok_frame [OF invD(6) [OF inv]]) (simp_all add: 2)
      have new: "job_ok d' j"
        using job_ok_of [OF inv j] bytes r
        by (simp add: job_ok_def budget_ok_def 2 find_run_event k)
      show "jobs_ok d'"
      proof (rule jobs_ok_change [OF invD(1,3) [OF inv] j, of "\<lambda>j. j"])
        show "jobs d' = upd j_id k (\<lambda>j. j) (jobs d)" by (simp add: 2 upd_def)
      qed (use new in \<open>simp_all add: keeps_job_def 2 find_run_event\<close>)
    qed
  qed
qed

lemma append_event_run:
  "append_agent_event_in_transaction x now k kind p limit d = Inr d' \<Longrightarrow> find_run k d \<noteq> None"
  by (erule append_event_cases) simp

lemma append_event_update_job:
  "append_agent_event_in_transaction x now k kind p limit d = Inr d' \<Longrightarrow>
   append_agent_event_in_transaction x now k kind p limit (update_job i f d) = Inr (update_job i f d')"
  by (auto simp: append_agent_event_in_transaction_def Let_def insert_event_def update_job_def
      split: prod.splits option.splits if_splits)
    (simp_all add: find_run_def)

lemma inv_append_agent_event:
  assumes "append_agent_event x now k w kind p d = Inr (u, d')" "registry_inv d"
  shows "registry_inv d'"
proof -
  from assms(1) obtain o1 where own: "ensure_job_owner k w d = Inr o1"
    and a: "append_agent_event_in_transaction x now k kind p
      (agent_trace_limit_bytes - agent_terminal_event_reserve_bytes) d = Inr d'"
    by (auto simp: append_agent_event_def rbind_Inr_iff)
  from own obtain j where j: "find_job k d = Some j" by (rule ensure_job_ownerE)
  show ?thesis
    by (rule inv_append_event [OF assms(2) j a])
      (simp add: trace_budget_def agent_terminal_event_reserve_bytes_def)
qed

lemma stored_bytes_absent:
  assumes "trace_ok d" "find_run k d = None"
  shows "stored_bytes k d = 0"
proof -
  have "filter (\<lambda>e. ev_job_id e = k) (events d) = []"
    using assms by (auto simp: trace_ok_def filter_empty_conv)
  then show ?thesis by (simp add: stored_bytes_def)
qed

lemma inv_save_checkpoint:
  assumes s: "save_agent_checkpoint now k w engine version checkpoint d = Inr (u, d')"
    and inv: "registry_inv d"
  shows "registry_inv d'"
proof -
  let ?f = "\<lambda>r. r\<lparr>ar_engine := engine, ar_engine_version := version, ar_checkpoint := checkpoint,
                  ar_updated_at := now\<rparr>"
  let ?new = "\<lparr>ar_job_id = k, ar_engine = engine, ar_engine_version = version,
               ar_checkpoint = checkpoint, ar_trace_bytes = 0, ar_created_at = now,
               ar_updated_at = now\<rparr>"
  from s obtain j where j: "find_job k d = Some j"
    and d': "d' = d\<lparr>runs := upsert ar_job_id k ?f ?new (runs d)\<rparr>"
    by (auto simp: save_agent_checkpoint_def rbind_Inr_iff elim: ensure_job_ownerE)
  have run: "find_run i d' = (if i = k then Some (case find_run k d of None \<Rightarrow> ?new | Some r \<Rightarrow> ?f r)
      else find_run i d)" for i
    by (simp add: d' find_run_def lookup_upsert)
  have bytes: "map_option ar_trace_bytes (find_run i d') =
      (if i = k then Some (case find_run k d of None \<Rightarrow> 0 | Some r \<Rightarrow> ar_trace_bytes r)
       else map_option ar_trace_bytes (find_run i d))" for i
    by (auto simp: run split: option.splits)
  have keys: "keys_ok d'"
    using invD(1) [OF inv] by (simp add: d' keys_ok_def distinct_upsert)
  have frame: "find_job i d' = find_job i d" "find_version t v d' = find_version t v d"
      "pending_inputs i d' = pending_inputs i d" for i t v
    by (simp_all add: d' find_defs pending_inputs_def)
  have row: "\<exists>q. find_run (ar_job_id r) d' = Some r \<and>
      ar_trace_bytes r = (if ar_job_id r = k then (case find_run k d of None \<Rightarrow> 0 | Some q \<Rightarrow> ar_trace_bytes q)
                          else ar_trace_bytes q) \<and> (ar_job_id r \<noteq> k \<longrightarrow> find_run (ar_job_id r) d = Some q)"
    if "r \<in> set (runs d')" for r
  proof -
    have "find_run (ar_job_id r) d' = Some r" using that keys by (simp add: find_run_iff)
    with bytes [of "ar_job_id r"] run [of "ar_job_id r"] show ?thesis
      by (cases "ar_job_id r = k") auto
  qed
  have refs: "refs_ok d'"
  proof -
    have "run_ok d' r" if "r \<in> set (runs d')" for r
      using row [OF that] invD(1,2) [OF inv] j
      by (auto simp: run_ok_def frame refs_ok_def find_run_iff split: if_splits option.splits)
    then show ?thesis
      using invD(2) [OF inv] by (simp add: refs_ok_def version_ok_def input_ok_def frame) (simp add: d')
  qed
  have trace: "trace_ok d'"
  proof -
    have st: "stored_bytes i d' = stored_bytes i d" for i by (simp add: d' stored_bytes_def)
    have "stored_bytes (ar_job_id r) d' \<le> ar_trace_bytes r" if "r \<in> set (runs d')" for r
      using row [OF that] invD(1,4) [OF inv] stored_bytes_absent [OF invD(4) [OF inv], of k]
      by (auto simp: st trace_ok_def find_run_iff split: if_splits option.splits)
    moreover have "find_run i d' \<noteq> None" if "find_run i d \<noteq> None" for i
      using that by (simp add: run)
    ultimately show ?thesis
      using invD(4) [OF inv] by (simp add: trace_ok_def) (simp add: d')
  qed
  have "job_ok d' q" if "q \<in> set (jobs d)" for q
  proof -
    have "job_ok d q" using that invD(3) [OF inv] by (simp add: jobs_ok_def)
    moreover have "0 \<le> trace_budget s" for s
      by (simp add: trace_budget_def agent_trace_limit_bytes_def agent_terminal_event_reserve_bytes_def)
    ultimately show ?thesis
      by (auto simp: job_ok_def budget_ok_def frame run split: option.splits)
  qed
  then have "jobs_ok d'" by (simp add: jobs_ok_def d')
  moreover have "stable_ok d'"
    by (rule stable_ok_change [OF invD(5) [OF inv]]) (simp_all add: frame, simp add: d')
  moreover have "artifacts_ok d'"
    by (rule artifacts_ok_frame [OF invD(6) [OF inv]]) (simp_all add: d')
  ultimately show ?thesis using keys refs trace by (simp add: registry_inv_def)
qed

end
