(* ===== verification/Registry_Preserve.thy ===== *)
theory Registry_Preserve
  imports Registry_Events
begin

text \<open>
  The operations of a worker on its job keep the registry's invariant: staging, suspending, rejecting,
  saving a contract; then claiming a job and answering its question.
\<close>

section \<open>Operations of the worker that holds the lease\<close>

lemma leased_facts:
  assumes inv: "registry_inv d" and l: "leased_job k w d = Inr j"
  obtains v where "find_job k d = Some j" "j_id j = k" "j_worker_id j = Some w"
    "j_status j = ''running''" "find_version (j_tool_id j) (j_revision j) d = Some v"
    "j_stage j \<in> set working_stages" "v_status v \<in> set working_statuses" "v_status v \<noteq> ''ready''"
    "job_ok d j" "lease_ok j" "0 \<le> j_attempts j"
proof -
  note j = leased_jobE [OF l]
  have ok: "job_ok d j" by (rule job_ok_of [OF inv j(1)])
  then obtain v where v: "find_version (j_tool_id j) (j_revision j) d = Some v"
    "coherent (j_status j) (j_stage j) (v_status v)" by (rule job_ok_version)
  moreover have "j_id j = k" using j(1) invD(1) [OF inv] by (simp add: find_job_iff)
  moreover have "v_status v \<noteq> ''ready''" using v(2) j(3) by (auto simp: working_statuses_def)
  ultimately show ?thesis using that j ok by (simp add: job_ok_def)
qed

lemma inv_renew:
  assumes "renew_job_lease now k w l d = Inr (u, d')" and inv: "registry_inv d"
  shows "registry_inv d'"
proof -
  let ?f = "\<lambda>j. j\<lparr>j_lease_until := Some (now + l * 1000000), j_updated_at := now\<rparr>"
  from assms(1) obtain j where l: "leased_job k w d = Inr j" and d': "d' = update_job k ?f d"
    by (auto simp: renew_job_lease_def rbind_Inr_iff)
  from leased_facts [OF inv l] obtain v where facts: "find_job k d = Some j" "j_worker_id j = Some w"
    "j_status j = ''running''" "find_version (j_tool_id j) (j_revision j) d = Some v"
    "j_stage j \<in> set working_stages" "v_status v \<in> set working_statuses" "v_status v \<noteq> ''ready''"
    "lease_ok j" "0 \<le> j_attempts j" by metis
  have "registry_inv (update_version (job_version j) (\<lambda>v. v) (update_job k ?f d))"
    by (rule change_inv_same [OF inv facts(1,4)])
      (use facts in \<open>simp_all add: keeps_job_def keeps_version_def lease_ok_def\<close>)
  with d' show ?thesis by simp
qed

lemma stage_coherent:
  "stage_version_status stage = Some vs \<Longrightarrow>
     job_stage_as_str stage \<in> set working_stages \<and> vs \<in> set working_statuses"
  by (cases stage) (auto simp: working_stages_def working_statuses_def)

lemma inv_set_job_stage:
  assumes "set_job_stage now k w stage d = Inr (u, d')" and inv: "registry_inv d"
    and stage: "stage_version_status stage \<noteq> None"
  shows "registry_inv d'"
proof -
  obtain vs where vs: "stage_version_status stage = Some vs" using stage by blast
  let ?f = "\<lambda>j. j\<lparr>j_stage := job_stage_as_str stage, j_lease_until := Some (now + 300 * 1000000),
                  j_updated_at := now\<rparr>"
  let ?g = "\<lambda>v. v\<lparr>v_status := vs, v_updated_at := now\<rparr>"
  from assms(1) obtain j where l: "leased_job k w d = Inr j"
    and d': "d' = set_job_stage_version now k stage (update_job k ?f d)"
    by (auto simp: set_job_stage_def set_job_stage_job_def rbind_Inr_iff)
  from leased_facts [OF inv l] obtain v where facts: "find_job k d = Some j" "j_worker_id j = Some w"
    "j_status j = ''running''" "find_version (j_tool_id j) (j_revision j) d = Some v"
    "v_status v \<noteq> ''ready''" "lease_ok j" "0 \<le> j_attempts j" by metis
  have keeps: "keeps_job ?f" by (simp add: keeps_job_def)
  have "d' = update_version (job_version j) ?g (update_job k ?f d)"
    using find_job_update [OF keeps, of k k d] facts(1)
    by (simp add: d' set_job_stage_version_def vs update_version_of_job_def)
  moreover have "registry_inv (update_version (job_version j) ?g (update_job k ?f d))"
    by (rule change_inv_same [OF inv facts(1,4) keeps])
      (use facts stage_coherent [OF vs] in
        \<open>auto simp: keeps_version_def lease_ok_def working_statuses_def\<close>)
  ultimately show ?thesis by simp
qed

lemma inv_save_contract:
  assumes "save_contract x now k w contract assumptions d = Inr (u, d')" and inv: "registry_inv d"
  shows "registry_inv d'"
proof -
  from assms(1) obtain j description where l: "leased_job k w d = Inr j"
    and d': "d' = update_version (job_version j)
           (\<lambda>v. v\<lparr>v_contract := Some contract, v_description := description,
                  v_assumptions := strings_to_value assumptions, v_updated_at := now\<rparr>) d"
    by (auto simp: save_contract_def rbind_Inr_iff split: option.splits)
  from leased_facts [OF inv l] obtain v where facts: "find_job k d = Some j" "j_worker_id j = Some w"
    "j_status j = ''running''" "find_version (j_tool_id j) (j_revision j) d = Some v"
    "j_stage j \<in> set working_stages" "v_status v \<in> set working_statuses" "v_status v \<noteq> ''ready''"
    "lease_ok j" "0 \<le> j_attempts j" by metis
  have "registry_inv (update_version (job_version j) (\<lambda>v. v\<lparr>v_contract := Some contract,
      v_description := description, v_assumptions := strings_to_value assumptions,
      v_updated_at := now\<rparr>) (update_job k (\<lambda>j. j) d))"
    by (rule change_inv_same [OF inv facts(1,4)])
      (use facts in \<open>simp_all add: keeps_job_def keeps_version_def\<close>)
  with d' show ?thesis by simp
qed

lemma inv_reject_job:
  assumes "reject_job now k w code message details d = Inr (u, d')" and inv: "registry_inv d"
  shows "registry_inv d'"
proof -
  let ?f = "\<lambda>j. j\<lparr>j_status := ''rejected'', j_stage := ''complete'', j_error_code := Some code,
                 j_error_message := Some message, j_details := details, j_lease_until := None,
                 j_updated_at := now\<rparr>"
  let ?g = "\<lambda>v. v\<lparr>v_status := ''rejected'', v_error_code := Some code,
                 v_error_message := Some message, v_updated_at := now\<rparr>"
  from assms(1) obtain j where l: "leased_job k w d = Inr j"
    and d': "d' = update_version_of_job k ?g (update_job k ?f d)"
    by (auto simp: reject_job_def rbind_Inr_iff)
  from leased_facts [OF inv l] obtain v where facts: "find_job k d = Some j"
    "j_status j = ''running''" "find_version (j_tool_id j) (j_revision j) d = Some v"
    "v_status v \<noteq> ''ready''" "0 \<le> j_attempts j" by metis
  have keeps: "keeps_job ?f" by (simp add: keeps_job_def)
  have "d' = update_version (job_version j) ?g (update_job k ?f d)"
    using find_job_update [OF keeps, of k k d] facts(1) by (simp add: d' update_version_of_job_def)
  moreover have "registry_inv (update_version (job_version j) ?g (update_job k ?f d))"
    by (rule change_inv_same [OF inv facts(1,3) keeps])
      (use facts in \<open>auto simp: keeps_version_def lease_ok_def\<close>)
  ultimately show ?thesis by simp
qed

section \<open>Claiming\<close>

lemma claim_candidate_facts:
  assumes "claim_candidate now locked d = Some j"
  shows "j \<in> set (jobs d)" "claimable now j" "\<not> locked (j_id j)"
proof -
  obtain rest where eq: "sort_by (\<lambda>a b. j_created_at a \<le> j_created_at b)
      (filter (\<lambda>j. claimable now j \<and> \<not> locked (j_id j)) (jobs d)) = j # rest"
    using assms by (auto simp: claim_candidate_def split: list.splits)
  have "j \<in> set (sort_by (\<lambda>a b. j_created_at a \<le> j_created_at b)
      (filter (\<lambda>j. claimable now j \<and> \<not> locked (j_id j)) (jobs d)))"
    unfolding eq by simp
  then show "j \<in> set (jobs d)" "claimable now j" "\<not> locked (j_id j)" by simp_all
qed

lemma claim_coherent:
  assumes "coherent (j_status j) (j_stage j) (v_status v)" "claimable now j"
  shows "j_stage (claim_job_row now w l j) \<in> set working_stages"
    and "v_status (claim_version_row now v) \<in> set working_statuses" and "v_status v \<noteq> ''ready''"
proof -
  have "j_status j = ''queued'' \<or> j_status j = ''running''"
    using assms(2) by (auto simp: claimable_def)
  then show "j_stage (claim_job_row now w l j) \<in> set working_stages"
    and "v_status (claim_version_row now v) \<in> set working_statuses" and "v_status v \<noteq> ''ready''"
    using assms(1)
    by (auto simp: claim_job_row_def claim_version_row_def working_statuses_def working_stages_def)
qed

lemma inv_claim:
  assumes c: "claim_synthesis_job x now locked w l d = Inr (r, d')" and inv: "registry_inv d"
  shows "registry_inv d'"
proof (cases "claim_candidate now locked d")
  case None
  with c inv show ?thesis by (simp add: claim_synthesis_job_def)
next
  case (Some j)
  let ?f = "claim_job_row now w l" and ?g = "claim_version_row now"
  note cand = claim_candidate_facts [OF Some]
  have j: "find_job (j_id j) d = Some j" using cand(1) invD(1) [OF inv] by (simp add: find_job_iff)
  from job_ok_of [OF inv j] obtain v where
    v: "find_version (j_tool_id j) (j_revision j) d = Some v"
       "coherent (j_status j) (j_stage j) (v_status v)" by (rule job_ok_version)
  note coh = claim_coherent [OF v(2) cand(2)]
  have d': "d' = update_version (job_version j) ?g (update_job (j_id j) ?f d)"
    using c Some find_job_update [OF keeps_claim, of "j_id j" "j_id j" now w l d] j
    by (auto simp: claim_synthesis_job_def Let_def rbind_Inr_iff update_version_of_job_def
        split: if_splits)
  have st: "j_status j = ''queued'' \<or> j_status j = ''running''"
    using cand(2) by (auto simp: claimable_def)
  have "0 \<le> j_attempts (?f j)"
    using job_ok_of [OF inv j] by (simp add: job_ok_def claim_job_row_def)
  moreover have "v_status (?g v) \<noteq> ''ready''" using coh(2) not_ready_working by metis
  ultimately have "registry_inv (update_version (job_version j) ?g (update_job (j_id j) ?f d))"
    using st coh by (intro change_inv_same [OF inv j v(1)])
      (auto simp: lease_ok_def claim_job_row_def)
  with d' show ?thesis by simp
qed

section \<open>Questions\<close>

lemma find_inputs_frame [simp]:
  "find_job i (d\<lparr>inputs := ins\<rparr>) = find_job i d" "find_run i (d\<lparr>inputs := ins\<rparr>) = find_run i d"
  by (simp_all add: find_defs)

lemma pending_append:
  "pending_inputs i (d\<lparr>inputs := inputs d @ [q]\<rparr>) =
     pending_inputs i d @ (if i_job_id q = i \<and> i_status q = ''pending'' then [q] else [])"
  by (simp add: pending_inputs_def)

lemma inv_suspend:
  assumes s: "suspend_job_for_input x now k w inp d = Inr (r, d')" and inv: "registry_inv d"
  shows "registry_inv d'"
proof -
  let ?f = "\<lambda>j. j\<lparr>j_status := ''awaiting_input'', j_stage := ''awaiting_input'',
                 j_worker_id := None, j_lease_until := None, j_updated_at := now\<rparr>"
  from s obtain j where l: "leased_job k w d = Inr j"
    by (auto simp: suspend_job_for_input_def rbind_Inr_iff)
  from leased_facts [OF inv l] obtain v where facts: "find_job k d = Some j" "j_id j = k"
    "j_status j = ''running''" "find_version (j_tool_id j) (j_revision j) d = Some v"
    "j_stage j \<in> set working_stages" "v_status v \<in> set working_statuses" "v_status v \<noteq> ''ready''"
    "job_ok d j" "0 \<le> j_attempts j" by metis
  show ?thesis
  proof (cases "find (\<lambda>i. i_job_id i = k \<and> i_agent_call_id i = ni_agent_call_id inp) (inputs d)")
    case (Some i)
    with s l inv show ?thesis
      by (simp add: suspend_job_for_input_def Let_def split: if_splits)
  next
    case None
    with s l obtain kind p base ev where ins: "insert_input now k (j_stage j) inp d = Inr base"
      and ev: "append_agent_event_in_transaction x now k kind p
        (agent_trace_limit_bytes - agent_terminal_event_reserve_bytes) base = Inr ev"
      and d': "d' = update_job k ?f ev"
      by (auto simp: suspend_job_for_input_def Let_def rbind_Inr_iff split: if_splits)
    define q where "q = \<lparr>i_id = ni_id inp, i_job_id = k, i_agent_call_id = ni_agent_call_id inp,
      i_kind = job_input_kind_as_str (ni_kind inp), i_prompt = ni_prompt inp,
      i_choices = choices_to_value (ni_choices inp), i_context = ni_context inp,
      i_resume_stage = j_stage j, i_status = ''pending'', i_answer = None,
      i_created_at = now, i_answered_at = None\<rparr>"
    have base: "base = d\<lparr>inputs := inputs d @ [q]\<rparr>" and fresh: "lookup i_id (i_id q) (inputs d) = None"
      and none: "pending_inputs k d = []"
      using ins by (auto simp: insert_input_def q_def split: if_splits)
    have run: "find_run k d \<noteq> None"
      using append_event_run [OF ev] by (simp add: base)
    have "update_job k ?f base = change k j ?f (\<lambda>v. v) (inputs d @ [q]) d"
      by (simp add: change_def base update_job_def)
    moreover have "registry_inv (change k j ?f (\<lambda>v. v) (inputs d @ [q]) d)"
    proof (rule change_inv [OF inv facts(1,4)])
      show "\<forall>i\<in>set (inputs d @ [q]). input_ok d i"
        using invD(2) [OF inv] facts(1,5) by (auto simp: refs_ok_def input_ok_def q_def)
      show "distinct (map i_id (inputs d @ [q]))"
        using invD(1) [OF inv] fresh by (auto simp: keys_ok_def lookup_None_image)
    qed (use facts none run in \<open>simp_all add: pending_append keeps_job_def keeps_version_def
          lease_ok_def q_def\<close>)
    ultimately have "registry_inv (update_job k ?f base)" by simp
    moreover have "find_job k (update_job k ?f base) = Some (?f j)"
      using facts(1) by (simp add: find_job_update keeps_job_def base)
    moreover note append_event_update_job [OF ev, of k ?f]
    ultimately show ?thesis
      unfolding d' by (rule inv_append_event) (simp add: trace_budget_def)
  qed
qed

lemma answer_rows_ids [simp]: "map i_id (answer_input_rows p now a rows) = map i_id rows"
  by (induction rows) (simp_all add: answer_input_rows_def)

lemma answer_rows_ok:
  "\<forall>i\<in>set rows. input_ok d i \<Longrightarrow> \<forall>i\<in>set (answer_input_rows p now a rows). input_ok d i"
  by (auto simp: answer_input_rows_def input_ok_def)

lemma inv_answer:
  assumes s: "answer_job_input_tx x now k request d = Inr (u, d')" and inv: "registry_inv d"
  shows "registry_inv d'"
proof -
  from s obtain i kind base where
    find: "find (\<lambda>i'. i_id i' = i_id i \<and> i_job_id i' = k \<and> i_status i' = ''pending''
      \<and> map_option j_status (find_job k d) = Some ''awaiting_input'') (inputs d) = Some i"
    and base: "base = update_job k (\<lambda>j. j\<lparr>j_status := ''queued'', j_stage := i_resume_stage i,
        j_available_at := now, j_worker_id := None, j_lease_until := None, j_updated_at := now\<rparr>)
        (d\<lparr>inputs := answer_input_rows (\<lambda>i'. i_id i' = i_id i) now
              (answer_to_value (ja_answer request)) (inputs d)\<rparr>)"
    and ev: "append_agent_event_in_transaction x now k ''input_answered''
        (json_object [(''input_id'', JString (x_show_uuid x (i_id i))),
                      (''answer'', answer_to_value (ja_answer request))])
        (agent_trace_limit_bytes - agent_terminal_event_reserve_bytes) base = Inr d'"
    by (auto simp: answer_job_input_tx_def rbind_Inr_iff Let_def find_Some_iff)
  let ?f = "\<lambda>j. j\<lparr>j_status := ''queued'', j_stage := i_resume_stage i, j_available_at := now,
              j_worker_id := None, j_lease_until := None, j_updated_at := now\<rparr>"
  let ?ins = "answer_input_rows (\<lambda>i'. i_id i' = i_id i) now (answer_to_value (ja_answer request)) (inputs d)"
  have i: "i \<in> set (inputs d)" "i_job_id i = k" "i_status i = ''pending''"
    "map_option j_status (find_job k d) = Some ''awaiting_input''"
    using find by (auto simp: find_Some_iff)
  then obtain j where j: "find_job k d = Some j" "j_status j = ''awaiting_input''" by auto
  note ok = job_ok_of [OF inv j(1)]
  from ok obtain v where v: "find_version (j_tool_id j) (j_revision j) d = Some v"
    "coherent (j_status j) (j_stage j) (v_status v)" by (rule job_ok_version)
  have k: "j_id j = k" using j(1) invD(1) [OF inv] by (simp add: find_job_iff)
  have in_i: "i \<in> set (pending_inputs k d)" using i by (simp add: pending_inputs_def)
  then have pend: "pending_inputs k d = [i]"
    using ok j(2) k by (auto simp: job_ok_def length_Suc_conv)
  have stage: "i_resume_stage i \<in> set working_stages"
    using invD(2) [OF inv] i(1) by (simp add: refs_ok_def input_ok_def)
  have "base = change k j ?f (\<lambda>v. v) ?ins d"
    by (simp add: base change_def update_job_def)
  moreover have "registry_inv (change k j ?f (\<lambda>v. v) ?ins d)"
  proof (rule change_inv [OF inv j(1) v(1)])
    show "\<forall>i\<in>set ?ins. input_ok d i"
      using invD(2) [OF inv] by (intro answer_rows_ok) (simp add: refs_ok_def)
    show "distinct (map i_id ?ins)" using invD(1) [OF inv] by (simp add: keys_ok_def)
    show "length (pending_inputs k (d\<lparr>inputs := ?ins\<rparr>)) =
        (if j_status (?f j) = ''awaiting_input'' then 1 else 0)"
      by (simp add: pending_inputs_answer pend)
    show "pending_inputs i' (d\<lparr>inputs := ?ins\<rparr>) = pending_inputs i' d" if "i' \<noteq> k" for i'
    proof -
      have "i_id q \<noteq> i_id i" if q: "q \<in> set (pending_inputs i' d)" for q
      proof
        assume "i_id q = i_id i"
        moreover have "inj_on i_id (set (inputs d))"
          using invD(1) [OF inv] by (simp add: keys_ok_def distinct_map)
        ultimately have "q = i" using q i(1) by (auto simp: pending_inputs_def dest: inj_onD)
        with q i(2) \<open>i' \<noteq> k\<close> show False by (simp add: pending_inputs_def)
      qed
      then show ?thesis by (simp add: pending_inputs_answer filter_id_conv)
    qed
  qed (use v j ok stage in \<open>auto simp: keeps_job_def keeps_version_def lease_ok_def job_ok_def
        working_statuses_def\<close>)
  ultimately have "registry_inv base" by simp
  moreover have "find_job k base = Some (?f j)"
    using j(1) by (simp add: base find_job_update keeps_job_def)
  moreover note ev
  ultimately show ?thesis
    by (rule inv_append_event) (simp add: trace_budget_def)
qed

end
