(* ===== verification/Registry_Publish.thy ===== *)
theory Registry_Publish
  imports Registry_Preserve
begin

text \<open>
  Publication and cancellation keep the registry's invariant.
\<close>

section \<open>Publication and cancellation\<close>

lemma inv_insert_artifact:
  assumes a: "insert_artifact now a d = Inr d'" and inv: "registry_inv d"
  shows "registry_inv d'" "lookup af_digest (pa_digest a) (artifacts d') \<noteq> None"
    "find_job k d' = find_job k d" "find_version t r d' = find_version t r d" "inputs d' = inputs d"
proof -
  define new where "new = \<lparr>af_digest = pa_digest a, af_relative_path = pa_relative_path a,
    af_size_bytes = pa_size_bytes a, af_manifest = pa_manifest a,
    af_validation_summary = pa_validation_summary a, af_created_at = now\<rparr>"
  have new: "af_digest new = pa_digest a" and d': "d' = d\<lparr>artifacts := insert_new af_digest new (artifacts d)\<rparr>"
    using a by (simp_all add: insert_artifact_def new_def split: if_splits)
  have look: "lookup af_digest g (artifacts d') \<noteq> None"
    if "lookup af_digest g (artifacts d) \<noteq> None \<or> g = pa_digest a" for g
    using that new by (auto simp: d' lookup_insert_new)
  then show "lookup af_digest (pa_digest a) (artifacts d') \<noteq> None" by blast
  show frame: "find_job k d' = find_job k d" "find_version t r d' = find_version t r d"
      "inputs d' = inputs d" for k t r
    by (simp_all add: d' find_defs)
  have other: "find_run i d' = find_run i d" "pending_inputs i d' = pending_inputs i d" for i
    by (simp_all add: d' find_defs pending_inputs_def)
  show "registry_inv d'"
  proof (rule invI)
    show "keys_ok d'" by (rule keys_insert_artifact [OF a invD(1) [OF inv]])
    show "refs_ok d'" by (rule refs_insert_artifact [OF a invD(2) [OF inv]])
    have "job_ok d' q \<longleftrightarrow> job_ok d q" for q
      by (simp add: job_ok_def budget_ok_def frame other)
    then show "jobs_ok d'" using invD(3) [OF inv] by (simp add: jobs_ok_def) (simp add: d')
    show "trace_ok d'" by (rule trace_frame [OF invD(4) [OF inv]]) (simp_all add: d')
    show "stable_ok d'"
      by (rule stable_ok_change [OF invD(5) [OF inv]]) (simp_all add: frame, simp add: d')
    show "artifacts_ok d'"
      using invD(6) [OF inv] look by (auto simp: artifacts_ok_def) (auto simp: d')
  qed
qed

text \<open>Pointing a tool at a ready version.\<close>

lemma stable_ok_point:
  assumes ready: "\<And>r. s = Some r \<Longrightarrow> map_option v_status (find_version tid r d) = Some ''ready''"
    and others: "\<And>t r. t \<in> set (tools d) \<Longrightarrow> t_id t \<noteq> tid \<Longrightarrow> t_stable_revision t = Some r \<Longrightarrow>
      map_option v_status (find_version (t_id t) r d) = Some ''ready''"
  shows "stable_ok (set_stable_revision now tid s d)"
proof -
  have "case t_stable_revision t of None \<Rightarrow> True
      | Some r \<Rightarrow> map_option v_status (find_version (t_id t) r d) = Some ''ready''"
    if t: "t \<in> set (tools (set_stable_revision now tid s d))" for t
  proof -
    from t consider "t_id t = tid" "t_stable_revision t = s" | "t \<in> set (tools d)" "t_id t \<noteq> tid"
      by (auto simp: set_stable_revision_def dest!: set_updD)
    then show ?thesis
      using ready others by cases (auto split: option.splits)
  qed
  then show ?thesis by (simp add: stable_ok_def cong: option.case_cong)
qed

lemma jobs_ok_set_stable: "jobs_ok (set_stable_revision now tid s d) = jobs_ok d"
  by (simp add: jobs_ok_def job_ok_def budget_ok_def)

lemma trace_ok_set_stable: "trace_ok (set_stable_revision now tid s d) = trace_ok d"
  by (simp add: trace_ok_def stored_bytes_def)

lemma artifacts_ok_set_stable: "artifacts_ok (set_stable_revision now tid s d) = artifacts_ok d"
  by (simp add: artifacts_ok_def)

lemma change_find_version:
  assumes "keeps_version g" "find_version (j_tool_id j) (j_revision j) d = Some v"
  shows "find_version t r (change k j f g ins d) =
    (if t = j_tool_id j \<and> r = j_revision j then Some (g v) else find_version t r d)"
  using find_version_update [OF assms(1), of t r "job_version j" "update_job k f d"] assms(2)
  by (simp add: change_def find_version_def)

lemma change_find_job:
  assumes "keeps_job f" "find_job k d = Some j"
  shows "find_job k (change k j f g ins d) = Some (f j)"
  using find_job_update [OF assms(1), of k k d] assms(2) by (simp add: change_def)

lemma inv_publish:
  assumes p: "publish_job x now k w a d = Inr (u, d')" and inv: "registry_inv d"
  shows "registry_inv d'"
proof -
  let ?f = "\<lambda>j. j\<lparr>j_status := ''ready'', j_stage := ''complete'', j_lease_until := None,
                 j_updated_at := now\<rparr>"
  let ?g = "publish_version_row now a"
  from p obtain j mid kind pl where l: "leased_job k w d = Inr j" and art: "insert_artifact now a d = Inr mid"
    and ev: "append_agent_event_in_transaction x now k kind pl agent_trace_limit_bytes
        (update_job k ?f (set_stable_revision now (j_tool_id j) (Some (j_revision j))
          (update_version (job_version j) ?g mid))) = Inr d'"
    by (auto simp: publish_job_def rbind_Inr_iff Let_def)
  from leased_facts [OF inv l] obtain v where facts: "find_job k d = Some j"
    "find_version (j_tool_id j) (j_revision j) d = Some v" "0 \<le> j_attempts j" "j_status j = ''running''"
    by metis
  note mid = inv_insert_artifact [OF art inv]
  have j: "find_job k mid = Some j" and v: "find_version (j_tool_id j) (j_revision j) mid = Some v"
    using facts mid by simp_all
  let ?c = "change k j ?f ?g (inputs mid) mid"
  let ?base = "set_stable_revision now (j_tool_id j) (Some (j_revision j)) ?c"
  have base: "update_job k ?f (set_stable_revision now (j_tool_id j) (Some (j_revision j))
      (update_version (job_version j) ?g mid)) = ?base"
    by (simp add: change_def statement_defs)
  have keeps: "keeps_job ?f" by (simp add: keeps_job_def)
  have ids: "distinct (map i_id (inputs mid))" and rows: "\<forall>i\<in>set (inputs mid). input_ok mid i"
    using invD(1,2) [OF mid(1)] by (simp_all add: keys_ok_def refs_ok_def)
  have "j_id j = k" using j invD(1) [OF mid(1)] by (simp add: find_job_iff)
  then have pend: "pending_inputs k mid = []"
    using job_ok_of [OF mid(1) j] facts(4) by (simp add: job_ok_def)
  have same: "mid\<lparr>inputs := inputs mid\<rparr> = mid" by simp
  have core: "keys_ok ?c" "refs_ok ?c" "jobs_ok ?c" "trace_ok ?c"
    using change_core [OF mid(1) j v keeps keeps_version_rows(1), of "inputs mid" now a]
      ids rows pend facts(3,4) same
    by (simp_all add: lease_ok_def publish_version_row_def)
  have "registry_inv ?base"
  proof (rule invI)
    show "keys_ok ?base" using core(1) by (simp add: keys_set_stable)
    show "refs_ok ?base" by (rule refs_set_stable [OF core(2)])
    show "jobs_ok ?base" using core(3) by (simp add: jobs_ok_set_stable)
    show "trace_ok ?base" using core(4) by (simp add: trace_ok_set_stable)
    show "stable_ok ?base"
    proof (rule stable_ok_point)
      show "map_option v_status (find_version (j_tool_id j) r ?c) = Some ''ready''"
        if "Some (j_revision j) = Some r" for r
        using that by (simp add: change_find_version [OF _ v] publish_version_row_def)
      show "map_option v_status (find_version (t_id t) r ?c) = Some ''ready''"
        if "t \<in> set (tools ?c)" "t_id t \<noteq> j_tool_id j" "t_stable_revision t = Some r" for t r
        using that invD(5) [OF mid(1)] by (simp add: change_find_version [OF _ v] stable_ok_def split: option.splits)
    qed
    have "\<forall>r\<in>set (upd v_key (job_version j) ?g (versions mid)). v_status r = ''ready'' \<longrightarrow>
        map_option (\<lambda>h. lookup af_digest h (artifacts mid) \<noteq> None) (v_artifact_digest r) = Some True"
      by (rule ball_upd)
        (use invD(1,6) [OF mid(1)] mid(2) in
          \<open>auto simp: keys_ok_def artifacts_ok_def publish_version_row_def\<close>)
    then show "artifacts_ok ?base"
      by (simp add: artifacts_ok_set_stable) (simp add: artifacts_ok_def change_def update_version_def)
  qed
  moreover have "find_job k ?base = Some (?f j)"
    using change_find_job [OF keeps j] by simp
  moreover note ev [unfolded base]
  ultimately show ?thesis
    by (rule inv_append_event) (simp add: trace_budget_def)
qed

lemma keeps_cancelled [simp]:
  "keeps_job (cancelled_job_row now reason)" "keeps_version (cancelled_version_row now)"
  by (simp_all add: keeps_job_def keeps_version_def cancelled_job_row_def cancelled_version_row_def)

lemma cancel_rows_change:
  "find_job k d = Some j \<Longrightarrow> cancel_job_rows now k reason d =
     change k j (cancelled_job_row now reason) (cancelled_version_row now)
       (cancelled_inputs now k reason (inputs d)) d"
  by (simp add: cancel_job_rows_def Let_def change_def update_version_of_job_def find_job_update
      keeps_jobD [OF keeps_cancelled(1)])

lemma pending_cancelled:
  "pending_inputs i (d\<lparr>inputs := cancelled_inputs now k reason (inputs d)\<rparr>) =
     (if i = k then [] else pending_inputs i d)"
  unfolding pending_inputs_answer cancelled_inputs_def
  by (auto simp: pending_inputs_def filter_empty_conv intro!: filter_cong)

lemma inv_cancel:
  assumes c: "cancel_job x now k reason0 d = Inr (u, d')" and inv: "registry_inv d"
  shows "registry_inv d'"
proof -
  define reason where "reason = trim reason0"
  from c obtain j where j: "find_job k d = Some j" "\<not> terminal (j_status j)"
    and ev: "append_agent_event_in_transaction x now k ''job_cancelled''
        (json_object [(''reason'', JString reason)]) agent_trace_limit_bytes
        (cancel_job_rows now k reason d) = Inr d'"
    by (auto simp: cancel_job_def Let_def rbind_Inr_iff terminal_def reason_def split: if_splits)
  let ?f = "cancelled_job_row now reason" and ?g = "cancelled_version_row now"
  let ?ins = "cancelled_inputs now k reason (inputs d)"
  note ok = job_ok_of [OF inv j(1)]
  from ok obtain v where v: "find_version (j_tool_id j) (j_revision j) d = Some v"
    "coherent (j_status j) (j_stage j) (v_status v)" by (rule job_ok_version)
  have nr: "v_status v \<noteq> ''ready''"
    using v(2) j(2) coherent_not_ready by (auto simp: terminal_def)
  have "registry_inv (change k j ?f ?g ?ins d)"
  proof (rule change_inv [OF inv j(1) v(1) keeps_cancelled])
    show "\<forall>i\<in>set ?ins. input_ok d i"
      using invD(2) [OF inv] unfolding cancelled_inputs_def
      by (intro answer_rows_ok) (simp add: refs_ok_def)
    show "distinct (map i_id ?ins)"
      using invD(1) [OF inv] by (simp add: keys_ok_def cancelled_inputs_def)
  qed (use ok nr pending_cancelled in \<open>auto simp: lease_ok_def job_ok_def cancelled_job_row_def
        cancelled_version_row_def\<close>)
  moreover have "find_job k (change k j ?f ?g ?ins d) = Some (?f j)"
    by (rule change_find_job [OF keeps_cancelled(1) j(1)])
  moreover note ev [unfolded cancel_rows_change [OF j(1)]]
  ultimately show ?thesis
    by (rule inv_append_event) (simp add: trace_budget_def cancelled_job_row_def)
qed

end
