(* ===== verification/Registry_Register.thy ===== *)
theory Registry_Register
  imports Registry_Publish
begin

text \<open>
  Registration keeps the registry's invariant: a new tool, a new revision and its queued job.
\<close>

section \<open>Registration\<close>

lemma find_version_append:
  "find_version t r d = Some v \<Longrightarrow> find_version t r (d\<lparr>versions := versions d @ vs\<rparr>) = Some v"
  by (simp add: find_version_def lookup_append)

lemma inv_insert_tool:
  assumes i: "insert_tool now tid name d = Inr d'" and inv: "registry_inv d"
  shows "registry_inv d'"
proof (cases "find_tool name d")
  case (Some t)
  with i inv show ?thesis by (simp add: insert_tool_def)
next
  case None
  with i have fresh: "lookup t_id tid (tools d) = None"
    and d': "d' = d\<lparr>tools := tools d @ [new_tool_row now tid name]\<rparr>"
    by (auto simp: insert_tool_def split: if_splits)
  have frame: "find_job i d' = find_job i d" "find_version t r d' = find_version t r d"
      "find_run i d' = find_run i d" "pending_inputs i d' = pending_inputs i d" for i t r
    by (simp_all add: d' find_defs pending_inputs_def)
  have "keys_ok d'"
    using invD(1) [OF inv] None fresh
    by (auto simp: keys_ok_def d' new_tool_row_def find_tool_def lookup_None_image)
  moreover have "version_ok d' v" if "version_ok d v" for v
    using that by (auto simp: version_ok_def d' lookup_append split: option.splits)
  then have "refs_ok d'"
    using invD(2) [OF inv]
    by (auto simp: refs_ok_def input_ok_def run_ok_def frame)
      (auto simp: d' new_tool_row_def tool_ok_def i64_max_def)
  moreover have "job_ok d' q \<longleftrightarrow> job_ok d q" for q
    by (simp add: job_ok_def budget_ok_def frame)
  then have "jobs_ok d'" using invD(3) [OF inv] by (simp add: jobs_ok_def) (simp add: d')
  moreover have "trace_ok d'" by (rule trace_frame [OF invD(4) [OF inv]]) (simp_all add: d')
  moreover have "stable_ok d'"
    using invD(5) [OF inv]
    by (auto simp: stable_ok_def frame cong: option.case_cong) (auto simp: d' new_tool_row_def)
  moreover have "artifacts_ok d'"
    by (rule artifacts_ok_frame [OF invD(6) [OF inv]]) (simp_all add: d')
  ultimately show ?thesis by (simp add: registry_inv_def)
qed

definition bump_tool :: "time \<Rightarrow> uuid \<Rightarrow> int \<Rightarrow> db \<Rightarrow> db" where
  "bump_tool now tid revision d =
     d\<lparr>tools := upd t_id tid (\<lambda>t. t\<lparr>t_latest_revision := revision, t_updated_at := now\<rparr>) (tools d)\<rparr>"

lemma inv_bump_tool:
  assumes inv: "registry_inv d" and t: "lookup t_id tid (tools d) = Some t"
    and rev: "t_latest_revision t \<le> revision" "revision \<le> i64_max"
  shows "registry_inv (bump_tool now tid revision d)"
proof -
  let ?d' = "bump_tool now tid revision d"
  let ?f = "\<lambda>t. t\<lparr>t_latest_revision := revision, t_updated_at := now\<rparr>"
  have frame: "find_job i ?d' = find_job i d" "find_version u r ?d' = find_version u r d"
      "find_run i ?d' = find_run i d" "pending_inputs i ?d' = pending_inputs i d" for i u r
    by (simp_all add: bump_tool_def find_defs pending_inputs_def)
  have tools: "tools ?d' = upd t_id tid ?f (tools d)" by (simp add: bump_tool_def)
  have look: "lookup t_id i (tools ?d') =
      (if i = tid then Some (?f t) else lookup t_id i (tools d))" for i
    using t by (simp add: bump_tool_def lookup_upd)
  have keys: "keys_ok ?d'"
    using invD(1) [OF inv] by (simp add: keys_ok_def bump_tool_def map_key_upd)
  have t_ok: "tool_ok t" using lookup_Some_mem [OF t] invD(2) [OF inv] by (simp add: refs_ok_def)
  have "version_ok ?d' v" if "version_ok d v" for v
  proof -
    have "jobs ?d' = jobs d" by (simp add: bump_tool_def)
    with that t rev(1) show ?thesis
      by (auto simp: version_ok_def look split: option.splits if_splits)
  qed
  moreover have "tool_ok q" if "q \<in> set (tools ?d')" for q
    using that invD(2) [OF inv] t_ok rev
    by (auto simp: bump_tool_def tool_ok_def refs_ok_def dest!: set_updD)
  ultimately have refs: "refs_ok ?d'"
    using invD(2) [OF inv]
    by (auto simp: refs_ok_def input_ok_def run_ok_def frame) (auto simp: bump_tool_def)
  have "job_ok ?d' q \<longleftrightarrow> job_ok d q" for q
    by (simp add: job_ok_def budget_ok_def frame)
  then have "jobs_ok ?d'" using invD(3) [OF inv] by (simp add: jobs_ok_def) (simp add: bump_tool_def)
  moreover have "trace_ok ?d'"
    by (rule trace_frame [OF invD(4) [OF inv]]) (simp_all add: bump_tool_def)
  moreover have "stable_ok ?d'"
    using invD(5) [OF inv]
    by (auto simp: stable_ok_def frame tools cong: option.case_cong dest!: set_updD)
  moreover have "artifacts_ok ?d'"
    by (rule artifacts_ok_frame [OF invD(6) [OF inv]]) (simp_all add: bump_tool_def)
  ultimately show ?thesis using keys refs by (simp add: registry_inv_def)
qed

lemma inv_insert_version_job:
  assumes v: "insert_version (new_version_row now tid revision request) d = Inr mid"
    and j: "insert_job (new_job_row now jid tid revision key fp request) mid = Inr d'"
    and inv: "registry_inv d"
    and t: "lookup t_id tid (tools d) = Some t" "1 \<le> revision" "revision \<le> t_latest_revision t"
  shows "registry_inv d'"
proof -
  let ?v = "new_version_row now tid revision request"
  let ?j = "new_job_row now jid tid revision key fp request"
  have fresh: "lookup v_key (tid, revision) (versions d) = None" "find_job jid d = None"
      "lookup j_idempotency_key key (jobs d) = None"
    and d': "d' = d\<lparr>versions := versions d @ [?v], jobs := jobs d @ [?j]\<rparr>"
    using v j by (auto simp: insert_version_def insert_job_def new_job_row_def find_job_def split: if_splits)
  have jobs_old: "find_job i d' = Some q" if "find_job i d = Some q" for i q
    using that by (simp add: d' find_job_def lookup_append)
  have vers_old: "find_version u r d' = Some q" if "find_version u r d = Some q" for u r q
    using that by (simp add: d' find_version_def lookup_append)
  have vers_new: "find_version tid revision d' = Some ?v"
    using fresh(1) by (simp add: d' find_version_def lookup_append lookup_Cons)
  have frame: "find_run i d' = find_run i d" "pending_inputs i d' = pending_inputs i d" for i
    by (simp_all add: d' find_defs pending_inputs_def)
  have row_j: "j_id ?j = jid" "job_version ?j = (tid, revision)" "j_idempotency_key ?j = key"
    by (simp_all add: new_job_row_def)
  have old_version: "job_version q \<noteq> (tid, revision)" if "q \<in> set (jobs d)" for q
    using that invD(3) [OF inv] fresh(1)
    by (auto simp: jobs_ok_def job_ok_def find_version_def split: option.splits)
  have keys: "keys_ok d'"
    using invD(1) [OF inv] fresh old_version
    by (auto simp: keys_ok_def d' lookup_None_image find_job_def row_j image_iff)
  have "version_ok d' q" if "version_ok d q" for q
    using that by (auto simp: version_ok_def d' lookup_append split: option.splits)
  moreover have "version_ok d' ?v"
  proof -
    have "lookup job_version (tid, revision) (jobs d') \<noteq> None"
      by (auto simp: d' lookup_append lookup_Cons row_j split: option.splits)
    moreover have "io_format_parse (v_input_format ?v) = Some (rq_input_format request)"
        "io_format_parse (v_output_format ?v) = Some (rq_output_format request)"
        "examples_from_value (v_examples ?v) = Some (rq_examples request)"
        "v_tool_id ?v = tid" "v_revision ?v = revision"
      by (simp_all add: new_version_row_def)
    moreover have "lookup t_id tid (tools d') = Some t" using t by (simp add: d')
    ultimately show ?thesis using t by (simp add: version_ok_def)
  qed
  moreover have "input_ok d' q" if "input_ok d q" for q
    using that jobs_old by (auto simp: input_ok_def)
  moreover have "run_ok d' q" if "run_ok d q" for q
    using that jobs_old by (auto simp: run_ok_def)
  ultimately have refs: "refs_ok d'"
    using invD(2) [OF inv] by (auto simp: refs_ok_def d')
  have "job_ok d' q" if "q \<in> set (jobs d)" for q
  proof -
    have "job_ok d q" using that invD(3) [OF inv] by (simp add: jobs_ok_def)
    then show ?thesis
      using vers_old by (auto simp: job_ok_def budget_ok_def frame split: option.splits)
  qed
  moreover have "job_ok d' ?j"
  proof -
    have "find_run jid d = None"
      using invD(1,2) [OF inv] fresh(2)
      by (metis find_run_iff not_None_eq refs_ok_def run_ok_def)
    moreover have "pending_inputs jid d = []"
      using invD(2) [OF inv] fresh(2)
      by (auto simp: pending_inputs_def filter_empty_conv refs_ok_def input_ok_def)
    moreover have "v_status ?v = ''draft''" by (simp add: new_version_row_def)
    ultimately show ?thesis
      by (simp add: job_ok_def budget_ok_def frame new_job_row_def vers_new lease_ok_def)
  qed
  ultimately have "jobs_ok d'" by (auto simp: jobs_ok_def d')
  moreover have "trace_ok d'" by (rule trace_frame [OF invD(4) [OF inv]]) (simp_all add: d')
  moreover have "stable_ok d'"
    by (rule stable_ok_change [OF invD(5) [OF inv]]) (auto simp: d' dest: vers_old)
  moreover have "artifacts_ok d'"
    using invD(6) [OF inv] by (auto simp: artifacts_ok_def d' new_version_row_def)
  ultimately show ?thesis using keys refs by (simp add: registry_inv_def)
qed

lemma register_new_Inr:
  assumes "register_new x now tid jid name request key fp d = Inr (r, d')"
  obtains d1 t d2 where "insert_tool now tid (tool_name_str name) d = Inr d1"
    "find_tool (tool_name_str name) d1 = Some t"
    "i64_min \<le> t_latest_revision t + 1" "t_latest_revision t + 1 \<le> i64_max"
    "insert_version (new_version_row now (t_id t) (t_latest_revision t + 1) request)
       (bump_tool now (t_id t) (t_latest_revision t + 1) d1) = Inr d2"
    "insert_job (new_job_row now jid (t_id t) (t_latest_revision t + 1) key fp request) d2 = Inr d'"
    "r = \<lparr>rp_tool = tool_name_str name, rp_revision = nat (t_latest_revision t + 1),
          rp_status = Draft, rp_job_id = x_show_uuid x jid\<rparr>"
  using assms
  by (auto simp: register_new_def rbind_Inr_iff Let_def bump_tool_def [symmetric])

lemma inv_register_new:
  assumes r: "register_new x now tid jid name request key fp d = Inr (r, d')" and inv: "registry_inv d"
  shows "registry_inv d'"
proof -
  from r obtain d1 t d2 where steps: "insert_tool now tid (tool_name_str name) d = Inr d1"
    "find_tool (tool_name_str name) d1 = Some t" "t_latest_revision t + 1 \<le> i64_max"
    "insert_version (new_version_row now (t_id t) (t_latest_revision t + 1) request)
       (bump_tool now (t_id t) (t_latest_revision t + 1) d1) = Inr d2"
    "insert_job (new_job_row now jid (t_id t) (t_latest_revision t + 1) key fp request) d2 = Inr d'"
    by (rule register_new_Inr)
  have inv1: "registry_inv d1" by (rule inv_insert_tool [OF steps(1) inv])
  have mem: "t \<in> set (tools d1)" using steps(2) by (simp add: find_tool_def lookup_Some_mem)
  have look: "lookup t_id (t_id t) (tools d1) = Some t"
    using mem invD(1) [OF inv1] by (simp add: keys_ok_def lookup_mem)
  let ?b = "bump_tool now (t_id t) (t_latest_revision t + 1) d1"
  have invb: "registry_inv ?b" by (rule inv_bump_tool [OF inv1 look]) (simp_all add: steps)
  have "0 \<le> t_latest_revision t" using mem invD(2) [OF inv1] by (simp add: refs_ok_def tool_ok_def)
  then have one: "1 \<le> t_latest_revision t + 1" by simp
  let ?t = "t\<lparr>t_latest_revision := t_latest_revision t + 1, t_updated_at := now\<rparr>"
  have t': "lookup t_id (t_id t) (tools ?b) = Some ?t"
    using look by (simp add: bump_tool_def lookup_upd)
  have latest: "t_latest_revision t + 1 \<le> t_latest_revision ?t" by simp
  show ?thesis by (rule inv_insert_version_job [OF steps(4,5) invb t' one latest])
qed

lemma inv_register:
  assumes r: "register x now tid jid name request key d = Inr (r, d')" and inv: "registry_inv d"
  shows "registry_inv d'"
proof -
  have "d' = d \<or> (\<exists>fp. register_new x now tid jid name request key fp d = Inr (r, d'))"
    using r
    by (auto simp: register_def Let_def register_existing_def rbind_Inr_iff
        split: option.splits if_splits)
  then show ?thesis using inv inv_register_new by blast
qed

end
