(* ===== verification/Registry_Transitions.thy ===== *)
theory Registry_Transitions
  imports Registry_Register
begin

text \<open>
  Revocation, compaction and the operations that touch no job keep the registry's invariant; then the
  step relation of the registry, one constructor for each operation that changes the tables, taken when
  the operation succeeds, and the states it reaches from empty tables, which have the invariant.
\<close>

section \<open>Revocation, compaction and the operations that touch no job\<close>

lemma max_revision_mem: "max_revision rs = Some r \<Longrightarrow> r \<in> set rs"
  using Max_in [of "set rs"] by (auto simp: max_revision_def split: if_splits)

lemma max_revision_le: "max_revision rs = Some m \<Longrightarrow> r \<in> set rs \<Longrightarrow> r \<le> m"
  by (auto simp: max_revision_def split: if_splits)

lemma max_revision_None: "max_revision rs = None \<longleftrightarrow> rs = []"
  by (simp add: max_revision_def)

lemma fallback_ready:
  assumes "keys_ok d" "fallback_revision tid revision d = Some r"
  shows "map_option v_status (find_version tid r d) = Some ''ready''" "r \<noteq> revision"
proof -
  obtain v where "v \<in> set (versions d)" "v_key v = (tid, r)" "v_status v = ''ready''" "r \<noteq> revision"
    using max_revision_mem [OF assms(2) [unfolded fallback_revision_def]] by (auto simp: v_key_def)
  then show "map_option v_status (find_version tid r d) = Some ''ready''" "r \<noteq> revision"
    using find_version_iff [OF assms(1), of tid r v] by auto
qed

definition revoke_version_row :: "time \<Rightarrow> string \<Rightarrow> version_row \<Rightarrow> version_row" where
  "revoke_version_row now reason v =
     v\<lparr>v_status := ''revoked'', v_error_code := Some ''revoked'', v_error_message := Some reason,
       v_updated_at := now\<rparr>"

lemma revoke_Inr:
  assumes "revoke_tool_version x now name n reason d = Inr (r, d')"
  obtains t v base where "find_tool (tool_name_str name) d = Some t" "int n \<le> i64_max"
    "find_version (t_id t) (int n) d = Some v" "v_status v = ''ready'' \<or> v_status v = ''deprecated''"
    "base = update_version (t_id t, int n) (revoke_version_row now reason) d"
    "d' = (if t_stable_revision t = Some (int n)
           then set_stable_revision now (t_id t) (fallback_revision (t_id t) (int n) base) base
           else base)"
    "rv_stable_revision r = map_option nat
       (if t_stable_revision t = Some (int n) then fallback_revision (t_id t) (int n) base
        else t_stable_revision t)"
    "rv_status r = Revoked" "rv_revision r = n" "rv_tool r = tool_name_str name"
proof -
  have rows: "(\<lambda>v. v\<lparr>v_status := ''revoked'', v_error_code := Some ''revoked'',
      v_error_message := Some reason, v_updated_at := now\<rparr>) = revoke_version_row now reason"
    by (simp add: fun_eq_iff revoke_version_row_def)
  have opt: "opt_to_u64 s f = Inr q \<Longrightarrow> q = map_option nat s" for s f q
    by (auto simp: opt_to_u64_def rbind_Inr_iff split: option.splits)
  show ?thesis
    using assms that
    by (auto simp: revoke_tool_version_def rbind_Inr_iff Let_def rows
        split: if_splits dest!: opt)
qed

lemma keeps_revoke [simp]: "keeps_version (revoke_version_row now reason)"
  by (simp add: keeps_version_def revoke_version_row_def)

lemma inv_revoke:
  assumes r: "revoke_tool_version x now name n reason d = Inr (r, d')" and inv: "registry_inv d"
  shows "registry_inv d'"
proof -
  let ?g = "revoke_version_row now reason"
  from r obtain t v base where t: "find_tool (tool_name_str name) d = Some t"
    and v: "find_version (t_id t) (int n) d = Some v" "v_status v = ''ready'' \<or> v_status v = ''deprecated''"
    and base: "base = update_version (t_id t, int n) ?g d"
    and d': "d' = (if t_stable_revision t = Some (int n)
           then set_stable_revision now (t_id t) (fallback_revision (t_id t) (int n) base) base
           else base)"
    by (rule revoke_Inr)
  have "v \<in> set (versions d)" "v_key v = (t_id t, int n)"
    using v(1) invD(1) [OF inv] by (simp_all add: find_version_iff)
  then obtain j where "lookup job_version (t_id t, int n) (jobs d) = Some j"
    using invD(2) [OF inv] by (auto simp: refs_ok_def version_ok_def)
  then have jm: "j \<in> set (jobs d)" and jv: "j_tool_id j = t_id t" "j_revision j = int n"
    using lookup_Some_mem lookup_Some_key by fastforce+
  let ?k = "j_id j"
  have j: "find_job ?k d = Some j" using jm invD(1) [OF inv] by (simp add: find_job_iff)
  note ok = job_ok_of [OF inv j]
  have st: "j_status j = ''ready'' \<and> j_stage j = ''complete''"
    using ok v jv by (auto simp: job_ok_def coherent_def working_statuses_def)
  have c: "change ?k j (\<lambda>j. j) ?g (inputs d) d = base"
    by (simp add: change_def base jv update_version_def)
  have keeps: "keeps_job (\<lambda>j. j)" by (simp add: keeps_job_def)
  have v': "find_version (j_tool_id j) (j_revision j) d = Some v" using v(1) jv by simp
  have ids: "distinct (map i_id (inputs d))" and rows: "\<forall>i\<in>set (inputs d). input_ok d i"
    using invD(1,2) [OF inv] by (simp_all add: keys_ok_def refs_ok_def)
  have pend: "pending_inputs ?k d = []" using ok st by (simp add: job_ok_def)
  have same: "d\<lparr>inputs := inputs d\<rparr> = d" by simp
  have core: "keys_ok base" "refs_ok base" "jobs_ok base" "trace_ok base"
    using change_core [OF inv j v' keeps keeps_revoke, of "inputs d" now reason] ids rows pend st ok same
    unfolding c by (simp_all add: revoke_version_row_def job_ok_def)
  have art: "artifacts_ok base"
    using change_artifacts [OF inv v' keeps_revoke, of now reason ?k "\<lambda>j. j" "inputs d"]
    unfolding c by (simp add: revoke_version_row_def)
  have look: "find_version u s base =
      (if u = t_id t \<and> s = int n then Some (?g v) else find_version u s d)" for u s
    using change_find_version [OF keeps_revoke v', of u s ?k "\<lambda>j. j" now reason "inputs d"] jv
    unfolding c by simp
  have old: "map_option v_status (find_version (t_id q) s d) = Some ''ready''"
    if "q \<in> set (tools d)" "t_stable_revision q = Some s" for q s
    using invD(5) [OF inv] that by (auto simp: stable_ok_def split: option.splits)
  show ?thesis
  proof (cases "t_stable_revision t = Some (int n)")
    case True
    have "stable_ok d'"
      unfolding d' if_P [OF True]
    proof (rule stable_ok_point)
      show "map_option v_status (find_version (t_id t) s base) = Some ''ready''"
        if "fallback_revision (t_id t) (int n) base = Some s" for s
        by (rule fallback_ready(1) [OF core(1) that])
      show "map_option v_status (find_version (t_id q) s base) = Some ''ready''"
        if "q \<in> set (tools base)" "t_id q \<noteq> t_id t" "t_stable_revision q = Some s" for q s
        using that old by (simp add: look) (simp add: base)
    qed
    then show ?thesis
      using core art True
      by (simp add: registry_inv_def d' keys_set_stable refs_set_stable jobs_ok_set_stable
          trace_ok_set_stable artifacts_ok_set_stable)
  next
    case False
    have "stable_ok base"
      unfolding stable_ok_def
    proof
      fix q assume "q \<in> set (tools base)"
      then have q: "q \<in> set (tools d)" by (simp add: base)
      have "t \<in> set (tools d)" using t by (simp add: find_tool_def lookup_Some_mem)
      then have "q = t" if "t_id q = t_id t"
        using q that invD(1) [OF inv] by (auto simp: keys_ok_def distinct_map dest: inj_onD)
      then show "case t_stable_revision q of None \<Rightarrow> True
          | Some r \<Rightarrow> map_option v_status (find_version (t_id q) r base) = Some ''ready''"
        using False old [OF q] by (auto simp: look split: option.split)
    qed
    then show ?thesis using core art False by (simp add: registry_inv_def d')
  qed
qed

text \<open>Operations on tables the invariant of jobs does not read.\<close>

lemma inv_frame:
  assumes inv: "registry_inv d" and keys: "keys_ok d'"
    and "tools d' = tools d" "versions d' = versions d" "jobs d' = jobs d" "inputs d' = inputs d"
      "runs d' = runs d" "artifacts d' = artifacts d"
    and trace: "trace_ok d'"
  shows "registry_inv d'"
proof -
  have frame: "find_job i d' = find_job i d" "find_version t r d' = find_version t r d"
      "find_run i d' = find_run i d" "pending_inputs i d' = pending_inputs i d" for i t r
    using assms by (simp_all add: find_defs pending_inputs_def)
  have "refs_ok d'"
    using invD(2) [OF inv] assms(3-8)
    by (simp add: refs_ok_def version_ok_def input_ok_def run_ok_def frame)
  moreover have "jobs_ok d'"
    using invD(3) [OF inv] assms(3-8) by (simp add: jobs_ok_def job_ok_def budget_ok_def frame)
  moreover have "stable_ok d'"
    using invD(5) [OF inv] assms(3-8) by (simp add: stable_ok_def frame cong: option.case_cong)
  moreover have "artifacts_ok d'"
    using invD(6) [OF inv] assms(3-8) by (simp add: artifacts_ok_def)
  ultimately show ?thesis using keys trace by (simp add: registry_inv_def)
qed

lemma inv_heartbeat:
  assumes "record_worker_heartbeat now w ver d = Inr (u, d')" "registry_inv d"
  shows "registry_inv d'"
  using assms(1) invD(1,4) [OF assms(2)]
  by (intro inv_frame [OF assms(2)] trace_frame [OF invD(4) [OF assms(2)]])
    (auto simp: record_worker_heartbeat_def keys_ok_def distinct_upsert)

lemma inv_approve:
  assumes "approve_http_capability now h c k d = Inr (u, d')" "registry_inv d"
  shows "registry_inv d'"
  using assms(1) invD(1,4) [OF assms(2)]
  by (intro inv_frame [OF assms(2)] trace_frame [OF invD(4) [OF assms(2)]])
    (auto simp: approve_http_capability_def keys_ok_def distinct_upsert split: if_splits)

lemma inv_revoke_capability:
  assumes "revoke_http_capability now h reason d = Inr (u, d')" "registry_inv d"
  shows "registry_inv d'"
  using assms(1) invD(1,4) [OF assms(2)]
  by (intro inv_frame [OF assms(2)] trace_frame [OF invD(4) [OF assms(2)]])
    (auto simp: revoke_http_capability_def keys_ok_def map_key_upd split: if_splits)

lemma inv_start_invocation:
  assumes "start_invocation now i rt n d = Inr (u, d')" "registry_inv d"
  shows "registry_inv d'"
  using assms(1) invD(1,4) [OF assms(2)]
  by (intro inv_frame [OF assms(2)] trace_frame [OF invD(4) [OF assms(2)]])
    (auto simp: start_invocation_def keys_ok_def rbind_Inr_iff lookup_None_image split: if_splits)

lemma inv_finish_invocation:
  assumes "finish_invocation now i st code dur m n d = Inr (u, d')" "registry_inv d"
  shows "registry_inv d'"
  using assms(1) invD(1,4) [OF assms(2)]
  by (intro inv_frame [OF assms(2)] trace_frame [OF invD(4) [OF assms(2)]])
    (auto simp: finish_invocation_def keys_ok_def map_key_upd split: if_splits)

lemma sum_filter_le:
  assumes "\<And>a. a \<in> set xs \<Longrightarrow> (0::int) \<le> f a"
  shows "sum_list (map f (filter p (filter q xs))) \<le> sum_list (map f (filter p xs))"
  using assms by (induction xs) (auto simp: add_increasing)

lemma inv_compact:
  assumes c: "compact_agent_traces x now d = Inr (n, d')" and inv: "registry_inv d"
  shows "registry_inv d'"
proof -
  let ?new = "filter (\<lambda>a. lookup ta_job_id (ta_job_id a) (archives d) = None)
     (map (archive_of x now (compactable_events now d)) (remdups (map ev_job_id (compactable_events now d))))"
  let ?keep = "\<lambda>e. lookup ta_job_id (ev_job_id e) (archives d @ ?new) = None"
  have d': "d' = d\<lparr>archives := archives d @ ?new, events := filter ?keep (events d)\<rparr>"
    using c by (simp add: compact_agent_traces_def Let_def)
  have "map ta_job_id ?new = filter (\<lambda>k. lookup ta_job_id k (archives d) = None)
      (remdups (map ev_job_id (compactable_events now d)))"
    by (simp add: filter_map o_def archive_of_def Let_def)
  then have "distinct (map ta_job_id (archives d @ ?new))"
    using invD(1) [OF inv] by (auto simp: keys_ok_def lookup_None_image simp del: map_map)
  then have keys: "keys_ok d'"
    using invD(1) [OF inv] by (simp add: keys_ok_def d' del: map_append)
  have ev: "\<forall>e\<in>set (events d). 0 \<le> ev_payload_size e"
    using invD(4) [OF inv] by (simp add: trace_ok_def)
  have less: "stored_bytes i d' \<le> stored_bytes i d" for i
    using sum_filter_le [of "events d" ev_payload_size "\<lambda>e. ev_job_id e = i" ?keep] ev
    by (simp add: stored_bytes_def d' del: filter_filter)
  have "trace_ok d'"
  proof -
    have "\<forall>r\<in>set (runs d'). stored_bytes (ar_job_id r) d' \<le> ar_trace_bytes r"
      using invD(4) [OF inv] less order_trans by (fastforce simp: trace_ok_def d')
    moreover have "\<forall>e\<in>set (events d'). 0 \<le> ev_payload_size e \<and> ev_id e < next_event_id d'
        \<and> find_run (ev_job_id e) d' \<noteq> None"
      using invD(4) [OF inv] by (auto simp: trace_ok_def d' find_run_def)
    moreover have "sorted_wrt (\<lambda>a b. ev_id a < ev_id b) (events d')"
      using invD(4) [OF inv] by (simp add: trace_ok_def d' sorted_wrt_filter)
    ultimately show ?thesis by (simp add: trace_ok_def)
  qed
  then show ?thesis by (intro inv_frame [OF inv keys]) (simp_all add: d')
qed

section \<open>Steps\<close>

inductive step :: "ext \<Rightarrow> db \<Rightarrow> db \<Rightarrow> bool" for x where
  register: "register x now tid jid name request key d = Inr (r1, d') \<Longrightarrow> step x d d'"
| revoke: "revoke_tool_version x now name n reason d = Inr (r2, d') \<Longrightarrow> step x d d'"
| heartbeat: "record_worker_heartbeat now w ver d = Inr (u, d') \<Longrightarrow> step x d d'"
| approve: "approve_http_capability now h c k d = Inr (u, d') \<Longrightarrow> step x d d'"
| revoke_capability: "revoke_http_capability now h reason d = Inr (u, d') \<Longrightarrow> step x d d'"
| claim: "claim_synthesis_job x now locked w l d = Inr (r3, d') \<Longrightarrow> step x d d'"
| renew: "renew_job_lease now k w l d = Inr (u, d') \<Longrightarrow> step x d d'"
| checkpoint: "save_agent_checkpoint now k w engine version cp d = Inr (u, d') \<Longrightarrow> step x d d'"
| suspend: "suspend_job_for_input x now k w inp d = Inr (r4, d') \<Longrightarrow> step x d d'"
| answer: "answer_job_input_tx x now k request d = Inr (u, d') \<Longrightarrow> step x d d'"
| event: "append_agent_event x now k w kind p d = Inr (u, d') \<Longrightarrow> step x d d'"
| compact: "compact_agent_traces x now d = Inr (r5, d') \<Longrightarrow> step x d d'"
| stage: "set_job_stage now k w stage d = Inr (u, d') \<Longrightarrow> stage_version_status stage \<noteq> None
    \<Longrightarrow> step x d d'"
| contract: "save_contract x now k w contract assumptions d = Inr (u, d') \<Longrightarrow> step x d d'"
| publish: "publish_job x now k w a d = Inr (u, d') \<Longrightarrow> step x d d'"
| reject: "reject_job now k w code message details d = Inr (u, d') \<Longrightarrow> step x d d'"
| cancel: "cancel_job x now k reason d = Inr (u, d') \<Longrightarrow> step x d d'"
| start: "start_invocation now i rt n d = Inr (u, d') \<Longrightarrow> step x d d'"
| finish: "finish_invocation now i st code dur m n d = Inr (u, d') \<Longrightarrow> step x d d'"

inductive reachable :: "ext \<Rightarrow> db \<Rightarrow> bool" for x where
  initial: "reachable x empty_db"
| after: "reachable x d \<Longrightarrow> step x d d' \<Longrightarrow> reachable x d'"

lemmas operation_keeps = inv_register inv_revoke inv_heartbeat inv_approve inv_revoke_capability
  inv_claim inv_renew inv_save_checkpoint inv_suspend inv_answer inv_append_agent_event
  inv_compact inv_set_job_stage inv_save_contract inv_publish inv_reject_job inv_cancel
  inv_start_invocation inv_finish_invocation

lemma step_inv: "step x d d' \<Longrightarrow> registry_inv d \<Longrightarrow> registry_inv d'"
  by (induction rule: step.induct) (erule (1) operation_keeps; assumption?)+

lemma reachable_inv: "reachable x d \<Longrightarrow> registry_inv d"
  by (induction rule: reachable.induct) (auto intro: inv_empty step_inv)

end
