(* ===== verification/Registry_Sample.thy ===== *)
theory Registry_Sample
  imports Registry_Transitions
begin

text \<open>
  A concrete history of the registry for the witnesses: a tool is registered, its job is
  claimed, checkpointed, suspended for a question, answered, claimed again and published,
  while a second registration waits.  The external functions are instantiated by simple
  concrete ones.
\<close>

definition ext0 :: ext where
  "ext0 = \<lparr>x_to_vec = (\<lambda>v. ''{}''), x_request_to_vec = rq_intent, x_sha256 = (\<lambda>s. s),
     x_show_uuid = show_nat, x_parse_uuid = parse_u64, x_rfc3339 = show_int, x_debug = (\<lambda>s. s),
     x_lower = to_ascii_lowercase, x_text_le = (\<lambda>a b. \<not> str_less b a), x_pg_time = show_int,
     x_pg_text = (\<lambda>v. ''{}'')\<rparr>"

text \<open>The tables after an operation: those it commits, or the old ones when it fails.\<close>

definition commit :: "(db \<Rightarrow> 'a committed) \<Rightarrow> db \<Rightarrow> db" where
  "commit f d = (case f d of Inl _ \<Rightarrow> d | Inr (_, d') \<Rightarrow> d')"

lemma commit_reachable:
  assumes "reachable x d" "\<And>r d'. f d = Inr (r, d') \<Longrightarrow> step x d d'"
  shows "reachable x (commit f d)"
  using assms by (auto simp: commit_def split: sum.splits intro: reachable.after)

definition request0 :: registration_request where
  "request0 = \<lparr>rq_intent = ''make a slug'', rq_input_format = Text, rq_output_format = Text,
     rq_examples = [\<lparr>te_input = ''A'', te_output = ''a''\<rparr>], rq_input_samples = []\<rparr>"

definition input0 :: new_job_input where
  "input0 = \<lparr>ni_id = 40, ni_agent_call_id = ''call'', ni_kind = Clarification,
     ni_prompt = ''which?'', ni_choices = [], ni_context = json_object []\<rparr>"

definition artifact0 :: published_artifact where
  "artifact0 = \<lparr>pa_digest = ''d1'', pa_relative_path = ''d1'', pa_size_bytes = 3,
     pa_manifest = json_object [(''source_sha256'', JString ''s1'')], pa_contract = json_object [],
     pa_assumptions = JArray [], pa_validation_summary = json_object []\<rparr>"

definition "db_registered = commit
  (register ext0 100 10 20 (ToolName ''slug'') request0 ''k1'') empty_db"
definition "db_claimed = commit
  (claim_synthesis_job ext0 200 (\<lambda>_. False) ''w1'' 300) db_registered"
definition "db_running = commit
  (save_agent_checkpoint 210 20 ''w1'' ''rig'' ''1'' (json_object [])) db_claimed"
definition "db_waiting = commit (suspend_job_for_input ext0 220 20 ''w1'' input0) db_running"
definition "db_answered = commit (answer_job_input_tx ext0 230 20
  \<lparr>ja_input_id = ''40'', ja_answer = TextAnswer ''this''\<rparr>) db_waiting"
definition "db_resumed = commit
  (claim_synthesis_job ext0 240 (\<lambda>_. False) ''w2'' 300) db_answered"
definition "db_published = commit (publish_job ext0 250 20 ''w2'' artifact0) db_resumed"
definition "db_second = commit
  (register ext0 260 11 21 (ToolName ''slug'') request0 ''k2'') db_published"

lemma sample_reachable:
  "reachable ext0 db_registered" "reachable ext0 db_claimed" "reachable ext0 db_running"
  "reachable ext0 db_waiting" "reachable ext0 db_answered" "reachable ext0 db_resumed"
  "reachable ext0 db_published" "reachable ext0 db_second"
proof -
  show 1: "reachable ext0 db_registered"
    unfolding db_registered_def by (rule commit_reachable [OF reachable.initial]) (rule step.register)
  show 2: "reachable ext0 db_claimed"
    unfolding db_claimed_def by (rule commit_reachable [OF 1]) (rule step.claim)
  show 3: "reachable ext0 db_running"
    unfolding db_running_def by (rule commit_reachable [OF 2]) (simp add: step.checkpoint)
  show 4: "reachable ext0 db_waiting"
    unfolding db_waiting_def by (rule commit_reachable [OF 3]) (rule step.suspend)
  show 5: "reachable ext0 db_answered"
    unfolding db_answered_def by (rule commit_reachable [OF 4]) (simp add: step.answer)
  show 6: "reachable ext0 db_resumed"
    unfolding db_resumed_def by (rule commit_reachable [OF 5]) (rule step.claim)
  show 7: "reachable ext0 db_published"
    unfolding db_published_def by (rule commit_reachable [OF 6]) (simp add: step.publish)
  show 8: "reachable ext0 db_second"
    unfolding db_second_def by (rule commit_reachable [OF 7]) (rule step.register)
qed

lemma sample_states:
  "map_option j_status (find_job 20 db_registered) = Some ''queued''"
  "map_option j_status (find_job 20 db_running) = Some ''running''"
  "map_option j_status (find_job 20 db_waiting) = Some ''awaiting_input''"
  "map_option j_status (find_job 20 db_answered) = Some ''queued''"
  "map_option j_status (find_job 20 db_published) = Some ''ready''"
  "map_option j_status (find_job 21 db_second) = Some ''queued''"
  by code_simp+

end
