(* ===== verification/Registry_Leases.thy ===== *)
theory Registry_Leases
  imports Registry_Sample
begin

text \<open>
  Who may change a job: every operation of a worker is fenced by the lease, so a worker
  whose job was claimed by another one can no longer change it, and no two workers hold
  a job at the same time.
\<close>

section \<open>The interface of a fenced operation\<close>

definition owns :: "uuid \<Rightarrow> string \<Rightarrow> db \<Rightarrow> bool" where
  "owns k w d = (case find_job k d of
     None \<Rightarrow> False
   | Some j \<Rightarrow> j_worker_id j = Some w \<and> (j_status j = ''running'' \<or> j_status j = ''ready''))"

locale lease_fenced =
  fixes op :: "uuid \<Rightarrow> string \<Rightarrow> db \<Rightarrow> storage_error + 'a \<times> db"
  assumes fenced: "\<not> owns k w d \<Longrightarrow> op k w d = Inl JobLeaseLost"
begin

lemma stale_keeps_tables: "\<not> owns k w d \<Longrightarrow> commit (op k w) d = d"
  by (simp add: commit_def fenced)

lemma success_owns: "op k w d = Inr r \<Longrightarrow> owns k w d"
  using fenced [of k w d] by (cases "owns k w d") auto

lemma reclaimed:
  assumes "find_job k d = Some j" "j_worker_id j = Some w'" "w \<noteq> w'"
  shows "op k w d = Inl JobLeaseLost"
  using assms by (intro fenced) (auto simp: owns_def)

end

lemma leased_not_owned: "\<not> owns k w d \<Longrightarrow> leased_job k w d = Inl JobLeaseLost"
  by (auto simp: owns_def leased_job_def leases_def split: option.splits)

lemma owner_not_owned: "\<not> owns k w d \<Longrightarrow> ensure_job_owner k w d = Inl JobLeaseLost"
  by (auto simp: owns_def ensure_job_owner_def split: option.splits)

interpretation renew: lease_fenced "\<lambda>k w. renew_job_lease now k w l" for now l
  by unfold_locales (simp add: renew_job_lease_def leased_not_owned)

interpretation checkpoint: lease_fenced
  "\<lambda>k w. save_agent_checkpoint now k w engine version cp" for now engine version cp
  by unfold_locales (simp add: save_agent_checkpoint_def owner_not_owned)

interpretation event: lease_fenced "\<lambda>k w. append_agent_event x now k w kind p" for x now kind p
  by unfold_locales (simp add: append_agent_event_def owner_not_owned)

interpretation suspend: lease_fenced "\<lambda>k w. suspend_job_for_input x now k w inp" for x now inp
  by unfold_locales (simp add: suspend_job_for_input_def leased_not_owned)

interpretation stage: lease_fenced "\<lambda>k w. set_job_stage now k w stage" for now stage
  by unfold_locales (simp add: set_job_stage_def set_job_stage_job_def leased_not_owned)

interpretation contract: lease_fenced "\<lambda>k w. save_contract x now k w contract assumptions"
  for x now contract assumptions
  by unfold_locales (simp add: save_contract_def leased_not_owned)

interpretation publish: lease_fenced "\<lambda>k w. publish_job x now k w a" for x now a
  by unfold_locales (simp add: publish_job_def leased_not_owned)

interpretation reject: lease_fenced "\<lambda>k w. reject_job now k w code message details"
  for now code message details
  by unfold_locales (simp add: reject_job_def leased_not_owned)

section \<open>Claims\<close>

lemma claimed_job_id: "claimed_job x k d = Inr c \<Longrightarrow> cj_job_id c = k"
  by (auto simp: claimed_job_def rbind_Inr_iff)

lemma claim_Some:
  assumes "claim_synthesis_job x now locked w l d = Inr (Some c, d')" "keys_ok d"
  obtains j where "claim_candidate now locked d = Some j" "j \<in> set (jobs d)" "claimable now j"
    "cj_job_id c = j_id j" "find_job (j_id j) d = Some j"
    "find_job (j_id j) d' = Some (claim_job_row now w l j)"
    "d' = update_version (job_version j) (claim_version_row now)
       (update_job (j_id j) (claim_job_row now w l) d)"
proof -
  have "claim_candidate now locked d \<noteq> None"
    using assms(1) by (cases "claim_candidate now locked d") (simp_all add: claim_synthesis_job_def)
  then obtain j where cand: "claim_candidate now locked d = Some j" by blast
  have rest: "claimed_job x (j_id j) (update_version_of_job (j_id j) (claim_version_row now)
       (update_job (j_id j) (claim_job_row now w l) d)) = Inr c"
      "d' = update_version_of_job (j_id j) (claim_version_row now)
       (update_job (j_id j) (claim_job_row now w l) d)"
    using assms(1) cand
    by (auto simp add: claim_synthesis_job_def Let_def rbind_Inr_iff split: if_splits)
  note facts = claim_candidate_facts [OF cand]
  have j: "find_job (j_id j) d = Some j" using facts(1) assms(2) by (simp add: find_job_iff)
  then have j': "find_job (j_id j) (update_job (j_id j) (claim_job_row now w l) d) =
      Some (claim_job_row now w l j)"
    by (simp add: find_job_update)
  show ?thesis
    by (rule that [OF cand facts(1,2) claimed_job_id [OF rest(1)] j])
      (use rest(2) j' in \<open>simp_all add: update_version_of_job_def\<close>)
qed

text \<open>C4: once another worker has claimed a job, every operation of the former worker on
  it fails with \<open>JobLeaseLost\<close>: it can neither renew, record, ask, move, publish nor
  reject.\<close>

theorem reclaimed_worker_is_fenced:
  assumes "reachable x d"
    and "claim_synthesis_job x now locked w' l d = Inr (Some c, d')" and "w \<noteq> w'"
  shows "renew_job_lease n1 (cj_job_id c) w l1 d' = Inl JobLeaseLost \<and>
    save_agent_checkpoint n1 (cj_job_id c) w engine version cp d' = Inl JobLeaseLost \<and>
    append_agent_event x n1 (cj_job_id c) w kind p d' = Inl JobLeaseLost \<and>
    suspend_job_for_input x n1 (cj_job_id c) w inp d' = Inl JobLeaseLost \<and>
    set_job_stage n1 (cj_job_id c) w stage d' = Inl JobLeaseLost \<and>
    save_contract x n1 (cj_job_id c) w contract assumptions d' = Inl JobLeaseLost \<and>
    publish_job x n1 (cj_job_id c) w a d' = Inl JobLeaseLost \<and>
    reject_job n1 (cj_job_id c) w code message details d' = Inl JobLeaseLost"
proof -
  have keys: "keys_ok d" using reachable_inv [OF assms(1)] invD(1) by blast
  from claim_Some [OF assms(2) keys] obtain j where j: "cj_job_id c = j_id j"
    "find_job (j_id j) d' = Some (claim_job_row now w' l j)" by metis
  then have "find_job (cj_job_id c) d' = Some (claim_job_row now w' l j)"
    "j_worker_id (claim_job_row now w' l j) = Some w'" by simp_all
  note lost = this assms(3)
  show ?thesis
    by (intro conjI renew.reclaimed [OF lost] checkpoint.reclaimed [OF lost]
        event.reclaimed [OF lost] suspend.reclaimed [OF lost] stage.reclaimed [OF lost]
        contract.reclaimed [OF lost] publish.reclaimed [OF lost] reject.reclaimed [OF lost])
qed

definition claimed0 :: "claimed_synthesis_job option" where
  "claimed0 = (case claim_synthesis_job ext0 240 (\<lambda>_. False) ''w2'' 300 db_answered of
     Inl _ \<Rightarrow> None | Inr (c, _) \<Rightarrow> c)"

lemma claimed0_claim:
  "claim_synthesis_job ext0 240 (\<lambda>_. False) ''w2'' 300 db_answered = Inr (Some (the claimed0), db_resumed)"
  "cj_job_id (the claimed0) = 20"
proof -
  have "claimed0 \<noteq> None" by code_simp
  then show "claim_synthesis_job ext0 240 (\<lambda>_. False) ''w2'' 300 db_answered =
      Inr (Some (the claimed0), db_resumed)"
    by (auto simp: claimed0_def db_resumed_def commit_def split: sum.splits)
  show "cj_job_id (the claimed0) = 20" by code_simp
qed

theorem reclaimed_worker_is_fenced_witness:
  "publish_job ext0 250 20 ''w1'' artifact0 db_resumed = Inl JobLeaseLost
   \<and> renew_job_lease 250 20 ''w1'' 300 db_resumed = Inl JobLeaseLost"
  using reclaimed_worker_is_fenced [OF sample_reachable(5) claimed0_claim(1), of "''w1''" 250]
  by (simp add: claimed0_claim(2))

text \<open>C3: while a worker's lease on a claimed job runs, no claim returns that job again,
  whatever rows other sessions have locked.\<close>

theorem claims_are_exclusive:
  assumes "reachable x d"
    and "claim_synthesis_job x now locked w l d = Inr (Some c, d')"
    and "now2 \<le> now + l * 1000000"
    and "claim_synthesis_job x now2 locked2 w2 l2 d' = Inr (Some c2, d2)"
  shows "cj_job_id c2 \<noteq> cj_job_id c"
proof
  assume same: "cj_job_id c2 = cj_job_id c"
  have inv: "registry_inv d" by (rule reachable_inv [OF assms(1)])
  have inv': "registry_inv d'" by (rule inv_claim [OF assms(2) inv])
  from claim_Some [OF assms(2) invD(1) [OF inv]] obtain j where j: "cj_job_id c = j_id j"
    "find_job (j_id j) d' = Some (claim_job_row now w l j)" by metis
  from claim_Some [OF assms(4) invD(1) [OF inv']] obtain j2 where j2: "cj_job_id c2 = j_id j2"
    "find_job (j_id j2) d' = Some j2" "claimable now2 j2" by metis
  have "j2 = claim_job_row now w l j" using same j j2 by simp
  then show False using j2(3) assms(3) by (simp add: claimable_def)
qed

text \<open>With two jobs waiting, the first two claims return different jobs.\<close>

definition "db_pair = commit (register ext0 232 11 21 (ToolName ''slug'') request0 ''k2'') db_answered"

definition claim_of :: "time \<Rightarrow> string \<Rightarrow> db \<Rightarrow> claimed_synthesis_job option" where
  "claim_of now w d = (case claim_synthesis_job ext0 now (\<lambda>_. False) w 300 d of
     Inl _ \<Rightarrow> None | Inr (c, _) \<Rightarrow> c)"

lemma claim_of_Some:
  assumes "claim_of now w d = Some c"
  shows "claim_synthesis_job ext0 now (\<lambda>_. False) w 300 d =
    Inr (Some c, commit (claim_synthesis_job ext0 now (\<lambda>_. False) w 300) d)"
  using assms by (auto simp: claim_of_def commit_def split: sum.splits)

definition "db_pair_claimed = commit (claim_synthesis_job ext0 240 (\<lambda>_. False) ''w2'' 300) db_pair"

theorem claims_are_exclusive_witness:
  "\<exists>c c2. claim_of 240 ''w2'' db_pair = Some c \<and> claim_of 250 ''w3'' db_pair_claimed = Some c2
     \<and> cj_job_id c2 \<noteq> cj_job_id c"
proof -
  have "claim_of 240 ''w2'' db_pair \<noteq> None" "claim_of 250 ''w3'' db_pair_claimed \<noteq> None"
    by code_simp+
  then obtain c c2 where c: "claim_of 240 ''w2'' db_pair = Some c"
    "claim_of 250 ''w3'' db_pair_claimed = Some c2" by blast
  have "reachable ext0 db_pair"
    unfolding db_pair_def by (rule commit_reachable [OF sample_reachable(5)]) (rule step.register)
  from claims_are_exclusive [OF this claim_of_Some [OF c(1), folded db_pair_claimed_def] _
      claim_of_Some [OF c(2)]]
  show ?thesis using c by simp
qed

end
