(* ===== verification/Registry_States.thy ===== *)
theory Registry_States
  imports Registry_Leases
begin

text \<open>
  What holds of the registry in every reachable state: jobs and their versions agree, a stable pointer
  resolves, and every job can be read back.
\<close>

section \<open>Jobs and versions\<close>



lemma find_tool_mem: "find_tool n d = Some t \<Longrightarrow> t \<in> set (tools d) \<and> t_name t = n"
  by (auto simp: find_tool_def dest: lookup_Some_mem lookup_Some_key)

lemma stored_format: "io_format_parse s \<noteq> None \<Longrightarrow> \<exists>f. parse_io_format x s = Inr f"
  by (auto simp: parse_io_format_def)

lemma version_facts:
  assumes "registry_inv d" "find_version t r d = Some v"
  shows "version_ok d v" "v \<in> set (versions d)" "v_key v = (t, r)" "v_tool_id v = t" "v_revision v = r"
  using assms invD(1,2) [OF assms(1)] by (auto simp: find_version_iff refs_ok_def v_key_def)



lemma version_status_stored:
  "coherent s st vs \<Longrightarrow> \<exists>q. parse_version_status x vs = Inr q \<and> version_status_as_str q = vs"
proof -
  assume "coherent s st vs"
  then have "vs \<in> version_status_as_str ` {Draft, Synthesizing, Building, Validating, Ready, Revoked, Rejected}"
    by (auto simp: coherent_def working_statuses_def)
  then obtain q where "vs = version_status_as_str q" by blast
  then show ?thesis by auto
qed

lemma job_status_stored:
  "coherent s st vs \<Longrightarrow> \<exists>q. parse_job_status x s = Inr q \<and> job_status_as_str q = s"
proof -
  assume "coherent s st vs"
  then have "s \<in> job_status_as_str ` {JQueued, JRunning, JAwaitingInput, JReady, JRejected}"
    using coherent_status by auto
  then obtain q where "s = job_status_as_str q" by blast
  then show ?thesis by auto
qed

lemma job_stage_stored:
  "coherent s st vs \<Longrightarrow> \<exists>q. parse_job_stage x st = Inr q \<and> job_stage_as_str q = st"
proof -
  assume "coherent s st vs"
  then have "st \<in> job_stage_as_str ` {SQueued, SContract, SSynthesizing, SBuilding, SValidating,
      SRepairing, SAwaitingInput, SComplete}"
    by (auto simp: coherent_def working_stages_def)
  then obtain q where "st = job_stage_as_str q" by blast
  then show ?thesis by auto
qed

lemma job_reads:
  assumes inv: "registry_inv d" and j: "find_job k d = Some j"
  shows "\<exists>t v qi r. join_job d j = [(j, t, v, qi)] \<and> map_job x (j, t, v, qi) = Inr r \<and>
      jr_job_id r = x_show_uuid x k \<and>
      job_status_as_str (jr_status r) = j_status j \<and> job_stage_as_str (jr_stage r) = j_stage j \<and>
      int (jr_revision r) = j_revision j \<and>
      (jr_pending_input r \<noteq> None \<longleftrightarrow> jr_status r = JAwaitingInput)"
proof -
  note ok = job_ok_of [OF inv j]
  from ok obtain v where v: "find_version (j_tool_id j) (j_revision j) d = Some v"
    "coherent (j_status j) (j_stage j) (v_status v)" by (rule job_ok_version)
  note vf = version_facts [OF inv v(1)]
  obtain t where t: "lookup t_id (j_tool_id j) (tools d) = Some t" "1 \<le> j_revision j"
    using vf(1,4,5) by (auto simp: version_ok_def split: option.splits)
  obtain qs where qs: "parse_job_status x (j_status j) = Inr qs" "job_status_as_str qs = j_status j"
    using job_status_stored [OF v(2)] by blast
  obtain qt where qt: "parse_job_stage x (j_stage j) = Inr qt" "job_stage_as_str qt = j_stage j"
    using job_stage_stored [OF v(2)] by blast
  obtain qv where qv: "parse_version_status x (v_status v) = Inr qv"
    using version_status_stored [OF v(2)] by blast
  have k: "j_id j = k" using j invD(1) [OF inv] by (simp add: find_job_iff)
  have waiting: "qs = JAwaitingInput \<longleftrightarrow> j_status j = ''awaiting_input''"
    using qs(2) job_status.as_str_inj [of qs JAwaitingInput] by simp
  have pend: "length (pending_inputs k d) = (if j_status j = ''awaiting_input'' then 1 else 0)"
    using ok k by (simp add: job_ok_def)
  show ?thesis
  proof (cases "j_status j = ''awaiting_input''")
    case False
    with pend have "pending_inputs k d = []" by simp
    then show ?thesis
      using t v qs qt qv k waiting False
      by (simp add: join_job_def map_job_def)
  next
    case True
    with pend obtain i where i: "pending_inputs k d = [i]" by (auto simp: length_Suc_conv)
    then have "i \<in> set (pending_inputs k d)" by simp
    then have "i \<in> set (inputs d)" by (simp add: pending_inputs_def)
    then obtain kind choices where "parse_job_input_kind x (i_kind i) = Inr kind"
        "choices_from_value (i_choices i) = Some choices"
      using invD(2) [OF inv] by (auto simp: refs_ok_def input_ok_def parse_job_input_kind_def)
    then show ?thesis
      using t v qs qt qv k waiting True i
      by (simp add: join_job_def map_job_def)
  qed
qed

text \<open>C40: every job of a reachable state can be read: \<open>get_job\<close> meets no broken join and no
  unknown status, reports the stored status and stage, and shows a pending question
  exactly when the job waits for input.\<close>

theorem get_job_total:
  assumes "reachable x d" "find_job k d = Some j"
  shows "\<exists>r. get_job x k d = Inr r \<and> jr_job_id r = x_show_uuid x k \<and>
      job_status_as_str (jr_status r) = j_status j \<and> job_stage_as_str (jr_stage r) = j_stage j \<and>
      int (jr_revision r) = j_revision j \<and>
      (jr_pending_input r \<noteq> None \<longleftrightarrow> jr_status r = JAwaitingInput)"
  using job_reads [OF reachable_inv [OF assms(1)] assms(2), of x] assms(2)
  by (auto simp: get_job_def)

theorem get_job_total_witness:
  "\<exists>r. get_job ext0 20 db_waiting = Inr r \<and> jr_pending_input r \<noteq> None"
proof -
  obtain j where j: "find_job 20 db_waiting = Some j" "j_status j = ''awaiting_input''"
    using sample_states(3) by auto
  from get_job_total [OF sample_reachable(4) j(1)] obtain r where
    r: "get_job ext0 20 db_waiting = Inr r" "job_status_as_str (jr_status r) = ''awaiting_input''"
       "jr_pending_input r \<noteq> None \<longleftrightarrow> jr_status r = JAwaitingInput"
    using j(2) by auto
  from r(2) have "jr_status r = JAwaitingInput"
    using job_status.as_str_inj [of "jr_status r" JAwaitingInput] by simp
  with r show ?thesis by blast
qed

end
