(* ===== verification/Registry_Behaviour.thy ===== *)
theory Registry_Behaviour
  imports Registry_States
begin

text \<open>
  What registration and revocation do: registration is idempotent, and revocation falls back to the
  greatest other ready revision.
\<close>

section \<open>Registration and revocation\<close>

lemma register_twice:
  assumes "lookup j_idempotency_key key (jobs d) = Some j"
    "lookup t_id (j_tool_id j) (tools d) = Some t" "find_version (j_tool_id j) (j_revision j) d = Some v"
  shows "register x now tid jid name request key d =
    register_existing x (registration_fingerprint x name request) j t v d"
  using assms by (simp add: register_def)

lemma key_lookup:
  assumes "registry_inv d" "lookup j_idempotency_key key (jobs d) = Some j"
  obtains t v where "lookup t_id (j_tool_id j) (tools d) = Some t" "1 \<le> j_revision j"
    "find_version (j_tool_id j) (j_revision j) d = Some v" "coherent (j_status j) (j_stage j) (v_status v)"
proof -
  have "find_job (j_id j) d = Some j"
    using lookup_Some_mem [OF assms(2)] invD(1) [OF assms(1)] by (simp add: find_job_iff)
  from job_ok_of [OF assms(1) this] obtain v where
    v: "find_version (j_tool_id j) (j_revision j) d = Some v" "coherent (j_status j) (j_stage j) (v_status v)"
    by (rule job_ok_version)
  note vf = version_facts [OF assms(1) v(1)]
  obtain t where "lookup t_id (j_tool_id j) (tools d) = Some t" "1 \<le> j_revision j"
    using vf(1,4,5) by (auto simp: version_ok_def split: option.splits)
  with v that show ?thesis by blast
qed

text \<open>The job a successful registration leaves under its key.\<close>

lemma register_result:
  assumes r: "register x now tid jid name request key d = Inr (r, d')" and inv: "registry_inv d"
  obtains j t where "lookup j_idempotency_key key (jobs d') = Some j"
    "j_request_fingerprint j = registration_fingerprint x name request"
    "lookup t_id (j_tool_id j) (tools d') = Some t" "rp_tool r = t_name t"
    "int (rp_revision r) = j_revision j" "rp_job_id r = x_show_uuid x (j_id j)"
proof (cases "lookup j_idempotency_key key (jobs d)")
  case (Some j)
  from key_lookup [OF inv Some] obtain t v where tv: "lookup t_id (j_tool_id j) (tools d) = Some t"
    "1 \<le> j_revision j" "find_version (j_tool_id j) (j_revision j) d = Some v" by metis
  show ?thesis
    using r that [OF _ _ _ ] Some tv
    by (auto simp: register_twice [OF Some tv(1,3)] register_existing_def rbind_Inr_iff split: if_splits)
next
  case None
  with r have new: "register_new x now tid jid name request key
      (registration_fingerprint x name request) d = Inr (r, d')" by (simp add: register_def)
  from new obtain d1 t d2 where steps: "insert_tool now tid (tool_name_str name) d = Inr d1"
    "find_tool (tool_name_str name) d1 = Some t"
    "insert_version (new_version_row now (t_id t) (t_latest_revision t + 1) request)
       (bump_tool now (t_id t) (t_latest_revision t + 1) d1) = Inr d2"
    "insert_job (new_job_row now jid (t_id t) (t_latest_revision t + 1) key
       (registration_fingerprint x name request) request) d2 = Inr d'"
    "r = \<lparr>rp_tool = tool_name_str name, rp_revision = nat (t_latest_revision t + 1),
          rp_status = Draft, rp_job_id = x_show_uuid x jid\<rparr>"
    by (rule register_new_Inr)
  let ?j = "new_job_row now jid (t_id t) (t_latest_revision t + 1) key
       (registration_fingerprint x name request) request"
  let ?t = "t\<lparr>t_latest_revision := t_latest_revision t + 1, t_updated_at := now\<rparr>"
  have inv1: "registry_inv d1" by (rule inv_insert_tool [OF steps(1) inv])
  have jobs1: "jobs d1 = jobs d" using steps(1) by (auto simp: insert_tool_def split: if_splits)
  have t: "lookup t_id (t_id t) (tools d1) = Some t" "t_name t = tool_name_str name" "0 \<le> t_latest_revision t"
    using find_tool_mem [OF steps(2)] invD(1,2) [OF inv1]
    by (auto simp: keys_ok_def lookup_mem refs_ok_def tool_ok_def)
  have tools2: "tools d2 = tools (bump_tool now (t_id t) (t_latest_revision t + 1) d1)"
    and jobs2: "jobs d2 = jobs d"
    using steps(3) jobs1 by (auto simp: insert_version_def bump_tool_def split: if_splits)
  have final: "jobs d' = jobs d @ [?j]" "tools d' = tools d2"
    using steps(4) jobs2 by (auto simp: insert_job_def split: if_splits)
  show ?thesis
  proof (rule that)
    show "lookup j_idempotency_key key (jobs d') = Some ?j"
      using None by (simp add: final lookup_append lookup_Cons new_job_row_def)
    show "lookup t_id (j_tool_id ?j) (tools d') = Some ?t"
      using t(1) by (simp add: final tools2 bump_tool_def lookup_upd new_job_row_def)
  qed (use t steps(5) in \<open>simp_all add: new_job_row_def\<close>)
qed

text \<open>C34: registering again under a key the registry has seen changes no table: the same
  request gets the tool, revision and job of the first registration, and a request with
  another fingerprint is refused with \<open>IdempotencyConflict\<close>.\<close>

theorem register_idempotent:
  assumes "reachable x d" "register x now tid jid name request key d = Inr (r, d')"
  shows "(\<exists>r'. register x now2 tid2 jid2 name request key d' = Inr (r', d') \<and> rp_tool r' = rp_tool r
        \<and> rp_revision r' = rp_revision r \<and> rp_job_id r' = rp_job_id r) \<and>
    (registration_fingerprint x name2 request2 = registration_fingerprint x name request \<or>
      register x now2 tid2 jid2 name2 request2 key d' = Inl IdempotencyConflict)"
proof -
  have inv: "registry_inv d" by (rule reachable_inv [OF assms(1)])
  from register_result [OF assms(2) inv] obtain j t where
    j: "lookup j_idempotency_key key (jobs d') = Some j"
       "j_request_fingerprint j = registration_fingerprint x name request"
    and t: "lookup t_id (j_tool_id j) (tools d') = Some t"
    and r: "rp_tool r = t_name t" "int (rp_revision r) = j_revision j"
       "rp_job_id r = x_show_uuid x (j_id j)" by metis
  have inv': "registry_inv d'" by (rule inv_register [OF assms(2) inv])
  from key_lookup [OF inv' j(1)] obtain v where
    v: "find_version (j_tool_id j) (j_revision j) d' = Some v"
       "coherent (j_status j) (j_stage j) (v_status v)" "1 \<le> j_revision j" by metis
  obtain q where q: "parse_version_status x (v_status v) = Inr q"
    using version_status_stored [OF v(2)] by blast
  have again: "register x now2 tid2 jid2 n q key d' =
      register_existing x (registration_fingerprint x n q) j t v d'" for n q
    by (rule register_twice [OF j(1) t v(1)])
  have "0 \<le> j_revision j" using v(3) by simp
  then show ?thesis
    unfolding again register_existing_def using j(2) q r by auto
qed

theorem register_idempotent_witness:
  "(\<exists>r. register ext0 500 12 22 (ToolName ''slug'') request0 ''k1'' db_registered = Inr (r, db_registered)) \<and>
   register ext0 500 12 22 (ToolName ''other'') request0 ''k1'' db_registered = Inl IdempotencyConflict"
proof -
  let ?reg = "register ext0 100 10 20 (ToolName ''slug'') request0 ''k1''"
  have "(case ?reg empty_db of Inl _ \<Rightarrow> False | Inr _ \<Rightarrow> True)" by code_simp
  then obtain r where r: "?reg empty_db = Inr (r, db_registered)"
    by (auto simp: db_registered_def commit_def split: sum.splits)
  have "registration_fingerprint ext0 (ToolName ''other'') request0
      \<noteq> registration_fingerprint ext0 (ToolName ''slug'') request0" by code_simp
  with register_idempotent [OF reachable.initial r, of 500 12 22 "ToolName ''other''" request0]
  show ?thesis by blast
qed



end
