(* ===== verification/Registry_Trace.thy ===== *)
theory Registry_Trace
  imports Registry_Behaviour
begin

text \<open>
  The agent's trace and the cancellation of jobs: the budget of the trace, the reserve
  that always leaves room for the terminal event, what cancellation does to a job that has
  run and to one that has not, and how a stage change committed in two statements can
  interleave with it.
\<close>

section \<open>The budget\<close>

text \<open>C30: in every reachable state the events stored for a job take at most 512 KiB, and at most
  512 bytes less while the job is not finished.\<close>

theorem trace_within_budget:
  assumes "reachable x d"
  shows "stored_bytes k d \<le> 524288 \<and>
    (\<forall>j. find_job k d = Some j \<and> \<not> terminal (j_status j) \<longrightarrow> stored_bytes k d \<le> 523776)"
proof -
  have inv: "registry_inv d" by (rule reachable_inv [OF assms])
  show ?thesis
  proof (cases "find_run k d")
    case None
    then show ?thesis using stored_bytes_absent [OF invD(4) [OF inv]] by simp
  next
    case (Some r)
    then have r: "r \<in> set (runs d)" "ar_job_id r = k" using invD(1) [OF inv] by (simp_all add: find_run_iff)
    then obtain j where j: "find_job k d = Some j"
      using invD(2) [OF inv] by (auto simp: refs_ok_def run_ok_def)
    have "stored_bytes k d \<le> ar_trace_bytes r" using r invD(4) [OF inv] by (auto simp: trace_ok_def)
    moreover have "j_id j = k" using j invD(1) [OF inv] by (simp add: find_job_iff)
    then have "ar_trace_bytes r \<le> trace_budget (j_status j)"
      using job_ok_of [OF inv j] Some by (simp add: job_ok_def budget_ok_def)
    ultimately show ?thesis
      using j by (auto simp: trace_budget_def agent_trace_limit_bytes_def
          agent_terminal_event_reserve_bytes_def split: if_splits)
  qed
qed

theorem trace_within_budget_witness: "stored_bytes 20 db_published \<le> 524288 \<and> events db_published \<noteq> []"
proof -
  have "events db_published \<noteq> []" by code_simp
  then show ?thesis using trace_within_budget [OF sample_reachable(7), of 20] by simp
qed

text \<open>An event appended with at least 512 bytes left is stored, as itself or as the note that it
  was left out, when that note fits in 512 bytes.\<close>

lemma append_event_stored:
  assumes "find_run k d = Some r" "0 \<le> ar_trace_bytes r" "ar_trace_bytes r \<le> limit - 512"
    "limit \<le> agent_trace_limit_bytes" "length (x_to_vec x omitted_payload) \<le> 512"
  shows "\<exists>p n. append_agent_event_in_transaction x now k kind payload limit d =
    Inr (insert_event now k kind p n d)"
proof -
  obtain p n where pn: "bounded_event_payload x payload = (p, n)" by fastforce
  have "payload_size_of x omitted_payload \<le> 512"
    using assms(5) by (simp add: payload_size_of_def i32_max_def)
  moreover have "i64_saturating_sub limit (ar_trace_bytes r) = limit - ar_trace_bytes r"
    using assms(2-4) by (simp add: i64_saturating_sub_def i64_min_def i64_max_def agent_trace_limit_bytes_def)
  ultimately show ?thesis
    using assms(1,3) pn by (auto simp: append_agent_event_in_transaction_def Let_def)
qed

section \<open>Cancellation\<close>

lemma cancel_rows_frame:
  assumes "find_job k d = Some j" "find_version (j_tool_id j) (j_revision j) d = Some v"
  shows "map_option j_status (find_job k (cancel_job_rows now k reason d)) = Some ''rejected''"
    and "map_option v_status (find_version (j_tool_id j) (j_revision j) (cancel_job_rows now k reason d))
      = Some ''rejected''"
    and "pending_inputs k (cancel_job_rows now k reason d) = []"
    and "find_run k (cancel_job_rows now k reason d) = find_run k d"
    and "events (cancel_job_rows now k reason d) = events d"
  unfolding cancel_rows_change [OF assms(1)]
    change_find_job [OF keeps_cancelled(1) assms(1)]
    change_find_version [OF keeps_cancelled(2) assms(2)]
  using pending_cancelled [of k now k reason d]
  by (simp_all add: cancelled_job_row_def cancelled_version_row_def pending_inputs_def change_def)

text \<open>C31: cancelling a reachable job that is not finished and whose agent has run always succeeds
  for a reason of 1 to 4096 bytes: the job and its version are rejected, no question stays
  pending, and exactly one event, \<open>job_cancelled\<close>, is appended to the trace, because 512 bytes
  are kept in reserve for it.  The note the code stores for an event that does not fit
  takes at most that many bytes.\<close>

theorem cancel_records_event:
  assumes "reachable x d" "find_job k d = Some j" "\<not> terminal (j_status j)" "find_run k d \<noteq> None"
    "trim reason \<noteq> []" "length (trim reason) \<le> 4096"
    "length (x_to_vec x omitted_payload) \<le> 512"
  shows "\<exists>d' e. cancel_job x now k reason d = Inr ((), d') \<and>
      map_option j_status (find_job k d') = Some ''rejected'' \<and>
      map_option v_status (find_version (j_tool_id j) (j_revision j) d') = Some ''rejected'' \<and>
      pending_inputs k d' = [] \<and>
      events d' = events d @ [e] \<and> ev_job_id e = k \<and> ev_kind e = ''job_cancelled''"
proof -
  have inv: "registry_inv d" by (rule reachable_inv [OF assms(1)])
  obtain r where r: "find_run k d = Some r" using assms(4) by blast
  note ok = job_ok_of [OF inv assms(2)]
  from ok obtain v where v: "find_version (j_tool_id j) (j_revision j) d = Some v" by (rule job_ok_version)
  let ?rows = "cancel_job_rows now k (trim reason) d"
  note rows = cancel_rows_frame [OF assms(2) v, of now "trim reason"]
  have k: "j_id j = k" using assms(2) invD(1) [OF inv] by (simp add: find_job_iff)
  have bytes: "0 \<le> ar_trace_bytes r" "ar_trace_bytes r \<le> agent_trace_limit_bytes - 512"
  proof -
    have "r \<in> set (runs d)" using r invD(1) [OF inv] by (simp add: find_run_iff)
    then show "0 \<le> ar_trace_bytes r" using invD(2) [OF inv] by (simp add: refs_ok_def run_ok_def)
    show "ar_trace_bytes r \<le> agent_trace_limit_bytes - 512"
      using ok r k assms(3)
      by (simp add: job_ok_def budget_ok_def trace_budget_def agent_terminal_event_reserve_bytes_def)
  qed
  have "find_run k ?rows = Some r" using rows(4) r by simp
  from append_event_stored [OF this bytes order_refl assms(7)] obtain p n where
    ev: "append_agent_event_in_transaction x now k ''job_cancelled''
       (json_object [(''reason'', JString (trim reason))]) agent_trace_limit_bytes ?rows =
       Inr (insert_event now k ''job_cancelled'' p n ?rows)" by metis
  have "cancel_job x now k reason d = Inr ((), insert_event now k ''job_cancelled'' p n ?rows)"
    using assms(2,3,5,6) ev by (simp add: cancel_job_def Let_def terminal_def)
  then show ?thesis
    using rows by (auto simp: insert_event_def find_job_def find_version_def pending_inputs_def)
qed

theorem cancel_records_event_witness:
  "\<exists>d' e. cancel_job ext0 300 20 ''stop'' db_waiting = Inr ((), d') \<and> events d' = events db_waiting @ [e]
     \<and> ev_kind e = ''job_cancelled'' \<and> pending_inputs 20 d' = []"
proof -
  obtain j where j: "find_job 20 db_waiting = Some j" "j_status j = ''awaiting_input''"
    using sample_states(3) by auto
  have "find_run 20 db_waiting \<noteq> None" "trim ''stop'' \<noteq> []" "length (trim ''stop'') \<le> 4096"
    "length (x_to_vec ext0 omitted_payload) \<le> 512" by code_simp+
  from cancel_records_event [OF sample_reachable(4) j(1) _ this, of 300] j(2) show ?thesis by auto
qed

text \<open>A job whose agent has not yet stored a checkpoint, such as every job that still waits
  in the queue for its first claim, cannot be cancelled: the request fails with an invariant
  error and changes nothing.\<close>

theorem cancel_before_first_checkpoint_fails:
  assumes "find_job k d = Some j" "\<not> terminal (j_status j)" "find_run k d = None"
    "trim reason \<noteq> []" "length (trim reason) \<le> 4096"
  shows "cancel_job x now k reason d = Inl (Invariant ''agent run missing before event'')"
proof -
  have "find_run k (cancel_job_rows now k (trim reason) d) = None"
    using assms(3)
    by (simp add: cancel_rows_change [OF assms(1)])
  then show ?thesis
    using assms
    by (simp add: cancel_job_def terminal_def append_agent_event_in_transaction_def Let_def
        split: prod.split)
qed

theorem cancel_before_first_checkpoint_fails_witness:
  "cancel_job ext0 150 20 ''stop'' db_registered = Inl (Invariant ''agent run missing before event'')"
proof -
  obtain j where j: "find_job 20 db_registered = Some j" "j_status j = ''queued''"
    using sample_states(1) by auto
  have "find_run 20 db_registered = None" "trim ''stop'' \<noteq> []" "length (trim ''stop'') \<le> 4096"
    by code_simp+
  from cancel_before_first_checkpoint_fails [OF j(1) _ this] j(2) show ?thesis by simp
qed

text \<open>\<open>set_job_stage\<close> commits its two statements separately; a cancellation committed between
  them leaves the job rejected while its version is set back to the working status of the
  stage, a state no sequence of whole operations reaches.\<close>

theorem cancel_between_stage_statements:
  assumes "set_job_stage_job now k w stage d = Inr ((), d1)" "cancel_job x now2 k reason d1 = Inr ((), d2)"
    "stage_version_status stage = Some status" "find_job k d = Some j"
    "find_version (j_tool_id j) (j_revision j) d \<noteq> None"
  shows "map_option j_status (find_job k (set_job_stage_version now k stage d2)) = Some ''rejected'' \<and>
    map_option v_status (find_version (j_tool_id j) (j_revision j) (set_job_stage_version now k stage d2))
      = Some status \<and>
    \<not> reachable x (set_job_stage_version now k stage d2)"
proof -
  let ?f = "\<lambda>j. j\<lparr>j_stage := job_stage_as_str stage, j_lease_until := Some (now + 300 * 1000000),
                  j_updated_at := now\<rparr>"
  have d1: "d1 = update_job k ?f d"
    using assms(1) by (simp add: set_job_stage_job_def rbind_Inr_iff)
  have j1: "find_job k d1 = Some (?f j)"
    using assms(4) by (simp add: d1 find_job_update keeps_job_def)
  obtain v where v: "find_version (j_tool_id j) (j_revision j) d = Some v" using assms(5) by blast
  have v1: "find_version (j_tool_id (?f j)) (j_revision (?f j)) d1 = Some v" using v by (simp add: d1)
  note rows = cancel_rows_frame [OF j1 v1]
  from assms(2) have ev: "append_agent_event_in_transaction x now2 k ''job_cancelled''
      (json_object [(''reason'', JString (trim reason))]) agent_trace_limit_bytes
      (cancel_job_rows now2 k (trim reason) d1) = Inr d2"
    by (auto simp: cancel_job_def Let_def rbind_Inr_iff split: if_splits)
  have same: "find_job k d2 = find_job k (cancel_job_rows now2 k (trim reason) d1)"
      "find_version t r d2 = find_version t r (cancel_job_rows now2 k (trim reason) d1)" for t r
    using append_event_cases [OF ev] by (metis event_frame(10), metis event_frame(11))
  obtain j2 where j2: "find_job k d2 = Some j2" "j_status j2 = ''rejected''" "job_version j2 = job_version j"
  proof -
    have "map_option job_version (find_job k (cancel_job_rows now2 k (trim reason) d1)) = Some (job_version j)"
      unfolding cancel_rows_change [OF j1] change_find_job [OF keeps_cancelled(1) j1]
      by (simp add: cancelled_job_row_def)
    with rows(1) [of now2 "trim reason"] same(1) that show ?thesis by auto
  qed
  let ?d3 = "set_job_stage_version now k stage d2"
  have d3: "?d3 = update_version (job_version j) (\<lambda>v. v\<lparr>v_status := status, v_updated_at := now\<rparr>) d2"
    using j2 assms(3) by (simp add: set_job_stage_version_def update_version_of_job_def)
  have job: "map_option j_status (find_job k ?d3) = Some ''rejected''" using j2 by (simp add: d3)
  have ver: "map_option v_status (find_version (j_tool_id j) (j_revision j) ?d3) = Some status"
    using rows(2) [of now2 "trim reason"] same(2)
    by (auto simp: d3 find_version_update keeps_version_def) (auto simp: find_version_def)
  have "\<not> reachable x ?d3"
  proof
    assume "reachable x ?d3"
    from job_ok_of [OF reachable_inv [OF this]] j2 have "job_ok ?d3 j2" by (simp add: d3)
    moreover have "status \<noteq> ''rejected''"
      using stage_coherent [OF assms(3)] by (auto simp: working_statuses_def)
    ultimately show False using ver j2(2,3) by (auto simp: job_ok_def)
  qed
  with job ver show ?thesis by blast
qed

definition "db_staged = (case set_job_stage_job 215 20 ''w1'' SBuilding db_running of
   Inl _ \<Rightarrow> db_running | Inr (_, d) \<Rightarrow> d)"

definition "db_cancelled = commit (cancel_job ext0 216 20 ''stop'') db_staged"

theorem cancel_between_stage_statements_witness:
  "map_option j_status (find_job 20 (set_job_stage_version 217 20 SBuilding db_cancelled)) = Some ''rejected''
   \<and> \<not> reachable ext0 (set_job_stage_version 215 20 SBuilding db_cancelled)"
proof -
  have "(case set_job_stage_job 215 20 ''w1'' SBuilding db_running of Inl _ \<Rightarrow> False | Inr _ \<Rightarrow> True)"
    by code_simp
  then have s: "set_job_stage_job 215 20 ''w1'' SBuilding db_running = Inr ((), db_staged)"
    by (auto simp: db_staged_def split: sum.splits)
  have "(case cancel_job ext0 216 20 ''stop'' db_staged of Inl _ \<Rightarrow> False | Inr _ \<Rightarrow> True)" by code_simp
  then have c: "cancel_job ext0 216 20 ''stop'' db_staged = Inr ((), db_cancelled)"
    by (auto simp: db_cancelled_def commit_def split: sum.splits)
  obtain j where j: "find_job 20 db_running = Some j" using sample_states(2) by auto
  have v: "find_version (j_tool_id j) (j_revision j) db_running \<noteq> None"
    using job_ok_of [OF reachable_inv [OF sample_reachable(3)] j] by (auto simp: job_ok_def split: option.splits)
  have "map_option j_status (find_job 20 db_cancelled) = Some ''rejected''" by code_simp
  with cancel_between_stage_statements [OF s c _ j v] show ?thesis
    by (auto simp: set_job_stage_version_def update_version_of_job_def)
qed

end
