(* ===== verification/Registry_Questions.thy ===== *)
theory Registry_Questions
  imports Registry_Trace
begin

text \<open>
  The question-and-answer cycle of a job, publication, and the compaction of finished
  traces, each from the tables before it to the tables after.
\<close>

section \<open>Suspension and answer\<close>

lemma find_append_new: "(\<And>x. x \<in> set xs \<Longrightarrow> \<not> P x) \<Longrightarrow> P q \<Longrightarrow> find P (xs @ [q]) = Some q"
  by (induction xs) auto

lemma append_event_ok:
  "find_run k d \<noteq> None \<Longrightarrow>
     \<exists>d'. append_agent_event_in_transaction x now k kind p limit d = Inr d'"
  by (auto simp: append_agent_event_in_transaction_def Let_def split: prod.split)

lemma append_event_frame:
  assumes "append_agent_event_in_transaction x now k kind p limit d = Inr d'"
  shows "jobs d' = jobs d" "inputs d' = inputs d" "versions d' = versions d" "tools d' = tools d"
    "artifacts d' = artifacts d" "find_run k d' \<noteq> None"
  using assms by (auto elim!: append_event_cases simp: find_run_event)

definition question_row :: "time \<Rightarrow> uuid \<Rightarrow> string \<Rightarrow> new_job_input \<Rightarrow> input_row" where
  "question_row now k stage inp =
     \<lparr>i_id = ni_id inp, i_job_id = k, i_agent_call_id = ni_agent_call_id inp,
      i_kind = job_input_kind_as_str (ni_kind inp), i_prompt = ni_prompt inp,
      i_choices = choices_to_value (ni_choices inp), i_context = ni_context inp,
      i_resume_stage = stage, i_status = ''pending'', i_answer = None,
      i_created_at = now, i_answered_at = None\<rparr>"

lemma suspend_new_question:
  assumes s: "suspend_job_for_input x now k w inp d = Inr (i, d')" and j: "find_job k d = Some j"
    and new: "find (\<lambda>i. i_job_id i = k \<and> i_agent_call_id i = ni_agent_call_id inp) (inputs d) = None"
  shows "i = ni_id inp" "inputs d' = inputs d @ [question_row now k (j_stage j) inp]"
    "lookup i_id (ni_id inp) (inputs d) = None"
    "find_job k d' = Some (j\<lparr>j_status := ''awaiting_input'', j_stage := ''awaiting_input'',
        j_worker_id := None, j_lease_until := None, j_updated_at := now\<rparr>)"
    "find_run k d' \<noteq> None"
proof -
  let ?f = "\<lambda>j. j\<lparr>j_status := ''awaiting_input'', j_stage := ''awaiting_input'',
                 j_worker_id := None, j_lease_until := None, j_updated_at := now\<rparr>"
  from s obtain j' where l: "leased_job k w d = Inr j'"
    by (auto simp: suspend_job_for_input_def rbind_Inr_iff)
  with leased_jobE(1) [OF l] j have l: "leased_job k w d = Inr j" by simp
  from s l new obtain kind p base ev where ins: "insert_input now k (j_stage j) inp d = Inr base"
    and ev: "append_agent_event_in_transaction x now k kind p
        (agent_trace_limit_bytes - agent_terminal_event_reserve_bytes) base = Inr ev"
    and d': "d' = update_job k ?f ev" and i: "i = ni_id inp"
    by (auto simp: suspend_job_for_input_def Let_def rbind_Inr_iff split: if_splits)
  have base: "base = d\<lparr>inputs := inputs d @ [question_row now k (j_stage j) inp]\<rparr>"
    "lookup i_id (ni_id inp) (inputs d) = None"
    using ins by (auto simp: insert_input_def question_row_def split: if_splits)
  note frame = append_event_frame [OF ev]
  show "i = ni_id inp" by (rule i)
  show "inputs d' = inputs d @ [question_row now k (j_stage j) inp]"
    using frame by (simp add: d' base)
  show "lookup i_id (ni_id inp) (inputs d) = None" by (rule base(2))
  show "find_run k d' \<noteq> None" using frame(6) by (simp add: d')
  have "find_job k ev = Some j" using frame(1) j by (simp add: find_job_def base)
  then show "find_job k d' = Some (?f j)"
    by (simp add: d' find_job_update keeps_job_def)
qed

text \<open>C19: a job suspended for a question and answered in kind resumes where it stopped: it is
  queued at the stage it had, the answer reads back for the agent's call, and the claim that
  resumes it neither counts as an attempt nor moves its stage.\<close>

theorem answered_job_resumes:
  assumes "reachable x d" "find_job k d = Some j"
    and "suspend_job_for_input x now k w inp d = Inr (i, d1)"
    and "find (\<lambda>i. i_job_id i = k \<and> i_agent_call_id i = ni_agent_call_id inp) (inputs d) = None"
    and "x_parse_uuid x (ja_input_id request) = Some i"
    and "validate_job_input_answer (ni_kind inp) (ja_answer request) = Inr ()"
  shows "\<exists>d2 j2. answer_job_input_tx x now2 k request d1 = Inr ((), d2) \<and> find_job k d2 = Some j2 \<and>
      j_status j2 = ''queued'' \<and> j_stage j2 = j_stage j \<and> j_worker_id j2 = None \<and>
      answered_job_input k (ni_agent_call_id inp) d2 = Inr (Some (ja_answer request)) \<and>
      j_attempts (claim_job_row now3 w3 l j2) = j_attempts j \<and>
      j_stage (claim_job_row now3 w3 l j2) = j_stage j"
proof -
  have inv: "registry_inv d" by (rule reachable_inv [OF assms(1)])
  note s = suspend_new_question [OF assms(3,2,4)]
  let ?q = "question_row now k (j_stage j) inp"
  let ?ans = "answer_to_value (ja_answer request)"
  let ?p = "\<lambda>i'. i_id i' = i"
  from assms(3) obtain j' where l: "leased_job k w d = Inr j'"
    by (auto simp: suspend_job_for_input_def rbind_Inr_iff)
  from leased_facts [OF inv l] have "find_job k d = Some j'" "j_stage j' \<in> set working_stages" by metis+
  then have stage: "j_stage j \<in> set working_stages" using assms(2) by simp
  have old: "i_id r \<noteq> i" if "r \<in> set (inputs d)" for r
    using s(1,3) that by (auto simp: lookup_None_iff)
  have find: "find (\<lambda>i'. i_id i' = i \<and> i_job_id i' = k \<and> i_status i' = ''pending''
      \<and> map_option j_status (find_job k d1) = Some ''awaiting_input'') (inputs d1) = Some ?q"
    unfolding s(2) by (rule find_append_new) (use old s(1,4) in \<open>auto simp: question_row_def\<close>)
  let ?f = "\<lambda>q. q\<lparr>j_status := ''queued'', j_stage := j_stage j, j_available_at := now2,
              j_worker_id := None, j_lease_until := None, j_updated_at := now2\<rparr>"
  let ?base = "update_job k ?f (d1\<lparr>inputs := answer_input_rows ?p now2 ?ans (inputs d1)\<rparr>)"
  have "find_run k ?base \<noteq> None" using s(5) by simp
  then obtain d2 where ev: "append_agent_event_in_transaction x now2 k ''input_answered''
      (json_object [(''input_id'', JString (x_show_uuid x i)), (''answer'', ?ans)])
      (agent_trace_limit_bytes - agent_terminal_event_reserve_bytes) ?base = Inr d2"
    using append_event_ok by metis
  have tx: "answer_job_input_tx x now2 k request d1 = Inr ((), d2)"
    using find ev assms(5,6) by (simp add: answer_job_input_tx_def Let_def question_row_def)
  note frame = append_event_frame [OF ev]
  let ?j2 = "?f (j\<lparr>j_status := ''awaiting_input'', j_stage := ''awaiting_input'',
        j_worker_id := None, j_lease_until := None, j_updated_at := now\<rparr>)"
  have "find_job k ?base = Some ?j2" using s(4) by (simp add: find_job_update keeps_job_def)
  then have j2: "find_job k d2 = Some ?j2" using frame(1) by (simp add: find_job_def)
  have rows: "inputs d2 = answer_input_rows ?p now2 ?ans (inputs d) @
      [?q\<lparr>i_status := ''answered'', i_answer := Some ?ans, i_answered_at := Some now2\<rparr>]"
    using frame(2) s(1) by (simp add: s(2) answer_input_rows_def question_row_def)
  have none: "\<not> (i_job_id r = k \<and> i_agent_call_id r = ni_agent_call_id inp)" if "r \<in> set (inputs d)" for r
    using assms(4) that by (auto simp: find_None_iff)
  have "find (\<lambda>i. i_job_id i = k \<and> i_agent_call_id i = ni_agent_call_id inp \<and> i_status i = ''answered'')
      (inputs d2) = Some (?q\<lparr>i_status := ''answered'', i_answer := Some ?ans, i_answered_at := Some now2\<rparr>)"
    unfolding rows
    by (rule find_append_new) (use none in \<open>auto simp: answer_input_rows_def question_row_def split: if_splits\<close>)
  then have "answered_job_input k (ni_agent_call_id inp) d2 = Inr (Some (ja_answer request))"
    by (simp add: answered_job_input_def)
  moreover have "j_stage j \<noteq> ''queued''" using stage by (auto simp: working_stages_def)
  ultimately show ?thesis
    using tx j2 by (auto simp: claim_job_row_def)
qed

definition "request_this = \<lparr>ja_input_id = ''40'', ja_answer = TextAnswer ''this''\<rparr>"

theorem answered_job_resumes_witness:
  "\<exists>d2. answer_job_input_tx ext0 230 20 request_this db_waiting = Inr ((), d2)
     \<and> answered_job_input 20 ''call'' d2 = Inr (Some (TextAnswer ''this''))"
proof -
  obtain j where j: "find_job 20 db_running = Some j" using sample_states(2) by auto
  have "(case suspend_job_for_input ext0 220 20 ''w1'' input0 db_running of
      Inl _ \<Rightarrow> False | Inr (i, _) \<Rightarrow> i = 40)" by code_simp
  then have s: "suspend_job_for_input ext0 220 20 ''w1'' input0 db_running = Inr (40, db_waiting)"
    by (auto simp: db_waiting_def commit_def split: sum.splits)
  have "find (\<lambda>i. i_job_id i = 20 \<and> i_agent_call_id i = ni_agent_call_id input0) (inputs db_running) = None"
    "x_parse_uuid ext0 (ja_input_id request_this) = Some 40"
    "validate_job_input_answer (ni_kind input0) (ja_answer request_this) = Inr ()"
    by code_simp+
  from answered_job_resumes [OF sample_reachable(3) j s this, where ?now2.0 = 230 and ?now3.0 = 0
      and ?w3.0 = "[]" and l = 0]
  show ?thesis by (auto simp: input0_def request_this_def)
qed

section \<open>Publication\<close>

text \<open>C18: a worker that holds the lease of a job whose agent has run publishes it in one commit:
  the job is ready and unleased, its version is ready with the artifact's digest, contract
  and validation summary and no error, the tool's stable revision is the job's revision, and
  resolving the tool gives the artifact of that digest.\<close>

theorem publish_makes_resolvable:
  assumes "reachable x d" "leased_job k w d = Inr j" "find_run k d \<noteq> None" "0 \<le> pa_size_bytes a"
    and "find_tool (tool_name_str name) d = Some t" "t_id t = j_tool_id j"
  shows "\<exists>d' rt v. publish_job x now k w a d = Inr ((), d') \<and>
      map_option (\<lambda>j. (j_status j, j_stage j, j_lease_until j)) (find_job k d')
        = Some (''ready'', ''complete'', None) \<and>
      find_version (j_tool_id j) (j_revision j) d' = Some v \<and> v_status v = ''ready'' \<and>
      v_contract v = Some (pa_contract a) \<and> v_error_code v = None \<and>
      map_option t_stable_revision (find_tool (tool_name_str name) d') = Some (Some (j_revision j)) \<and>
      resolve_tool x name None d' = Inr rt \<and> rt_artifact_digest rt = pa_digest a \<and>
      int (rt_revision rt) = j_revision j"
proof -
  have inv: "registry_inv d" by (rule reachable_inv [OF assms(1)])
  from leased_facts [OF inv assms(2)] obtain v where j: "find_job k d = Some j"
    and v: "find_version (j_tool_id j) (j_revision j) d = Some v" by metis
  let ?g = "publish_version_row now a"
  let ?f = "\<lambda>j. j\<lparr>j_status := ''ready'', j_stage := ''complete'', j_lease_until := None,
                 j_updated_at := now\<rparr>"
  obtain mid where art: "insert_artifact now a d = Inr mid"
    using assms(4) by (auto simp: insert_artifact_def)
  have mid: "jobs mid = jobs d" "versions mid = versions d" "tools mid = tools d" "runs mid = runs d"
    using art by (auto simp: insert_artifact_def split: if_splits)
  let ?base = "update_job k ?f (set_stable_revision now (j_tool_id j) (Some (j_revision j))
      (update_version (job_version j) ?g mid))"
  have "find_run k ?base \<noteq> None" using assms(3) mid(4) by (simp add: find_run_def)
  then obtain d' where ev: "append_agent_event_in_transaction x now k ''candidate_validated''
      (json_object [(''digest'', JString (pa_digest a))]) agent_trace_limit_bytes ?base = Inr d'"
    using append_event_ok by metis
  have pub: "publish_job x now k w a d = Inr ((), d')"
    using assms(2) art ev by (simp add: publish_job_def Let_def)
  note frame = append_event_frame [OF ev]
  have keeps: "keeps_job ?f" by (simp add: keeps_job_def)
  have "find_job k ?base = Some (?f j)"
    using j mid(1) by (simp add: find_job_update [OF keeps]) (simp add: find_job_def)
  then have job': "find_job k d' = Some (?f j)" using frame(1) by (simp add: find_job_def)
  have "find_version (j_tool_id j) (j_revision j) mid = Some v"
    using v mid(2) by (simp add: find_version_def)
  then have "find_version (j_tool_id j) (j_revision j) ?base = Some (?g v)"
    by (simp add: find_version_update) (simp add: find_version_def)
  then have ver': "find_version (j_tool_id j) (j_revision j) d' = Some (?g v)"
    using frame(3) by (simp add: find_version_def)
  let ?t = "t\<lparr>t_stable_revision := Some (j_revision j), t_updated_at := now\<rparr>"
  have tools': "tools d' = upd t_id (j_tool_id j)
      (\<lambda>t. t\<lparr>t_stable_revision := Some (j_revision j), t_updated_at := now\<rparr>) (tools d)"
    using frame(4) by (simp add: set_stable_revision_def mid)
  have t: "t \<in> set (tools d)" "t_name t = tool_name_str name" using find_tool_mem [OF assms(5)] by blast+
  have "?t \<in> set (tools d')" using t assms(6) by (auto simp: tools' upd_def image_iff intro!: bexI [of _ t])
  moreover have "distinct (map t_name (tools d'))"
    using invD(1) [OF inv] by (simp add: keys_ok_def tools' map_key_upd)
  moreover have "t_name ?t = tool_name_str name" using t(2) by simp
  ultimately have tool': "find_tool (tool_name_str name) d' = Some ?t"
    by (simp add: find_tool_def lookup_iff)
  have vf: "version_ok d v" "v_revision v = j_revision j" using version_facts [OF inv v] by blast+
  obtain fi fo where f: "parse_io_format x (v_input_format v) = Inr fi"
      "parse_io_format x (v_output_format v) = Inr fo"
    using vf(1) stored_format by (metis version_ok_def)
  have "0 \<le> j_revision j" using vf by (auto simp: version_ok_def split: option.splits)
  then have "resolve_tool x name None d' = Inr \<lparr>rt_tool_id = t_id t, rt_revision = nat (j_revision j),
      rt_artifact_digest = pa_digest a, rt_input_format = fi, rt_output_format = fo\<rparr>"
    using tool' ver' f assms(6) by (simp add: resolve_tool_def publish_version_row_def)
  then show ?thesis
    using pub job' ver' tool' \<open>0 \<le> j_revision j\<close>
    by (intro exI conjI) (assumption | simp add: publish_version_row_def)+
qed

theorem publish_makes_resolvable_witness:
  "\<exists>d' rt. publish_job ext0 250 20 ''w2'' artifact0 db_resumed = Inr ((), d')
     \<and> resolve_tool ext0 (ToolName ''slug'') None d' = Inr rt \<and> rt_artifact_digest rt = ''d1''"
proof -
  have "(case leased_job 20 ''w2'' db_resumed of Inl _ \<Rightarrow> False | Inr j \<Rightarrow> j_tool_id j = 10)" by code_simp
  then obtain j where j: "leased_job 20 ''w2'' db_resumed = Inr j" "j_tool_id j = 10"
    by (auto split: sum.splits)
  have "map_option t_id (find_tool (tool_name_str (ToolName ''slug'')) db_resumed) = Some 10" by code_simp
  then obtain t where t: "find_tool (tool_name_str (ToolName ''slug'')) db_resumed = Some t" "t_id t = 10"
    by auto
  have "find_run 20 db_resumed \<noteq> None" "0 \<le> pa_size_bytes artifact0" by code_simp+
  from publish_makes_resolvable [OF sample_reachable(6) j(1) this t(1), of 250] j(2) t(2)
  show ?thesis by (auto simp: artifact0_def)
qed

section \<open>Compaction\<close>

lemma sort_by_sorted:
  assumes "sorted_wrt (\<lambda>a b. key a < (key b :: nat)) xs"
  shows "sort_by (\<lambda>a b. key a \<le> key b) xs = xs"
  using assms
proof (induction xs)
  case (Cons a xs)
  then have "sort_by (\<lambda>a b. key a \<le> key b) xs = xs" "\<forall>b\<in>set xs. key a < key b" by auto
  then show ?case by (cases xs) auto
qed simp

text \<open>C32: compaction loses no event of a job that has no archive yet: either the job's events all
  stay, or they are all moved into a new archive, in the order they were recorded, with
  their number.\<close>

theorem compaction_keeps_events:
  assumes "reachable x d" "compact_agent_traces x now d = Inr (n, d')"
    and "lookup ta_job_id k (archives d) = None"
  shows "filter (\<lambda>e. ev_job_id e = k) (events d') = filter (\<lambda>e. ev_job_id e = k) (events d) \<or>
    filter (\<lambda>e. ev_job_id e = k) (events d') = [] \<and>
    (\<exists>a. lookup ta_job_id k (archives d') = Some a \<and>
      ta_event_count a = int (length (filter (\<lambda>e. ev_job_id e = k) (events d))) \<and>
      ta_events a = JArray (map (event_archive_entry x) (filter (\<lambda>e. ev_job_id e = k) (events d))))"
proof -
  have inv: "registry_inv d" by (rule reachable_inv [OF assms(1)])
  let ?es = "compactable_events now d"
  let ?new = "filter (\<lambda>a. lookup ta_job_id (ta_job_id a) (archives d) = None)
     (map (archive_of x now ?es) (remdups (map ev_job_id ?es)))"
  let ?keep = "\<lambda>e. lookup ta_job_id (ev_job_id e) (archives d @ ?new) = None"
  let ?mine = "\<lambda>es. filter (\<lambda>e. ev_job_id e = k) es"
  have d': "archives d' = archives d @ ?new" "events d' = filter ?keep (events d)"
    using assms(2) by (auto simp: compact_agent_traces_def Let_def)
  have ids: "ta_job_id (archive_of x now ?es i) = i" for i by (simp add: archive_of_def Let_def)
  have mine: "?mine (events d') = (if lookup ta_job_id k (archives d @ ?new) = None then ?mine (events d) else [])"
  proof -
    have "?mine (filter (\<lambda>e. L (ev_job_id e)) es) = (if L k then ?mine es else [])" for L es
      by (induction es) auto
    then show ?thesis unfolding d' .
  qed
  show ?thesis
  proof (cases "lookup ta_job_id k (archives d @ ?new)")
    case None
    then show ?thesis using mine by simp
  next
    case (Some a)
    then have new: "lookup ta_job_id k ?new = Some a" using assms(3) by (simp add: lookup_append)
    have "a \<in> set ?new" "ta_job_id a = k"
      using lookup_Some_mem [OF new] lookup_Some_key [OF new] by blast+
    then have a: "a = archive_of x now ?es k" "k \<in> ev_job_id ` set ?es" using ids by auto
    have all: "?mine ?es = ?mine (events d)"
    proof -
      have "(case find_job k d of None \<Rightarrow> False
          | Some j \<Rightarrow> (j_status j = ''ready'' \<or> j_status j = ''rejected'')
              \<and> j_updated_at j < now - 7 * 24 * 3600 * 1000000)"
        using a(2) by (auto simp: compactable_events_def)
      then show ?thesis by (auto simp: compactable_events_def intro!: filter_cong)
    qed
    have "sorted_wrt (\<lambda>a b. ev_id a < ev_id b) (?mine (events d))"
      using invD(4) [OF inv] by (simp add: trace_ok_def sorted_wrt_filter)
    then show ?thesis
      using Some mine d'(1) by (auto simp: a(1) archive_of_def Let_def all sort_by_sorted)
  qed
qed

definition "db_compacted = commit (compact_agent_traces ext0 700000000000) db_published"

theorem compaction_keeps_events_witness:
  "events db_compacted = [] \<and> events db_published \<noteq> [] \<and>
   (\<exists>a. lookup ta_job_id 20 (archives db_compacted) = Some a)"
proof -
  let ?op = "compact_agent_traces ext0 700000000000"
  have f: "events db_compacted = []" "filter (\<lambda>e. ev_job_id e = 20) (events db_published) \<noteq> []"
    "lookup ta_job_id 20 (archives db_published) = None" "events db_published \<noteq> []"
    by code_simp+
  obtain n where "?op db_published = Inr (n, db_compacted)"
    by (auto simp: db_compacted_def commit_def compact_agent_traces_def Let_def)
  from compaction_keeps_events [OF sample_reachable(7) this f(3)] f show ?thesis by auto
qed

end
