(* ===== verification/Registry_Lists.thy ===== *)
theory Registry_Lists
  imports Registry_Questions
begin

text \<open>
  The paged lists of the registry behind the interface \<open>paged_source\<close>, with what a client
  that follows \<open>next_offset\<close> collects; the approvals of HTTP capabilities; and the artifacts
  a clean-up must keep.
\<close>

section \<open>Paging\<close>

type_synonym ('e, 'i) page = "'e + 'i list \<times> nat option"

text \<open>A client that asks for pages until there is no next offset.\<close>

fun follow_pages :: "nat \<Rightarrow> (nat \<Rightarrow> nat \<Rightarrow> ('e, 'i) page) \<Rightarrow> nat \<Rightarrow> nat \<Rightarrow> ('e + 'i list) option" where
  "follow_pages 0 page limit offset = None"
| "follow_pages (Suc fuel) page limit offset =
     (case page limit offset of
        Inl e \<Rightarrow> Some (Inl e)
      | Inr (xs, None) \<Rightarrow> Some (Inr xs)
      | Inr (xs, Some next_off) \<Rightarrow>
          map_option (\<lambda>r. rbind r (\<lambda>ys. Inr (xs @ ys))) (follow_pages fuel page limit next_off))"

lemma mapM_append:
  "mapM f (xs @ ys) = rbind (mapM f xs) (\<lambda>as. rbind (mapM f ys) (\<lambda>bs. Inr (as @ bs)))"
proof (induction xs)
  case (Cons x xs)
  then show ?case by (cases "f x"; cases "mapM f xs"; cases "mapM f ys") auto
next
  case Nil
  show ?case by (cases "mapM f ys") auto
qed

locale paged_source =
  fixes page :: "nat \<Rightarrow> nat \<Rightarrow> ('e, 'i) page"
    and rows :: "'r list" and decode :: "'r \<Rightarrow> 'e + 'i"
  assumes page_rows: "limit \<le> u32_max \<Longrightarrow> int offset \<le> i64_max \<Longrightarrow>
    page limit offset = rbind (mapM decode (take limit (drop offset rows)))
      (\<lambda>xs. Inr (xs, if offset + limit < length rows then Some (offset + limit) else None))"
begin

lemma follow_from:
  assumes "0 < limit" "limit \<le> u32_max" "int (length rows) \<le> i64_max"
    "length rows - offset < fuel" "offset \<le> length rows" "mapM decode (drop offset rows) = Inr ys"
  shows "follow_pages fuel page limit offset = Some (Inr ys)"
  using assms(4-6)
proof (induction fuel arbitrary: offset ys)
  case (Suc fuel)
  have split: "drop offset rows = take limit (drop offset rows) @ drop (offset + limit) rows"
    by (metis append_take_drop_id drop_drop add.commute)
  from Suc.prems(3) obtain as bs where ab: "mapM decode (take limit (drop offset rows)) = Inr as"
    "mapM decode (drop (offset + limit) rows) = Inr bs" "ys = as @ bs"
    by (subst (asm) split) (auto simp: mapM_append rbind_Inr_iff)
  have p: "page limit offset = Inr (as, if offset + limit < length rows then Some (offset + limit) else None)"
    using page_rows [OF assms(2), of offset] assms(3) Suc.prems(2) ab(1) by simp
  show ?case
  proof (cases "offset + limit < length rows")
    case True
    have "follow_pages fuel page limit (offset + limit) = Some (Inr bs)"
      by (rule Suc.IH) (use True Suc.prems(1) assms(1) ab(2) in auto)
    with True p ab(3) show ?thesis by simp
  next
    case False
    then have "bs = []" using ab(2) by simp
    with False p ab(3) show ?thesis by simp
  qed
qed simp

lemma follow_all:
  assumes "0 < limit" "limit \<le> u32_max" "int (length rows) \<le> i64_max" "mapM decode rows = Inr ys"
  shows "follow_pages (length rows + 1) page limit 0 = Some (Inr ys)"
  by (rule follow_from) (use assms in auto)

lemma page_bound:
  assumes "limit \<le> u32_max" "int offset \<le> i64_max" "page limit offset = Inr (xs, n)"
  shows "length xs \<le> limit"
proof -
  from assms have "mapM decode (take limit (drop offset rows)) = Inr xs"
    by (auto simp: page_rows rbind_Inr_iff)
  then have "length xs = length (take limit (drop offset rows))"
    unfolding mapM_Inr_iff by (auto dest: list_all2_lengthD)
  then show ?thesis by simp
qed

end

lemma page_rows_take:
  "int limit \<le> i64_max \<Longrightarrow>
    take limit (page_rows rows (int limit + 1) (int offset)) = take limit (drop offset rows) \<and>
    (limit < length (page_rows rows (int limit + 1) (int offset)) \<longleftrightarrow> offset + limit < length rows)"
  by (auto simp: page_rows_def nat_add_distrib)

lemma u32_i64: "limit \<le> u32_max \<Longrightarrow> i64_checked (int limit + 1) = Some (int limit + 1)"
  by (simp add: u32_max_def i64_min_def i64_max_def)

lemma i64_offset: "int offset \<le> i64_max \<Longrightarrow> i64_try_from offset = Some (int offset)"
  by simp

definition job_page :: "ext \<Rightarrow> job_status option \<Rightarrow> db \<Rightarrow> nat \<Rightarrow> nat \<Rightarrow> (storage_error, job_response) page" where
  "job_page x status d limit offset =
     rbind (list_jobs x status limit offset d) (\<lambda>r. Inr (jlr_jobs r, jlr_next_offset r))"

definition tool_page :: "ext \<Rightarrow> string \<Rightarrow> bool \<Rightarrow> tool_version_status option \<Rightarrow> db \<Rightarrow> nat \<Rightarrow> nat
    \<Rightarrow> (storage_error, tool_list_item) page" where
  "tool_page x query include_unready status d limit offset =
     rbind (list_tools x query include_unready status limit offset d)
       (\<lambda>r. Inr (tlr_tools r, tlr_next_offset r))"

interpretation jobs_list: paged_source "job_page x status d" "list_jobs_rows status d" "map_job x"
  for x status d
proof
  fix limit offset :: nat
  assume l: "limit \<le> u32_max" and off: "int offset \<le> i64_max"
  have "int limit \<le> i64_max" using l by (simp add: u32_max_def i64_max_def)
  note page_rows_take [OF this, of "list_jobs_rows status d" offset]
  then show "job_page x status d limit offset =
      rbind (mapM (map_job x) (take limit (drop offset (list_jobs_rows status d))))
        (\<lambda>xs. Inr (xs, if offset + limit < length (list_jobs_rows status d)
                       then Some (offset + limit) else None))"
    unfolding job_page_def list_jobs_def u32_i64 [OF l] i64_offset [OF off] ok_or_simps rbind_simps Let_def
    using next_offset_Some [OF _ off l]
    by (cases "mapM (map_job x) (take limit (drop offset (list_jobs_rows status d)))") simp_all
qed

interpretation tools_list: paged_source "tool_page x query include_unready status d"
    "list_tools_rows x (trim query) include_unready status d" "map_tool_item x"
  for x query include_unready status d
proof
  fix limit offset :: nat
  let ?rows = "list_tools_rows x (trim query) include_unready status d"
  assume l: "limit \<le> u32_max" and off: "int offset \<le> i64_max"
  have "int limit \<le> i64_max" using l by (simp add: u32_max_def i64_max_def)
  note page_rows_take [OF this, of ?rows offset]
  then show "tool_page x query include_unready status d limit offset =
      rbind (mapM (map_tool_item x) (take limit (drop offset ?rows)))
        (\<lambda>xs. Inr (xs, if offset + limit < length ?rows then Some (offset + limit) else None))"
    unfolding tool_page_def list_tools_def u32_i64 [OF l] i64_offset [OF off] ok_or_simps rbind_simps Let_def
    using next_offset_Some [OF _ off l]
    by (cases "mapM (map_tool_item x) (take limit (drop offset ?rows))") simp_all
qed

lemma mapM_total:
  assumes "\<And>x. x \<in> set xs \<Longrightarrow> \<exists>y. f x = Inr y \<and> P x y"
  shows "\<exists>ys. mapM f xs = Inr ys \<and> list_all2 P xs ys"
  using assms
proof (induction xs)
  case (Cons x xs)
  from Cons.prems [of x] obtain y where "f x = Inr y" "P x y" by auto
  moreover from Cons.IH Cons.prems obtain ys where "mapM f xs = Inr ys" "list_all2 P xs ys" by auto
  ultimately show ?case by auto
qed simp

text \<open>C33: a client that follows the offsets of \<open>list_jobs\<close> with any page size collects every job
  of the asked status exactly once, without an error.\<close>

theorem job_pages_are_complete:
  assumes "reachable x d" "0 < limit" "limit \<le> u32_max" "int (length (jobs d)) \<le> i64_max"
  shows "\<exists>js. follow_pages (length (jobs d) + 1) (job_page x status d) limit 0 = Some (Inr js) \<and>
    mset (map jr_job_id js) = mset (map (\<lambda>j. x_show_uuid x (j_id j))
      (filter (\<lambda>j. case status of None \<Rightarrow> True | Some s \<Rightarrow> j_status j = job_status_as_str s) (jobs d)))"
proof -
  have inv: "registry_inv d" by (rule reachable_inv [OF assms(1)])
  let ?P = "\<lambda>j. case status of None \<Rightarrow> True | Some s \<Rightarrow> j_status j = job_status_as_str s"
  let ?rows = "list_jobs_rows status d"
  let ?read = "\<lambda>row r. jr_job_id r = x_show_uuid x (j_id (fst row))"
  have one: "\<exists>row r. join_job d j = [row] \<and> fst row = j \<and> map_job x row = Inr r \<and> ?read row r"
    if "j \<in> set (jobs d)" for j
  proof -
    have "find_job (j_id j) d = Some j" using that invD(1) [OF inv] by (simp add: find_job_iff)
    from job_reads [OF inv this, of x] show ?thesis by fastforce
  qed
  have joined: "map fst (concat (map (join_job d) js)) = js" if "set js \<subseteq> set (jobs d)" for js
    using that
  proof (induction js)
    case (Cons j js)
    from one [of j] Cons.prems obtain row where "join_job d j = [row]" "fst row = j" by auto
    with Cons show ?case by simp
  qed simp
  have rows_jobs: "mset (map fst ?rows) = mset (filter ?P (jobs d))"
  proof -
    have "mset (map fst ?rows) = mset (map fst (concat (map (join_job d) (filter ?P (jobs d)))))"
      by (simp add: list_jobs_rows_def mset_map [symmetric] del: mset_map) (simp add: mset_map)
    also have "map fst (concat (map (join_job d) (filter ?P (jobs d)))) = filter ?P (jobs d)"
      by (rule joined) auto
    finally show ?thesis .
  qed
  have "\<exists>r. map_job x row = Inr r \<and> ?read row r" if "row \<in> set ?rows" for row
  proof -
    from that obtain j where j: "j \<in> set (jobs d)" "row \<in> set (join_job d j)"
      by (auto simp: list_jobs_rows_def)
    from one [OF j(1)] j(2) show ?thesis by auto
  qed
  then obtain js where js: "mapM (map_job x) ?rows = Inr js" "list_all2 ?read ?rows js"
    using mapM_total [of ?rows "map_job x" ?read] by blast
  have len: "length ?rows \<le> length (jobs d)"
    using arg_cong [OF rows_jobs, of size] size_filter_mset_lesseq [of ?P "mset (jobs d)"] by simp
  have "follow_pages (length (jobs d) + 1) (job_page x status d) limit 0 = Some (Inr js)"
    by (rule jobs_list.follow_from) (use assms js(1) len in auto)
  moreover have "map jr_job_id js = map (\<lambda>row. x_show_uuid x (j_id (fst row))) ?rows"
    using js(2) by (induction rule: list_all2_induct) auto
  then have "mset (map jr_job_id js) = image_mset (\<lambda>j. x_show_uuid x (j_id j)) (mset (map fst ?rows))"
    by (simp add: multiset.map_comp o_def)
  ultimately show ?thesis unfolding rows_jobs by auto
qed

theorem job_pages_are_complete_witness:
  "\<exists>js. follow_pages 3 (job_page ext0 None db_second) 1 0 = Some (Inr js) \<and>
     mset (map jr_job_id js) = {# ''20'', ''21'' #}"
proof -
  have f: "length (jobs db_second) = 2" "map (\<lambda>j. x_show_uuid ext0 (j_id j)) (jobs db_second) = [''20'', ''21'']"
    by code_simp+
  have "mset (map (\<lambda>j. x_show_uuid ext0 (j_id j)) (jobs db_second)) = {# ''20'', ''21'' #}"
    unfolding f(2) by simp
  then show ?thesis
    using job_pages_are_complete [OF sample_reachable(8), of 1 None] f(1)
    by (simp add: u32_max_def i64_max_def numeral_3_eq_3)
qed

section \<open>Approvals\<close>

lemma approved_iff:
  "is_http_capability_approved h d \<longleftrightarrow>
     h \<in> ap_capability_hash ` set (filter (\<lambda>a. ap_status a = ''active'') (approvals d))"
  by (auto simp: is_http_capability_approved_def list_ex_iff)

text \<open>\<open>all_http_capabilities_approved\<close> is true exactly for a list without duplicates whose
  every hash has an active approval; a hash listed twice makes it false.\<close>

theorem all_approved_iff:
  assumes "reachable x d" "int (length hs) \<le> i64_max"
  shows "all_http_capabilities_approved hs d \<longleftrightarrow>
    distinct hs \<and> (\<forall>h\<in>set hs. is_http_capability_approved h d)"
proof (cases "hs = []")
  case False
  let ?act = "filter (\<lambda>a. ap_status a = ''active'') (approvals d)"
  let ?hit = "filter (\<lambda>a. ap_capability_hash a \<in> set hs \<and> ap_status a = ''active'') (approvals d)"
  have dist: "distinct (map ap_capability_hash (approvals d))"
    using invD(1) [OF reachable_inv [OF assms(1)]] by (simp add: keys_ok_def)
  have "distinct (map ap_capability_hash ?hit)" by (rule distinct_map_filter [OF dist])
  from distinct_card [OF this] have "length ?hit = card (ap_capability_hash ` set ?hit)" by simp
  also have "ap_capability_hash ` set ?hit = set hs \<inter> ap_capability_hash ` set ?act" by auto
  finally have n: "length ?hit = card (set hs \<inter> ap_capability_hash ` set ?act)" .
  have "all_http_capabilities_approved hs d \<longleftrightarrow> length ?hit = length hs"
    using False assms(2) by (simp add: all_http_capabilities_approved_def i64_try_from_def)
  also have "\<dots> \<longleftrightarrow> distinct hs \<and> set hs \<subseteq> ap_capability_hash ` set ?act"
  proof
    assume "length ?hit = length hs"
    then have eq: "card (set hs \<inter> ap_capability_hash ` set ?act) = length hs" using n by simp
    have "card (set hs \<inter> ap_capability_hash ` set ?act) \<le> card (set hs)" by (simp add: card_mono)
    with eq card_length [of hs] have c: "card (set hs) = length hs" by linarith
    with eq have "set hs \<inter> ap_capability_hash ` set ?act = set hs"
      by (intro card_subset_eq) auto
    with c show "distinct hs \<and> set hs \<subseteq> ap_capability_hash ` set ?act" by (auto simp: card_distinct)
  next
    assume "distinct hs \<and> set hs \<subseteq> ap_capability_hash ` set ?act"
    then show "length ?hit = length hs" using n by (simp add: Int_absorb2 distinct_card)
  qed
  also have "\<dots> \<longleftrightarrow> distinct hs \<and> (\<forall>h\<in>set hs. is_http_capability_approved h d)"
    unfolding approved_iff by blast
  finally show ?thesis .
qed (simp add: all_http_capabilities_approved_def)

definition capability0 :: http_capability where
  "capability0 = \<lparr>hc_scheme = ''https'', hc_host = ''a.example'', hc_port = 443, hc_method = Get,
     hc_path_prefix = ''/v1'', hc_query_keys = [], hc_purpose = ''data''\<rparr>"

definition "db_approved = commit (approve_http_capability 300 ''h1'' capability0 20) db_second"

theorem all_approved_iff_witness:
  "all_http_capabilities_approved [''h1''] db_approved \<and>
   \<not> all_http_capabilities_approved [''h1'', ''h1''] db_approved"
proof -
  have r: "reachable ext0 db_approved"
    unfolding db_approved_def by (rule commit_reachable [OF sample_reachable(8)]) (simp add: step.approve)
  have "is_http_capability_approved ''h1'' db_approved" by code_simp
  then show ?thesis
    using all_approved_iff [OF r, of "[''h1'']"] all_approved_iff [OF r, of "[''h1'', ''h1'']"]
    by (simp add: i64_max_def)
qed

text \<open>Approving a revoked capability again makes it active and clears the time of the
  revocation, but the row keeps the reason it was revoked for.\<close>

theorem reapproval_keeps_revoked_reason:
  assumes "revoke_http_capability n1 h reason d = Inr (u1, d1)"
    and "approve_http_capability n2 h c k d1 = Inr (u2, d2)"
  shows "\<exists>a. lookup ap_capability_hash h (approvals d2) = Some a \<and> ap_status a = ''active'' \<and>
    ap_revoked_at a = None \<and> ap_revoked_reason a = Some (trim reason)"
proof -
  from assms(1) obtain a where a: "lookup ap_capability_hash h (approvals d) = Some a"
    and d1: "approvals d1 = upd ap_capability_hash h (\<lambda>a. a\<lparr>ap_status := ''revoked'',
        ap_revoked_at := Some n1, ap_revoked_reason := Some (trim reason)\<rparr>) (approvals d)"
    by (auto simp: revoke_http_capability_def split: if_splits option.splits)
  have "lookup ap_capability_hash h (approvals d1) = Some (a\<lparr>ap_status := ''revoked'',
      ap_revoked_at := Some n1, ap_revoked_reason := Some (trim reason)\<rparr>)"
    using a by (simp add: d1 lookup_upd)
  then show ?thesis
    using assms(2) by (auto simp: approve_http_capability_def lookup_upsert split: if_splits)
qed

theorem reapproval_keeps_revoked_reason_witness:
  "\<exists>a. lookup ap_capability_hash ''h1'' (approvals (commit (approve_http_capability 320 ''h1'' capability0 20)
       (commit (revoke_http_capability 310 ''h1'' ''leak'') db_approved))) = Some a \<and>
     ap_status a = ''active'' \<and> ap_revoked_reason a = Some (trim ''leak'')"
proof -
  let ?r = "revoke_http_capability 310 ''h1'' ''leak''"
  let ?a = "approve_http_capability 320 ''h1'' capability0 20"
  have "(case ?r db_approved of Inl _ \<Rightarrow> False | Inr _ \<Rightarrow> True)" by code_simp
  then have r: "?r db_approved = Inr ((), commit ?r db_approved)"
    by (auto simp: commit_def split: sum.splits)
  have "(case ?a (commit ?r db_approved) of Inl _ \<Rightarrow> False | Inr _ \<Rightarrow> True)" by code_simp
  then have a: "?a (commit ?r db_approved) = Inr ((), commit ?a (commit ?r db_approved))"
    by (auto simp: commit_def split: sum.splits)
  from reapproval_keeps_revoked_reason [OF r a] show ?thesis by blast
qed

section \<open>Artifacts in use\<close>

lemma ready_artifact_referenced:
  assumes "reachable x d" "v \<in> set (versions d)" "v_status v = ''ready''"
  shows "the (v_artifact_digest v) \<in> fst (referenced_artifacts d)"
proof -
  have art: "artifacts_ok d" using reachable_inv [OF assms(1)] invD(6) by blast
  have "the (v_artifact_digest v) \<in> af_digest ` set (artifacts d)"
    using art assms(2,3) by (auto simp: artifacts_ok_def lookup_None_image)
  then show ?thesis
    by (fastforce simp: referenced_artifacts_def referenced_artifacts_inner_def Let_def)
qed

lemma candidates_referenced:
  assumes "r \<in> set (runs d)" "find_job (ar_job_id r) d = Some j"
    and "j_status j = ''running'' \<or> j_status j = ''awaiting_input''"
  shows "set (string_values (pointer [''workspace'', ''candidate_digests''] (ar_checkpoint r)))
        \<subseteq> fst (referenced_artifacts d) \<and>
      set (string_values (pointer [''workspace'', ''candidate_sources''] (ar_checkpoint r)))
        \<subseteq> snd (referenced_artifacts d)"
  using assms by (fastforce simp: referenced_artifacts_def referenced_artifacts_inner_def Let_def)

text \<open>The candidates of a job that was answered and waits in the queue to be resumed are not
  among them, although its checkpoint still names them.\<close>

definition candidate_checkpoint :: json where
  "candidate_checkpoint =
     json_object [(''workspace'', json_object [(''candidate_digests'', JArray [JString ''d9''])])]"

definition "db_candidate = commit (answer_job_input_tx ext0 230 20 request_this)
  (commit (suspend_job_for_input ext0 220 20 ''w1'' input0)
    (commit (save_agent_checkpoint 215 20 ''w1'' ''rig'' ''1'' candidate_checkpoint) db_running))"

theorem resumed_candidates_unprotected:
  "\<exists>d j r. reachable ext0 d \<and> find_job 20 d = Some j \<and> j_status j = ''queued'' \<and> find_run 20 d = Some r \<and>
     ''d9'' \<in> set (string_values (pointer [''workspace'', ''candidate_digests''] (ar_checkpoint r))) \<and>
     ''d9'' \<notin> fst (referenced_artifacts d)"
proof -
  have "reachable ext0 db_candidate"
    unfolding db_candidate_def
    by (intro commit_reachable sample_reachable(3)) (auto intro: step.intros)
  moreover have "map_option j_status (find_job 20 db_candidate) = Some ''queued''" by code_simp
  moreover have "map_option (\<lambda>r. ''d9'' \<in> set (string_values
      (pointer [''workspace'', ''candidate_digests''] (ar_checkpoint r)))) (find_run 20 db_candidate) = Some True"
    by code_simp
  moreover have "''d9'' \<notin> fst (referenced_artifacts db_candidate)" by code_simp
  ultimately show ?thesis by (intro exI [of _ db_candidate]) auto
qed

end
