(* ===== verification/Web_Access.thy ===== *)
theory Web_Access
  imports Protocol "HOL-Library.Word"
begin

unbundle bit_operations_syntax

text \<open>
  src/apps/jit-worker/src/web_access.rs: the worker's access to the public web.  A URL is
  the record of what the code asks the \<open>url\<close> crate for; parsing, joining, name resolution
  and the requests themselves are the parameters of the record \<open>net\<close>.  A fetch returns
  its result with the requests it sent, so that what reached the network can be stated.
\<close>

section \<open>Addresses\<close>

datatype ip_addr = V4 "32 word" | V6 "128 word"

instantiation ip_addr :: linorder
begin

fun less_eq_ip_addr :: "ip_addr \<Rightarrow> ip_addr \<Rightarrow> bool" where
  "less_eq_ip_addr (V4 a) (V4 b) = (a \<le> b)"
| "less_eq_ip_addr (V4 _) (V6 _) = True"
| "less_eq_ip_addr (V6 _) (V4 _) = False"
| "less_eq_ip_addr (V6 a) (V6 b) = (a \<le> b)"

definition less_ip_addr :: "ip_addr \<Rightarrow> ip_addr \<Rightarrow> bool" where
  "less_ip_addr a b = (a \<le> b \<and> \<not> b \<le> a)"

instance
proof
  fix a b c :: ip_addr
  show "(a < b) = (a \<le> b \<and> \<not> b \<le> a)" by (simp add: less_ip_addr_def)
  show "a \<le> a" by (cases a) simp_all
  show "a \<le> b \<Longrightarrow> b \<le> c \<Longrightarrow> a \<le> c" by (cases a; cases b; cases c) auto
  show "a \<le> b \<Longrightarrow> b \<le> a \<Longrightarrow> a = b" by (cases a; cases b) auto
  show "a \<le> b \<or> b \<le> a" by (cases a; cases b) auto
qed

end

definition octet :: "nat \<Rightarrow> 32 word \<Rightarrow> 8 word" where
  "octet i w = ucast (drop_bit (24 - 8 * i) w)"

definition segment :: "nat \<Rightarrow> 128 word \<Rightarrow> 16 word" where
  "segment i w = ucast (drop_bit (112 - 16 * i) w)"

definition v4_is_public :: "32 word \<Rightarrow> bool" where
  "v4_is_public w =
     (let a = octet 0 w; b = octet 1 w; c = octet 2 w in
      \<not> ((a = 10 \<or> a = 172 \<and> 16 \<le> b \<and> b \<le> 31 \<or> a = 192 \<and> b = 168)
        \<or> a = 127
        \<or> (a = 169 \<and> b = 254)
        \<or> (224 \<le> a \<and> a \<le> 239)
        \<or> w = 0xFFFFFFFF
        \<or> w = 0
        \<or> a = 0
        \<or> 240 \<le> a
        \<or> (a = 100 \<and> 64 \<le> b \<and> b \<le> 127)
        \<or> (a = 192 \<and> b = 0 \<and> c = 0)
        \<or> (a = 192 \<and> b = 0 \<and> c = 2)
        \<or> (a = 198 \<and> (b = 18 \<or> b = 19))
        \<or> (a = 198 \<and> b = 51 \<and> c = 100)
        \<or> (a = 203 \<and> b = 0 \<and> c = 113)))"

definition to_ipv4_mapped :: "128 word \<Rightarrow> 32 word option" where
  "to_ipv4_mapped w = (if drop_bit 32 w = 0xFFFF then Some (ucast w) else None)"

fun is_public_ip :: "ip_addr \<Rightarrow> bool" where
  "is_public_ip (V4 w) = v4_is_public w"
| "is_public_ip (V6 w) =
     (\<not> (w = 1 \<or> w = 0
       \<or> segment 0 w AND 0xFF00 = 0xFF00
       \<or> segment 0 w AND 0xFE00 = 0xFC00
       \<or> segment 0 w AND 0xFFC0 = 0xFE80
       \<or> (segment 0 w = 0x2001 \<and> segment 1 w = 0x0DB8)
       \<or> (case to_ipv4_mapped w of None \<Rightarrow> False | Some m \<Rightarrow> \<not> v4_is_public m)))"

text \<open>\<open>str::parse::<IpAddr>\<close>, as far as whether it succeeds.\<close>

definition is_ipv4_literal :: "string \<Rightarrow> bool" where
  "is_ipv4_literal s =
     (let parts = split_char CHR ''.'' s in
      length parts = 4 \<and> list_all (\<lambda>p. 1 \<le> length p \<and> length p \<le> 3
        \<and> (length p = 1 \<or> hd p \<noteq> CHR ''0'')
        \<and> (case digits_val 0 p of None \<Rightarrow> False | Some n \<Rightarrow> n \<le> 255)) parts)"

definition is_hex_group :: "string \<Rightarrow> bool" where
  "is_hex_group p = (1 \<le> length p \<and> length p \<le> 4 \<and> list_all is_ascii_hexdigit p)"

text \<open>How many 16-bit groups a colon-separated run of groups stands for; a dotted IPv4 address
  counts as the last two.\<close>

fun groups_of :: "bool \<Rightarrow> string list \<Rightarrow> nat option" where
  "groups_of v4_allowed [] = Some 0"
| "groups_of v4_allowed [p] =
     (if is_hex_group p then Some 1
      else if v4_allowed \<and> is_ipv4_literal p then Some 2 else None)"
| "groups_of v4_allowed (p # ps) =
     (if is_hex_group p then map_option Suc (groups_of v4_allowed ps) else None)"

definition colon_groups :: "bool \<Rightarrow> string \<Rightarrow> nat option" where
  "colon_groups v4_allowed s = (if s = [] then Some 0 else groups_of v4_allowed (split_char CHR '':'' s))"

definition is_ipv6_literal :: "string \<Rightarrow> bool" where
  "is_ipv6_literal s =
     (case split_once ''::'' s of
        None \<Rightarrow> s \<noteq> [] \<and> colon_groups True s = Some 8
      | Some (h, t) \<Rightarrow>
          (case (colon_groups False h, colon_groups True t) of
             (Some m, Some n) \<Rightarrow> m + n \<le> 7
           | _ \<Rightarrow> False))"

definition is_ip_literal :: "string \<Rightarrow> bool" where
  "is_ip_literal s = (is_ipv4_literal s \<or> is_ipv6_literal s)"

section \<open>URLs and capabilities\<close>

record url =
  u_text :: string
  u_scheme :: string
  u_username :: string
  u_password :: "string option"
  u_host_str :: "string option"
  u_port_or_known_default :: "nat option"
  u_path :: string
  u_query :: "string option"
  u_query_pairs :: "(string \<times> string) list"
  u_fragment :: "string option"

datatype web_error =
    InvalidConfig string
  | InvalidRequest string
  | UnsafeUrl string
  | ResponseTooLarge
  | RedirectLimit
  | Upstream string
  | HttpError
  | UrlError
  | IoError

text \<open>A response: its status, the headers the code reads (as text), and its body in chunks, where
  \<open>None\<close> is a chunk the connection failed to deliver.\<close>

record http_response =
  hr_status :: nat
  hr_location :: "string option"
  hr_content_type :: "string option"
  hr_content_length :: "nat option"
  hr_chunks :: "string option list"

record search_result =
  sr_title :: string
  sr_url :: string
  sr_snippet :: string

record fetched_document =
  fd_url :: string
  fd_content_type :: string
  fd_text :: string

record probed_response =
  pr_url :: string
  pr_status :: nat
  pr_content_type :: string
  pr_body :: string

record net =
  n_parse :: "string \<Rightarrow> url option"
  n_join :: "url \<Rightarrow> string \<Rightarrow> url option"
  n_lookup :: "string \<Rightarrow> nat \<Rightarrow> ip_addr list option"
  n_get :: "url \<Rightarrow> ip_addr \<Rightarrow> http_response option"
  n_search :: "url \<Rightarrow> (string \<times> string) list \<Rightarrow> http_response option"
  n_search_results :: "string \<Rightarrow> search_result list option"
  n_from_utf8_lossy :: "string \<Rightarrow> string"
  n_debug :: "string \<Rightarrow> string"
  n_client :: bool
  n_proxy :: "url \<Rightarrow> bool"

definition search_response_limit :: nat where "search_response_limit = 512 * 1024"
definition document_response_limit :: nat where "document_response_limit = 1024 * 1024"
definition probe_response_limit :: nat where "probe_response_limit = 1024 * 1024"
definition max_redirects :: nat where "max_redirects = 3"

definition capability_allows :: "http_capability \<Rightarrow> url \<Rightarrow> bool" where
  "capability_allows c u =
     (u_scheme u = hc_scheme c
      \<and> (case u_host_str u of
           None \<Rightarrow> False
         | Some host \<Rightarrow> eq_ignore_ascii_case (hc_host c) (trim_end_matches CHR ''.'' host))
      \<and> u_port_or_known_default u = Some (hc_port c)
      \<and> starts_with (u_path u) (hc_path_prefix c)
      \<and> list_all (\<lambda>(key, _). key \<in> set (hc_query_keys c)) (u_query_pairs u))"

definition validate_public_url :: "net \<Rightarrow> string \<Rightarrow> web_error + url" where
  "validate_public_url net raw =
     (if length raw > 4096 then Inl (UnsafeUrl ''URL is too long'')
      else rbind (ok_or UrlError (n_parse net raw)) (\<lambda>u.
      if u_scheme u \<noteq> ''https'' \<or> u_port_or_known_default u \<noteq> Some 443 \<or> u_username u \<noteq> []
         \<or> u_password u \<noteq> None \<or> u_fragment u \<noteq> None
      then Inl (UnsafeUrl ''only credential-free HTTPS URLs on port 443 are allowed'')
      else rbind (ok_or (UnsafeUrl ''URL has no host'') (u_host_str u)) (\<lambda>host.
      if eq_ignore_ascii_case host ''localhost'' \<or> is_ip_literal host
      then Inl (UnsafeUrl ''IP literals and localhost are not allowed'')
      else Inr u)))"

section \<open>Fetching\<close>

fun read_chunks :: "nat \<Rightarrow> string \<Rightarrow> string option list \<Rightarrow> web_error + string" where
  "read_chunks limit body [] = Inr body"
| "read_chunks limit body (None # cs) = Inl HttpError"
| "read_chunks limit body (Some chunk # cs) =
     (if length body + length chunk > limit then Inl ResponseTooLarge
      else read_chunks limit (body @ chunk) cs)"

definition read_bounded :: "http_response \<Rightarrow> nat \<Rightarrow> web_error + string" where
  "read_bounded r limit =
     (if (case hr_content_length r of None \<Rightarrow> False | Some n \<Rightarrow> n > limit) then Inl ResponseTooLarge
      else read_chunks limit [] (hr_chunks r))"

definition is_redirection :: "nat \<Rightarrow> bool" where
  "is_redirection status = (300 \<le> status \<and> status < 400)"

definition content_type_of :: "http_response \<Rightarrow> string" where
  "content_type_of r =
     trim (hd (split_char CHR '';''
       (case hr_content_type r of None \<Rightarrow> ''application/octet-stream'' | Some v \<Rightarrow> v)))"

definition resolve_public :: "net \<Rightarrow> url \<Rightarrow> web_error + ip_addr" where
  "resolve_public net u =
     rbind (ok_or (UnsafeUrl ''URL has no host'') (u_host_str u)) (\<lambda>host.
     let port = (case u_port_or_known_default u of None \<Rightarrow> 443 | Some p \<Rightarrow> p) in
     rbind (ok_or IoError (n_lookup net host port)) (\<lambda>addresses.
     if addresses = [] \<or> list_ex (\<lambda>a. \<not> is_public_ip a) addresses
     then Inl (UnsafeUrl ''hostname resolved to a non-public address'')
     else Inr (Min (set addresses))))"

text \<open>One pass of the loop per request; \<open>n\<close> passes are left after this one.\<close>

fun public_get_from :: "net \<Rightarrow> nat \<Rightarrow> http_capability option \<Rightarrow> nat \<Rightarrow> url
    \<Rightarrow> (web_error + probed_response) \<times> (url \<times> ip_addr) list" where
  "public_get_from net limit capability 0 u = (Inl RedirectLimit, [])"
| "public_get_from net limit capability (Suc n) u =
     (if (case capability of None \<Rightarrow> False | Some c \<Rightarrow> \<not> capability_allows c u)
      then (Inl (UnsafeUrl ''URL is outside the approved HTTP capability''), [])
      else case resolve_public net u of
        Inl e \<Rightarrow> (Inl e, [])
      | Inr pinned \<Rightarrow>
        (case n_get net u pinned of
           None \<Rightarrow> (Inl HttpError, [(u, pinned)])
         | Some r \<Rightarrow>
           if is_redirection (hr_status r) then
             (if n = 0 then (Inl RedirectLimit, [(u, pinned)])
              else case hr_location r of
                None \<Rightarrow> (Inl (UnsafeUrl ''redirect omitted Location''), [(u, pinned)])
              | Some location \<Rightarrow>
                (case rbind (ok_or UrlError (n_join net u location))
                        (\<lambda>joined. validate_public_url net (u_text joined)) of
                   Inl e \<Rightarrow> (Inl e, [(u, pinned)])
                 | Inr next_url \<Rightarrow>
                   let (result, sent) = public_get_from net limit capability n next_url
                   in (result, (u, pinned) # sent)))
           else
             (rbind (read_bounded r limit) (\<lambda>body.
                Inr \<lparr>pr_url = u_text u, pr_status = hr_status r,
                     pr_content_type = content_type_of r, pr_body = body\<rparr>),
              [(u, pinned)])))"

definition public_get :: "net \<Rightarrow> string \<Rightarrow> nat \<Rightarrow> http_capability option
    \<Rightarrow> (web_error + probed_response) \<times> (url \<times> ip_addr) list" where
  "public_get net raw_url limit capability =
     (case validate_public_url net raw_url of
        Inl e \<Rightarrow> (Inl e, [])
      | Inr u \<Rightarrow> public_get_from net limit capability (Suc max_redirects) u)"

text \<open>\<open>strip_html\<close>: the characters kept so far, in reverse order.\<close>

fun strip_tags :: "bool \<Rightarrow> string list \<Rightarrow> string list \<Rightarrow> string list" where
  "strip_tags in_tag out [] = rev out"
| "strip_tags in_tag out (ch # chs) =
     (if ch = ''<'' then strip_tags True out chs
      else if ch = ''>'' then
        strip_tags False (case out of [] \<Rightarrow> [[CHR '' '']] | c # _ \<Rightarrow>
                            if is_whitespace c then out else [CHR '' ''] # out) chs
      else if \<not> in_tag then strip_tags in_tag (ch # out) chs
      else strip_tags in_tag out chs)"

fun split_ws :: "string list \<Rightarrow> string list \<Rightarrow> string list list" where
  "split_ws acc [] = (if acc = [] then [] else [rev acc])"
| "split_ws acc (ch # chs) =
     (if is_whitespace ch then (if acc = [] then [] else [rev acc]) @ split_ws [] chs
      else split_ws (ch # acc) chs)"

fun join_with :: "string \<Rightarrow> string list \<Rightarrow> string" where
  "join_with sep [] = []"
| "join_with sep [w] = w"
| "join_with sep (w # ws) = w @ sep @ join_with sep ws"

definition strip_html :: "string \<Rightarrow> string" where
  "strip_html input = join_with '' '' (map concat (split_ws [] (strip_tags False [] (chars input))))"

fun char_indices_from :: "nat \<Rightarrow> string list \<Rightarrow> nat list" where
  "char_indices_from i [] = []"
| "char_indices_from i (ch # chs) = i # char_indices_from (i + length ch) chs"

definition truncate_bytes :: "string \<Rightarrow> nat \<Rightarrow> string" where
  "truncate_bytes value limit =
     (if length value \<le> limit then value
      else let starts = takeWhile (\<lambda>i. i \<le> limit) (char_indices_from 0 (chars value))
           in take (if starts = [] then 0 else last starts) value)"

definition fetch_document :: "net \<Rightarrow> string \<Rightarrow> (web_error + fetched_document) \<times> (url \<times> ip_addr) list" where
  "fetch_document net raw =
     (let (result, sent) = public_get net raw document_response_limit None in
      (rbind result (\<lambda>r.
         if \<not> (200 \<le> pr_status r \<and> pr_status r < 300)
         then Inl (Upstream (''document returned HTTP '' @ show_nat (pr_status r)))
         else let text = n_from_utf8_lossy net (pr_body r);
                  text = (if contains_str (pr_content_type r) ''html'' then strip_html text else text)
              in Inr \<lparr>fd_url = pr_url r, fd_content_type = pr_content_type r,
                      fd_text = truncate_bytes text (64 * 1024)\<rparr>), sent))"

definition probe :: "net \<Rightarrow> string \<Rightarrow> http_capability
    \<Rightarrow> (web_error + probed_response) \<times> (url \<times> ip_addr) list" where
  "probe net raw capability = public_get net raw probe_response_limit (Some capability)"

section \<open>Configuration\<close>

text \<open>The text of a parse error belongs to the \<open>url\<close> crate and is left out of the messages.\<close>

record web_access =
  wa_search_base_url :: url
  wa_search_engines :: string
  wa_public_proxy :: "url option"

definition validate_proxy :: "net \<Rightarrow> string \<Rightarrow> web_error + url" where
  "validate_proxy net raw =
     rbind (ok_or (InvalidConfig ''invalid HTTP proxy URL'') (n_parse net raw)) (\<lambda>u.
     if \<not> (u_scheme u = ''http'' \<or> u_scheme u = ''https'') \<or> u_host_str u = None \<or> u_username u \<noteq> []
        \<or> u_password u \<noteq> None \<or> u_path u \<noteq> ''/'' \<or> u_query u \<noteq> None \<or> u_fragment u \<noteq> None
     then Inl (InvalidConfig
       ''http.proxy_url must be an HTTP(S) origin without credentials, path, query, or fragment'')
     else if \<not> n_proxy net u then Inl (InvalidConfig ''invalid HTTP proxy URL'')
     else Inr u)"

definition web_access_new :: "net \<Rightarrow> string \<Rightarrow> string \<Rightarrow> string \<Rightarrow> string option \<Rightarrow> web_error + web_access" where
  "web_access_new net provider base_url engines proxy_url =
     (if provider \<noteq> ''searxng''
      then Inl (InvalidConfig (''unsupported search provider '' @ n_debug net provider @ ''; expected searxng''))
      else rbind (ok_or (InvalidConfig ''invalid search.base_url'') (n_parse net base_url)) (\<lambda>u.
      if \<not> (u_scheme u = ''http'' \<or> u_scheme u = ''https'') \<or> u_host_str u = None \<or> u_username u \<noteq> []
         \<or> u_password u \<noteq> None
      then Inl (InvalidConfig ''search.base_url must be an HTTP(S) URL without credentials'')
      else if \<not> n_client net then Inl (InvalidConfig ''no search client'')
      else rbind (case map_option trim proxy_url of
             None \<Rightarrow> Inr None
           | Some value \<Rightarrow> if value = [] then Inr None
                           else rbind (validate_proxy net value) (\<lambda>p. Inr (Some p))) (\<lambda>proxy.
      Inr \<lparr>wa_search_base_url = u, wa_search_engines = trim engines, wa_public_proxy = proxy\<rparr>)))"

section \<open>Searching\<close>

definition search_params :: "web_access \<Rightarrow> string \<Rightarrow> (string \<times> string) list" where
  "search_params wa query =
     [(''q'', trim query), (''format'', ''json''), (''categories'', ''general''), (''safesearch'', ''1'')]
     @ (if wa_search_engines wa \<noteq> [] then [(''engines'', wa_search_engines wa)] else [])"

definition search :: "net \<Rightarrow> web_access \<Rightarrow> string \<Rightarrow> web_error + search_result list" where
  "search net wa query =
     (if trim query = [] \<or> length query > 512
      then Inl (InvalidRequest ''search query must contain 1-512 bytes'')
      else rbind (ok_or (InvalidConfig ''invalid search.base_url'') (n_join net (wa_search_base_url wa) ''search'')) (\<lambda>u.
      rbind (ok_or HttpError (n_search net u (search_params wa query))) (\<lambda>r.
      if \<not> (200 \<le> hr_status r \<and> hr_status r < 300)
      then Inl (Upstream (''SearXNG returned HTTP '' @ show_nat (hr_status r)))
      else rbind (read_bounded r search_response_limit) (\<lambda>body.
      rbind (ok_or (Upstream ''invalid search response'') (n_search_results net body)) (\<lambda>results.
      Inr (map (\<lambda>q. \<lparr>sr_title = truncate_bytes (sr_title q) 512, sr_url = truncate_bytes (sr_url q) 2048,
                     sr_snippet = truncate_bytes (sr_snippet q) 2048\<rparr>)
            (take 8 (filter (\<lambda>q. n_parse net (sr_url q) \<noteq> None) results))))))))"

end
