(* ===== verification/Web_Text.thy ===== *)
theory Web_Text
  imports Web_Access
begin

text \<open>
  The reductions of a fetched text: \<open>truncate\<close> of web_access.rs keeps the longest prefix of
  whole characters within a limit, \<open>strip_html\<close> removes the tags and is idempotent.
\<close>

section \<open>Truncation\<close>

text \<open>The reference: take whole characters while they fit.\<close>

fun fit :: "nat \<Rightarrow> string list \<Rightarrow> string list" where
  "fit n [] = []"
| "fit n (ch # chs) = (if length ch \<le> n then ch # fit (n - length ch) chs else [])"

lemma fit_le: "length (concat (fit n chs)) \<le> n"
  by (induction n chs rule: fit.induct) auto

lemma fit_all: "length (concat chs) \<le> n \<Longrightarrow> fit n chs = chs"
  by (induction n chs rule: fit.induct) auto

lemma fit_prefix: "\<exists>rest. chs = fit n chs @ rest"
  by (induction n chs rule: fit.induct) auto

lemma take_fit: "take (length (concat (fit n chs))) (concat chs) = concat (fit n chs)"
  using fit_prefix [of chs n] by (metis append_eq_conv_conj concat_append)

lemma last_start:
  assumes "n < length (concat chs)" "[] \<notin> set chs"
  shows "takeWhile (\<lambda>j. j \<le> i + n) (char_indices_from i chs) \<noteq> []
    \<and> last (takeWhile (\<lambda>j. j \<le> i + n) (char_indices_from i chs)) = i + length (concat (fit n chs))"
  using assms
proof (induction chs arbitrary: i n)
  case (Cons c cs)
  show ?case
  proof (cases "length c \<le> n")
    case True
    with Cons.prems Cons.IH [of "n - length c" "i + length c"] show ?thesis by auto
  next
    case False
    then show ?thesis by (cases cs) auto
  qed
qed simp

lemma truncate_bytes_fit: "truncate_bytes value limit = concat (fit limit (chars value))"
proof (cases "length value \<le> limit")
  case True
  then show ?thesis by (simp add: truncate_bytes_def fit_all)
next
  case False
  have "[] \<notin> set (chars value)" using chars_nonempty by blast
  with False last_start [of limit "chars value" 0] show ?thesis
    by (simp add: truncate_bytes_def Let_def) (metis concat_chars take_fit)
qed

text \<open>Truncating a text to a number of bytes keeps whole characters, as many as fit: what
  comes back is the text itself when it is within the limit, and the first characters up to
  the first one that no longer fits otherwise.\<close>

theorem truncate_keeps_whole_characters:
  "truncate_bytes value limit = concat (fit limit (chars value)) \<and> length (truncate_bytes value limit) \<le> limit"
  by (simp add: truncate_bytes_fit fit_le)

section \<open>Reducing HTML\<close>

definition bracket :: "string \<Rightarrow> bool" where
  "bracket ch = (ch = ''<'' \<or> ch = ''>'')"

lemma strip_tags_chars:
  "list_all (\<lambda>ch. P ch \<and> \<not> bracket ch) out \<Longrightarrow> list_all P chs \<Longrightarrow> P '' ''
    \<Longrightarrow> list_all (\<lambda>ch. P ch \<and> \<not> bracket ch) (strip_tags in_tag out chs)"
proof (induction in_tag out chs rule: strip_tags.induct)
  case (2 in_tag out ch chs)
  note ih = 2(1-4) and out = 2(5) and space' = 2(7)
  have space: "\<not> bracket '' ''" by (simp add: bracket_def)
  have more: "list_all (\<lambda>ch. P ch \<and> \<not> bracket ch)
      (case out of [] \<Rightarrow> ['' ''] | c # _ \<Rightarrow> if is_whitespace c then out else '' '' # out)"
    using 2(5,7) space by (simp split: list.split)
  have rest: "list_all P chs" "P ch" using 2(6) by simp_all
  consider "ch = ''<''" | "ch = ''>''" | "\<not> bracket ch" by (auto simp: bracket_def)
  then show ?case
  proof cases
    case 1
    then show ?thesis using ih(1) [OF _ out rest(1) space'] by simp
  next
    case 2
    then have "ch \<noteq> ''<''" by simp
    from ih(2) [OF this 2 more rest(1) space'] 2 show ?thesis by simp
  next
    case 3
    then have ch: "ch \<noteq> ''<''" "ch \<noteq> ''>''" by (auto simp: bracket_def)
    show ?thesis
    proof (cases in_tag)
      case True
      then show ?thesis using ih(4) [OF ch _ out rest(1) space'] ch by simp
    next
      case False
      then show ?thesis using ih(3) [OF ch _ _ rest(1) space'] out ch rest(2) 3 by simp
    qed
  qed
qed (simp add: list_all_iff)

lemma strip_tags_id:
  "list_all (\<lambda>ch. \<not> bracket ch) chs \<Longrightarrow> strip_tags False out chs = rev out @ chs"
  by (induction chs arbitrary: out) (auto simp: bracket_def)

definition word_char :: "string \<Rightarrow> bool" where
  "word_char ch = (wf_char ch \<and> \<not> bracket ch \<and> \<not> is_whitespace ch)"

lemma split_ws_words:
  "list_all word_char acc \<Longrightarrow> list_all (\<lambda>ch. wf_char ch \<and> \<not> bracket ch) chs
    \<Longrightarrow> list_all (\<lambda>w. w \<noteq> [] \<and> list_all word_char w) (split_ws acc chs)"
  by (induction acc chs rule: split_ws.induct) (auto simp: word_char_def)

lemma split_ws_prefix:
  "list_all word_char w \<Longrightarrow> split_ws acc (w @ chs) = split_ws (rev w @ acc) chs"
  by (induction w arbitrary: acc) (auto simp: word_char_def)

fun spaced :: "string list list \<Rightarrow> string list" where
  "spaced [] = []"
| "spaced [w] = w"
| "spaced (w # ws) = w @ '' '' # spaced ws"

lemma join_spaced: "join_with '' '' (map concat ws) = concat (spaced ws)"
  by (induction ws rule: spaced.induct) auto

lemma space_facts: "is_whitespace '' ''" "wf_char '' ''" "\<not> bracket '' ''"
  by code_simp+

lemma split_spaced:
  "list_all (\<lambda>w. w \<noteq> [] \<and> list_all word_char w) ws \<Longrightarrow> split_ws [] (spaced ws) = ws"
proof (induction ws rule: spaced.induct)
  case (2 w)
  then show ?case using split_ws_prefix [of w "[]" "[]"] by simp
next
  case (3 w v ws)
  then show ?case using split_ws_prefix [of w "[]"] by (simp add: space_facts)
qed simp

lemma word_text: "list_all word_char w \<Longrightarrow> list_all (\<lambda>ch. wf_char ch \<and> \<not> bracket ch) w"
  by (simp add: list_all_iff word_char_def)

lemma spaced_chars:
  "list_all (\<lambda>w. w \<noteq> [] \<and> list_all word_char w) ws \<Longrightarrow> list_all (\<lambda>ch. wf_char ch \<and> \<not> bracket ch) (spaced ws)"
proof (induction ws rule: spaced.induct)
  case (2 w)
  then show ?case by (simp add: word_text)
next
  case (3 w v ws)
  then show ?case by (simp add: word_text space_facts)
qed simp

lemma chars_spaced:
  assumes "list_all (\<lambda>w. w \<noteq> [] \<and> list_all word_char w) ws"
  shows "chars (concat (spaced ws)) = spaced ws"
  by (rule chars_concat) (use spaced_chars [OF assms] in \<open>simp add: list_all_iff\<close>)

lemma bracket_byte:
  assumes "wf_char ch" "CHR ''<'' \<in> set ch \<or> CHR ''>'' \<in> set ch"
  shows "bracket ch"
proof -
  obtain c cs where ch: "ch = c # cs" using assms(1) by (cases ch) (auto simp: wf_char_def)
  have tail: "length ch = char_width c" "\<forall>b \<in> set cs. 128 \<le> byte b"
    using assms(1) ch by (auto simp: wf_char_def continuation_def list_all_iff)
  have "CHR ''<'' \<notin> set cs" "CHR ''>'' \<notin> set cs" using tail(2) by force+
  with assms(2) ch have "c = CHR ''<'' \<or> c = CHR ''>''" by auto
  with tail(1) ch show ?thesis by (auto simp: bracket_def char_width_def)
qed

lemma strip_html_spaced:
  assumes "list_all (\<lambda>w. w \<noteq> [] \<and> list_all word_char w) ws"
  shows "strip_html (concat (spaced ws)) = concat (spaced ws)"
proof -
  have "list_all (\<lambda>ch. \<not> bracket ch) (spaced ws)"
    using spaced_chars [OF assms] by (simp add: list_all_iff)
  from strip_tags_id [OF this, of "[]"] show ?thesis
    by (simp only: strip_html_def chars_spaced [OF assms] rev.simps append_Nil split_spaced [OF assms] join_spaced)
qed

lemma spaced_no_bracket:
  assumes "list_all (\<lambda>w. w \<noteq> [] \<and> list_all word_char w) ws"
  shows "CHR ''<'' \<notin> set (concat (spaced ws)) \<and> CHR ''>'' \<notin> set (concat (spaced ws))"
proof -
  have "CHR ''<'' \<notin> set ch \<and> CHR ''>'' \<notin> set ch" if "ch \<in> set (spaced ws)" for ch
    using spaced_chars [OF assms] that bracket_byte [of ch] unfolding list_all_iff by blast
  then show ?thesis unfolding set_concat by blast
qed

lemma strip_html_words:
  assumes "utf8 input"
  obtains ws where "list_all (\<lambda>w. w \<noteq> [] \<and> list_all word_char w) ws"
    "strip_html input = join_with '' '' (map concat ws)"
proof
  have "list_all (\<lambda>ch. wf_char ch \<and> \<not> bracket ch) (strip_tags False [] (chars input))"
    by (rule strip_tags_chars) (use assms in \<open>simp_all add: utf8_def space_facts\<close>)
  then show "list_all (\<lambda>w. w \<noteq> [] \<and> list_all word_char w) (split_ws [] (strip_tags False [] (chars input)))"
    by (intro split_ws_words) simp_all
qed (rule strip_html_def)

text \<open>The text of a page in UTF-8 has no angle bracket left, its words are separated by
  single spaces with none at either end, and reducing it again changes nothing.\<close>

theorem stripped_text_is_clean:
  assumes "utf8 input"
  shows "CHR ''<'' \<notin> set (strip_html input) \<and> CHR ''>'' \<notin> set (strip_html input)
    \<and> (\<exists>ws. strip_html input = join_with '' '' (map concat ws)
          \<and> list_all (\<lambda>w. w \<noteq> [] \<and> list_all (\<lambda>ch. \<not> is_whitespace ch) w) ws)
    \<and> strip_html (strip_html input) = strip_html input"
proof -
  obtain ws where ws: "list_all (\<lambda>w. w \<noteq> [] \<and> list_all word_char w) ws"
    "strip_html input = join_with '' '' (map concat ws)"
    using strip_html_words [OF assms] by blast
  have words: "list_all (\<lambda>w. w \<noteq> [] \<and> list_all (\<lambda>ch. \<not> is_whitespace ch) w) ws"
    using ws(1) by (auto simp: list_all_iff word_char_def)
  show ?thesis
    using spaced_no_bracket [OF ws(1)] strip_html_spaced [OF ws(1)] words ws(2) join_spaced [of ws] by metis
qed

lemma stripped_text_is_clean_witness:
  "strip_html ''<h1>Hello</h1><p>world</p>'' = ''Hello world''
    \<and> strip_html (strip_html ''<h1>Hello</h1><p>world</p>'') = strip_html ''<h1>Hello</h1><p>world</p>''"
proof -
  have "utf8 ''<h1>Hello</h1><p>world</p>''" by code_simp
  from stripped_text_is_clean [OF this]
  have "strip_html (strip_html ''<h1>Hello</h1><p>world</p>'') = strip_html ''<h1>Hello</h1><p>world</p>''"
    by blast
  moreover have "strip_html ''<h1>Hello</h1><p>world</p>'' = ''Hello world''" by code_simp
  ultimately show ?thesis by blast
qed

end
