(* ===== verification/Json_Compare.thy ===== *)
theory Json_Compare
  imports Json_Value Complex_Main
begin

text \<open>
  The comparison of a tool's JSON output with the expected one, of
  src/apps/jit-worker/src/jobs.rs: two numbers are the same when their printed texts have
  the same normal form, whatever their notation; everything else is compared structurally.
  The theory shows that the normal form decides equality of the rational numbers the texts
  denote, and that the comparison is equality of the values after normalising every number.
\<close>

section \<open>Comparing\<close>

text \<open>\<open>split_once(['e', 'E'])\<close>.\<close>

fun split_exponent :: "string \<Rightarrow> (string \<times> string) option" where
  "split_exponent [] = None"
| "split_exponent (c # cs) =
     (if c = CHR ''e'' \<or> c = CHR ''E'' then Some ([], cs)
      else map_option (\<lambda>(a, b). (c # a, b)) (split_exponent cs))"

definition parse_i64 :: "string \<Rightarrow> int option" where
  "parse_i64 s =
     (let (negative, ds) = (case s of [] \<Rightarrow> (False, [])
                            | c # cs \<Rightarrow> if c = CHR ''-'' then (True, cs)
                                       else if c = CHR ''+'' then (False, cs) else (False, s))
      in if ds = [] then None
         else case digits_val 0 ds of None \<Rightarrow> None
              | Some n \<Rightarrow> i64_checked (if negative then - int n else int n))"

text \<open>The loop that drops trailing zeros, on the reversed digits.\<close>

fun drop_trailing_zeros :: "string \<Rightarrow> int \<Rightarrow> (string \<times> int) option" where
  "drop_trailing_zeros [] e = Some ([], e)"
| "drop_trailing_zeros (c # cs) e =
     (if c = CHR ''0'' then (case i64_checked (e + 1) of None \<Rightarrow> None | Some e' \<Rightarrow> drop_trailing_zeros cs e')
      else Some (rev (c # cs), e))"

definition mantissa_sign :: "string \<Rightarrow> bool \<times> string" where
  "mantissa_sign m = (case strip_prefix ''-'' m of None \<Rightarrow> (False, m) | Some u \<Rightarrow> (True, u))"

definition normalized_json_number :: "number \<Rightarrow> (bool \<times> string \<times> int) option" where
  "normalized_json_number number =
     (let encoded = number_to_string number in
      case (case split_exponent encoded of
              None \<Rightarrow> Some (encoded, 0)
            | Some (m, x) \<Rightarrow> map_option (\<lambda>e. (m, e)) (parse_i64 x)) of
        None \<Rightarrow> None
      | Some (mantissa, explicit_exponent) \<Rightarrow>
        let (negative, unsigned) = mantissa_sign mantissa;
            fraction_digits = (case split_once ''.'' unsigned of None \<Rightarrow> 0 | Some (_, f) \<Rightarrow> length f)
        in case Option.bind (i64_try_from fraction_digits) (\<lambda>k. i64_checked (explicit_exponent - k)) of
             None \<Rightarrow> None
           | Some exponent \<Rightarrow>
             let digits = dropWhile (\<lambda>c. c = CHR ''0'') (filter (\<lambda>c. c \<noteq> CHR ''.'') unsigned)
             in if digits = [] then Some (False, ''0'', 0)
                else map_option (\<lambda>(ds, e). (negative, ds, e)) (drop_trailing_zeros (rev digits) exponent))"

lemma size_value_less: "(k, a) \<in> set as \<Longrightarrow> size a < Suc (size_list (size_prod (\<lambda>x. 0) size) as)"
  by (induction as) auto

lemma size_item_less: "a \<in> set as \<Longrightarrow> size a < Suc (size_list size as)"
  by (induction as) auto

function (sequential) json_values_equivalent :: "json \<Rightarrow> json \<Rightarrow> bool" where
  "json_values_equivalent (JNumber a) (JNumber b) = (normalized_json_number a = normalized_json_number b)"
| "json_values_equivalent (JArray as) (JArray bs) =
     (length as = length bs \<and> list_all (\<lambda>(a, b). json_values_equivalent a b) (zip as bs))"
| "json_values_equivalent (JObject as) (JObject bs) =
     (length as = length bs
      \<and> list_all (\<lambda>(k, a). case map_of bs k of None \<Rightarrow> False | Some b \<Rightarrow> json_values_equivalent a b) as)"
| "json_values_equivalent a b = (a = b)"
  by pat_completeness auto

termination
  by (relation "measure (\<lambda>(a, b). size a)") (auto intro: size_value_less size_item_less dest: set_zip_leftD)

section \<open>The value of a number's text\<close>

definition num :: "string \<Rightarrow> nat" where
  "num ds = (case digits_val 0 ds of None \<Rightarrow> 0 | Some n \<Rightarrow> n)"

definition all_digits :: "string \<Rightarrow> bool" where
  "all_digits ds = list_all is_ascii_digit ds"

definition ten :: rat where "ten = 10"

text \<open>The reference: the rational number a decimal text denotes, read off its sign, integer part,
  fraction and exponent.\<close>

definition decimal_parts :: "string \<Rightarrow> (bool \<times> string \<times> string \<times> int) option" where
  "decimal_parts s =
     (let (m, x) = (case split_exponent s of None \<Rightarrow> (s, Some 0) | Some (m, x) \<Rightarrow> (m, parse_i64 x));
          (negative, u) = mantissa_sign m;
          (i, f) = (case split_once ''.'' u of None \<Rightarrow> (u, []) | Some p \<Rightarrow> p)
      in case x of None \<Rightarrow> None
         | Some e \<Rightarrow> if all_digits i \<and> all_digits f then Some (negative, i, f, e) else None)"

definition decimal_value :: "string \<Rightarrow> rat option" where
  "decimal_value s =
     map_option (\<lambda>(negative, i, f, e).
       (if negative then -1 else 1) * (of_nat (num i) + of_nat (num f) / ten ^ length f) * ten powi e)
     (decimal_parts s)"

definition normal_value :: "bool \<times> string \<times> int \<Rightarrow> rat" where
  "normal_value = (\<lambda>(negative, ds, e). (if negative then -1 else 1) * of_nat (num ds) * ten powi e)"

lemma digits_val_digits: "all_digits ds \<Longrightarrow> digits_val acc ds = Some (acc * 10 ^ length ds + num ds)"
proof (induction ds arbitrary: acc)
  case (Cons c ds)
  then have d: "is_ascii_digit c" "all_digits ds" by (simp_all add: all_digits_def)
  have "num (c # ds) = (byte c - 48) * 10 ^ length ds + num ds"
    using Cons.IH [OF d(2), of "byte c - 48"] d(1) by (simp add: num_def)
  then show ?case using Cons.IH [OF d(2), of "10 * acc + (byte c - 48)"] d(1)
    by (simp add: algebra_simps)
qed (simp add: num_def)

lemma num_Nil [simp]: "num [] = 0"
  by (simp add: num_def)

lemma digits_val_num: "all_digits ds \<Longrightarrow> digits_val 0 ds = Some (num ds)"
  using digits_val_digits [of ds 0] by simp

lemma num_append: "all_digits xs \<Longrightarrow> all_digits ys \<Longrightarrow> num (xs @ ys) = num xs * 10 ^ length ys + num ys"
  using digits_val_num [of xs] digits_val_digits [of ys "num xs"]
  by (simp add: num_def [of "xs @ ys"] digits_val_append)

lemma num_single: "is_ascii_digit c \<Longrightarrow> num [c] = byte c - 48"
  by (simp add: num_def)

lemma num_snoc: "all_digits xs \<Longrightarrow> is_ascii_digit c \<Longrightarrow> num (xs @ [c]) = 10 * num xs + (byte c - 48)"
  using num_append [of xs "[c]"] by (simp add: all_digits_def num_single)

lemma num_drop_zeros: "all_digits ds \<Longrightarrow> num (dropWhile (\<lambda>c. c = CHR ''0'') ds) = num ds"
proof (induction ds)
  case (Cons c ds)
  then have "all_digits [c]" "all_digits ds" by (simp_all add: all_digits_def)
  then have "num (c # ds) = num [c] * 10 ^ length ds + num ds"
    using num_append [of "[c]" ds] by simp
  with Cons \<open>all_digits ds\<close> show ?case by (auto simp: num_def is_ascii_digit_def)
qed simp

text \<open>Digits without a leading zero are the printed form of their number.\<close>

lemma digit_char_byte: "is_ascii_digit c \<Longrightarrow> digit_char (byte c - 48) = c"
  by (simp add: digit_char_def is_ascii_digit_def)

lemma digit_zero: "digit_char 0 = CHR ''0''"
  using char_of_char [of "CHR ''0''", where 'a = nat] by (simp add: digit_char_def)

lemma digit_positive: "is_ascii_digit c \<Longrightarrow> c \<noteq> CHR ''0'' \<Longrightarrow> 0 < byte c - (48::nat)"
  using digit_char_byte [of c] digit_zero by (metis gr0I)

lemma digit_bound: "is_ascii_digit c \<Longrightarrow> byte c - (48::nat) < 10"
  by (auto simp: is_ascii_digit_def)

lemma show_num:
  "all_digits ds \<Longrightarrow> ds \<noteq> [] \<Longrightarrow> hd ds \<noteq> CHR ''0'' \<Longrightarrow> show_nat (num ds) = ds"
proof (induction ds rule: rev_induct)
  case (snoc c xs)
  then have c: "is_ascii_digit c" and xs: "all_digits xs" by (simp_all add: all_digits_def)
  show ?case
  proof (cases xs)
    case Nil
    with c show ?thesis
      by (simp add: num_single show_nat.simps digit_bound digit_char_byte)
  next
    case (Cons d ds)
    then have ih: "show_nat (num xs) = xs" using snoc xs by simp
    have "num xs \<noteq> 0"
    proof
      assume "num xs = 0"
      with ih have "xs = [digit_char 0]" by (simp add: show_nat.simps)
      with snoc.prems(3) show False by (simp add: digit_zero)
    qed
    then show ?thesis
      using ih c digit_bound [OF c] digit_char_byte [OF c]
      by (simp add: num_snoc [OF xs c] show_nat.simps [of "10 * num xs + (byte c - 48)"])
  qed
qed simp

lemma num_inj:
  "all_digits xs \<Longrightarrow> xs \<noteq> [] \<Longrightarrow> hd xs \<noteq> CHR ''0'' \<Longrightarrow> all_digits ys \<Longrightarrow> ys \<noteq> [] \<Longrightarrow> hd ys \<noteq> CHR ''0''
    \<Longrightarrow> num xs = num ys \<Longrightarrow> xs = ys"
  by (metis show_num)

section \<open>Normal forms\<close>

definition normal_digits :: "string \<Rightarrow> bool" where
  "normal_digits ds = (all_digits ds \<and> ds \<noteq> [] \<and> hd ds \<noteq> CHR ''0'' \<and> last ds \<noteq> CHR ''0'')"

definition normal_form :: "bool \<times> string \<times> int \<Rightarrow> bool" where
  "normal_form x = (x = (False, ''0'', 0) \<or> normal_digits (fst (snd x)))"

lemma normal_num:
  assumes "normal_digits ds"
  shows "num ds \<noteq> 0 \<and> num ds mod 10 \<noteq> 0"
proof -
  obtain xs c where ds: "ds = xs @ [c]" using assms by (metis normal_digits_def rev_exhaust)
  then have c: "is_ascii_digit c" "c \<noteq> CHR ''0''" and xs: "all_digits xs"
    using assms by (auto simp: normal_digits_def all_digits_def)
  have "num ds mod 10 = byte c - 48"
    using digit_bound [OF c(1)] by (simp add: ds num_snoc [OF xs c(1)])
  with digit_positive [OF c] show ?thesis by (metis mod_0 not_gr_zero)
qed

lemma powi_split: "e \<le> e' \<Longrightarrow> ten powi e' = of_nat (10 ^ nat (e' - e)) * ten powi e"
  by (simp add: ten_def power_int_add [symmetric] flip: power_int_of_nat)

lemma scaled_eq:
  assumes "m mod 10 \<noteq> 0" "e \<le> e'" "of_nat m * ten powi e = of_nat n * ten powi e'"
  shows "m = n \<and> e = e'"
proof -
  have pos: "ten powi e \<noteq> 0" by (simp add: ten_def)
  have "of_nat m * ten powi e = of_nat (n * 10 ^ nat (e' - e)) * ten powi e"
    using assms(3) powi_split [OF assms(2)] by (simp add: mult.assoc)
  then have "(of_nat m :: rat) = of_nat (n * 10 ^ nat (e' - e))"
    using pos by (simp only: mult_cancel_right) simp
  then have m: "m = n * 10 ^ nat (e' - e)" by (simp only: of_nat_eq_iff)
  have "nat (e' - e) = 0"
  proof (rule ccontr)
    assume "nat (e' - e) \<noteq> 0"
    then obtain k where "nat (e' - e) = Suc k" by (metis not0_implies_Suc)
    with m assms(1) show False by simp
  qed
  with m assms(2) show ?thesis by simp
qed

lemma normal_value_inj:
  assumes "normal_form x" "normal_form y" "normal_value x = normal_value y"
  shows "x = y"
proof -
  obtain s ds e where x: "x = (s, ds, e)" by (cases x)
  obtain t es f where y: "y = (t, es, f)" by (cases y)
  have pos: "ten powi i > 0" for i by (simp add: ten_def zero_less_power_int)
  have zero: "normal_value (False, ''0'', 0) = 0"
    by (simp add: normal_value_def num_single is_ascii_digit_def)
  have nonzero: "normal_value (u, gs, g) \<noteq> 0" if "normal_digits gs" for u gs g
    using normal_num [OF that] by (simp add: normal_value_def ten_def)
  show ?thesis
  proof (cases "x = (False, ''0'', 0) \<or> y = (False, ''0'', 0)")
    case True
    then show ?thesis
      using assms zero nonzero x y unfolding normal_form_def by (metis fst_conv snd_conv)
  next
    case False
    then have d: "normal_digits ds" "normal_digits es"
      using assms(1,2) x y by (auto simp: normal_form_def)
    have a: "of_nat (num ds) * ten powi e > 0" "of_nat (num es) * ten powi f > 0"
      using normal_num [OF d(1)] normal_num [OF d(2)] pos by auto
    have v: "(if s then -1 else 1) * (of_nat (num ds) * ten powi e)
        = (if t then -1 else 1) * (of_nat (num es) * ten powi f)"
      using assms(3) by (simp add: x y normal_value_def)
    have s: "s = t" using v a by (auto split: if_splits)
    with v have m: "of_nat (num ds) * ten powi e = of_nat (num es) * ten powi f"
      by (auto split: if_splits)
    have "num ds = num es \<and> e = f"
    proof (cases "e \<le> f")
      case True
      with m normal_num [OF d(1)] scaled_eq show ?thesis by blast
    next
      case False
      with scaled_eq [of "num es" f e "num ds"] m normal_num [OF d(2)] show ?thesis by simp
    qed
    with d s num_inj [of ds es] show ?thesis by (simp add: x y normal_digits_def)
  qed
qed

lemma drop_trailing_zeros_result:
  "drop_trailing_zeros r e = Some (ds, e') \<Longrightarrow> \<exists>c \<in> set r. c \<noteq> CHR ''0''
    \<Longrightarrow> \<exists>k. rev r = ds @ replicate k (CHR ''0'') \<and> e' = e + int k \<and> ds \<noteq> [] \<and> last ds \<noteq> CHR ''0''"
proof (induction r e rule: drop_trailing_zeros.induct)
  case (2 c cs e)
  show ?case
  proof (cases "c = CHR ''0''")
    case True
    with "2.prems" obtain "i64_checked (e + 1) = Some (e + 1)" "drop_trailing_zeros cs (e + 1) = Some (ds, e')"
      by (auto split: option.splits)
    with "2.IH" [OF True, of "e + 1"] "2.prems"(2) True obtain k where
      "rev cs = ds @ replicate k (CHR ''0'')" "e' = e + 1 + int k" "ds \<noteq> []" "last ds \<noteq> CHR ''0''"
      by auto
    with True show ?thesis
      by (intro exI [of _ "Suc k"]) (simp add: replicate_append_same)
  next
    case False
    with "2.prems" show ?thesis by (intro exI [of _ 0]) auto
  qed
qed simp

lemma num_zeros: "num (replicate k (CHR ''0'')) = 0"
proof (induction k)
  case (Suc k)
  have "all_digits (replicate k (CHR ''0''))" by (simp add: all_digits_def is_ascii_digit_def list_all_iff)
  with Suc num_append [of "''0''" "replicate k (CHR ''0'')"] show ?case
    by (simp add: all_digits_def is_ascii_digit_def num_single)
qed simp

lemma dropWhile_zero_facts:
  assumes "all_digits ds" "dropWhile (\<lambda>c. c = CHR ''0'') ds \<noteq> []"
  shows "hd (dropWhile (\<lambda>c. c = CHR ''0'') ds) \<noteq> CHR ''0''" "all_digits (dropWhile (\<lambda>c. c = CHR ''0'') ds)"
    "\<exists>c \<in> set (rev (dropWhile (\<lambda>c. c = CHR ''0'') ds)). c \<noteq> CHR ''0''"
proof -
  show hd: "hd (dropWhile (\<lambda>c. c = CHR ''0'') ds) \<noteq> CHR ''0''"
    using hd_dropWhile [OF assms(2)] by simp
  show "all_digits (dropWhile (\<lambda>c. c = CHR ''0'') ds)"
    using assms(1) by (auto simp: all_digits_def list_all_iff dest: set_dropWhileD)
  show "\<exists>c \<in> set (rev (dropWhile (\<lambda>c. c = CHR ''0'') ds)). c \<noteq> CHR ''0''"
    using hd assms(2) by (metis hd_in_set set_rev)
qed

text \<open>What is left of the digits when both ends have lost their zeros.\<close>

lemma stripped_digits:
  assumes ds: "all_digits ds"
    and left: "dropWhile (\<lambda>c. c = CHR ''0'') ds \<noteq> []"
    and run: "drop_trailing_zeros (rev (dropWhile (\<lambda>c. c = CHR ''0'') ds)) e = Some (es, e')"
  shows "normal_digits es \<and> (of_nat (num ds) :: rat) * ten powi e = of_nat (num es) * ten powi e'"
proof -
  note facts = dropWhile_zero_facts [OF ds left]
  obtain k where k: "dropWhile (\<lambda>c. c = CHR ''0'') ds = es @ replicate k (CHR ''0'')" "e' = e + int k"
    "es \<noteq> []" "last es \<noteq> CHR ''0''"
    using drop_trailing_zeros_result [OF run facts(3)] by auto
  have es: "all_digits es" "all_digits (replicate k (CHR ''0''))"
    using facts(2) k(1) by (simp_all add: all_digits_def)
  have "num ds = num es * 10 ^ k"
    using num_drop_zeros [OF ds] num_append [OF es] by (simp add: k(1) num_zeros)
  moreover have "ten powi e' = 10 ^ k * ten powi e"
    using powi_split [of e e'] k(2) by simp
  moreover have "normal_digits es"
    using facts(1) k es by (simp add: normal_digits_def)
  ultimately show ?thesis by simp
qed

definition decimal_text :: "number \<Rightarrow> bool" where
  "decimal_text n = (decimal_parts (number_to_string n) \<noteq> None)"

lemma split_at_point:
  assumes "(case split_once ''.'' u of None \<Rightarrow> (u, []) | Some p \<Rightarrow> p) = (i, f)" "all_digits i" "all_digits f"
  shows "filter (\<lambda>c. c \<noteq> CHR ''.'') u = i @ f" "(case split_once ''.'' u of None \<Rightarrow> 0 | Some (_, f) \<Rightarrow> length f) = length f"
proof -
  have no_point: "filter (\<lambda>c. c \<noteq> CHR ''.'') ds = ds" if "all_digits ds" for ds
    using that not_digit_plus(4) by (auto simp: filter_id_conv all_digits_def list_all_iff)
  show "filter (\<lambda>c. c \<noteq> CHR ''.'') u = i @ f"
    using assms no_point by (auto split: option.splits dest: split_once_Some)
  show "(case split_once ''.'' u of None \<Rightarrow> 0 | Some (_, f) \<Rightarrow> length f) = length f"
    using assms(1) by (auto split: option.splits)
qed

lemma fraction_value:
  assumes "all_digits i" "all_digits f"
  shows "(of_nat (num i) + of_nat (num f) / ten ^ length f) * ten powi e
    = (of_nat (num (i @ f)) :: rat) * ten powi (e - int (length f))"
proof -
  have "ten powi (e - int (length f)) = ten powi e / ten ^ length f"
    by (simp add: ten_def power_int_diff)
  then show ?thesis
    by (simp add: num_append [OF assms] ten_def field_simps)
qed

lemma normalized_value:
  assumes "decimal_text n" "normalized_json_number n = Some x"
  shows "normal_form x \<and> decimal_value (number_to_string n) = Some (normal_value x)"
proof -
  let ?s = "number_to_string n"
  obtain negative i f e where parts: "decimal_parts ?s = Some (negative, i, f, e)"
    using assms(1) by (auto simp: decimal_text_def)
  obtain m where m: "(case split_exponent ?s of None \<Rightarrow> Some (?s, 0)
      | Some (m, x) \<Rightarrow> map_option (\<lambda>e. (m, e)) (parse_i64 x)) = Some (m, e)"
    and sign: "mantissa_sign m = (negative, snd (mantissa_sign m))"
    and point: "(case split_once ''.'' (snd (mantissa_sign m)) of None \<Rightarrow> (snd (mantissa_sign m), []) | Some p \<Rightarrow> p) = (i, f)"
    and digits: "all_digits i" "all_digits f"
    using parts by (auto simp: decimal_parts_def Let_def split: option.splits prod.splits if_splits)
  note sp = split_at_point [OF point digits]
  let ?e = "e - int (length f)"
  have both: "all_digits (i @ f)" using digits by (simp add: all_digits_def)
  have exp: "Option.bind (i64_try_from (length f)) (\<lambda>k. i64_checked (e - k)) = Some ?e"
    using assms(2) m sp unfolding normalized_json_number_def
    by (simp add: Let_def split: prod.splits option.splits bind_splits)
  let ?d = "dropWhile (\<lambda>c. c = CHR ''0'') (i @ f)"
  have text_value: "decimal_value ?s = Some ((if negative then -1 else 1) * (of_nat (num (i @ f)) * ten powi ?e))"
    using fraction_value [OF digits, of e] by (simp add: decimal_value_def parts mult.assoc)
  have norm: "normalized_json_number n = (if ?d = [] then Some (False, ''0'', 0)
      else map_option (\<lambda>(ds, e). (negative, ds, e)) (drop_trailing_zeros (rev ?d) ?e))"
    unfolding normalized_json_number_def Let_def m option.case prod.case
    by (subst sign) (simp only: prod.case sp exp option.case)
  show ?thesis
  proof (cases "?d = []")
    case True
    then have "num (i @ f) = 0" using num_drop_zeros [OF both] by (metis num_Nil)
    with True norm assms(2) text_value show ?thesis
      by (simp add: normal_form_def normal_value_def num_single is_ascii_digit_def)
  next
    case False
    then obtain es e' where run: "drop_trailing_zeros (rev ?d) ?e = Some (es, e')" "x = (negative, es, e')"
      using norm assms(2) unfolding if_not_P [OF False] by (cases "drop_trailing_zeros (rev ?d) ?e") (auto split: prod.splits)
    from stripped_digits [OF both False run(1)] text_value run(2) show ?thesis
      by (simp add: normal_form_def normal_value_def mult.assoc)
  qed
qed

text \<open>A decimal text whose exponent and length leave the arithmetic of \<open>i64\<close> far from its limits.\<close>

definition machine_number :: "number \<Rightarrow> bool" where
  "machine_number n =
     (case decimal_parts (number_to_string n) of
        None \<Rightarrow> False
      | Some (_, i, f, e) \<Rightarrow> - 1000000000000000000 \<le> e \<and> e \<le> 1000000000000000000
          \<and> int (length i + length f) \<le> 1000000000000000000)"

lemma drop_trailing_zeros_total:
  "i64_min \<le> e \<Longrightarrow> e + int (length r) \<le> i64_max \<Longrightarrow> drop_trailing_zeros r e \<noteq> None"
proof (induction r arbitrary: e)
  case (Cons c r)
  show ?case
  proof (cases "c = CHR ''0''")
    case True
    have "i64_checked (e + 1) = Some (e + 1)" using Cons.prems by (simp add: i64_checked_def)
    moreover have "drop_trailing_zeros r (e + 1) \<noteq> None"
      using Cons.IH [of "e + 1"] Cons.prems by simp
    ultimately show ?thesis using True by (simp del: i64_checked_Some)
  qed simp
qed simp

lemma normalized_total:
  assumes "machine_number n"
  shows "\<exists>x. normalized_json_number n = Some x \<and> decimal_text n"
proof -
  let ?s = "number_to_string n"
  obtain negative i f e where parts: "decimal_parts ?s = Some (negative, i, f, e)"
    and bounds: "- 1000000000000000000 \<le> e" "e \<le> 1000000000000000000"
      "int (length i + length f) \<le> 1000000000000000000"
    using assms by (auto simp: machine_number_def split: option.splits)
  obtain m where m: "(case split_exponent ?s of None \<Rightarrow> Some (?s, 0)
      | Some (m, x) \<Rightarrow> map_option (\<lambda>e. (m, e)) (parse_i64 x)) = Some (m, e)"
    and sign: "mantissa_sign m = (negative, snd (mantissa_sign m))"
    and point: "(case split_once ''.'' (snd (mantissa_sign m)) of None \<Rightarrow> (snd (mantissa_sign m), []) | Some p \<Rightarrow> p) = (i, f)"
    and digits: "all_digits i" "all_digits f"
    using parts by (auto simp: decimal_parts_def Let_def split: option.splits prod.splits if_splits)
  note sp = split_at_point [OF point digits]
  let ?e = "e - int (length f)" and ?d = "dropWhile (\<lambda>c. c = CHR ''0'') (i @ f)"
  have exp: "Option.bind (i64_try_from (length f)) (\<lambda>k. i64_checked (e - k)) = Some ?e"
  proof -
    have "i64_try_from (length f) = Some (int (length f))"
      using bounds by (simp add: i64_try_from_def i64_max_def)
    moreover have "i64_checked ?e = Some ?e"
      using bounds by (simp add: i64_checked_def i64_max_def i64_min_def)
    ultimately show ?thesis by (simp only: Option.bind.simps)
  qed
  have norm: "normalized_json_number n = (if ?d = [] then Some (False, ''0'', 0)
      else map_option (\<lambda>(ds, e). (negative, ds, e)) (drop_trailing_zeros (rev ?d) ?e))"
    unfolding normalized_json_number_def Let_def m option.case prod.case
    by (subst sign) (simp only: prod.case sp exp option.case)
  have "int (length (rev ?d)) \<le> int (length i + length f)"
    using length_dropWhile_le [of "\<lambda>c. c = CHR ''0''" "i @ f"] by simp
  then have "drop_trailing_zeros (rev ?d) ?e \<noteq> None"
    using bounds by (intro drop_trailing_zeros_total) (simp_all add: i64_max_def i64_min_def)
  with norm parts show ?thesis by (auto simp: decimal_text_def)
qed

text \<open>C16: two JSON numbers compare as equal exactly when their texts denote the same rational
  number, however they are written: 1.50, 15e-1 and 1500e-3 are one number, and zero has no
  sign.\<close>

theorem numbers_compare_by_value:
  assumes "machine_number a" "machine_number b"
  shows "json_values_equivalent (JNumber a) (JNumber b)
    \<longleftrightarrow> decimal_value (number_to_string a) = decimal_value (number_to_string b)"
proof -
  obtain x y where x: "normalized_json_number a = Some x" "decimal_text a"
    and y: "normalized_json_number b = Some y" "decimal_text b"
    using normalized_total [OF assms(1)] normalized_total [OF assms(2)] by blast
  from normalized_value [OF x(2,1)] normalized_value [OF y(2,1)] normal_value_inj [of x y] x(1) y(1)
  show ?thesis by auto
qed

lemma numbers_compare_by_value_witness:
  "json_values_equivalent (JNumber (Float ''1.50'')) (JNumber (Float ''15e-1''))
      = (decimal_value ''1.50'' = decimal_value ''15e-1'')
    \<and> json_values_equivalent (JNumber (Float ''1.50'')) (JNumber (Float ''15e-1''))"
proof -
  have m: "machine_number (Float ''1.50'')" "machine_number (Float ''15e-1'')" by code_simp+
  have "json_values_equivalent (JNumber (Float ''1.50'')) (JNumber (Float ''15e-1''))" by code_simp
  with numbers_compare_by_value [OF m] show ?thesis by simp
qed

section \<open>Values\<close>

text \<open>The reference: a value with every number replaced by its normal form.\<close>

datatype canonical_value =
    CNull
  | CBool bool
  | CNumber "(bool \<times> string \<times> int) option"
  | CString string
  | CArray "canonical_value list"
  | CObject "(string \<times> canonical_value) list"

fun canonical :: "json \<Rightarrow> canonical_value" where
  "canonical JNull = CNull"
| "canonical (JBool b) = CBool b"
| "canonical (JNumber n) = CNumber (normalized_json_number n)"
| "canonical (JString s) = CString s"
| "canonical (JArray xs) = CArray (map canonical xs)"
| "canonical (JObject kvs) = CObject (map (\<lambda>(k, v). (k, canonical v)) kvs)"

lemma canonical_atoms [simp]:
  "canonical v = CNull \<longleftrightarrow> v = JNull" "CNull = canonical v \<longleftrightarrow> v = JNull"
  "canonical v = CBool b \<longleftrightarrow> v = JBool b" "CBool b = canonical v \<longleftrightarrow> v = JBool b"
  "canonical v = CString s \<longleftrightarrow> v = JString s" "CString s = canonical v \<longleftrightarrow> v = JString s"
  by (cases v; auto)+

text \<open>The entries of a \<open>BTreeMap\<close> are in the order of their keys.\<close>

fun map_ordered :: "json \<Rightarrow> bool" where
  "map_ordered (JArray xs) = list_all map_ordered xs"
| "map_ordered (JObject kvs) = (sorted_wrt str_less (map fst kvs) \<and> list_all (\<lambda>(k, v). map_ordered v) kvs)"
| "map_ordered _ = True"

lemma sorted_keys_unique:
  "sorted_wrt str_less xs \<Longrightarrow> sorted_wrt str_less ys \<Longrightarrow> set xs = set ys \<Longrightarrow> xs = ys"
proof (induction xs arbitrary: ys)
  case (Cons x xs)
  then obtain y zs where ys: "ys = y # zs" by (cases ys) auto
  have "x = y"
    using Cons.prems ys str_less_asym by (metis list.set_intros(1) set_ConsD sorted_wrt.simps(2))
  moreover have "x \<notin> set xs" "y \<notin> set zs"
    using Cons.prems ys by (auto simp: str_less_irrefl)
  ultimately have "set xs = set zs" using Cons.prems(3) ys by auto
  with Cons ys \<open>x = y\<close> show ?case by simp
qed simp

lemma entries_equal:
  assumes "distinct (map fst as)" "map fst as = map fst bs"
  shows "list_all (\<lambda>(k, a). case map_of bs k of None \<Rightarrow> False | Some b \<Rightarrow> R a b) as
    \<longleftrightarrow> list_all2 (\<lambda>(_, a) (_, b). R a b) as bs"
proof -
  have key: "map_of bs (fst (as ! i)) = Some (snd (bs ! i))" if "i < length as" for i
    using assms that by (metis map_of_eq_Some_iff nth_map nth_mem prod.collapse length_map)
  have len: "length as = length bs" using assms(2) by (metis length_map)
  show ?thesis
    unfolding list_all_length list_all2_conv_all_nth len [symmetric]
    using key by (simp add: case_prod_beta)
qed

lemma object_equivalence:
  assumes "sorted_wrt str_less (map fst as)" "sorted_wrt str_less (map fst bs)"
    and R: "\<And>k a b. (k, a) \<in> set as \<Longrightarrow> (k, b) \<in> set bs \<Longrightarrow> R a b \<longleftrightarrow> f a = f b"
  shows "length as = length bs \<and> list_all (\<lambda>(k, a). case map_of bs k of None \<Rightarrow> False | Some b \<Rightarrow> R a b) as
    \<longleftrightarrow> map (\<lambda>(k, v). (k, f v)) as = map (\<lambda>(k, v). (k, f v)) bs"
proof -
  have d: "distinct (map fst as)" "distinct (map fst bs)" using assms sorted_keys_distinct by blast+
  have keys: "map fst as = map fst bs"
    if "length as = length bs" "list_all (\<lambda>(k, a). case map_of bs k of None \<Rightarrow> False | Some b \<Rightarrow> R a b) as"
  proof -
    have "set (map fst as) \<subseteq> set (map fst bs)"
      using that(2) by (force simp: list_all_iff split: option.splits dest: map_of_SomeD)
    moreover have "card (set (map fst as)) = card (set (map fst bs))"
      using d that(1) by (simp only: distinct_card length_map)
    ultimately have "set (map fst as) = set (map fst bs)"
      by (metis card_subset_eq finite_set)
    with sorted_keys_unique assms(1,2) show ?thesis by blast
  qed
  have same: "map fst as = map fst bs" if "map (\<lambda>(k, v). (k, f v)) as = map (\<lambda>(k, v). (k, f v)) bs"
  proof -
    have "map fst (map (\<lambda>(k, v). (k, f v)) cs) = map fst cs" for cs
      by (induction cs) auto
    then show ?thesis using that by metis
  qed
  have step: ?thesis if "map fst as = map fst bs"
  proof -
    have len: "length as = length bs" using that by (metis length_map)
    have at: "R (snd (as ! i)) (snd (bs ! i)) \<longleftrightarrow> f (snd (as ! i)) = f (snd (bs ! i))" "fst (as ! i) = fst (bs ! i)"
      if "i < length as" for i
    proof -
      show k: "fst (as ! i) = fst (bs ! i)"
        using \<open>map fst as = map fst bs\<close> that len by (metis nth_map)
      have "(fst (as ! i), snd (as ! i)) \<in> set as" "(fst (as ! i), snd (bs ! i)) \<in> set bs"
        using that len k by (metis nth_mem prod.collapse)+
      from R [OF this] show "R (snd (as ! i)) (snd (bs ! i)) \<longleftrightarrow> f (snd (as ! i)) = f (snd (bs ! i))" .
    qed
    have "list_all2 (\<lambda>(_, a) (_, b). R a b) as bs \<longleftrightarrow> map (\<lambda>(k, v). (k, f v)) as = map (\<lambda>(k, v). (k, f v)) bs"
      unfolding list_eq_iff_nth_eq list_all2_conv_all_nth using len at
      by (simp add: case_prod_beta)
    with entries_equal [OF d(1) that] len show ?thesis by simp
  qed
  show ?thesis using keys same step by blast
qed

text \<open>C17: two JSON values compare as equal exactly when they are the same value up to the
  notation of their numbers - so the comparison of a tool's output with the expected one is
  an equivalence, blind to nothing but number notation.\<close>

theorem comparison_is_canonical_equality:
  assumes "map_ordered a" "map_ordered b"
  shows "json_values_equivalent a b \<longleftrightarrow> canonical a = canonical b"
  using assms
proof (induction a b rule: json_values_equivalent.induct)
  case (2 as bs)
  show ?case
  proof (cases "length as = length bs")
    case True
    have "json_values_equivalent (as ! i) (bs ! i) \<longleftrightarrow> canonical (as ! i) = canonical (bs ! i)"
      if i: "i < length as" for i
    proof -
      have "(as ! i, bs ! i) \<in> set (zip as bs)" using True i by (auto simp: set_zip)
      moreover have "map_ordered (as ! i)" "map_ordered (bs ! i)"
        using 2(2,3) True i by (auto simp: list_all_length)
      ultimately show ?thesis using 2(1) by blast
    qed
    then have "list_all (\<lambda>(a, b). json_values_equivalent a b) (zip as bs) \<longleftrightarrow> map canonical as = map canonical bs"
      using True by (simp add: list_all_length list_eq_iff_nth_eq)
    with True show ?thesis by simp
  next
    case False
    then show ?thesis by (auto dest: map_eq_imp_length_eq)
  qed
next
  case (3 as bs)
  have same: "json_values_equivalent a b \<longleftrightarrow> canonical a = canonical b" if ab: "(k, a) \<in> set as" "(k, b) \<in> set bs" for k a b
  proof -
    have "distinct (map fst bs)" using 3(3) by (simp add: sorted_keys_distinct)
    then have "map_of bs k = Some b" using ab(2) by simp
    moreover have "map_ordered a" "map_ordered b" using 3(2,3) ab by (auto simp: list_all_iff)
    ultimately show ?thesis using 3(1) [OF ab(1) refl] by blast
  qed
  have "sorted_wrt str_less (map fst as)" "sorted_wrt str_less (map fst bs)" using 3(2,3) by simp_all
  from object_equivalence [of as bs json_values_equivalent canonical, OF this same] show ?case by simp
qed auto

lemma comparison_is_canonical_equality_witness:
  "json_values_equivalent (JObject [(''a'', JNumber (PosInt 10)), (''b'', JArray [JNull])])
      (JObject [(''a'', JNumber (Float ''1e1'')), (''b'', JArray [JNull])])"
proof -
  have "map_ordered (JObject [(''a'', JNumber (PosInt 10)), (''b'', JArray [JNull])])"
    "map_ordered (JObject [(''a'', JNumber (Float ''1e1'')), (''b'', JArray [JNull])])" by code_simp+
  from comparison_is_canonical_equality [OF this] show ?thesis
    by (rule iffD2) code_simp
qed

end
