(* ===== verification/Artifact.thy ===== *)
theory Artifact
  imports Protocol
begin

text \<open>
  src/crates/jit-artifact/src/lib.rs: the content-addressed store of synthesized tools.  The
  file system below \<open>sha256/\<close> of the store's root is a table of directories, each with its
  prefix, its name and its files; serialization and SHA-256 are the parameters of the record
  \<open>artifact_ext\<close>.  The operations that write take the position at which the file system
  fails, so that every error path of the code is a branch of the model.
\<close>

section \<open>Artifacts\<close>

record tool_contract =
  tc_summary :: string
  tc_assumptions :: "string list"
  tc_invariants :: "string list"

record test_case =
  tt_name :: string
  tt_args :: "string list"
  tt_stdin :: string
  tt_expected_stdout :: string
  tt_expected_exit_code :: int
  tt_http_fixtures :: "http_fixture list"

record validation_summary =
  vs_tests_total :: nat
  vs_tests_passed :: nat
  vs_input_samples_total :: nat
  vs_input_samples_passed :: nat
  vs_repair_rounds :: nat
  vs_agent_turns :: nat
  vs_generated_test_corrections :: nat
  vs_probes_run :: nat
  vs_validated_at :: string

record artifact_manifest =
  mf_format_version :: nat
  mf_runtime :: string
  mf_input_format :: io_format
  mf_output_format :: io_format
  mf_source_sha256 :: string
  mf_http_capabilities :: "http_capability_grant list"

record artifact_bundle =
  ab_manifest :: artifact_manifest
  ab_contract :: tool_contract
  ab_source :: string
  ab_tests :: "test_case list"
  ab_validation :: validation_summary

record new_artifact =
  na_input_format :: io_format
  na_output_format :: io_format
  na_contract :: tool_contract
  na_source :: string
  na_tests :: "test_case list"
  na_validation :: validation_summary
  na_http_capabilities :: "http_capability_grant list"

text \<open>What the digest of a bundle covers: not the number of input samples and not the time.\<close>

record validation_digest_payload =
  vd_tests_total :: nat
  vd_tests_passed :: nat
  vd_repair_rounds :: nat
  vd_agent_turns :: nat
  vd_generated_test_corrections :: nat
  vd_probes_run :: nat

record artifact_digest_payload =
  dp_manifest :: artifact_manifest
  dp_contract :: tool_contract
  dp_source :: string
  dp_tests :: "test_case list"
  dp_validation :: validation_digest_payload

record stored_artifact =
  sa_digest :: string
  sa_relative_path :: string
  sa_directory :: string
  sa_size_bytes :: nat
  sa_bundle :: artifact_bundle

datatype artifact_error =
    InvalidDigest string
  | InvalidSourceDigest string
  | UnsupportedFormat nat
  | InvalidSource string
  | DigestMismatch string string
  | ArtifactIo
  | ArtifactJson

record artifact_ext =
  ax_sha256 :: "string \<Rightarrow> string"
  ax_bundle_json :: "artifact_bundle \<Rightarrow> string"
  ax_bundle_of_json :: "string \<Rightarrow> artifact_bundle option"
  ax_payload_json :: "artifact_digest_payload \<Rightarrow> string"
  ax_manifest_json :: "artifact_manifest \<Rightarrow> string"
  ax_contract_json :: "tool_contract \<Rightarrow> string"
  ax_tests_json :: "test_case list \<Rightarrow> string"
  ax_validation_json :: "validation_summary \<Rightarrow> string"

section \<open>The file system\<close>

record store_dir =
  sd_prefix :: string
  sd_name :: string
  sd_files :: "(string \<times> string) list"

record artifact_store =
  as_root :: string
  as_dirs :: "store_dir list"

definition sd_key :: "store_dir \<Rightarrow> string \<times> string" where
  "sd_key d = (sd_prefix d, sd_name d)"

definition dir_at :: "artifact_store \<Rightarrow> string \<times> string \<Rightarrow> store_dir option" where
  "dir_at st k = lookup sd_key k (as_dirs st)"

definition remove_dir :: "string \<times> string \<Rightarrow> artifact_store \<Rightarrow> artifact_store" where
  "remove_dir k st = st\<lparr>as_dirs := filter (\<lambda>d. sd_key d \<noteq> k) (as_dirs st)\<rparr>"

definition hex64 :: "string \<Rightarrow> bool" where
  "hex64 s = (length s = 64 \<and> list_all is_ascii_hexdigit s)"

definition relative_path :: "string \<Rightarrow> string" where
  "relative_path hex = ''sha256/'' @ take 2 hex @ ''/'' @ hex"

definition hex_key :: "string \<Rightarrow> string \<times> string" where
  "hex_key hex = (take 2 hex, hex)"

section \<open>Operations\<close>

definition validate_hex_digest :: "string \<Rightarrow> artifact_error + string" where
  "validate_hex_digest digest =
     (case strip_prefix ''sha256:'' digest of
        None \<Rightarrow> Inl (InvalidDigest digest)
      | Some hex \<Rightarrow> if hex64 hex then Inr hex else Inl (InvalidDigest digest))"

definition validate_artifact_source :: "string \<Rightarrow> artifact_error + unit" where
  "validate_artifact_source source =
     (if source = [] \<or> length source > 64 * 1024
      then Inl (InvalidSource ''source must contain 1-65536 UTF-8 bytes'')
      else if CHR 0x00 \<in> set source
      then Inl (InvalidSource ''source must not contain NUL bytes'')
      else Inr ())"

definition digest_payload :: "artifact_bundle \<Rightarrow> artifact_digest_payload" where
  "digest_payload b =
     \<lparr>dp_manifest = ab_manifest b, dp_contract = ab_contract b, dp_source = ab_source b, dp_tests = ab_tests b,
      dp_validation =
        \<lparr>vd_tests_total = vs_tests_total (ab_validation b), vd_tests_passed = vs_tests_passed (ab_validation b),
         vd_repair_rounds = vs_repair_rounds (ab_validation b), vd_agent_turns = vs_agent_turns (ab_validation b),
         vd_generated_test_corrections = vs_generated_test_corrections (ab_validation b),
         vd_probes_run = vs_probes_run (ab_validation b)\<rparr>\<rparr>"

definition semantic_digest :: "artifact_ext \<Rightarrow> artifact_bundle \<Rightarrow> string" where
  "semantic_digest ax b = ax_sha256 ax (ax_payload_json ax (digest_payload b))"

definition load :: "artifact_ext \<Rightarrow> artifact_store \<Rightarrow> string \<Rightarrow> artifact_error + stored_artifact" where
  "load ax st digest =
     rbind (validate_hex_digest digest) (\<lambda>hex.
     rbind (ok_or ArtifactIo (Option.bind (dir_at st (hex_key hex))
              (\<lambda>d. map_of (sd_files d) ''bundle.json''))) (\<lambda>encoded.
     rbind (ok_or ArtifactJson (ax_bundle_of_json ax encoded)) (\<lambda>bundle.
     rbind (let version = mf_format_version (ab_manifest bundle) in
            if version = 1 then Inr (ax_sha256 ax encoded)
            else if version = 2 \<or> version = 3 then Inr (semantic_digest ax bundle)
            else Inl (UnsupportedFormat version)) (\<lambda>actual.
     if actual \<noteq> hex then Inl (DigestMismatch hex actual)
     else Inr \<lparr>sa_digest = digest, sa_relative_path = relative_path hex,
               sa_directory = as_root st @ ''/'' @ relative_path hex,
               sa_size_bytes = length encoded, sa_bundle = bundle\<rparr>))))"

definition artifact_dockerfile :: string where
  "artifact_dockerfile = concat
    [''FROM jitforge/python-stdlib-v2:0.1.0'', [CHR 0x0A],
     ''COPY --chown=65532:65532 tool.py /opt/jitforge/tool.py'', [CHR 0x0A],
     ''COPY --chown=65532:65532 manifest.json /opt/jitforge/manifest.json'', [CHR 0x0A],
     ''USER 65532:65532'', [CHR 0x0A]]"

definition bundle_of :: "artifact_ext \<Rightarrow> new_artifact \<Rightarrow> artifact_bundle" where
  "bundle_of ax a =
     \<lparr>ab_manifest = \<lparr>mf_format_version = 3, mf_runtime = ''python-stdlib-v2'',
        mf_input_format = na_input_format a, mf_output_format = na_output_format a,
        mf_source_sha256 = ax_sha256 ax (na_source a), mf_http_capabilities = na_http_capabilities a\<rparr>,
      ab_contract = na_contract a, ab_source = na_source a, ab_tests = na_tests a,
      ab_validation = na_validation a\<rparr>"

definition bundle_files :: "artifact_ext \<Rightarrow> artifact_bundle \<Rightarrow> (string \<times> string) list" where
  "bundle_files ax b =
     [(''bundle.json'', ax_bundle_json ax b),
      (''manifest.json'', ax_manifest_json ax (ab_manifest b)),
      (''contract.json'', ax_contract_json ax (ab_contract b)),
      (''tests.json'', ax_tests_json ax (ab_tests b)),
      (''validation.json'', ax_validation_json ax (ab_validation b)),
      (''tool.py'', ab_source b),
      (''Dockerfile'', artifact_dockerfile)]"

text \<open>How the file system behaves during one \<open>put\<close>: whether the temporary directory can be
  created, which of the seven writes or the final rename fails, and whether the clean-up after
  such a failure works.\<close>

record put_io =
  pi_created :: bool
  pi_fails_at :: "nat option"
  pi_cleaned :: bool

text \<open>\<open>temp\<close> is the text of the fresh UUID of the temporary directory.\<close>

definition put_artifact :: "artifact_ext \<Rightarrow> put_io \<Rightarrow> string \<Rightarrow> new_artifact \<Rightarrow> artifact_store
    \<Rightarrow> (artifact_error + stored_artifact) \<times> artifact_store" where
  "put_artifact ax io temp a st =
     (case validate_artifact_source (na_source a) of
        Inl e \<Rightarrow> (Inl e, st)
      | Inr _ \<Rightarrow>
        let bundle = bundle_of ax a;
            encoded = ax_bundle_json ax bundle;
            hex = semantic_digest ax bundle;
            digest = ''sha256:'' @ hex
        in if dir_at st (hex_key hex) \<noteq> None then (load ax st digest, st)
           else if \<not> pi_created io then (Inl ArtifactIo, st)
           else
             let files = bundle_files ax bundle;
                 temporary = \<lparr>sd_prefix = take 2 hex, sd_name = ''.tmp-'' @ temp, sd_files = files\<rparr>
             in case pi_fails_at io of
                  Some n \<Rightarrow>
                    (Inl ArtifactIo,
                     if pi_cleaned io then st
                     else st\<lparr>as_dirs := as_dirs st @ [temporary\<lparr>sd_files := take n files\<rparr>]\<rparr>)
                | None \<Rightarrow>
                    (Inr \<lparr>sa_digest = digest, sa_relative_path = relative_path hex,
                          sa_directory = as_root st @ ''/'' @ relative_path hex,
                          sa_size_bytes = length encoded, sa_bundle = bundle\<rparr>,
                     st\<lparr>as_dirs := as_dirs st @ [temporary\<lparr>sd_name := hex\<rparr>]\<rparr>))"

text \<open>Removing a directory succeeds (\<open>None\<close>) or stops half-way, with the files whose names satisfy
  the predicate still there.\<close>

definition remove_artifact :: "(string \<Rightarrow> bool) option \<Rightarrow> string \<Rightarrow> artifact_store
    \<Rightarrow> (artifact_error + bool) \<times> artifact_store" where
  "remove_artifact io digest st =
     (case validate_hex_digest digest of
        Inl e \<Rightarrow> (Inl e, st)
      | Inr hex \<Rightarrow>
        if dir_at st (hex_key hex) = None then (Inr False, st)
        else case io of
          Some left \<Rightarrow> (Inl ArtifactIo, st\<lparr>as_dirs := upd sd_key (hex_key hex)
            (\<lambda>d. d\<lparr>sd_files := filter (\<lambda>f. left (fst f)) (sd_files d)\<rparr>) (as_dirs st)\<rparr>)
        | None \<Rightarrow> (Inr True, remove_dir (hex_key hex) st))"

definition list_digests :: "artifact_store \<Rightarrow> string list" where
  "list_digests st = map (\<lambda>d. ''sha256:'' @ sd_name d) (filter (\<lambda>d. hex64 (sd_name d)) (as_dirs st))"

definition is_temporary :: "store_dir \<Rightarrow> bool" where
  "is_temporary d = starts_with (sd_name d) ''.tmp-''"

definition cleanup_temporary :: "artifact_store \<Rightarrow> nat \<times> artifact_store" where
  "cleanup_temporary st =
     (length (filter is_temporary (as_dirs st)),
      st\<lparr>as_dirs := filter (\<lambda>d. \<not> is_temporary d) (as_dirs st)\<rparr>)"

definition source_image_tag :: "artifact_ext \<Rightarrow> string \<Rightarrow> string \<Rightarrow> artifact_error + string" where
  "source_image_tag ax runtime source_sha256 =
     (if \<not> hex64 source_sha256 then Inl (InvalidSourceDigest source_sha256)
      else let source = to_ascii_lowercase source_sha256 in
        if runtime = ''python-stdlib-v1'' then Inr (''jitforge-source:'' @ source)
        else Inr (''jitforge-source:'' @ ax_sha256 ax (runtime @ [CHR 0x00] @ source)))"

section \<open>Cleaning up at start\<close>

text \<open>The part of \<open>cleanup_stale_state\<close> of src/apps/jit-worker/src/main.rs that acts on the store:
  interrupted writes go, then every listed artifact that is not referenced; an error is
  logged and the loop goes on.\<close>

fun remove_stale :: "(string \<Rightarrow> (string \<Rightarrow> bool) option) \<Rightarrow> string set \<Rightarrow> string list \<Rightarrow> artifact_store
    \<Rightarrow> nat \<times> artifact_store" where
  "remove_stale io referenced [] st = (0, st)"
| "remove_stale io referenced (digest # digests) st =
     (if digest \<in> referenced then remove_stale io referenced digests st
      else let (result, st') = remove_artifact (io digest) digest st;
               (removed, st'') = remove_stale io referenced digests st'
           in ((case result of Inr True \<Rightarrow> Suc removed | _ \<Rightarrow> removed), st''))"

definition cleanup_stale_artifacts :: "(string \<Rightarrow> (string \<Rightarrow> bool) option) \<Rightarrow> string set option
    \<Rightarrow> artifact_store \<Rightarrow> artifact_store" where
  "cleanup_stale_artifacts io referenced st =
     (let st = snd (cleanup_temporary st) in
      case referenced of
        None \<Rightarrow> st
      | Some digests \<Rightarrow> snd (remove_stale io digests (list_digests st) st))"

end
