(* ===== verification/Synthesis.thy ===== *)
theory Synthesis
  imports Artifact
begin

text \<open>
  src/apps/jit-worker/src/synthesizer.rs: the data a synthesis job exchanges with its models,
  the checks on what a model submits, and the loop that calls a model.  A provider is a
  function from the number of requests sent so far to its reply; the size of an encoded
  request and the text of an encoded review request are parameters.  The prompts are
  prose for the model and are left out; \<open>Agent_Schemas\<close> has the schemas of the tools.
\<close>

section \<open>Data\<close>

record synthesis_draft =
  dr_contract :: tool_contract
  dr_tests :: "test_case list"
  dr_user_test_count :: nat

datatype test_origin = UserTest | GeneratedTest | InputSample

record validation_failure =
  vf_test_name :: string
  vf_test_origin :: test_origin
  vf_diagnostic :: string
  vf_actual_stdout :: string
  vf_actual_stderr :: string
  vf_actual_exit_code :: "int option"

record resolved_decision =
  rd_key :: string
  rd_question :: string
  rd_answer :: string

record example_correction =
  ec_example_index :: nat
  ec_original :: tool_example
  ec_corrected :: tool_example
  ec_reason :: string

datatype review_decision = AcceptContract | ReviseContract | RejectContract

record contract_review =
  cr_decision :: review_decision
  cr_reason :: string
  cr_issues :: "string list"

datatype verdict_kind = ImplementationWrong | OracleWrong | Ambiguous

record test_verdict =
  tv_classification :: verdict_kind
  tv_reason :: string
  tv_expected_stdout :: "string option"
  tv_expected_exit_code :: "int option"

record verification_request =
  vq_intent :: string
  vq_input_format :: io_format
  vq_output_format :: io_format
  vq_contract :: tool_contract
  vq_immutable_user_tests :: "test_case list"
  vq_generated_test :: test_case
  vq_current_source :: string
  vq_failure :: validation_failure
  vq_review_reason :: string

record review_request =
  cq_name :: string
  cq_intent :: string
  cq_input_format :: io_format
  cq_output_format :: io_format
  cq_input_samples :: "string list"
  cq_immutable_user_examples :: "tool_example list"
  cq_resolved_decisions :: "resolved_decision list"
  cq_example_corrections :: "example_correction list"
  cq_prior_reviews :: "contract_review list"
  cq_proposed_contract :: tool_contract
  cq_proposed_generated_tests :: "test_case list"
  cq_http_capabilities :: "http_capability list"

record fixture_context =
  fc_intent :: string
  fc_examples :: "tool_example list"
  fc_has_contract :: bool
  fc_current_source :: "string option"
  fc_latest_failure :: "validation_failure option"
  fc_probes_run :: nat

datatype synthesis_error =
    MissingConfig string
  | InvalidSynthesizerConfig string
  | ModelFailed string
  | ModelTimeout
  | ContextLimit nat
  | InvalidGeneratedSource
  | InvalidAction string
  | SynthesisJson

record tool_call =
  cl_id :: string
  cl_call_id :: "string option"
  cl_name :: string
  cl_arguments :: json

datatype assistant_content = ToolCallContent tool_call | TextContent string

datatype message =
    UserMessage string
  | AssistantMessage "string option" "assistant_content list"
  | ToolResultMessage string string

record model_turn =
  mt_message_id :: "string option"
  mt_choice :: "assistant_content list"
  mt_usage :: nat
  mt_tools :: "string list"

text \<open>A request to the coder, with the names of the tools it advertises.\<close>

record model_request =
  mq_prompt :: message
  mq_history :: "message list"
  mq_tools :: "string list"
  mq_turn :: nat
  mq_fixture :: fixture_context

section \<open>Checks\<close>

definition validate_reason :: "string \<Rightarrow> synthesis_error + unit" where
  "validate_reason reason =
     (if trim reason = [] \<or> length reason > 2048 then Inl (InvalidAction ''reason must contain 1-2048 bytes'')
      else Inr ())"

definition validate_source :: "string \<Rightarrow> synthesis_error + unit" where
  "validate_source source =
     (if source = [] \<or> length source > 64 * 1024 \<or> CHR 0x00 \<in> set source then Inl InvalidGeneratedSource
      else Inr ())"

definition tool_calls :: "model_turn \<Rightarrow> tool_call list" where
  "tool_calls turn = List.map_filter (\<lambda>c. case c of ToolCallContent call \<Rightarrow> Some call | _ \<Rightarrow> None) (mt_choice turn)"

definition decision_from_value :: "json \<Rightarrow> review_decision option" where
  "decision_from_value v =
     (case as_str v of None \<Rightarrow> None | Some s \<Rightarrow>
        if s = ''accept'' then Some AcceptContract else if s = ''revise'' then Some ReviseContract
        else if s = ''reject'' then Some RejectContract else None)"

definition get_default :: "string \<Rightarrow> 'a \<Rightarrow> (json \<Rightarrow> 'a option) \<Rightarrow> json \<Rightarrow> 'a option" where
  "get_default k d f v = (case json_get k v of None \<Rightarrow> Some d | Some w \<Rightarrow> f w)"

definition as_i32 :: "json \<Rightarrow> int option" where
  "as_i32 v = (case v of
       JNumber (PosInt n) \<Rightarrow> if int n \<le> i32_max then Some (int n) else None
     | JNumber (NegInt i) \<Rightarrow> if - i32_max - 1 \<le> i then Some i else None
     | _ \<Rightarrow> None)"

definition as_opt :: "(json \<Rightarrow> 'a option) \<Rightarrow> json \<Rightarrow> 'a option option" where
  "as_opt f v = (case v of JNull \<Rightarrow> Some None | _ \<Rightarrow> map_option Some (f v))"

definition review_from_value :: "json \<Rightarrow> contract_review option" where
  "review_from_value v =
     (case (Option.bind (json_get ''decision'' v) decision_from_value, Option.bind (json_get ''reason'' v) as_str,
            get_default ''issues'' [] strings_from_value v) of
        (Some d, Some r, Some is) \<Rightarrow> Some \<lparr>cr_decision = d, cr_reason = r, cr_issues = is\<rparr>
      | _ \<Rightarrow> None)"

definition parse_contract_review_turn :: "model_turn \<Rightarrow> synthesis_error + contract_review" where
  "parse_contract_review_turn turn =
     (case tool_calls turn of
        [call] \<Rightarrow>
          if cl_name call \<noteq> ''submit_contract_review''
          then Inl (InvalidAction ''contract reviewer must call submit_contract_review exactly once'')
          else rbind (ok_or SynthesisJson (review_from_value (cl_arguments call))) (\<lambda>review.
          rbind (validate_reason (cr_reason review)) (\<lambda>_.
          if length (cr_issues review) > 3 \<or> list_ex (\<lambda>i. trim i = [] \<or> length i > 2048) (cr_issues review)
          then Inl (InvalidAction ''contract review issues exceed limits or contain an empty issue'')
          else case cr_decision review of
            AcceptContract \<Rightarrow> if cr_issues review \<noteq> []
              then Inl (InvalidAction ''accepted contract review must not contain issues'') else Inr review
          | _ \<Rightarrow> if cr_issues review = []
              then Inl (InvalidAction ''revise or reject contract review must contain a concrete issue'') else Inr review))
      | _ \<Rightarrow> Inl (InvalidAction ''contract reviewer must call submit_contract_review exactly once''))"

definition verdict_kind_from_value :: "json \<Rightarrow> verdict_kind option" where
  "verdict_kind_from_value v =
     (case as_str v of None \<Rightarrow> None | Some s \<Rightarrow>
        if s = ''implementation_wrong'' then Some ImplementationWrong
        else if s = ''oracle_wrong'' then Some OracleWrong
        else if s = ''ambiguous'' then Some Ambiguous else None)"

definition verdict_from_value :: "json \<Rightarrow> test_verdict option" where
  "verdict_from_value v =
     (case (Option.bind (json_get ''classification'' v) verdict_kind_from_value, Option.bind (json_get ''reason'' v) as_str,
            get_default ''expected_stdout'' None (as_opt as_str) v,
            get_default ''expected_exit_code'' None (as_opt as_i32) v) of
        (Some k, Some r, Some out, Some code) \<Rightarrow>
          Some \<lparr>tv_classification = k, tv_reason = r, tv_expected_stdout = out, tv_expected_exit_code = code\<rparr>
      | _ \<Rightarrow> None)"

definition parse_verifier_turn :: "model_turn \<Rightarrow> synthesis_error + test_verdict" where
  "parse_verifier_turn turn =
     (case tool_calls turn of
        [call] \<Rightarrow>
          if cl_name call \<noteq> ''submit_test_verdict''
          then Inl (InvalidAction ''verifier must call submit_test_verdict exactly once'')
          else rbind (ok_or SynthesisJson (verdict_from_value (cl_arguments call))) (\<lambda>verdict.
          rbind (validate_reason (tv_reason verdict)) (\<lambda>_.
          case tv_classification verdict of
            OracleWrong \<Rightarrow>
              rbind (ok_or (InvalidAction ''oracle_wrong verdict requires expected_stdout'') (tv_expected_stdout verdict)) (\<lambda>stdout.
              if length stdout > 1024 * 1024 \<or> tv_expected_exit_code verdict = None
              then Inl (InvalidAction ''oracle replacement exceeds limits or lacks an exit code'')
              else Inr verdict)
          | _ \<Rightarrow> if tv_expected_stdout verdict \<noteq> None \<or> tv_expected_exit_code verdict \<noteq> None
              then Inl (InvalidAction ''non-oracle verdict must not replace the test'') else Inr verdict))
      | _ \<Rightarrow> Inl (InvalidAction ''verifier must call submit_test_verdict exactly once''))"

section \<open>Calling a model\<close>

definition model_context_limit :: nat where "model_context_limit = 1024 * 1024"
definition model_protocol_retries :: nat where "model_protocol_retries = 1"
definition provider_retry_delays :: "nat list" where "provider_retry_delays = [5, 15, 30]"

definition retryable_status :: "nat option \<Rightarrow> bool" where
  "retryable_status status =
     (case status of None \<Rightarrow> True | Some s \<Rightarrow> (200 \<le> s \<and> s < 300) \<or> s = 429 \<or> s \<ge> 500)"

text \<open>A reply within the time limit, an error with the HTTP status of the provider when it has one,
  or no reply in time.\<close>

datatype model_reply =
    ModelResponse "string option" "assistant_content list" nat
  | ModelError "nat option" string
  | ModelTimedOut

record model_env =
  me_reply :: "nat \<Rightarrow> message \<Rightarrow> message list \<Rightarrow> model_reply"
  me_context_size :: "message \<Rightarrow> message list \<Rightarrow> nat"

definition corrective_prompt :: message where
  "corrective_prompt = UserMessage ''Your previous response did not call a tool. Call exactly one of the advertised tools now; do not answer with plain text.''"

definition has_tool_call :: "assistant_content list \<Rightarrow> bool" where
  "has_tool_call choice = list_ex (\<lambda>c. case c of ToolCallContent _ \<Rightarrow> True | _ \<Rightarrow> False) choice"

text \<open>The loop; \<open>sent\<close> counts the requests, and the result comes with their number at the end and
  with the seconds slept between them.\<close>

function call_model_from :: "model_env \<Rightarrow> bool \<Rightarrow> string list \<Rightarrow> nat \<Rightarrow> nat \<Rightarrow> nat \<Rightarrow> message \<Rightarrow> message list \<Rightarrow> nat
    \<Rightarrow> (synthesis_error + model_turn) \<times> nat \<times> nat" where
  "call_model_from env retry_provider names sent provider_attempt protocol_attempt prompt history usage =
     (if me_context_size env prompt history > model_context_limit
      then (Inl (ContextLimit (me_context_size env prompt history)), sent, 0)
      else case me_reply env sent prompt history of
        ModelResponse mid choice used \<Rightarrow>
          if \<not> has_tool_call choice \<and> protocol_attempt < model_protocol_retries
          then call_model_from env retry_provider names (Suc sent) 0 (Suc protocol_attempt) corrective_prompt
                 (history @ [prompt, AssistantMessage mid choice]) (usage + used)
          else (Inr \<lparr>mt_message_id = mid, mt_choice = choice, mt_usage = usage + used, mt_tools = names\<rparr>, Suc sent, 0)
      | ModelError status text \<Rightarrow>
          if retry_provider \<and> provider_attempt < length provider_retry_delays \<and> retryable_status status
          then let (r, n, slept) = call_model_from env retry_provider names (Suc sent) (Suc provider_attempt)
                     protocol_attempt prompt history usage
               in (r, n, provider_retry_delays ! provider_attempt + slept)
          else (Inl (ModelFailed text), Suc sent, 0)
      | ModelTimedOut \<Rightarrow>
          if retry_provider \<and> provider_attempt < length provider_retry_delays
          then let (r, n, slept) = call_model_from env retry_provider names (Suc sent) (Suc provider_attempt)
                     protocol_attempt prompt history usage
               in (r, n, provider_retry_delays ! provider_attempt + slept)
          else (Inl ModelTimeout, Suc sent, 0))"
  by pat_completeness auto

termination
  by (relation "measures [\<lambda>(_, _, _, _, _, protocol, _). model_protocol_retries - protocol,
      \<lambda>(_, _, _, _, provider, _). length provider_retry_delays - provider]") auto

declare call_model_from.simps [simp del]

definition call_model :: "model_env \<Rightarrow> bool \<Rightarrow> string list \<Rightarrow> nat \<Rightarrow> message \<Rightarrow> message list
    \<Rightarrow> (synthesis_error + model_turn) \<times> nat \<times> nat" where
  "call_model env retry_provider names sent prompt history =
     call_model_from env retry_provider names sent 0 0 prompt history 0"

text \<open>\<open>complete\<close>: the coder model, and the verifier model when the coder cannot be reached.\<close>

definition complete :: "model_env \<Rightarrow> model_env \<Rightarrow> string list \<Rightarrow> message \<Rightarrow> message list
    \<Rightarrow> (synthesis_error + model_turn) \<times> nat" where
  "complete coder verifier names prompt history =
     (let (primary, n, _) = call_model coder False names 0 prompt history in
      case primary of
        Inl (ModelFailed _) \<Rightarrow> (let (r, m, _) = call_model verifier True names 0 prompt history in (r, n + m))
      | Inl ModelTimeout \<Rightarrow> (let (r, m, _) = call_model verifier True names 0 prompt history in (r, n + m))
      | _ \<Rightarrow> (primary, n))"

text \<open>The two review requests: at most two conversations, each with a fresh prompt; an answer that
  does not parse is asked for again, an error of the call is returned.\<close>

fun submit_loop :: "model_env \<Rightarrow> string list \<Rightarrow> (model_turn \<Rightarrow> synthesis_error + 'a) \<Rightarrow> synthesis_error
    \<Rightarrow> nat \<Rightarrow> message list \<Rightarrow> (synthesis_error + 'a) \<times> nat" where
  "submit_loop env names parse failure sent [] = (Inl failure, sent)"
| "submit_loop env names parse failure sent (prompt # prompts) =
     (let (turn, sent', _) = call_model env True names sent prompt [] in
      case turn of
        Inl e \<Rightarrow> (Inl e, sent')
      | Inr t \<Rightarrow> (case parse t of
            Inr x \<Rightarrow> (Inr x, sent')
          | Inl _ \<Rightarrow> submit_loop env names parse failure sent' prompts))"

definition review_contract :: "model_env \<Rightarrow> (review_request \<Rightarrow> string) \<Rightarrow> review_request
    \<Rightarrow> (synthesis_error + contract_review) \<times> nat" where
  "review_contract env encode request =
     (let initial = encode request in
      submit_loop env [''submit_contract_review''] parse_contract_review_turn
        (InvalidAction ''contract reviewer did not submit a valid review'') 0
        [UserMessage initial, UserMessage (''Your previous response did not contain exactly one valid submit_contract_review call. Review this contract and call the tool now.'' @ [CHR 0x0A] @ initial)])"

definition verify_generated_test :: "model_env \<Rightarrow> (verification_request \<Rightarrow> string) \<Rightarrow> verification_request
    \<Rightarrow> (synthesis_error + test_verdict) \<times> nat" where
  "verify_generated_test env encode request =
     (let initial = encode request in
      submit_loop env [''submit_test_verdict''] parse_verifier_turn
        (InvalidAction ''verifier did not submit a valid verdict'') 0
        [UserMessage initial, UserMessage (''Your previous response did not contain exactly one valid submit_test_verdict call. Review this case and call the tool now.'' @ [CHR 0x0A] @ initial)])"

section \<open>Settings\<close>

definition required_setting :: "string \<Rightarrow> string option \<Rightarrow> synthesis_error + string" where
  "required_setting name value =
     (case map_option trim value of
        None \<Rightarrow> Inl (MissingConfig name)
      | Some v \<Rightarrow> if v = [] then Inl (MissingConfig name) else Inr v)"

definition thinking_value :: "string \<Rightarrow> json" where
  "thinking_value kind = json_object [(''thinking'', json_object [(''type'', JString kind)])]"

definition parse_thinking :: "(string \<Rightarrow> string) \<Rightarrow> string \<Rightarrow> synthesis_error + json option" where
  "parse_thinking debug value =
     (let v = trim value in
      if v = [] \<or> v = ''auto'' then Inr None
      else if v = ''disabled'' then Inr (Some (thinking_value ''disabled''))
      else if v = ''enabled'' then Inr (Some (thinking_value ''enabled''))
      else Inl (InvalidSynthesizerConfig (''LLM thinking must be auto, enabled, or disabled; got '' @ debug v)))"

text \<open>\<open>build_rig_synthesizer\<close>: the settings of the client, when they are complete.\<close>

record rig_settings =
  rs_protocol :: string
  rs_base_url :: string
  rs_api_key :: string
  rs_coder_model :: string
  rs_verifier_model :: string
  rs_thinking :: "json option"

definition build_rig_synthesizer :: "(string \<Rightarrow> string) \<Rightarrow> bool \<Rightarrow> string \<Rightarrow> string option \<Rightarrow> string option
    \<Rightarrow> string option \<Rightarrow> string option \<Rightarrow> string \<Rightarrow> synthesis_error + rig_settings" where
  "build_rig_synthesizer debug client_builds protocol base_url api_key coder verifier thinking =
     rbind (required_setting ''JITFORGE_LLM_BASE_URL or llm.base_url'' base_url) (\<lambda>base_url.
     rbind (required_setting ''JITFORGE_LLM_API_KEY or llm.api_key'' api_key) (\<lambda>api_key.
     rbind (required_setting ''JITFORGE_LLM_MODEL or llm.model'' coder) (\<lambda>coder.
     rbind (required_setting ''JITFORGE_LLM_VERIFIER_MODEL or llm.verifier_model'' verifier) (\<lambda>verifier.
     rbind (parse_thinking debug thinking) (\<lambda>thinking.
     let kind = trim protocol in
     if kind = ''chat_completions'' \<or> kind = ''responses'' \<or> kind = ''anthropic_messages''
     then (if client_builds
           then Inr \<lparr>rs_protocol = kind, rs_base_url = trim_end_matches CHR ''/'' base_url, rs_api_key = api_key,
                     rs_coder_model = coder, rs_verifier_model = verifier, rs_thinking = thinking\<rparr>
           else Inl (InvalidSynthesizerConfig ''client''))
     else Inl (InvalidSynthesizerConfig (''unsupported LLM protocol '' @ debug kind
            @ ''; expected chat_completions, responses, or anthropic_messages'')))))))"

section \<open>The fixture synthesizer\<close>

text \<open>The scripted synthesizer of the end-to-end tests.  The Python sources it writes are
  parameters: only their being distinct texts matters to the control flow.\<close>

record fixture_sources =
  fs_slugify :: string
  fs_network :: string
  fs_timeout :: string
  fs_output_limit :: string
  fs_wrong :: string

definition mentions :: "string \<Rightarrow> string \<Rightarrow> bool" where
  "mentions intent tag = contains_str intent (''[fixture:'' @ tag @ '']'')"

definition fixture_source :: "fixture_sources \<Rightarrow> string \<Rightarrow> string" where
  "fixture_source fs description =
     (if mentions description ''network'' then fs_network fs
      else if mentions description ''timeout'' then fs_timeout fs
      else if mentions description ''output-limit'' then fs_output_limit fs
      else fs_slugify fs)"

definition fixture_summary :: "string \<Rightarrow> string" where
  "fixture_summary description =
     (if mentions description ''network'' then ''Fixture that attempts a blocked network connection''
      else if mentions description ''timeout'' then ''Fixture that exceeds the execution timeout''
      else if mentions description ''output-limit'' then ''Fixture that exceeds the output limit''
      else ''Convert stdin text to a lowercase URL slug'')"

definition fixture_tests :: "fixture_context \<Rightarrow> json list" where
  "fixture_tests c =
     (if fc_examples c \<noteq> [] then []
      else let (name, stdin, expected) =
             (if mentions (fc_intent c) ''network'' then (''network-is-blocked'', '''', ''blocked'')
              else if mentions (fc_intent c) ''timeout'' then (''execution-times-out'', '''', '''')
              else if mentions (fc_intent c) ''output-limit'' then (''output-is-bounded'', '''', '''')
              else if mentions (fc_intent c) ''agent-correct-test''
                then (''generated-wrong-oracle'', ''Hello Cloud Native'', ''wrong'')
              else (''default-slug'', ''Hello Cloud Native'', ''hello-cloud-native''))
           in [json_object [(''name'', JString name), (''args'', JArray []), (''stdin'', JString stdin),
                 (''expected_stdout'', JString expected), (''expected_exit_code'', json_nat 0)]])"

definition fixture_action :: "fixture_sources \<Rightarrow> fixture_context \<Rightarrow> string \<times> json" where
  "fixture_action fs c =
     (if \<not> fc_has_contract c then
        (''submit_contract'', json_object
          [(''summary'', JString (fixture_summary (fc_intent c))),
           (''assumptions'', strings_to_value [''fixture synthesizer implements URL slugification'']),
           (''invariants'', strings_to_value [''output contains lowercase ASCII slug characters'']),
           (''tests'', JArray (fixture_tests c)), (''reason'', JString ''fixture submits a bounded contract'')])
      else if fc_current_source c = None then
        (''write_source'', json_object
          [(''source'', JString (if mentions (fc_intent c) ''agent-probe'' then fs_wrong fs
                                else fixture_source fs (fc_intent c))),
           (''reason'', JString ''fixture writes the initial source'')])
      else if mentions (fc_intent c) ''agent-probe'' then
        (if fc_probes_run c = 0
         then (''probe'', json_object [(''args'', JArray []), (''stdin'', JString ''Hello Probe''),
                 (''reason'', JString ''fixture probes the failing candidate'')])
         else (''edit_source'', json_object [(''old_text'', JString (fs_wrong fs)), (''new_text'', JString (fs_slugify fs)),
                 (''reason'', JString ''fixture repairs the source after observing the probe'')]))
      else if mentions (fc_intent c) ''agent-correct-test''
        \<and> (case fc_latest_failure c of None \<Rightarrow> False | Some f \<Rightarrow> vf_test_origin f = GeneratedTest)
      then (''review_generated_test'', json_object
             [(''test_name'', JString ''generated-1-generated-wrong-oracle''),
              (''reason'', JString ''fixture requests independent oracle review'')])
      else (''abort'', json_object [(''reason'', JString ''fixture candidate failed its bounded validation'')]))"

definition fixture_complete :: "fixture_sources \<Rightarrow> (string \<Rightarrow> string) \<Rightarrow> nat \<Rightarrow> string list \<Rightarrow> fixture_context
    \<Rightarrow> synthesis_error + model_turn" where
  "fixture_complete fs debug turn names c =
     (if \<not> contains_str (fc_intent c) ''[fixture:''
      then Inl (InvalidSynthesizerConfig
        ''fixture synthesizer is test-only and refuses ordinary registrations; configure openai mode'')
      else let (name, arguments) = fixture_action fs c in
        if name \<notin> set names
        then Inl (InvalidAction (''fixture requested unavailable tool '' @ debug name))
        else Inr \<lparr>mt_message_id = None,
               mt_choice = [ToolCallContent \<lparr>cl_id = ''fixture-'' @ show_nat turn, cl_call_id = None, cl_name = name, cl_arguments = arguments\<rparr>],
               mt_usage = 0, mt_tools = names\<rparr>)"

definition fixture_verify :: "verification_request \<Rightarrow> test_verdict" where
  "fixture_verify request =
     (if mentions (vq_intent request) ''agent-correct-test''
      then \<lparr>tv_classification = OracleWrong, tv_reason = ''fixture verifier identifies the deliberately wrong oracle'',
            tv_expected_stdout = Some ''hello-cloud-native'', tv_expected_exit_code = Some 0\<rparr>
      else \<lparr>tv_classification = ImplementationWrong, tv_reason = ''fixture verifier keeps the generated test unchanged'',
            tv_expected_stdout = None, tv_expected_exit_code = None\<rparr>)"

definition fixture_review :: "review_request \<Rightarrow> contract_review" where
  "fixture_review request =
     \<lparr>cr_decision = AcceptContract, cr_reason = ''fixture contract is accepted for deterministic tests'', cr_issues = []\<rparr>"

end
