(* ===== verification/Runner.thy ===== *)
theory Runner
  imports Registry_Read Artifact Web_Access
begin

text \<open>
  src/apps/jit-worker/src/runner.rs: building and running a tool in Docker.  What Docker and
  the operating system answer is the record \<open>docker\<close>; every operation returns its result
  with the commands it ran, so that the options of a sandbox can be stated.  A run that the
  code would wait for without end is \<open>None\<close>.
\<close>

section \<open>Data\<close>

datatype runner_http_mode = HttpDisabledMode | HttpDirect

datatype runner_error =
    RuntimeUnavailable string
  | InvalidHttpMode string
  | InvalidHttpProxy string
  | RunnerHttpDisabled
  | HttpApprovalRevoked
  | HttpFixtureError string
  | DockerError string
  | BuildFailed string
  | BuildTimeout
  | ImageIntegrity string string
  | RunTimeout
  | OutputLimitExceeded
  | MissingPipe
  | TaskFailed
  | RunnerArtifact artifact_error
  | RunnerStorage storage_error
  | RunnerIo string

record execution_output =
  eo_exit_code :: int
  eo_stdout :: string
  eo_stderr :: string
  eo_duration_ms :: nat

definition max_stream_bytes :: nat where "max_stream_bytes = 1024 * 1024"

definition sandbox_run_options :: "string list" where
  "sandbox_run_options =
     [''--rm'', ''--user=65532:65532'', ''--read-only'', ''--cap-drop=ALL'',
      ''--security-opt=no-new-privileges'', ''--ulimit=nproc=16:16'', ''--ulimit=nofile=64:64'',
      ''--memory=128m'', ''--memory-swap=128m'', ''--cpus=0.5'',
      ''--tmpfs=/tmp:rw,noexec,nosuid,nodev,size=32m'', ''--env=PYTHONDONTWRITEBYTECODE=1'', ''--interactive'']"

text \<open>One run of a process: which arm of the \<open>select!\<close> is ready first, how it ends (\<open>None\<close>: never,
  \<open>Some None\<close>: by a signal), and its streams as the chunks that are read, where \<open>None\<close> is a
  failed read.\<close>

datatype first_ready = ExitFirst | OutputFirst | TimeLimitFirst

record process =
  ps_spawned :: bool
  ps_piped :: bool
  ps_first :: first_ready
  ps_ending :: "int option option"
  ps_stdin_broken :: "bool option"
  ps_stdout :: "string option list"
  ps_stderr :: "string option list"
  ps_duration_ms :: nat

record docker =
  dk_info :: "(bool \<times> string \<times> string) option"
  dk_inspect :: "string \<Rightarrow> (bool \<times> string) option"
  dk_build :: "string list \<Rightarrow> (bool \<times> string) option option"
  dk_run :: "string list \<Rightarrow> string \<Rightarrow> process"
  dk_remove_image :: "string \<Rightarrow> (bool \<times> string) option"
  dk_images :: "(bool \<times> string list \<times> string) option"
  dk_from_utf8 :: "string \<Rightarrow> string option"
  dk_lossy :: "string \<Rightarrow> string"
  dk_fixtures_json :: "http_fixture list \<Rightarrow> string option"

record docker_runner =
  rn_runtime :: string
  rn_http_mode :: runner_http_mode
  rn_http_proxy_url :: "string option"

section \<open>Building\<close>

definition truncate_diagnostic :: "docker \<Rightarrow> string \<Rightarrow> string" where
  "truncate_diagnostic dk bytes = dk_lossy dk (take (8 * 1024) bytes)"

definition normalize_label :: "docker \<Rightarrow> string \<Rightarrow> string" where
  "normalize_label dk output = trim (case dk_from_utf8 dk output of None \<Rightarrow> [] | Some s \<Rightarrow> s)"

definition build_args :: "string \<Rightarrow> string \<Rightarrow> string \<Rightarrow> string list" where
  "build_args tag source_sha256 directory =
     [''build'', ''--network=none'', ''--tag'', tag, ''--label'',
      ''dev.jitforge.source='' @ source_sha256, directory]"

definition build_artifact :: "artifact_ext \<Rightarrow> docker \<Rightarrow> artifact_store \<Rightarrow> string
    \<Rightarrow> (runner_error + string) \<times> string list list" where
  "build_artifact ax dk st digest =
     (case load ax st digest of
        Inl e \<Rightarrow> (Inl (RunnerArtifact e), [])
      | Inr stored \<Rightarrow>
        let source = mf_source_sha256 (ab_manifest (sa_bundle stored)) in
        case source_image_tag ax (mf_runtime (ab_manifest (sa_bundle stored))) source of
          Inl e \<Rightarrow> (Inl (RunnerArtifact e), [])
        | Inr tag \<Rightarrow>
          (case dk_inspect dk tag of
             None \<Rightarrow> (Inl (RunnerIo ''inspect''), [])
           | Some (True, label) \<Rightarrow>
               (let actual = normalize_label dk label in
                if actual \<noteq> source then (Inl (ImageIntegrity source actual), []) else (Inr tag, []))
           | Some (False, _) \<Rightarrow>
               let args = build_args tag source (sa_directory stored) in
               (case dk_build dk args of
                  None \<Rightarrow> Inl BuildTimeout
                | Some None \<Rightarrow> Inl (RunnerIo ''build'')
                | Some (Some (True, _)) \<Rightarrow> Inr tag
                | Some (Some (False, stderr)) \<Rightarrow> Inl (BuildFailed (truncate_diagnostic dk stderr)), [args])))"

section \<open>Running\<close>

datatype read_failure = FileTooLarge | ReadError

fun read_bounded_stream :: "nat \<Rightarrow> string \<Rightarrow> string option list \<Rightarrow> read_failure + string" where
  "read_bounded_stream limit out [] = Inr out"
| "read_bounded_stream limit out (None # cs) = Inl ReadError"
| "read_bounded_stream limit out (Some chunk # cs) =
     (if chunk = [] then Inr out
      else if length out + length chunk > limit then Inl FileTooLarge
      else read_bounded_stream limit (out @ chunk) cs)"

text \<open>\<open>try_join!\<close> of the two readers.\<close>

definition read_streams :: "process \<Rightarrow> read_failure + string \<times> string" where
  "read_streams p =
     rbind (read_bounded_stream max_stream_bytes [] (ps_stdout p)) (\<lambda>out.
     rbind (read_bounded_stream max_stream_bytes [] (ps_stderr p)) (\<lambda>err. Inr (out, err)))"

definition stream_error :: "read_failure \<Rightarrow> runner_error" where
  "stream_error f = (case f of FileTooLarge \<Rightarrow> RunnerIo ''runner output limit exceeded'' | ReadError \<Rightarrow> RunnerIo ''read'')"

definition finish_run :: "docker \<Rightarrow> process \<Rightarrow> string \<times> string \<Rightarrow> int option \<Rightarrow> runner_error + execution_output" where
  "finish_run dk p streams status =
     (case status of
        None \<Rightarrow> Inl (DockerError ''docker process terminated by signal'')
      | Some code \<Rightarrow>
          if code \<ge> 125 then Inl (DockerError (truncate_diagnostic dk (snd streams)))
          else Inr \<lparr>eo_exit_code = code, eo_stdout = fst streams, eo_stderr = snd streams,
                    eo_duration_ms = ps_duration_ms p\<rparr>)"

text \<open>From the spawned child to its output.\<close>

definition await_process :: "docker \<Rightarrow> process \<Rightarrow> (runner_error + execution_output) option" where
  "await_process dk p =
     (if \<not> ps_spawned p then Some (Inl (RunnerIo ''spawn''))
      else if \<not> ps_piped p then Some (Inl MissingPipe)
      else case ps_first p of
        TimeLimitFirst \<Rightarrow> Some (Inl RunTimeout)
      | OutputFirst \<Rightarrow>
          (case read_streams p of
             Inl FileTooLarge \<Rightarrow> Some (Inl OutputLimitExceeded)
           | Inl ReadError \<Rightarrow> Some (Inl (RunnerIo ''read''))
           | Inr streams \<Rightarrow>
             (case ps_ending p of
                None \<Rightarrow> None
              | Some status \<Rightarrow>
                Some (if ps_stdin_broken p = Some False then Inl (RunnerIo ''stdin'') else finish_run dk p streams status)))
      | ExitFirst \<Rightarrow>
          (case ps_ending p of
             None \<Rightarrow> None
           | Some status \<Rightarrow>
             Some (if ps_stdin_broken p = Some False then Inl (RunnerIo ''stdin'')
                   else case read_streams p of
                     Inl f \<Rightarrow> Inl (stream_error f)
                   | Inr streams \<Rightarrow> finish_run dk p streams status)))"

definition has_http :: "stored_artifact \<Rightarrow> bool" where
  "has_http stored = (mf_http_capabilities (ab_manifest (sa_bundle stored)) \<noteq> [])"

definition run_args :: "docker_runner \<Rightarrow> string \<Rightarrow> string \<Rightarrow> string option \<Rightarrow> bool \<Rightarrow> string \<Rightarrow> string list \<Rightarrow> string list" where
  "run_args rn container network fixture_json http tag args =
     [''run'', ''--name'', container, ''--runtime'', rn_runtime rn, ''--network'', network]
     @ sandbox_run_options
     @ [''--env'', if fixture_json \<noteq> None then ''JITFORGE_HTTP_MODE=fixture''
                  else if http then ''JITFORGE_HTTP_MODE=direct'' else ''JITFORGE_HTTP_MODE=disabled'']
     @ (case fixture_json of None \<Rightarrow> [] | Some f \<Rightarrow> [''--env'', ''JITFORGE_HTTP_FIXTURES='' @ f])
     @ (if fixture_json = None \<and> http
        then (case rn_http_proxy_url rn of None \<Rightarrow> []
              | Some proxy \<Rightarrow> [''--env'', ''HTTPS_PROXY='' @ proxy, ''--env'', ''https_proxy='' @ proxy])
        else [])
     @ [tag] @ args"

definition execute_inner :: "artifact_ext \<Rightarrow> docker \<Rightarrow> docker_runner \<Rightarrow> string \<Rightarrow> db \<Rightarrow> artifact_store
    \<Rightarrow> string \<Rightarrow> string list \<Rightarrow> string \<Rightarrow> http_fixture list option
    \<Rightarrow> (runner_error + execution_output) option \<times> string list list" where
  "execute_inner ax dk rn container d st digest args stdin fixtures =
     (case load ax st digest of
        Inl e \<Rightarrow> (Some (Inl (RunnerArtifact e)), [])
      | Inr stored \<Rightarrow>
        if has_http stored
           \<and> \<not> all_http_capabilities_approved
                 (map hg_approval_hash (mf_http_capabilities (ab_manifest (sa_bundle stored)))) d
        then (Some (Inl HttpApprovalRevoked), [])
        else case (case fixtures of None \<Rightarrow> Inr None
                   | Some fs \<Rightarrow> (case dk_fixtures_json dk fs of
                        None \<Rightarrow> Inl (HttpFixtureError ''encode'') | Some j \<Rightarrow> Inr (Some j))) of
          Inl e \<Rightarrow> (Some (Inl e), [])
        | Inr fixture_json \<Rightarrow>
          if (case fixture_json of None \<Rightarrow> False | Some j \<Rightarrow> length j > 96 * 1024)
          then (Some (Inl (HttpFixtureError ''encoded HTTP fixtures exceed 96 KiB'')), [])
          else case (if fixtures \<noteq> None then Inr ''none''
                     else if has_http stored
                       then (case rn_http_mode rn of HttpDirect \<Rightarrow> Inr ''bridge''
                             | HttpDisabledMode \<Rightarrow> Inl RunnerHttpDisabled)
                     else Inr ''none'') of
            Inl e \<Rightarrow> (Some (Inl e), [])
          | Inr network \<Rightarrow>
            (case build_artifact ax dk st digest of
               (Inl e, commands) \<Rightarrow> (Some (Inl e), commands)
             | (Inr tag, commands) \<Rightarrow>
               let command = run_args rn container network fixture_json (has_http stored) tag args
               in (await_process dk (dk_run dk command stdin), commands @ [command])))"

definition execute :: "artifact_ext \<Rightarrow> docker \<Rightarrow> docker_runner \<Rightarrow> string \<Rightarrow> db \<Rightarrow> artifact_store
    \<Rightarrow> string \<Rightarrow> string list \<Rightarrow> string \<Rightarrow> (runner_error + execution_output) option \<times> string list list" where
  "execute ax dk rn container d st digest args stdin = execute_inner ax dk rn container d st digest args stdin None"

definition execute_with_fixtures :: "artifact_ext \<Rightarrow> docker \<Rightarrow> docker_runner \<Rightarrow> string \<Rightarrow> db \<Rightarrow> artifact_store
    \<Rightarrow> string \<Rightarrow> string list \<Rightarrow> string \<Rightarrow> http_fixture list
    \<Rightarrow> (runner_error + execution_output) option \<times> string list list" where
  "execute_with_fixtures ax dk rn container d st digest args stdin fixtures =
     execute_inner ax dk rn container d st digest args stdin (Some fixtures)"

section \<open>Images and configuration\<close>

definition ensure_ready :: "docker \<Rightarrow> docker_runner \<Rightarrow> runner_error + unit" where
  "ensure_ready dk rn =
     (case dk_info dk of
        None \<Rightarrow> Inl (RunnerIo ''info'')
      | Some (ok, out, err) \<Rightarrow>
          if \<not> ok then Inl (DockerError (dk_lossy dk err))
          else if \<not> contains_str (dk_lossy dk out) ([CHR 0x22] @ rn_runtime rn @ [CHR 0x22])
          then Inl (RuntimeUnavailable (rn_runtime rn)) else Inr ())"

fun remove_image_tags :: "artifact_ext \<Rightarrow> docker \<Rightarrow> string \<Rightarrow> string list \<Rightarrow> runner_error + unit" where
  "remove_image_tags ax dk source [] = Inr ()"
| "remove_image_tags ax dk source (runtime # runtimes) =
     (case source_image_tag ax runtime source of
        Inl e \<Rightarrow> Inl (RunnerArtifact e)
      | Inr tag \<Rightarrow>
        (case dk_remove_image dk tag of
           None \<Rightarrow> Inl (RunnerIo ''image rm'')
         | Some (ok, err) \<Rightarrow>
             if \<not> ok \<and> \<not> contains_str (dk_lossy dk err) ''No such image''
             then Inl (DockerError (truncate_diagnostic dk err))
             else remove_image_tags ax dk source runtimes))"

definition remove_source_image :: "artifact_ext \<Rightarrow> docker \<Rightarrow> string \<Rightarrow> runner_error + unit" where
  "remove_source_image ax dk source =
     remove_image_tags ax dk source [''python-stdlib-v1'', ''python-stdlib-v2'']"

text \<open>The tags that the clean-up of images removes, in order; a tag that cannot be inspected is
  skipped.\<close>

fun stale_image_tags :: "docker \<Rightarrow> string set \<Rightarrow> string list \<Rightarrow> runner_error + string list" where
  "stale_image_tags dk referenced [] = Inr []"
| "stale_image_tags dk referenced (tag # tags) =
     (if trim tag = [] then stale_image_tags dk referenced tags
      else case dk_inspect dk tag of
        None \<Rightarrow> Inl (RunnerIo ''inspect'')
      | Some (ok, label) \<Rightarrow>
          if ok \<and> normalize_label dk label \<notin> referenced
          then (case dk_remove_image dk tag of
                  None \<Rightarrow> Inl (RunnerIo ''image rm'')
                | Some (removed, _) \<Rightarrow>
                    rbind (stale_image_tags dk referenced tags) (\<lambda>ts. Inr (if removed then tag # ts else ts)))
          else stale_image_tags dk referenced tags)"

definition cleanup_unreferenced_images :: "docker \<Rightarrow> string set \<Rightarrow> runner_error + nat" where
  "cleanup_unreferenced_images dk referenced =
     (case dk_images dk of
        None \<Rightarrow> Inl (RunnerIo ''image ls'')
      | Some (ok, tags, err) \<Rightarrow>
          if \<not> ok then Inl (DockerError (truncate_diagnostic dk err))
          else rbind (stale_image_tags dk referenced tags) (\<lambda>ts. Inr (length ts)))"

definition normalize_proxy_url :: "net \<Rightarrow> string option \<Rightarrow> runner_error + string option" where
  "normalize_proxy_url net proxy_url =
     (case map_option trim proxy_url of
        None \<Rightarrow> Inr None
      | Some raw \<Rightarrow>
          if raw = [] then Inr None
          else rbind (ok_or (InvalidHttpProxy ''parse'') (n_parse net raw)) (\<lambda>u.
          if \<not> (u_scheme u = ''http'' \<or> u_scheme u = ''https'') \<or> u_host_str u = None \<or> u_username u \<noteq> []
             \<or> u_password u \<noteq> None \<or> u_path u \<noteq> ''/'' \<or> u_query u \<noteq> None \<or> u_fragment u \<noteq> None
          then Inl (InvalidHttpProxy
            ''proxy URL must be an HTTP(S) origin without credentials, path, query, or fragment'')
          else Inr (Some (u_text u))))"

definition runner_new :: "net \<Rightarrow> string \<Rightarrow> string \<Rightarrow> string option \<Rightarrow> runner_error + docker_runner" where
  "runner_new net runtime http_mode proxy_url =
     rbind (let mode = trim http_mode in
            if mode = ''disabled'' then Inr HttpDisabledMode
            else if mode = ''direct'' then Inr HttpDirect
            else Inl (InvalidHttpMode mode)) (\<lambda>mode.
     rbind (normalize_proxy_url net proxy_url) (\<lambda>proxy.
     Inr \<lparr>rn_runtime = runtime, rn_http_mode = mode, rn_http_proxy_url = proxy\<rparr>))"

end
