(* ===== verification/Contract.thy ===== *)
theory Contract
  imports Synthesis Runner Json_Compare Registry
begin

text \<open>
  The checks of src/apps/jit-worker/src/jobs.rs on what the agent submits: contracts with
  their tests and HTTP fixtures, clarifications, example corrections, HTTP capabilities and
  probes; and the comparison of a tool's output with a test.  Parsing JSON text, encoding
  fixtures and recognising a domain name belong to libraries and are parameters; the error
  text they append to a message is left out.
\<close>

section \<open>Data\<close>

record worker_ext =
  we_registry :: ext
  we_net :: net
  we_parse_json :: "string \<Rightarrow> json option"
  we_fixtures_json :: "http_fixture list \<Rightarrow> string"
  we_host_domain :: "string \<Rightarrow> string option"
  we_debug :: "string \<Rightarrow> string"
  we_lossy :: "string \<Rightarrow> string"
  we_is_utf8 :: "string \<Rightarrow> bool"

datatype job_failure =
    AwaitingInput
  | AttemptsExhausted
  | AgentAborted string
  | AgentLimit string
  | AgentProtocol string
  | AgentRuntime string
  | IncompatibleCheckpoint string string
  | SynthesisFailure synthesis_error
  | RunnerFailure runner_error
  | ArtifactFailure artifact_error
  | StorageFailure storage_error
  | JsonFailure
  | WebFailure web_error

definition invalid_action :: "string \<Rightarrow> job_failure" where
  "invalid_action message = SynthesisFailure (InvalidAction message)"

definition truncate_text :: "string \<Rightarrow> string" where
  "truncate_text value = concat (take 2048 (chars value))"

fun failure_code :: "job_failure \<Rightarrow> string" where
  "failure_code AwaitingInput = ''awaiting_input''"
| "failure_code AttemptsExhausted = ''attempts_exhausted''"
| "failure_code (AgentAborted _) = ''agent_aborted''"
| "failure_code (AgentLimit _) = ''agent_limit_reached''"
| "failure_code (AgentProtocol _) = ''agent_protocol_failed''"
| "failure_code (AgentRuntime _) = ''agent_runtime_failed''"
| "failure_code (IncompatibleCheckpoint _ _) = ''agent_checkpoint_incompatible''"
| "failure_code (SynthesisFailure _) = ''synthesis_failed''"
| "failure_code (RunnerFailure _) = ''runner_failed''"
| "failure_code (ArtifactFailure _) = ''artifact_failed''"
| "failure_code (StorageFailure _) = ''storage_failed''"
| "failure_code JsonFailure = ''serialization_failed''"
| "failure_code (WebFailure _) = ''web_access_failed''"

definition reason_details :: "string \<Rightarrow> json" where
  "reason_details reason = json_object [(''reason'', JString (truncate_text reason))]"

fun failure_details :: "job_failure \<Rightarrow> json option" where
  "failure_details (AgentAborted reason) = Some (reason_details reason)"
| "failure_details (AgentLimit reason) = Some (reason_details reason)"
| "failure_details (AgentProtocol reason) = Some (reason_details reason)"
| "failure_details (AgentRuntime reason) = Some (reason_details reason)"
| "failure_details (IncompatibleCheckpoint engine version) =
     Some (json_object [(''engine'', JString engine), (''version'', JString version)])"
| "failure_details _ = None"

record approved_capability =
  ac_hash :: string
  ac_capability :: http_capability

record http_probe_record =
  hp_capability_hash :: string
  hp_request_url :: string
  hp_final_url :: string
  hp_status :: nat
  hp_content_type :: string
  hp_body :: string

text \<open>The arguments of the tools.\<close>

record submit_contract_args =
  sc_summary :: string
  sc_assumptions :: "string list"
  sc_invariants :: "string list"
  sc_tests :: "test_case list"
  sc_reason :: string

record clarification_args =
  qa_decision_key :: string
  qa_question :: string
  qa_choices :: "job_input_choice list"
  qa_reason :: string

record correction_args =
  xa_example_index :: nat
  xa_corrected_input :: string
  xa_corrected_output :: string
  xa_reason :: string

record capability_args =
  ca_host :: string
  ca_path_prefix :: string
  ca_query_keys :: "string list"
  ca_purpose :: string
  ca_reason :: string

record probe_args =
  ba_args :: "string list"
  ba_stdin :: string
  ba_reason :: string

section \<open>Clarifications and corrections\<close>

definition valid_decision_key :: "string \<Rightarrow> bool" where
  "valid_decision_key key =
     (key \<noteq> [] \<and> length key \<le> 128
      \<and> list_all (\<lambda>b. is_ascii_lowercase b \<or> is_ascii_digit b \<or> b \<in> set ''._-'') key
      \<and> is_ascii_alphanumeric (hd key) \<and> is_ascii_alphanumeric (last key)
      \<and> \<not> contains_str key ''..'')"

definition validate_clarification :: "clarification_args \<Rightarrow> job_failure + unit" where
  "validate_clarification args =
     (if \<not> valid_decision_key (qa_decision_key args)
      then Inl (invalid_action ''decision_key must contain 1-128 lowercase letters, digits, dots, underscores, or hyphens and start and end with a letter or digit'')
      else if trim (qa_question args) = [] \<or> length (qa_question args) > 4096 \<or> length (qa_choices args) > 3
      then Inl (invalid_action ''clarification question must contain 1-4096 bytes and at most three choices'')
      else if list_ex (\<lambda>c. trim (jc_value c) = [] \<or> length (jc_value c) > 512 \<or> trim (jc_label c) = []
                \<or> length (jc_label c) > 512
                \<or> (case jc_description c of None \<Rightarrow> False | Some d \<Rightarrow> length d > 1024)) (qa_choices args)
      then Inl (invalid_action ''clarification choices are invalid'')
      else Inr ())"

definition validate_example_correction :: "worker_ext \<Rightarrow> claimed_synthesis_job \<Rightarrow> correction_args
    \<Rightarrow> job_failure + example_correction" where
  "validate_example_correction we job args =
     (if xa_example_index args = 0 \<or> \<not> xa_example_index args - 1 < length (cj_examples job)
      then Inl (invalid_action ''example_index does not identify a registered example'')
      else if length (xa_corrected_input args) > 1024 * 1024 \<or> length (xa_corrected_output args) > 1024 * 1024
           \<or> CHR 0x00 \<in> set (xa_corrected_input args) \<or> CHR 0x00 \<in> set (xa_corrected_output args)
      then Inl (invalid_action ''corrected example fields must be at most 1 MiB and contain no NUL bytes'')
      else
        let original = cj_examples job ! (xa_example_index args - 1);
            corrected = \<lparr>te_input = xa_corrected_input args, te_output = xa_corrected_output args\<rparr>
        in if cj_input_format job = Json \<and> we_parse_json we (te_input corrected) = None
           then Inl (invalid_action ''corrected example input is not valid JSON'')
           else if cj_output_format job = Json \<and> we_parse_json we (te_output corrected) = None
           then Inl (invalid_action ''corrected example output is not valid JSON'')
           else if original = corrected
           then Inl (invalid_action ''example correction must change the registered example'')
           else Inr \<lparr>ec_example_index = xa_example_index args, ec_original = original,
                     ec_corrected = corrected, ec_reason = xa_reason args\<rparr>)"

section \<open>HTTP capabilities\<close>

definition sort_strings :: "string list \<Rightarrow> string list" where
  "sort_strings xs = sort_by (\<lambda>a b. \<not> str_less b a) xs"

definition normalize_http_capability :: "worker_ext \<Rightarrow> capability_args \<Rightarrow> job_failure + http_capability" where
  "normalize_http_capability we args =
     (case we_host_domain we (trim (ca_host args)) of
        None \<Rightarrow> Inl (invalid_action ''HTTP capability host must be a DNS hostname'')
      | Some domain \<Rightarrow>
        let host = to_ascii_lowercase (trim_end_matches CHR ''.'' domain) in
        if host = [] \<or> host = ''localhost'' \<or> length host > 253
        then Inl (invalid_action ''HTTP capability host is invalid'')
        else
        let path_prefix = trim (ca_path_prefix args) in
        if \<not> starts_with path_prefix ''/'' \<or> CHR ''?'' \<in> set path_prefix \<or> CHR ''#'' \<in> set path_prefix
           \<or> length path_prefix > 512
        then Inl (invalid_action ''HTTP capability path_prefix must be an absolute path without query or fragment'')
        else
        let query_keys = remdups_adj (sort_strings (ca_query_keys args)) in
        if length query_keys > 32
           \<or> list_ex (\<lambda>k. k = [] \<or> length k > 128
               \<or> \<not> list_all (\<lambda>b. is_ascii_alphanumeric b \<or> b \<in> set ''._-[]'') k) query_keys
        then Inl (invalid_action ''HTTP capability query keys are invalid'')
        else
        let purpose = trim (ca_purpose args) in
        if purpose = [] \<or> length purpose > 2048
        then Inl (invalid_action ''HTTP capability purpose must contain 1-2048 bytes'')
        else Inr \<lparr>hc_scheme = ''https'', hc_host = host, hc_port = 443, hc_method = Get,
                  hc_path_prefix = path_prefix, hc_query_keys = query_keys, hc_purpose = purpose\<rparr>)"

definition http_capability_hash :: "worker_ext \<Rightarrow> http_capability \<Rightarrow> string" where
  "http_capability_hash we c =
     ''sha256:'' @ x_sha256 (we_registry we) (x_to_vec (we_registry we) (json_object
       [(''scheme'', JString (hc_scheme c)), (''host'', JString (hc_host c)), (''port'', json_nat (hc_port c)),
        (''method'', JString (http_method_as_str (hc_method c))), (''path_prefix'', JString (hc_path_prefix c)),
        (''query_keys'', strings_to_value (hc_query_keys c))]))"

definition approved_capability_for_url :: "worker_ext \<Rightarrow> approved_capability list \<Rightarrow> string
    \<Rightarrow> job_failure + approved_capability" where
  "approved_capability_for_url we approved raw_url =
     (case n_parse (we_net we) raw_url of
        None \<Rightarrow> Inl (invalid_action ''invalid probe URL'')
      | Some u \<Rightarrow>
        if u_scheme u \<noteq> ''https'' \<or> u_port_or_known_default u \<noteq> Some 443 \<or> u_username u \<noteq> []
           \<or> u_password u \<noteq> None \<or> u_fragment u \<noteq> None
        then Inl (invalid_action ''probe URL must be credential-free HTTPS on port 443'')
        else
        let host = trim_end_matches CHR ''.'' (case u_host_str u of None \<Rightarrow> [] | Some h \<Rightarrow> h) in
        ok_or (invalid_action ''probe URL is not covered by an approved HTTP capability'')
          (find (\<lambda>a. eq_ignore_ascii_case (hc_host (ac_capability a)) host
              \<and> starts_with (u_path u) (hc_path_prefix (ac_capability a))
              \<and> list_all (\<lambda>(key, _). key \<in> set (hc_query_keys (ac_capability a))) (u_query_pairs u)) approved))"

section \<open>Truncation to bytes\<close>

definition is_char_boundary :: "string \<Rightarrow> nat \<Rightarrow> bool" where
  "is_char_boundary s i = (i = 0 \<or> i = length s \<or> (i < length s \<and> \<not> continuation (s ! i)))"

fun boundary_below :: "string \<Rightarrow> nat \<Rightarrow> nat" where
  "boundary_below s 0 = 0"
| "boundary_below s (Suc i) = (if is_char_boundary s (Suc i) then Suc i else boundary_below s i)"

definition truncate_text_to_bytes :: "string \<Rightarrow> nat \<Rightarrow> string" where
  "truncate_text_to_bytes value limit =
     (if length value \<le> limit then value else take (boundary_below value limit) value)"

section \<open>Contracts and tests\<close>

definition probe_records_to_fixtures :: "http_probe_record list \<Rightarrow> http_fixture list" where
  "probe_records_to_fixtures records =
     map (\<lambda>r. \<lparr>hf_request_url = hp_request_url r, hf_response_url = hp_final_url r, hf_status = hp_status r,
              hf_content_type = hp_content_type r, hf_body = hp_body r\<rparr>) records"

text \<open>The loop over the fixtures; \<open>seen\<close> are the requests of those before.\<close>

fun check_fixtures :: "worker_ext \<Rightarrow> approved_capability list \<Rightarrow> string list \<Rightarrow> http_fixture list \<Rightarrow> job_failure + unit" where
  "check_fixtures we caps seen [] = Inr ()"
| "check_fixtures we caps seen (f # fs) =
     (if hf_request_url f \<in> set seen then Inl (invalid_action ''HTTP test fixture requests must be unique'')
      else rbind (approved_capability_for_url we caps (hf_request_url f)) (\<lambda>_.
      rbind (approved_capability_for_url we caps (hf_response_url f)) (\<lambda>_.
      check_fixtures we caps (hf_request_url f # seen) fs)))"

definition validate_http_fixtures :: "worker_ext \<Rightarrow> http_fixture list \<Rightarrow> approved_capability list \<Rightarrow> job_failure + unit" where
  "validate_http_fixtures we fixtures caps =
     (if length fixtures > 8 \<or> length (we_fixtures_json we fixtures) > 96 * 1024
         \<or> list_ex (\<lambda>f. length (hf_request_url f) > 4096 \<or> length (hf_response_url f) > 4096
              \<or> \<not> (100 \<le> hf_status f \<and> hf_status f \<le> 599) \<or> hf_content_type f = []
              \<or> length (hf_content_type f) > 256 \<or> length (hf_body f) > 64 * 1024) fixtures
      then Inl (invalid_action ''HTTP test fixtures exceed protocol limits'')
      else check_fixtures we caps [] fixtures)"

definition validate_test :: "worker_ext \<Rightarrow> test_case \<Rightarrow> io_format \<Rightarrow> approved_capability list \<Rightarrow> job_failure + unit" where
  "validate_test we test output_format caps =
     (if tt_name test = [] \<or> length (tt_name test) > 128 \<or> length (tt_stdin test) > 1024 * 1024
         \<or> length (tt_expected_stdout test) > 1024 * 1024 \<or> length (tt_args test) > 32
         \<or> list_ex (\<lambda>a. length a > 4096) (tt_args test)
      then Inl (invalid_action ''generated test exceeds protocol limits'')
      else if output_format = Json \<and> tt_expected_exit_code test = 0 \<and> we_parse_json we (tt_expected_stdout test) = None
      then Inl (invalid_action ''generated test has invalid JSON'')
      else validate_http_fixtures we (tt_http_fixtures test) caps)"

fun validate_all :: "('a \<Rightarrow> 'e + unit) \<Rightarrow> 'a list \<Rightarrow> 'e + unit" where
  "validate_all f [] = Inr ()"
| "validate_all f (x # xs) = rbind (f x) (\<lambda>_. validate_all f xs)"

definition user_test :: "http_fixture list \<Rightarrow> nat \<Rightarrow> tool_example \<Rightarrow> test_case" where
  "user_test fixtures index e =
     \<lparr>tt_name = ''user-example-'' @ show_nat (index + 1), tt_args = [], tt_stdin = te_input e,
      tt_expected_stdout = te_output e, tt_expected_exit_code = 0, tt_http_fixtures = fixtures\<rparr>"

definition generated_test :: "nat \<Rightarrow> test_case \<Rightarrow> test_case" where
  "generated_test index test =
     (let name = concat (take 96 (chars (trim (tt_name test))))
      in test\<lparr>tt_name := ''generated-'' @ show_nat (index + 1) @ ''-'' @ (if name = [] then ''test'' else name)\<rparr>)"

definition effective_examples :: "claimed_synthesis_job \<Rightarrow> (nat \<times> example_correction) list \<Rightarrow> tool_example list" where
  "effective_examples job corrections =
     map (\<lambda>(index, e). case map_of corrections index of None \<Rightarrow> e | Some c \<Rightarrow> ec_corrected c)
       (enumerate 0 (cj_examples job))"

definition contract_tests :: "claimed_synthesis_job \<Rightarrow> (nat \<times> example_correction) list \<Rightarrow> http_probe_record list
    \<Rightarrow> test_case list \<Rightarrow> test_case list" where
  "contract_tests job corrections records tests =
     map (\<lambda>(i, e). user_test (probe_records_to_fixtures records) i e) (enumerate 0 (effective_examples job corrections))
     @ map (\<lambda>(i, t). generated_test i t) (enumerate 0 (take 12 tests))"

definition validate_contract :: "worker_ext \<Rightarrow> submit_contract_args \<Rightarrow> claimed_synthesis_job
    \<Rightarrow> (nat \<times> example_correction) list \<Rightarrow> approved_capability list \<Rightarrow> http_probe_record list
    \<Rightarrow> job_failure + synthesis_draft" where
  "validate_contract we args job corrections caps records =
     (if trim (sc_summary args) = [] \<or> length (sc_summary args) > 4096
      then Inl (invalid_action ''contract summary must contain 1-4096 bytes'')
      else if length (sc_assumptions args) > 32 \<or> length (sc_invariants args) > 32
           \<or> list_ex (\<lambda>i. length i > 4096) (sc_assumptions args @ sc_invariants args)
      then Inl (invalid_action ''contract assumptions or invariants exceed limits'')
      else
      let tests = contract_tests job corrections records (sc_tests args) in
      if tests = [] then Inl (invalid_action ''contract must contain at least one test'')
      else rbind (validate_all (\<lambda>t. validate_test we t (cj_output_format job) caps) tests) (\<lambda>_.
      Inr \<lparr>dr_contract = \<lparr>tc_summary = sc_summary args, tc_assumptions = sc_assumptions args,
                           tc_invariants = sc_invariants args\<rparr>,
           dr_tests = tests, dr_user_test_count = length (cj_examples job)\<rparr>))"

section \<open>Probes\<close>

definition validate_probe :: "probe_args \<Rightarrow> job_failure + unit" where
  "validate_probe args =
     (if length (ba_args args) > 32 \<or> list_ex (\<lambda>a. length a > 4096) (ba_args args) \<or> length (ba_stdin args) > 1024 * 1024
      then Inl (invalid_action ''probe exceeds protocol limits'') else Inr ())"

definition probe_fingerprint :: "worker_ext \<Rightarrow> string \<Rightarrow> probe_args \<Rightarrow> string" where
  "probe_fingerprint we digest args =
     ''sha256:'' @ x_sha256 (we_registry we) (x_to_vec (we_registry we) (json_object
       [(''artifact_digest'', JString digest), (''args'', strings_to_value (ba_args args)),
        (''stdin'', JString (ba_stdin args))]))"

section \<open>Judging an output\<close>

definition diagnostic_bytes :: "worker_ext \<Rightarrow> string \<Rightarrow> string" where
  "diagnostic_bytes we bytes = we_lossy we (take 2048 bytes)"

definition validate_stdout :: "worker_ext \<Rightarrow> io_format \<Rightarrow> test_case \<Rightarrow> string \<Rightarrow> string \<Rightarrow> string + unit" where
  "validate_stdout we output_format test stdout stderr =
     (if output_format = Text \<or> tt_expected_exit_code test \<noteq> 0 then
        (if stdout \<noteq> tt_expected_stdout test
         then Inl (''stdout mismatch: expected '' @ we_debug we (truncate_text (tt_expected_stdout test))
                @ '', got '' @ we_debug we (diagnostic_bytes we stdout)
                @ ''; stderr='' @ we_debug we (diagnostic_bytes we stderr))
         else Inr ())
      else case we_parse_json we (tt_expected_stdout test) of
        None \<Rightarrow> Inl (''test '' @ we_debug we (tt_name test) @ '' has invalid expected JSON'')
      | Some expected \<Rightarrow>
        (case we_parse_json we stdout of
           None \<Rightarrow> Inl (''test '' @ we_debug we (tt_name test) @ '' returned invalid JSON'')
         | Some actual \<Rightarrow>
           if json_values_equivalent actual expected then Inr ()
           else Inl (''JSON mismatch: expected '' @ x_to_vec (we_registry we) expected
                  @ '', got '' @ x_to_vec (we_registry we) actual)))"

definition failure_of :: "worker_ext \<Rightarrow> string \<Rightarrow> test_origin \<Rightarrow> string \<Rightarrow> execution_output option \<Rightarrow> validation_failure" where
  "failure_of we name origin diagnostic out =
     \<lparr>vf_test_name = name, vf_test_origin = origin, vf_diagnostic = diagnostic,
      vf_actual_stdout = (case out of None \<Rightarrow> [] | Some r \<Rightarrow> diagnostic_bytes we (eo_stdout r)),
      vf_actual_stderr = (case out of None \<Rightarrow> [] | Some r \<Rightarrow> diagnostic_bytes we (eo_stderr r)),
      vf_actual_exit_code = map_option eo_exit_code out\<rparr>"

text \<open>What \<open>validate_tests\<close> and \<open>validate_input_samples\<close> do with the result of one run; the text of
  a runner error is a parameter.\<close>

definition judge_test :: "worker_ext \<Rightarrow> (runner_error \<Rightarrow> string) \<Rightarrow> io_format \<Rightarrow> test_origin \<Rightarrow> test_case
    \<Rightarrow> runner_error + execution_output \<Rightarrow> validation_failure + unit" where
  "judge_test we describe output_format origin test result =
     (case result of
        Inl e \<Rightarrow> Inl (failure_of we (tt_name test) origin
          (''test '' @ we_debug we (tt_name test) @ '' runner error: '' @ describe e) None)
      | Inr out \<Rightarrow>
        if eo_exit_code out \<noteq> tt_expected_exit_code test
        then Inl (failure_of we (tt_name test) origin
          (''exit code mismatch: expected '' @ show_int (tt_expected_exit_code test) @ '', got ''
           @ show_int (eo_exit_code out)) (Some out))
        else case validate_stdout we output_format test (eo_stdout out) (eo_stderr out) of
          Inl diagnostic \<Rightarrow> Inl (failure_of we (tt_name test) origin diagnostic (Some out))
        | Inr _ \<Rightarrow> Inr ())"

definition sample_diagnostic :: "worker_ext \<Rightarrow> io_format \<Rightarrow> execution_output \<Rightarrow> string option" where
  "sample_diagnostic we output_format out =
     (if eo_exit_code out \<noteq> 0
      then Some (''input sample must execute successfully, but exited with '' @ show_int (eo_exit_code out))
      else if output_format = Json
      then (if we_parse_json we (eo_stdout out) = None then Some ''input sample returned invalid JSON'' else None)
      else if \<not> we_is_utf8 we (eo_stdout out) then Some ''input sample returned non-UTF-8 text'' else None)"

definition judge_sample :: "worker_ext \<Rightarrow> (runner_error \<Rightarrow> string) \<Rightarrow> io_format \<Rightarrow> nat
    \<Rightarrow> runner_error + execution_output \<Rightarrow> validation_failure + unit" where
  "judge_sample we describe output_format index result =
     (let name = ''input-sample-'' @ show_nat (index + 1) in
      case result of
        Inl e \<Rightarrow> Inl (failure_of we name InputSample (''input sample runner error: '' @ describe e) None)
      | Inr out \<Rightarrow>
        (case sample_diagnostic we output_format out of
           Some diagnostic \<Rightarrow> Inl (failure_of we name InputSample diagnostic (Some out))
         | None \<Rightarrow> Inr ()))"

end
