(* ===== verification/Contract_Checks.thy ===== *)
theory Contract_Checks
  imports Contract Web_Text
begin

text \<open>
  Facts about the checks on what the agent submits: the two routines that shorten a text to a
  number of bytes agree, tests of an accepted contract are within the limits of the protocol,
  and a URL probed twice keeps every contract with examples from being accepted.
\<close>

section \<open>Shortening\<close>

lemma boundary_below_le: "boundary_below s i \<le> i"
  by (induction i) auto

lemma boundary_below_boundary: "is_char_boundary s (boundary_below s i)"
  by (induction i) (auto simp: is_char_boundary_def)

lemma boundary_below_greatest: "is_char_boundary s j \<Longrightarrow> j \<le> i \<Longrightarrow> j \<le> boundary_below s i"
  by (induction i) (auto simp: le_Suc_eq)

lemma fit_rest: "\<exists>rest. chs = fit n chs @ rest \<and> (rest \<noteq> [] \<longrightarrow> n < length (concat (fit n chs)) + length (hd rest))"
proof (induction n chs rule: fit.induct)
  case (2 n ch chs)
  show ?case
  proof (cases "length ch \<le> n")
    case True
    with 2 obtain rest where "chs = fit (n - length ch) chs @ rest"
      "rest \<noteq> [] \<longrightarrow> n - length ch < length (concat (fit (n - length ch) chs)) + length (hd rest)"
      by blast
    with True show ?thesis
      by (intro exI [of _ rest]) auto
  qed auto
qed simp

text \<open>The greatest boundary within the limit is where the characters that fit end.\<close>

lemma boundary_below_fit:
  assumes "utf8 s" "limit < length s"
  shows "boundary_below s limit = length (concat (fit limit (chars s)))"
proof -
  define b where "b = length (concat (fit limit (chars s)))"
  obtain rest where rest: "chars s = fit limit (chars s) @ rest"
    "rest \<noteq> [] \<longrightarrow> limit < b + length (hd rest)"
    using fit_rest [of "chars s" limit] by (auto simp: b_def)
  have s: "s = concat (fit limit (chars s)) @ concat rest"
    using arg_cong [OF rest(1), of concat] by simp
  have b: "b \<le> limit"
    by (simp add: b_def fit_le)
  obtain ch chs where ch: "rest = ch # chs"
    using s b assms(2) by (cases rest) (auto simp: b_def)
  have "ch \<in> set (chars s)"
    by (subst rest(1)) (simp add: ch)
  then have wf: "wf_char ch"
    using assms(1) by (auto simp: utf8_def list_all_iff)
  have nth: "s ! (b + k) = ch ! k" if "k < length ch" for k
    using that by (subst s) (simp add: b_def ch nth_append)
  have inner: "continuation (ch ! k)" if "0 < k" "k < length ch" for k
    using wf that by (cases ch; cases k) (auto simp: wf_char_def list_all_length)
  have "is_char_boundary s b"
    using nth [of 0] wf b assms(2) by (cases ch) (auto simp: is_char_boundary_def wf_char_def)
  then have "b \<le> boundary_below s limit"
    using b by (rule boundary_below_greatest)
  moreover have "boundary_below s limit \<le> b"
  proof (rule ccontr)
    define k where "k = boundary_below s limit - b"
    assume "\<not> boundary_below s limit \<le> b"
    then have k: "0 < k" "boundary_below s limit = b + k"
      by (simp_all add: k_def)
    then have "k < length ch"
      using boundary_below_le [of s limit] rest(2) by (simp add: ch)
    then have "continuation (s ! (b + k))"
      using nth inner k(1) by simp
    moreover have "0 < b + k" "b + k < length s"
      using k boundary_below_le [of s limit] assms(2) by auto
    ultimately show False
      using boundary_below_boundary [of s limit] by (simp add: k(2) is_char_boundary_def)
  qed
  ultimately show ?thesis
    by (simp add: b_def)
qed

text \<open>The worker's two truncations to a number of bytes agree: cutting at the last character
  boundary within the limit, as for probe bodies, gives what collecting whole characters
  gives, as for documents.\<close>

theorem both_truncations_agree:
  assumes "utf8 value"
  shows "truncate_text_to_bytes value limit = truncate_bytes value limit"
proof (cases "length value \<le> limit")
  case False
  then have "truncate_text_to_bytes value limit = take (length (concat (fit limit (chars value)))) (concat (chars value))"
    using assms by (simp add: truncate_text_to_bytes_def boundary_below_fit)
  then show ?thesis
    by (simp only: take_fit truncate_bytes_fit)
qed (simp add: truncate_text_to_bytes_def truncate_bytes_def)

theorem both_truncations_agree_witness:
  "truncate_text_to_bytes [CHR ''a'', CHR 0xC3, CHR 0xA9] 2 = truncate_bytes [CHR ''a'', CHR 0xC3, CHR 0xA9] 2
   \<and> truncate_bytes [CHR ''a'', CHR 0xC3, CHR 0xA9] 2 = ''a''"
proof -
  have "utf8 [CHR ''a'', CHR 0xC3, CHR 0xA9]" by code_simp
  from both_truncations_agree [OF this, of 2] show ?thesis by code_simp
qed

section \<open>Probing a URL twice\<close>

lemma check_fixtures_distinct:
  "check_fixtures we caps seen fs = Inr () \<Longrightarrow> distinct (map hf_request_url fs) \<and> set seen \<inter> set (map hf_request_url fs) = {}"
  by (induction we caps seen fs rule: check_fixtures.induct) (auto simp: rbind_Inr_iff split: if_splits)

lemma validated_fixtures:
  "validate_http_fixtures we fs caps = Inr () \<Longrightarrow> distinct (map hf_request_url fs) \<and> length fs \<le> 8"
  using check_fixtures_distinct by (auto simp: validate_http_fixtures_def split: if_splits)

lemma validate_all_iff: "validate_all f xs = Inr () \<longleftrightarrow> (\<forall>x\<in>set xs. f x = Inr ())"
  by (induction xs) (auto simp: rbind_Inr_iff)

lemma validated_tests:
  assumes "validate_contract we args job corrections caps records = Inr draft" "t \<in> set (dr_tests draft)"
  shows "validate_test we t (cj_output_format job) caps = Inr ()"
  using assms by (auto simp: validate_contract_def Let_def rbind_Inr_iff validate_all_iff split: if_splits)

text \<open>Once the agent has probed one URL twice, no contract of a job with examples is accepted any
  more: the recorded responses go into the test of every example, and the requests of a
  test's fixtures must be unique.\<close>

theorem repeated_probe_blocks_contracts:
  assumes "cj_examples job \<noteq> []" "\<not> distinct (map hp_request_url records)"
  shows "\<exists>e. validate_contract we args job corrections caps records = Inl e"
proof (rule ccontr)
  assume "\<nexists>e. validate_contract we args job corrections caps records = Inl e"
  then obtain draft where draft: "validate_contract we args job corrections caps records = Inr draft"
    by (cases "validate_contract we args job corrections caps records") auto
  let ?e = "effective_examples job corrections ! 0"
  have "user_test (probe_records_to_fixtures records) 0 ?e \<in> set (contract_tests job corrections records (sc_tests args))"
    using assms(1) by (cases "cj_examples job") (auto simp: contract_tests_def effective_examples_def)
  moreover have "dr_tests draft = contract_tests job corrections records (sc_tests args)"
    using draft by (auto simp: validate_contract_def Let_def rbind_Inr_iff split: if_splits)
  ultimately have "validate_test we (user_test (probe_records_to_fixtures records) 0 ?e) (cj_output_format job) caps = Inr ()"
    using validated_tests [OF draft] by simp
  then have "validate_http_fixtures we (probe_records_to_fixtures records) caps = Inr ()"
    by (auto simp: validate_test_def user_test_def split: if_splits)
  then have "distinct (map hp_request_url records)"
    by (auto simp: probe_records_to_fixtures_def comp_def dest: validated_fixtures)
  with assms(2) show False
    by simp
qed

definition looked_up :: http_probe_record where
  "looked_up = \<lparr>hp_capability_hash = ''h'', hp_request_url = ''https://a.example/'', hp_final_url = ''https://a.example/'',
     hp_status = 200, hp_content_type = ''text/plain'', hp_body = ''a''\<rparr>"

definition slug_job :: claimed_synthesis_job where
  "slug_job = \<lparr>cj_job_id = 20, cj_tool_id = 10, cj_tool = ''slug'', cj_revision = 1, cj_intent = ''make a slug'',
     cj_input_format = Text, cj_output_format = Text, cj_examples = [\<lparr>te_input = ''A'', te_output = ''a''\<rparr>],
     cj_input_samples = [], cj_attempts = 1, cj_agent_checkpoint = None\<rparr>"

theorem repeated_probe_blocks_contracts_witness:
  "\<forall>we args caps. \<exists>e. validate_contract we args slug_job [] caps [looked_up, looked_up] = Inl e"
proof (intro allI)
  fix we args caps
  show "\<exists>e. validate_contract we args slug_job [] caps [looked_up, looked_up] = Inl e"
    by (rule repeated_probe_blocks_contracts) (simp_all add: slug_job_def)
qed

end
