(* ===== verification/Model_Calls.thy ===== *)
theory Model_Calls
  imports Synthesis
begin

text \<open>
  How often a model is called and how long the worker sleeps for it, and what an accepted
  review or verdict looks like.
\<close>

lemma nth_delay: "i < length provider_retry_delays \<Longrightarrow>
  provider_retry_delays ! i + sum_list (drop (Suc i) provider_retry_delays) = sum_list (drop i provider_retry_delays)"
  by (simp add: Cons_nth_drop_Suc [symmetric])

text \<open>What is left of the two limits.\<close>

definition requests_left :: "nat \<Rightarrow> nat \<Rightarrow> nat" where
  "requests_left provider protocol =
     Suc (length provider_retry_delays - provider)
     + (model_protocol_retries - protocol) * Suc (length provider_retry_delays)"

definition sleep_left :: "nat \<Rightarrow> nat \<Rightarrow> nat" where
  "sleep_left provider protocol =
     sum_list (drop provider provider_retry_delays) + (model_protocol_retries - protocol) * sum_list provider_retry_delays"

lemma after_protocol_retry:
  assumes "p < model_protocol_retries"
  shows "Suc (requests_left 0 (Suc p)) \<le> requests_left i p" "sleep_left 0 (Suc p) \<le> sleep_left i p"
  using assms by (auto simp: requests_left_def sleep_left_def model_protocol_retries_def)

lemma after_provider_retry:
  assumes "i < length provider_retry_delays"
  shows "Suc (requests_left (Suc i) p) = requests_left i p"
    "provider_retry_delays ! i + sleep_left (Suc i) p = sleep_left i p"
  using assms nth_delay [OF assms] by (auto simp: requests_left_def sleep_left_def)

lemma requests_left_pos: "Suc 0 \<le> requests_left i p"
  by (simp add: requests_left_def)

lemma call_model_from_bounded:
  "call_model_from env retry names sent provider protocol prompt history usage = (r, n, slept) \<Longrightarrow>
   n \<le> sent + requests_left provider protocol \<and> slept \<le> sleep_left provider protocol"
proof (induction env retry names sent provider protocol prompt history usage arbitrary: r n slept
    rule: call_model_from.induct)
  case (1 env retry names sent provider protocol prompt history usage)
  note step = 1(4) [unfolded call_model_from.simps [of env retry names sent provider protocol prompt history usage]]
  show ?case
  proof (cases "me_context_size env prompt history > model_context_limit")
    case True
    with step show ?thesis
      by auto
  next
    case False
    show ?thesis
    proof (cases "me_reply env sent prompt history")
      case (ModelResponse mid choice used)
      with step False 1(1) [OF False ModelResponse] after_protocol_retry [of protocol provider]
        requests_left_pos [of provider protocol]
      show ?thesis
        by (auto split: if_splits)
    next
      case (ModelError status message)
      with step False 1(2) [OF False ModelError] after_provider_retry [of provider protocol]
        requests_left_pos [of provider protocol]
      show ?thesis
        by (fastforce split: if_splits prod.splits)
    next
      case ModelTimedOut
      with step False 1(3) [OF False ModelTimedOut] after_provider_retry [of provider protocol]
        requests_left_pos [of provider protocol]
      show ?thesis
        by (fastforce split: if_splits prod.splits)
    qed
  qed
qed

lemma call_model_bounded:
  assumes "call_model env retry names sent prompt history = (r, n, slept)"
  shows "n \<le> sent + 8" "slept \<le> 100"
  using call_model_from_bounded [OF assms [unfolded call_model_def]]
  by (simp_all add: requests_left_def sleep_left_def provider_retry_delays_def model_protocol_retries_def)

lemma submit_loop_bounded:
  "submit_loop env names parse failure sent prompts = (r, n) \<Longrightarrow> n \<le> sent + 8 * length prompts"
proof (induction prompts arbitrary: sent r n)
  case (Cons prompt prompts)
  obtain turn sent' slept where call: "call_model env True names sent prompt [] = (turn, sent', slept)"
    by (cases "call_model env True names sent prompt []")
  with Cons show ?case
    using call_model_bounded(1) [OF call] by (fastforce split: sum.splits)
qed simp

text \<open>A result of \<open>submit_loop\<close> is the result of the parser on some turn.\<close>

lemma submit_loop_parsed:
  "submit_loop env names parse failure sent prompts = (Inr x, n) \<Longrightarrow> \<exists>turn. parse turn = Inr x"
proof (induction prompts arbitrary: sent)
  case (Cons prompt prompts)
  then show ?case
    by (cases "call_model env True names sent prompt []") (auto split: sum.splits)
qed simp

definition review_acceptable :: "contract_review \<Rightarrow> bool" where
  "review_acceptable r =
     (trim (cr_reason r) \<noteq> [] \<and> length (cr_reason r) \<le> 2048 \<and> length (cr_issues r) \<le> 3
      \<and> list_all (\<lambda>i. trim i \<noteq> [] \<and> length i \<le> 2048) (cr_issues r)
      \<and> (cr_decision r = AcceptContract \<longleftrightarrow> cr_issues r = []))"

definition verdict_acceptable :: "test_verdict \<Rightarrow> bool" where
  "verdict_acceptable v =
     (trim (tv_reason v) \<noteq> [] \<and> length (tv_reason v) \<le> 2048
      \<and> (if tv_classification v = OracleWrong
         then tv_expected_exit_code v \<noteq> None \<and> pred_option (\<lambda>s. length s \<le> 1024 * 1024) (tv_expected_stdout v)
              \<and> tv_expected_stdout v \<noteq> None
         else tv_expected_stdout v = None \<and> tv_expected_exit_code v = None))"

lemma parsed_review_acceptable: "parse_contract_review_turn turn = Inr r \<Longrightarrow> review_acceptable r"
  by (auto simp: parse_contract_review_turn_def review_acceptable_def validate_reason_def rbind_Inr_iff list_ex_iff
      list_all_iff not_less split: list.splits if_splits review_decision.splits)

lemma parsed_verdict_acceptable: "parse_verifier_turn turn = Inr v \<Longrightarrow> verdict_acceptable v"
  by (auto simp: parse_verifier_turn_def verdict_acceptable_def validate_reason_def rbind_Inr_iff ok_or_def not_less
      split: list.splits if_splits verdict_kind.splits option.splits)

text \<open>C25: a contract review ends after at most 16 requests to the model, and a review it returns
  has a reason and at most three issues within the length limits, with issues exactly when
  the contract is not accepted.\<close>

theorem review_is_bounded:
  assumes "review_contract env encode request = (result, requests)"
  shows "requests \<le> 16 \<and> (\<forall>review. result = Inr review \<longrightarrow> review_acceptable review)"
  using assms submit_loop_bounded [OF assms [unfolded review_contract_def Let_def]]
  by (auto simp: review_contract_def Let_def simp del: submit_loop.simps dest: submit_loop_parsed parsed_review_acceptable)

definition accepting_reviewer :: model_env where
  "accepting_reviewer = \<lparr>me_reply = (\<lambda>_ _ _. ModelResponse None [ToolCallContent \<lparr>cl_id = ''c1'', cl_call_id = None,
       cl_name = ''submit_contract_review'',
       cl_arguments = json_object [(''decision'', JString ''accept''), (''reason'', JString ''fine'')]\<rparr>] 5),
     me_context_size = (\<lambda>_ _. 10)\<rparr>"

lemma accepting_turn:
  "call_model accepting_reviewer True names sent prompt history = (Inr \<lparr>mt_message_id = None,
     mt_choice = [ToolCallContent \<lparr>cl_id = ''c1'', cl_call_id = None, cl_name = ''submit_contract_review'',
       cl_arguments = json_object [(''decision'', JString ''accept''), (''reason'', JString ''fine'')]\<rparr>],
     mt_usage = 5, mt_tools = names\<rparr>, Suc sent, 0)"
  by (simp add: call_model_def call_model_from.simps accepting_reviewer_def has_tool_call_def model_context_limit_def)

lemma accepting_parse:
  "parse_contract_review_turn \<lparr>mt_message_id = None,
     mt_choice = [ToolCallContent \<lparr>cl_id = ''c1'', cl_call_id = None, cl_name = ''submit_contract_review'',
       cl_arguments = json_object [(''decision'', JString ''accept''), (''reason'', JString ''fine'')]\<rparr>],
     mt_usage = 5, mt_tools = names\<rparr> = Inr \<lparr>cr_decision = AcceptContract, cr_reason = ''fine'', cr_issues = []\<rparr>"
proof -
  have "review_from_value (json_object [(''decision'', JString ''accept''), (''reason'', JString ''fine'')]) =
      Some \<lparr>cr_decision = AcceptContract, cr_reason = ''fine'', cr_issues = []\<rparr>" "trim ''fine'' \<noteq> []"
    by code_simp+
  then show ?thesis
    by (simp add: parse_contract_review_turn_def tool_calls_def ok_or_def validate_reason_def)
qed

theorem review_is_bounded_witness:
  "\<forall>request. \<exists>requests. review_contract accepting_reviewer (\<lambda>_. ''request'') request =
      (Inr \<lparr>cr_decision = AcceptContract, cr_reason = ''fine'', cr_issues = []\<rparr>, requests) \<and> requests \<le> 16"
proof
  fix request
  have run: "review_contract accepting_reviewer (\<lambda>_. ''request'') request =
      (Inr \<lparr>cr_decision = AcceptContract, cr_reason = ''fine'', cr_issues = []\<rparr>, 1)"
    by (simp add: review_contract_def Let_def accepting_turn accepting_parse)
  from review_is_bounded [OF this] run
  show "\<exists>requests. review_contract accepting_reviewer (\<lambda>_. ''request'') request =
      (Inr \<lparr>cr_decision = AcceptContract, cr_reason = ''fine'', cr_issues = []\<rparr>, requests) \<and> requests \<le> 16"
    by simp
qed

end
