(* ===== verification/Agent_Values.thy ===== *)
theory Agent_Values
  imports Contract
begin

text \<open>
  The \<open>serde\<close> images of what the agent exchanges: how the arguments of a tool call are read
  (a missing field with \<open>#[serde(default)]\<close> takes its default, unknown fields are ignored)
  and how results, events and the manifest are written.
\<close>

section \<open>Reading arguments\<close>

definition as_u16 :: "json \<Rightarrow> nat option" where
  "as_u16 v = (case as_u64 v of None \<Rightarrow> None | Some n \<Rightarrow> if n < 65536 then Some n else None)"

definition fixture_from_value :: "json \<Rightarrow> http_fixture option" where
  "fixture_from_value v =
     (case (get_string ''request_url'' v, get_string ''response_url'' v, Option.bind (json_get ''status'' v) as_u16,
            get_string ''content_type'' v, get_string ''body'' v) of
        (Some q, Some r, Some s, Some c, Some b) \<Rightarrow>
          Some \<lparr>hf_request_url = q, hf_response_url = r, hf_status = s, hf_content_type = c, hf_body = b\<rparr>
      | _ \<Rightarrow> None)"

definition test_case_from_value :: "json \<Rightarrow> test_case option" where
  "test_case_from_value v =
     (case (get_string ''name'' v, get_default ''args'' [] strings_from_value v, get_string ''stdin'' v,
            get_string ''expected_stdout'' v, get_default ''expected_exit_code'' 0 as_i32 v,
            get_default ''http_fixtures'' [] (list_from_value fixture_from_value) v) of
        (Some n, Some a, Some i, Some e, Some c, Some f) \<Rightarrow>
          Some \<lparr>tt_name = n, tt_args = a, tt_stdin = i, tt_expected_stdout = e, tt_expected_exit_code = c, tt_http_fixtures = f\<rparr>
      | _ \<Rightarrow> None)"

definition submit_contract_args_from :: "json \<Rightarrow> submit_contract_args option" where
  "submit_contract_args_from v =
     (case (get_string ''summary'' v, get_default ''assumptions'' [] strings_from_value v,
            get_default ''invariants'' [] strings_from_value v,
            get_default ''tests'' [] (list_from_value test_case_from_value) v, get_string ''reason'' v) of
        (Some s, Some a, Some i, Some t, Some r) \<Rightarrow>
          Some \<lparr>sc_summary = s, sc_assumptions = a, sc_invariants = i, sc_tests = t, sc_reason = r\<rparr>
      | _ \<Rightarrow> None)"

definition strings2 :: "string \<Rightarrow> string \<Rightarrow> json \<Rightarrow> (string \<times> string) option" where
  "strings2 k l v = (case (get_string k v, get_string l v) of (Some a, Some b) \<Rightarrow> Some (a, b) | _ \<Rightarrow> None)"

definition strings3 :: "string \<Rightarrow> string \<Rightarrow> string \<Rightarrow> json \<Rightarrow> (string \<times> string \<times> string) option" where
  "strings3 k l m v =
     (case (get_string k v, get_string l v, get_string m v) of (Some a, Some b, Some c) \<Rightarrow> Some (a, b, c) | _ \<Rightarrow> None)"

definition write_source_args_from :: "json \<Rightarrow> (string \<times> string) option" where
  "write_source_args_from v = strings2 ''source'' ''reason'' v"

definition edit_source_args_from :: "json \<Rightarrow> (string \<times> string \<times> string) option" where
  "edit_source_args_from v = strings3 ''old_text'' ''new_text'' ''reason'' v"

definition probe_args_from :: "json \<Rightarrow> probe_args option" where
  "probe_args_from v =
     (case (get_default ''args'' [] strings_from_value v, get_default ''stdin'' '''' as_str v, get_string ''reason'' v) of
        (Some a, Some i, Some r) \<Rightarrow> Some \<lparr>ba_args = a, ba_stdin = i, ba_reason = r\<rparr>
      | _ \<Rightarrow> None)"

definition review_test_args_from :: "json \<Rightarrow> (string \<times> string) option" where
  "review_test_args_from v = strings2 ''test_name'' ''reason'' v"

definition abort_args_from :: "json \<Rightarrow> string option" where
  "abort_args_from v = get_string ''reason'' v"

definition clarification_args_from :: "json \<Rightarrow> clarification_args option" where
  "clarification_args_from v =
     (case (get_string ''decision_key'' v, get_string ''question'' v,
            get_default ''choices'' [] (list_from_value choice_from_value) v, get_string ''reason'' v) of
        (Some k, Some q, Some c, Some r) \<Rightarrow>
          Some \<lparr>qa_decision_key = k, qa_question = q, qa_choices = c, qa_reason = r\<rparr>
      | _ \<Rightarrow> None)"

definition correction_args_from :: "json \<Rightarrow> correction_args option" where
  "correction_args_from v =
     (case (Option.bind (json_get ''example_index'' v) as_u64, get_string ''corrected_input'' v,
            get_string ''corrected_output'' v, get_string ''reason'' v) of
        (Some i, Some a, Some b, Some r) \<Rightarrow>
          Some \<lparr>xa_example_index = i, xa_corrected_input = a, xa_corrected_output = b, xa_reason = r\<rparr>
      | _ \<Rightarrow> None)"

definition search_args_from :: "json \<Rightarrow> (string \<times> string) option" where
  "search_args_from v = strings2 ''query'' ''reason'' v"

definition fetch_args_from :: "json \<Rightarrow> (string \<times> string) option" where
  "fetch_args_from v = strings2 ''url'' ''reason'' v"

definition capability_args_from :: "json \<Rightarrow> capability_args option" where
  "capability_args_from v =
     (case (get_string ''host'' v, get_string ''path_prefix'' v, get_default ''query_keys'' [] strings_from_value v,
            get_string ''purpose'' v, get_string ''reason'' v) of
        (Some h, Some p, Some k, Some u, Some r) \<Rightarrow>
          Some \<lparr>ca_host = h, ca_path_prefix = p, ca_query_keys = k, ca_purpose = u, ca_reason = r\<rparr>
      | _ \<Rightarrow> None)"

definition release_args_from :: "json \<Rightarrow> (string \<times> string) option" where
  "release_args_from v = strings2 ''capability_hash'' ''reason'' v"

definition probe_http_args_from :: "json \<Rightarrow> (string \<times> string) option" where
  "probe_http_args_from v = strings2 ''url'' ''reason'' v"

section \<open>Writing values\<close>

definition contract_to_value :: "tool_contract \<Rightarrow> json" where
  "contract_to_value c = json_object
     [(''summary'', JString (tc_summary c)), (''assumptions'', strings_to_value (tc_assumptions c)),
      (''invariants'', strings_to_value (tc_invariants c))]"

definition fixture_to_value :: "http_fixture \<Rightarrow> json" where
  "fixture_to_value f = json_object
     [(''request_url'', JString (hf_request_url f)), (''response_url'', JString (hf_response_url f)),
      (''status'', json_nat (hf_status f)), (''content_type'', JString (hf_content_type f)), (''body'', JString (hf_body f))]"

definition test_case_to_value :: "test_case \<Rightarrow> json" where
  "test_case_to_value t = json_object
     ([(''name'', JString (tt_name t)), (''args'', strings_to_value (tt_args t)), (''stdin'', JString (tt_stdin t)),
       (''expected_stdout'', JString (tt_expected_stdout t)), (''expected_exit_code'', json_int (tt_expected_exit_code t))]
      @ (if tt_http_fixtures t = [] then [] else [(''http_fixtures'', JArray (map fixture_to_value (tt_http_fixtures t)))]))"

fun test_origin_as_str :: "test_origin \<Rightarrow> string" where
  "test_origin_as_str UserTest = ''user''"
| "test_origin_as_str GeneratedTest = ''generated''"
| "test_origin_as_str InputSample = ''input_sample''"

definition failure_to_value :: "validation_failure \<Rightarrow> json" where
  "failure_to_value f = json_object
     [(''test_name'', JString (vf_test_name f)), (''test_origin'', JString (test_origin_as_str (vf_test_origin f))),
      (''diagnostic'', JString (vf_diagnostic f)), (''actual_stdout'', JString (vf_actual_stdout f)),
      (''actual_stderr'', JString (vf_actual_stderr f)), (''actual_exit_code'', json_opt json_int (vf_actual_exit_code f))]"

definition decision_to_value :: "resolved_decision \<Rightarrow> json" where
  "decision_to_value d = json_object
     [(''key'', JString (rd_key d)), (''question'', JString (rd_question d)), (''answer'', JString (rd_answer d))]"

definition correction_to_value :: "example_correction \<Rightarrow> json" where
  "correction_to_value c = json_object
     [(''example_index'', json_nat (ec_example_index c)), (''original'', example_to_value (ec_original c)),
      (''corrected'', example_to_value (ec_corrected c)), (''reason'', JString (ec_reason c))]"

fun review_decision_as_str :: "review_decision \<Rightarrow> string" where
  "review_decision_as_str AcceptContract = ''accept''"
| "review_decision_as_str ReviseContract = ''revise''"
| "review_decision_as_str RejectContract = ''reject''"

definition review_to_value :: "contract_review \<Rightarrow> json" where
  "review_to_value r = json_object
     [(''decision'', JString (review_decision_as_str (cr_decision r))), (''reason'', JString (cr_reason r)),
      (''issues'', strings_to_value (cr_issues r))]"

fun verdict_kind_as_str :: "verdict_kind \<Rightarrow> string" where
  "verdict_kind_as_str ImplementationWrong = ''implementation_wrong''"
| "verdict_kind_as_str OracleWrong = ''oracle_wrong''"
| "verdict_kind_as_str Ambiguous = ''ambiguous''"

definition verdict_to_value :: "test_verdict \<Rightarrow> json" where
  "verdict_to_value v = json_object
     [(''classification'', JString (verdict_kind_as_str (tv_classification v))), (''reason'', JString (tv_reason v)),
      (''expected_stdout'', json_opt JString (tv_expected_stdout v)),
      (''expected_exit_code'', json_opt json_int (tv_expected_exit_code v))]"

definition verification_request_to_value :: "verification_request \<Rightarrow> json" where
  "verification_request_to_value q = json_object
     [(''intent'', JString (vq_intent q)), (''input_format'', JString (io_format_as_str (vq_input_format q))),
      (''output_format'', JString (io_format_as_str (vq_output_format q))),
      (''contract'', contract_to_value (vq_contract q)),
      (''immutable_user_tests'', JArray (map test_case_to_value (vq_immutable_user_tests q))),
      (''generated_test'', test_case_to_value (vq_generated_test q)), (''current_source'', JString (vq_current_source q)),
      (''failure'', failure_to_value (vq_failure q)), (''review_reason'', JString (vq_review_reason q))]"

definition search_result_to_value :: "search_result \<Rightarrow> json" where
  "search_result_to_value r = json_object
     [(''title'', JString (sr_title r)), (''url'', JString (sr_url r)), (''snippet'', JString (sr_snippet r))]"

definition document_to_value :: "fetched_document \<Rightarrow> json" where
  "document_to_value d = json_object
     [(''url'', JString (fd_url d)), (''content_type'', JString (fd_content_type d)), (''text'', JString (fd_text d))]"

definition probe_record_to_value :: "http_probe_record \<Rightarrow> json" where
  "probe_record_to_value p = json_object
     [(''capability_hash'', JString (hp_capability_hash p)), (''request_url'', JString (hp_request_url p)),
      (''final_url'', JString (hp_final_url p)), (''status'', json_nat (hp_status p)),
      (''content_type'', JString (hp_content_type p)), (''body'', JString (hp_body p))]"

definition grant_to_value :: "http_capability_grant \<Rightarrow> json" where
  "grant_to_value g = json_object
     [(''approval_hash'', JString (hg_approval_hash g)), (''capability'', capability_to_value (hg_capability g))]"

definition manifest_to_value :: "artifact_manifest \<Rightarrow> json" where
  "manifest_to_value m = json_object
     ([(''format_version'', json_nat (mf_format_version m)), (''runtime'', JString (mf_runtime m)),
       (''input_format'', JString (io_format_as_str (mf_input_format m))),
       (''output_format'', JString (io_format_as_str (mf_output_format m))),
       (''source_sha256'', JString (mf_source_sha256 m))]
      @ (if mf_http_capabilities m = [] then [] else [(''http_capabilities'', JArray (map grant_to_value (mf_http_capabilities m)))]))"

definition validation_to_value :: "validation_summary \<Rightarrow> json" where
  "validation_to_value s = json_object
     [(''tests_total'', json_nat (vs_tests_total s)), (''tests_passed'', json_nat (vs_tests_passed s)),
      (''input_samples_total'', json_nat (vs_input_samples_total s)), (''input_samples_passed'', json_nat (vs_input_samples_passed s)),
      (''repair_rounds'', json_nat (vs_repair_rounds s)), (''agent_turns'', json_nat (vs_agent_turns s)),
      (''generated_test_corrections'', json_nat (vs_generated_test_corrections s)), (''probes_run'', json_nat (vs_probes_run s)),
      (''validated_at'', JString (vs_validated_at s))]"

end
