(* ===== verification/Agent.thy ===== *)
theory Agent
  imports Agent_Values Registry_Jobs
begin

text \<open>
  The agent of src/apps/jit-worker/src/jobs.rs: its workspace and the operations on it.  An
  action reads and writes the world - the registry's tables, the artifact store, the
  workspace, the log of what left the worker and of the candidates it ran - and fails with a \<open>job_failure\<close>, keeping
  the changes made so far, as the code does when it returns early.  \<open>None\<close> is an action the
  code would wait for without end.  What the outside does is the record \<open>agent_env\<close>, indexed
  by the number of interactions so far; before each access to the registry it may also commit
  what other clients did.
\<close>

section \<open>State\<close>

record agent_metrics =
  am_turns :: nat
  am_source_revisions :: nat
  am_generated_test_corrections :: nat
  am_probes_run :: nat
  am_web_searches :: nat
  am_documents_fetched :: nat
  am_http_probes :: nat

record agent_workspace =
  ws_draft :: "synthesis_draft option"
  ws_source :: "string option"
  ws_current_artifact_digest :: "string option"
  ws_latest_failure :: "validation_failure option"
  ws_metrics :: agent_metrics
  ws_candidate_digests :: "string list"
  ws_candidate_sources :: "string list"
  ws_http_capabilities :: "approved_capability list"
  ws_http_probe_records :: "http_probe_record list"
  ws_resolved_decisions :: "(string \<times> resolved_decision) list"
  ws_example_corrections :: "(nat \<times> example_correction) list"
  ws_probe_results :: "(string \<times> json) list"
  ws_contract_reviews :: "contract_review list"

definition default_workspace :: agent_workspace where
  "default_workspace =
     \<lparr>ws_draft = None, ws_source = None, ws_current_artifact_digest = None, ws_latest_failure = None,
      ws_metrics = \<lparr>am_turns = 0, am_source_revisions = 0, am_generated_test_corrections = 0, am_probes_run = 0,
                    am_web_searches = 0, am_documents_fetched = 0, am_http_probes = 0\<rparr>,
      ws_candidate_digests = [], ws_candidate_sources = [], ws_http_capabilities = [], ws_http_probe_records = [],
      ws_resolved_decisions = [], ws_example_corrections = [], ws_probe_results = [], ws_contract_reviews = []\<rparr>"

definition max_job_attempts :: nat where "max_job_attempts = 3"
definition max_agent_turns :: nat where "max_agent_turns = 24"
definition max_source_revisions :: nat where "max_source_revisions = 4"
definition max_generated_test_corrections :: nat where "max_generated_test_corrections = 3"
definition max_probes :: nat where "max_probes = 3"
definition max_web_searches :: nat where "max_web_searches = 4"
definition max_document_fetches :: nat where "max_document_fetches = 6"
definition max_http_probes :: nat where "max_http_probes = 6"
definition max_http_capabilities :: nat where "max_http_capabilities = 8"

datatype tool_execution = ContinueWith json | PublishedDigest string

record agent_env =
  ae_worker :: worker_ext
  ae_artifact :: artifact_ext
  ae_runner :: docker_runner
  ae_web :: web_access
  ae_worker_id :: string
  ae_docker :: "nat \<Rightarrow> docker"
  ae_net :: "nat \<Rightarrow> net"
  ae_clock :: "nat \<Rightarrow> time"
  ae_others :: "nat \<Rightarrow> db \<Rightarrow> db"
  ae_uuid :: "nat \<Rightarrow> uuid"
  ae_uuid_text :: "nat \<Rightarrow> string"
  ae_put_io :: "nat \<Rightarrow> put_io"
  ae_remove_io :: "nat \<Rightarrow> (string \<Rightarrow> bool) option"
  ae_utc_text :: "nat \<Rightarrow> string"
  ae_complete :: "nat \<Rightarrow> model_request \<Rightarrow> synthesis_error + model_turn"
  ae_review :: "nat \<Rightarrow> review_request \<Rightarrow> synthesis_error + contract_review"
  ae_verify :: "nat \<Rightarrow> verification_request \<Rightarrow> synthesis_error + test_verdict"
  ae_describe :: "job_failure \<Rightarrow> string"

text \<open>The run of a candidate, with what it was given and what came back.\<close>

record candidate_run =
  cn_digest :: string
  cn_args :: "string list"
  cn_stdin :: string
  cn_fixtures :: "http_fixture list option"
  cn_result :: "runner_error + execution_output"

record world =
  w_db :: db
  w_store :: artifact_store
  w_ws :: agent_workspace
  w_tick :: nat
  w_sent :: "(url \<times> ip_addr) list"
  w_commands :: "string list list"
  w_runs :: "candidate_run list"

section \<open>Actions\<close>

type_synonym 'a act = "world \<Rightarrow> ((job_failure + 'a) \<times> world) option"

definition ret :: "'a \<Rightarrow> 'a act" where
  "ret x = (\<lambda>w. Some (Inr x, w))"

definition fail :: "job_failure \<Rightarrow> 'a act" where
  "fail e = (\<lambda>w. Some (Inl e, w))"

definition andthen :: "'a act \<Rightarrow> ('a \<Rightarrow> 'b act) \<Rightarrow> 'b act" where
  "andthen m k = (\<lambda>w. case m w of
       None \<Rightarrow> None
     | Some (Inl e, w') \<Rightarrow> Some (Inl e, w')
     | Some (Inr x, w') \<Rightarrow> k x w')"

definition from_result :: "job_failure + 'a \<Rightarrow> 'a act" where
  "from_result r = (case r of Inl e \<Rightarrow> fail e | Inr x \<Rightarrow> ret x)"

definition require :: "bool \<Rightarrow> job_failure \<Rightarrow> unit act" where
  "require b e = (if b then ret () else fail e)"

definition with_ws :: "(agent_workspace \<Rightarrow> 'a act) \<Rightarrow> 'a act" where
  "with_ws k = (\<lambda>w. k (w_ws w) w)"

definition update_ws :: "(agent_workspace \<Rightarrow> agent_workspace) \<Rightarrow> unit act" where
  "update_ws f = (\<lambda>w. Some (Inr (), w\<lparr>w_ws := f (w_ws w)\<rparr>))"

definition update_metrics :: "(agent_metrics \<Rightarrow> agent_metrics) \<Rightarrow> unit act" where
  "update_metrics f = update_ws (\<lambda>ws. ws\<lparr>ws_metrics := f (ws_metrics ws)\<rparr>)"

text \<open>An interaction with the outside: it sees the number of those before it.\<close>

definition interact :: "(nat \<Rightarrow> world \<Rightarrow> 'a \<times> world) \<Rightarrow> 'a act" where
  "interact f = (\<lambda>w. let (x, w') = f (w_tick w) w in Some (Inr x, w'\<lparr>w_tick := Suc (w_tick w)\<rparr>))"

definition registry_write :: "agent_env \<Rightarrow> (nat \<Rightarrow> time \<Rightarrow> db \<Rightarrow> 'a committed) \<Rightarrow> 'a act" where
  "registry_write env f = andthen (interact (\<lambda>n w.
       let d = ae_others env n (w_db w) in
       case f n (ae_clock env n) d of
         Inl e \<Rightarrow> (Inl (StorageFailure e), w\<lparr>w_db := d\<rparr>)
       | Inr (x, d') \<Rightarrow> (Inr x, w\<lparr>w_db := d'\<rparr>))) from_result"

definition registry_read :: "agent_env \<Rightarrow> (db \<Rightarrow> 'a sres) \<Rightarrow> 'a act" where
  "registry_read env f = andthen (interact (\<lambda>n w.
       let d = ae_others env n (w_db w) in
       (case f d of Inl e \<Rightarrow> Inl (StorageFailure e) | Inr x \<Rightarrow> Inr x, w\<lparr>w_db := d\<rparr>))) from_result"

definition event :: "agent_env \<Rightarrow> claimed_synthesis_job \<Rightarrow> string \<Rightarrow> json \<Rightarrow> unit act" where
  "event env job kind payload =
     registry_write env (\<lambda>n now. append_agent_event (we_registry (ae_worker env)) now (cj_job_id job)
       (ae_worker_id env) kind payload)"

definition set_stage :: "agent_env \<Rightarrow> claimed_synthesis_job \<Rightarrow> job_stage \<Rightarrow> unit act" where
  "set_stage env job stage =
     andthen (registry_write env (\<lambda>n now. set_job_stage_job now (cj_job_id job) (ae_worker_id env) stage)) (\<lambda>_.
     registry_write env (\<lambda>n now d. Inr ((), set_job_stage_version now (cj_job_id job) stage d)))"

definition suspend :: "agent_env \<Rightarrow> claimed_synthesis_job \<Rightarrow> (uuid \<Rightarrow> new_job_input) \<Rightarrow> 'a act" where
  "suspend env job question =
     andthen (registry_write env (\<lambda>n now. suspend_job_for_input (we_registry (ae_worker env)) now (cj_job_id job)
       (ae_worker_id env) (question (ae_uuid env n)))) (\<lambda>_. fail AwaitingInput)"

definition synthesis_result :: "synthesis_error + 'a \<Rightarrow> 'a act" where
  "synthesis_result r = from_result (case r of Inl e \<Rightarrow> Inl (SynthesisFailure e) | Inr x \<Rightarrow> Inr x)"

definition parse_args :: "'a option \<Rightarrow> 'a act" where
  "parse_args args = from_result (ok_or JsonFailure args)"

definition reply :: "(string \<times> json) list \<Rightarrow> tool_execution act" where
  "reply entries = ret (ContinueWith (json_object entries))"

section \<open>Running candidates\<close>

definition run_candidate :: "agent_env \<Rightarrow> string \<Rightarrow> string list \<Rightarrow> string \<Rightarrow> http_fixture list option
    \<Rightarrow> (runner_error + execution_output) act" where
  "run_candidate env digest args stdin fixtures = (\<lambda>w.
     let n = w_tick w;
         d = ae_others env n (w_db w);
         (result, commands) = execute_inner (ae_artifact env) (ae_docker env n) (ae_runner env)
           (''jitforge-'' @ ae_uuid_text env n) d (w_store w) digest args stdin fixtures;
         w' = w\<lparr>w_db := d, w_tick := Suc n, w_commands := w_commands w @ commands\<rparr>
     in case result of None \<Rightarrow> None
        | Some r \<Rightarrow> Some (Inr r, w'\<lparr>w_runs := w_runs w @ [\<lparr>cn_digest = digest, cn_args = args, cn_stdin = stdin,
            cn_fixtures = fixtures, cn_result = r\<rparr>]\<rparr>))"

definition build_candidate :: "agent_env \<Rightarrow> string \<Rightarrow> unit act" where
  "build_candidate env digest = andthen (interact (\<lambda>n w.
       let (result, commands) = build_artifact (ae_artifact env) (ae_docker env n) (w_store w) digest
       in (case result of Inl e \<Rightarrow> Inl (RunnerFailure e) | Inr _ \<Rightarrow> Inr (),
           w\<lparr>w_commands := w_commands w @ commands\<rparr>))) from_result"

fun run_samples :: "agent_env \<Rightarrow> string \<Rightarrow> io_format \<Rightarrow> http_fixture list \<Rightarrow> nat \<Rightarrow> string list
    \<Rightarrow> (validation_failure + unit) act" where
  "run_samples env digest output_format fixtures index [] = ret (Inr ())"
| "run_samples env digest output_format fixtures index (sample # samples) =
     andthen (run_candidate env digest [] sample (Some fixtures)) (\<lambda>result.
     case judge_sample (ae_worker env) (\<lambda>e. ae_describe env (RunnerFailure e)) output_format index result of
       Inl failure \<Rightarrow> ret (Inl failure)
     | Inr _ \<Rightarrow> run_samples env digest output_format fixtures (Suc index) samples)"

fun run_tests :: "agent_env \<Rightarrow> string \<Rightarrow> io_format \<Rightarrow> nat \<Rightarrow> nat \<Rightarrow> test_case list
    \<Rightarrow> (validation_failure + unit) act" where
  "run_tests env digest output_format user_test_count index [] = ret (Inr ())"
| "run_tests env digest output_format user_test_count index (test # tests) =
     andthen (run_candidate env digest (tt_args test) (tt_stdin test) (Some (tt_http_fixtures test))) (\<lambda>result.
     case judge_test (ae_worker env) (\<lambda>e. ae_describe env (RunnerFailure e)) output_format
            (if index < user_test_count then UserTest else GeneratedTest) test result of
       Inl failure \<Rightarrow> ret (Inl failure)
     | Inr _ \<Rightarrow> run_tests env digest output_format user_test_count (Suc index) tests)"

definition candidate_of :: "claimed_synthesis_job \<Rightarrow> synthesis_draft \<Rightarrow> string \<Rightarrow> agent_metrics
    \<Rightarrow> approved_capability list \<Rightarrow> string \<Rightarrow> new_artifact" where
  "candidate_of job draft source metrics capabilities validated_at =
     \<lparr>na_input_format = cj_input_format job, na_output_format = cj_output_format job,
      na_contract = dr_contract draft, na_source = source, na_tests = dr_tests draft,
      na_validation = \<lparr>vs_tests_total = length (dr_tests draft), vs_tests_passed = length (dr_tests draft),
        vs_input_samples_total = length (cj_input_samples job), vs_input_samples_passed = length (cj_input_samples job),
        vs_repair_rounds = am_source_revisions metrics - 1, vs_agent_turns = am_turns metrics,
        vs_generated_test_corrections = am_generated_test_corrections metrics, vs_probes_run = am_probes_run metrics,
        vs_validated_at = validated_at\<rparr>,
      na_http_capabilities = map (\<lambda>a. \<lparr>hg_approval_hash = ac_hash a, hg_capability = ac_capability a\<rparr>) capabilities\<rparr>"

definition store_candidate :: "agent_env \<Rightarrow> claimed_synthesis_job \<Rightarrow> synthesis_draft \<Rightarrow> string \<Rightarrow> stored_artifact act" where
  "store_candidate env job draft source = andthen (interact (\<lambda>n w.
       let (result, st) = put_artifact (ae_artifact env) (ae_put_io env n) (ae_uuid_text env n)
             (candidate_of job draft source (ws_metrics (w_ws w)) (ws_http_capabilities (w_ws w)) (ae_utc_text env n))
             (w_store w)
       in (case result of Inl e \<Rightarrow> Inl (ArtifactFailure e) | Inr a \<Rightarrow> Inr a, w\<lparr>w_store := st\<rparr>))) from_result"

definition published_artifact_of :: "stored_artifact \<Rightarrow> published_artifact" where
  "published_artifact_of a =
     \<lparr>pa_digest = sa_digest a, pa_relative_path = sa_relative_path a,
      pa_size_bytes = (case i64_try_from (sa_size_bytes a) of None \<Rightarrow> i64_max | Some i \<Rightarrow> i),
      pa_manifest = manifest_to_value (ab_manifest (sa_bundle a)),
      pa_contract = contract_to_value (ab_contract (sa_bundle a)),
      pa_assumptions = strings_to_value (tc_assumptions (ab_contract (sa_bundle a))),
      pa_validation_summary = validation_to_value (ab_validation (sa_bundle a))\<rparr>"

definition publish :: "agent_env \<Rightarrow> claimed_synthesis_job \<Rightarrow> stored_artifact \<Rightarrow> unit act" where
  "publish env job artifact =
     registry_write env (\<lambda>n now. publish_job (we_registry (ae_worker env)) now (cj_job_id job) (ae_worker_id env)
       (published_artifact_of artifact))"

definition validate_candidate :: "agent_env \<Rightarrow> claimed_synthesis_job \<Rightarrow> synthesis_draft \<Rightarrow> string
    \<Rightarrow> (validation_failure + unit) act" where
  "validate_candidate env job draft digest =
     with_ws (\<lambda>ws.
     andthen (run_samples env digest (cj_output_format job) (probe_records_to_fixtures (ws_http_probe_records ws)) 0
       (cj_input_samples job)) (\<lambda>r.
     case r of
       Inl failure \<Rightarrow> ret (Inl failure)
     | Inr _ \<Rightarrow> run_tests env digest (cj_output_format job) (dr_user_test_count draft) 0 (dr_tests draft)))"

definition evaluate_after_mutation :: "agent_env \<Rightarrow> claimed_synthesis_job \<Rightarrow> tool_execution act" where
  "evaluate_after_mutation env job =
     with_ws (\<lambda>ws.
     case ws_draft ws of
       None \<Rightarrow> fail (invalid_action ''contract is missing'')
     | Some draft \<Rightarrow>
       (case ws_source ws of
          None \<Rightarrow> fail (invalid_action ''source is missing'')
        | Some source \<Rightarrow>
          andthen (set_stage env job SBuilding) (\<lambda>_.
          andthen (store_candidate env job draft source) (\<lambda>artifact.
          andthen (update_ws (\<lambda>ws. ws
              \<lparr>ws_candidate_digests := List.insert (sa_digest artifact) (ws_candidate_digests ws),
               ws_candidate_sources := List.insert (mf_source_sha256 (ab_manifest (sa_bundle artifact))) (ws_candidate_sources ws),
               ws_current_artifact_digest := Some (sa_digest artifact)\<rparr>)) (\<lambda>_.
          andthen (build_candidate env (sa_digest artifact)) (\<lambda>_.
          andthen (set_stage env job SValidating) (\<lambda>_.
          andthen (validate_candidate env job draft (sa_digest artifact)) (\<lambda>validation.
          case validation of
            Inr _ \<Rightarrow>
              andthen (update_ws (\<lambda>ws. ws\<lparr>ws_latest_failure := None\<rparr>)) (\<lambda>_.
              andthen (publish env job artifact) (\<lambda>_.
              ret (PublishedDigest (sa_digest artifact))))
          | Inl failure \<Rightarrow>
              andthen (update_ws (\<lambda>ws. ws\<lparr>ws_latest_failure := Some failure\<rparr>)) (\<lambda>_.
              reply [(''ok'', JBool False), (''validation_failed'', failure_to_value failure)]))))))))) "

end
