(* ===== verification/Agent_Tools.thy ===== *)
theory Agent_Tools
  imports Agent
begin

text \<open>
  The tools of the agent (src/apps/jit-worker/src/jobs.rs, \<open>execute_tool\<close> and
  \<open>execute_tool_inner\<close>): one definition for each arm of the dispatch.  An arm decodes its
  arguments, checks the reason, then does its work in the order of the code.
\<close>

section \<open>Text edits\<close>

text \<open>\<open>str::match_indices(..).count()\<close>: the matches of a non-empty pattern that do not overlap.\<close>

function count_matches :: "string \<Rightarrow> string \<Rightarrow> nat" where
  "count_matches p [] = 0"
| "count_matches p (c # cs) =
     (if starts_with (c # cs) p then Suc (count_matches p (drop (length p - 1) cs)) else count_matches p cs)"
  by pat_completeness auto

termination
  by (relation "measure (length \<circ> snd)") auto

definition replace_first :: "string \<Rightarrow> string \<Rightarrow> string \<Rightarrow> string" where
  "replace_first old new s = (case split_once old s of None \<Rightarrow> s | Some (a, b) \<Rightarrow> a @ new @ b)"

section \<open>Arguments\<close>

text \<open>\<open>parse_args(arguments)?; validate_reason(&args.reason)?\<close>\<close>

definition with_args :: "'a option \<Rightarrow> ('a \<Rightarrow> string) \<Rightarrow> ('a \<Rightarrow> 'b act) \<Rightarrow> 'b act" where
  "with_args decoded reason k =
     andthen (parse_args decoded) (\<lambda>args.
     andthen (synthesis_result (validate_reason (reason args))) (\<lambda>_. k args))"

section \<open>The contract\<close>

definition review_request_of :: "claimed_synthesis_job \<Rightarrow> agent_workspace \<Rightarrow> synthesis_draft \<Rightarrow> review_request" where
  "review_request_of job ws draft =
     \<lparr>cq_name = cj_tool job, cq_intent = cj_intent job, cq_input_format = cj_input_format job,
      cq_output_format = cj_output_format job, cq_input_samples = cj_input_samples job,
      cq_immutable_user_examples = cj_examples job,
      cq_resolved_decisions = map snd (ws_resolved_decisions ws),
      cq_example_corrections = map snd (ws_example_corrections ws),
      cq_prior_reviews = ws_contract_reviews ws, cq_proposed_contract = dr_contract draft,
      cq_proposed_generated_tests = drop (dr_user_test_count draft) (dr_tests draft),
      cq_http_capabilities = map ac_capability (ws_http_capabilities ws)\<rparr>"

definition review_request_event :: "review_request \<Rightarrow> json" where
  "review_request_event q = json_object
     [(''contract'', contract_to_value (cq_proposed_contract q)),
      (''generated_tests'', JArray (map test_case_to_value (cq_proposed_generated_tests q))),
      (''input_sample_count'', json_nat (length (cq_input_samples q))),
      (''user_example_count'', json_nat (length (cq_immutable_user_examples q)))]"

definition tool_submit_contract :: "agent_env \<Rightarrow> claimed_synthesis_job \<Rightarrow> json \<Rightarrow> tool_execution act" where
  "tool_submit_contract env job arguments =
     with_args (submit_contract_args_from arguments) sc_reason (\<lambda>args. with_ws (\<lambda>ws.
     andthen (from_result (validate_contract (ae_worker env) args job (ws_example_corrections ws)
       (ws_http_capabilities ws) (ws_http_probe_records ws))) (\<lambda>draft.
     let request = review_request_of job ws draft in
     andthen (event env job ''contract_review_request'' (review_request_event request)) (\<lambda>_.
     andthen (andthen (interact (\<lambda>n w. (ae_review env n request, w))) synthesis_result) (\<lambda>review.
     andthen (update_ws (\<lambda>ws. ws\<lparr>ws_contract_reviews := ws_contract_reviews ws @ [review]\<rparr>)) (\<lambda>_.
     andthen (event env job ''contract_review_response'' (review_to_value review)) (\<lambda>_.
     case cr_decision review of
       ReviseContract \<Rightarrow>
         reply [(''ok'', JBool False), (''contract_review'', review_to_value review),
           (''message'', JString ''independent review requires a corrected contract and test plan; resubmit the complete contract'')]
     | RejectContract \<Rightarrow>
         fail (AgentAborted (''contract review rejected the request: '' @ cr_reason review @ ''; ''
           @ join_with ''; '' (cr_issues review)))
     | AcceptContract \<Rightarrow>
         andthen (registry_write env (\<lambda>n now. save_contract (we_registry (ae_worker env)) now (cj_job_id job)
           (ae_worker_id env) (contract_to_value (dr_contract draft)) (tc_assumptions (dr_contract draft)))) (\<lambda>_.
         andthen (update_ws (\<lambda>ws. ws\<lparr>ws_draft := Some draft, ws_latest_failure := None\<rparr>)) (\<lambda>_.
         reply [(''ok'', JBool True),
           (''message'', JString ''contract independently reviewed and accepted; write the initial source'')])))))))))"

section \<open>The source\<close>

definition adopt_source :: "agent_env \<Rightarrow> claimed_synthesis_job \<Rightarrow> string \<Rightarrow> tool_execution act" where
  "adopt_source env job source =
     andthen (update_ws (\<lambda>ws. ws\<lparr>ws_source := Some source\<rparr>)) (\<lambda>_.
     andthen (update_metrics (\<lambda>m. m\<lparr>am_source_revisions := am_source_revisions m + 1\<rparr>)) (\<lambda>_.
     evaluate_after_mutation env job))"

definition tool_write_source :: "agent_env \<Rightarrow> claimed_synthesis_job \<Rightarrow> json \<Rightarrow> tool_execution act" where
  "tool_write_source env job arguments =
     with_args (write_source_args_from arguments) snd (\<lambda>(source, _).
     andthen (synthesis_result (validate_source source)) (\<lambda>_. with_ws (\<lambda>ws.
     andthen (require (ws_draft ws \<noteq> None) (invalid_action ''submit a contract before source'')) (\<lambda>_.
     andthen (require (ws_source ws = None)
       (invalid_action ''write_source is only allowed for the initial source; use edit_source'')) (\<lambda>_.
     andthen (require (am_source_revisions (ws_metrics ws) < max_source_revisions)
       (AgentLimit ''source revision budget exhausted'')) (\<lambda>_.
     adopt_source env job source))))))"

definition tool_edit_source :: "agent_env \<Rightarrow> claimed_synthesis_job \<Rightarrow> json \<Rightarrow> tool_execution act" where
  "tool_edit_source env job arguments =
     with_args (edit_source_args_from arguments) (snd \<circ> snd) (\<lambda>(old, new, _).
     andthen (require (old \<noteq> []) (invalid_action ''old_text must not be empty'')) (\<lambda>_. with_ws (\<lambda>ws.
     andthen (require (am_source_revisions (ws_metrics ws) < max_source_revisions)
       (AgentLimit ''source revision budget exhausted'')) (\<lambda>_.
     andthen (from_result (ok_or (invalid_action ''write the initial source before editing'') (ws_source ws))) (\<lambda>source.
     andthen (require (count_matches old source = 1)
       (invalid_action (''old_text must match exactly once, but matched '' @ show_nat (count_matches old source)
         @ '' times''))) (\<lambda>_.
     let replacement = replace_first old new source in
     andthen (synthesis_result (validate_source replacement)) (\<lambda>_.
     andthen (require (replacement \<noteq> source) (invalid_action ''edit_source must change the source'')) (\<lambda>_.
     adopt_source env job replacement))))))))"

section \<open>Probing a candidate\<close>

definition reused_result :: "json \<Rightarrow> json" where
  "reused_result v = (case v of JObject m \<Rightarrow> JObject (put ''reused'' (JBool True) m) | _ \<Rightarrow> v)"

definition probe_result :: "agent_env \<Rightarrow> runner_error + execution_output \<Rightarrow> json" where
  "probe_result env result =
     (case result of
        Inr out \<Rightarrow> json_object
          [(''ok'', JBool True), (''exit_code'', json_int (eo_exit_code out)),
           (''stdout'', JString (diagnostic_bytes (ae_worker env) (eo_stdout out))),
           (''stderr'', JString (diagnostic_bytes (ae_worker env) (eo_stderr out)))]
      | Inl e \<Rightarrow> json_object [(''ok'', JBool False), (''error'', JString (ae_describe env (RunnerFailure e)))])"

definition tool_probe :: "agent_env \<Rightarrow> claimed_synthesis_job \<Rightarrow> json \<Rightarrow> tool_execution act" where
  "tool_probe env job arguments =
     with_args (probe_args_from arguments) ba_reason (\<lambda>args.
     andthen (from_result (validate_probe args)) (\<lambda>_. with_ws (\<lambda>ws.
     andthen (from_result (ok_or (invalid_action ''probe requires a built candidate'')
       (ws_current_artifact_digest ws))) (\<lambda>digest.
     let fingerprint = probe_fingerprint (ae_worker env) digest args in
     case map_of (ws_probe_results ws) fingerprint of
       Some cached \<Rightarrow> ret (ContinueWith (reused_result cached))
     | None \<Rightarrow>
         andthen (require (am_probes_run (ws_metrics ws) < max_probes) (AgentLimit ''probe budget exhausted'')) (\<lambda>_.
         andthen (set_stage env job SValidating) (\<lambda>_.
         andthen (update_metrics (\<lambda>m. m\<lparr>am_probes_run := am_probes_run m + 1\<rparr>)) (\<lambda>_.
         andthen (run_candidate env digest (ba_args args) (ba_stdin args) None) (\<lambda>result.
         let v = probe_result env result in
         andthen (update_ws (\<lambda>ws. ws\<lparr>ws_probe_results := put fingerprint v (ws_probe_results ws)\<rparr>)) (\<lambda>_.
         ret (ContinueWith v))))))))))"

section \<open>Reviewing a generated test\<close>

fun update_first :: "('a \<Rightarrow> bool) \<Rightarrow> ('a \<Rightarrow> 'a) \<Rightarrow> 'a list \<Rightarrow> 'a list" where
  "update_first p f [] = []"
| "update_first p f (x # xs) = (if p x then f x # xs else x # update_first p f xs)"

definition replace_oracle :: "string \<Rightarrow> string \<Rightarrow> int \<Rightarrow> synthesis_draft \<Rightarrow> synthesis_draft" where
  "replace_oracle name stdout code draft =
     draft\<lparr>dr_tests := take (dr_user_test_count draft) (dr_tests draft)
        @ update_first (\<lambda>t. tt_name t = name) (\<lambda>t. t\<lparr>tt_expected_stdout := stdout, tt_expected_exit_code := code\<rparr>)
            (drop (dr_user_test_count draft) (dr_tests draft))\<rparr>"

definition reviewed_reply :: "string \<Rightarrow> string \<Rightarrow> string \<Rightarrow> tool_execution act" where
  "reviewed_reply classification reason message =
     reply [(''ok'', JBool True), (''classification'', JString classification), (''reason'', JString reason),
            (''message'', JString message)]"

definition correct_oracle :: "agent_env \<Rightarrow> claimed_synthesis_job \<Rightarrow> test_case \<Rightarrow> test_verdict \<Rightarrow> tool_execution act" where
  "correct_oracle env job test verdict =
     andthen (from_result (ok_or (invalid_action ''verifier omitted corrected expected_stdout'')
       (tv_expected_stdout verdict))) (\<lambda>stdout.
     andthen (from_result (ok_or (invalid_action ''verifier omitted corrected expected_exit_code'')
       (tv_expected_exit_code verdict))) (\<lambda>code.
     andthen (require (\<not> (code = 0 \<and> cj_output_format job = Json \<and> we_parse_json (ae_worker env) stdout = None))
       (invalid_action ''verifier returned invalid expected JSON'')) (\<lambda>_.
     andthen (require (\<not> (tt_expected_stdout test = stdout \<and> tt_expected_exit_code test = code))
       (invalid_action ''verifier oracle replacement did not change the test'')) (\<lambda>_.
     andthen (update_ws (\<lambda>ws. ws\<lparr>ws_draft := map_option (replace_oracle (tt_name test) stdout code) (ws_draft ws)\<rparr>)) (\<lambda>_.
     andthen (update_metrics (\<lambda>m. m\<lparr>am_generated_test_corrections := am_generated_test_corrections m + 1\<rparr>)) (\<lambda>_.
     evaluate_after_mutation env job))))))"

definition verification_request_of :: "claimed_synthesis_job \<Rightarrow> agent_workspace \<Rightarrow> synthesis_draft \<Rightarrow> test_case
    \<Rightarrow> validation_failure \<Rightarrow> string \<Rightarrow> verification_request" where
  "verification_request_of job ws draft test failure reason =
     \<lparr>vq_intent = cj_intent job, vq_input_format = cj_input_format job, vq_output_format = cj_output_format job,
      vq_contract = dr_contract draft, vq_immutable_user_tests = take (dr_user_test_count draft) (dr_tests draft),
      vq_generated_test = test, vq_current_source = (case ws_source ws of None \<Rightarrow> [] | Some s \<Rightarrow> s),
      vq_failure = failure, vq_review_reason = reason\<rparr>"

definition failing_generated_test :: "string \<Rightarrow> validation_failure option \<Rightarrow> validation_failure option" where
  "failing_generated_test name failure =
     (case failure of None \<Rightarrow> None
      | Some f \<Rightarrow> if vf_test_origin f = GeneratedTest \<and> vf_test_name f = name then Some f else None)"

definition tool_review_generated_test :: "agent_env \<Rightarrow> claimed_synthesis_job \<Rightarrow> json \<Rightarrow> tool_execution act" where
  "tool_review_generated_test env job arguments =
     with_args (review_test_args_from arguments) snd (\<lambda>(name, reason). with_ws (\<lambda>ws.
     andthen (require (am_generated_test_corrections (ws_metrics ws) < max_generated_test_corrections)
       (AgentLimit ''generated test correction budget exhausted'')) (\<lambda>_.
     andthen (from_result (ok_or (invalid_action ''contract is missing'') (ws_draft ws))) (\<lambda>draft.
     andthen (from_result (ok_or (invalid_action ''only the latest failing generated test may be reviewed'')
       (failing_generated_test name (ws_latest_failure ws)))) (\<lambda>failure.
     andthen (from_result (ok_or (invalid_action ''generated test does not exist'')
       (find (\<lambda>t. tt_name t = name) (drop (dr_user_test_count draft) (dr_tests draft))))) (\<lambda>test.
     let request = verification_request_of job ws draft test failure reason in
     andthen (event env job ''verifier_request'' (verification_request_to_value request)) (\<lambda>_.
     andthen (andthen (interact (\<lambda>n w. (ae_verify env n request, w))) synthesis_result) (\<lambda>verdict.
     andthen (event env job ''verifier_response'' (verdict_to_value verdict)) (\<lambda>_.
     case tv_classification verdict of
       ImplementationWrong \<Rightarrow> reviewed_reply ''implementation_wrong'' (tv_reason verdict)
         ''keep the test unchanged and repair the source''
     | Ambiguous \<Rightarrow> reviewed_reply ''ambiguous'' (tv_reason verdict)
         ''the test was not changed; implement conservatively or abort''
     | OracleWrong \<Rightarrow> correct_oracle env job test verdict)))))))))"

definition tool_abort :: "agent_env \<Rightarrow> claimed_synthesis_job \<Rightarrow> json \<Rightarrow> tool_execution act" where
  "tool_abort env job arguments =
     with_args (abort_args_from arguments) (\<lambda>reason. reason) (\<lambda>reason. fail (AgentAborted reason))"

end
