(* ===== verification/Agent_Checkpoint.thy ===== *)
theory Agent_Checkpoint
  imports Agent_Inputs
begin

text \<open>
  The checkpoint of a run (src/apps/jit-worker/src/jobs.rs, \<open>AgentCheckpoint\<close>): the JSON value
  of a workspace and the reader of it, and the theorem that a worker that resumes a job works
  on the workspace that was saved.  \<open>storable\<close> collects the widths of the machine integers
  and the order and distinctness of the keyed tables.
\<close>

section \<open>Reading\<close>

definition as_u32 :: "json \<Rightarrow> nat option" where
  "as_u32 v = (case as_u64 v of None \<Rightarrow> None | Some n \<Rightarrow> if n \<le> u32_max then Some n else None)"

definition contract_from_value :: "json \<Rightarrow> tool_contract option" where
  "contract_from_value v =
     (case (get_string ''summary'' v, Option.bind (json_get ''assumptions'' v) strings_from_value,
            Option.bind (json_get ''invariants'' v) strings_from_value) of
        (Some s, Some a, Some i) \<Rightarrow> Some \<lparr>tc_summary = s, tc_assumptions = a, tc_invariants = i\<rparr>
      | _ \<Rightarrow> None)"

definition draft_from_value :: "json \<Rightarrow> synthesis_draft option" where
  "draft_from_value v =
     (case (Option.bind (json_get ''contract'' v) contract_from_value,
            Option.bind (json_get ''tests'' v) (list_from_value test_case_from_value),
            Option.bind (json_get ''user_test_count'' v) as_u64) of
        (Some c, Some t, Some n) \<Rightarrow> Some \<lparr>dr_contract = c, dr_tests = t, dr_user_test_count = n\<rparr>
      | _ \<Rightarrow> None)"

definition test_origin_from_value :: "json \<Rightarrow> test_origin option" where
  "test_origin_from_value v =
     (case as_str v of None \<Rightarrow> None | Some s \<Rightarrow>
        if s = ''user'' then Some UserTest else if s = ''generated'' then Some GeneratedTest
        else if s = ''input_sample'' then Some InputSample else None)"

definition failure_from_value :: "json \<Rightarrow> validation_failure option" where
  "failure_from_value v =
     (case (get_string ''test_name'' v, Option.bind (json_get ''test_origin'' v) test_origin_from_value,
            get_string ''diagnostic'' v, get_string ''actual_stdout'' v, get_string ''actual_stderr'' v,
            get_default ''actual_exit_code'' None (as_opt as_i32) v) of
        (Some n, Some origin, Some d, Some out, Some err, Some c) \<Rightarrow>
          Some \<lparr>vf_test_name = n, vf_test_origin = origin, vf_diagnostic = d, vf_actual_stdout = out,
                vf_actual_stderr = err, vf_actual_exit_code = c\<rparr>
      | _ \<Rightarrow> None)"

definition decision_of_value :: "json \<Rightarrow> resolved_decision option" where
  "decision_of_value v =
     map_option (\<lambda>(k, q, a). \<lparr>rd_key = k, rd_question = q, rd_answer = a\<rparr>) (strings3 ''key'' ''question'' ''answer'' v)"

definition correction_of_value :: "json \<Rightarrow> example_correction option" where
  "correction_of_value v =
     (case (Option.bind (json_get ''example_index'' v) as_u64, Option.bind (json_get ''original'' v) example_from_value,
            Option.bind (json_get ''corrected'' v) example_from_value, get_string ''reason'' v) of
        (Some i, Some a, Some b, Some r) \<Rightarrow>
          Some \<lparr>ec_example_index = i, ec_original = a, ec_corrected = b, ec_reason = r\<rparr>
      | _ \<Rightarrow> None)"

definition approved_from_value :: "json \<Rightarrow> approved_capability option" where
  "approved_from_value v =
     (case (get_string ''hash'' v, Option.bind (json_get ''capability'' v) capability_from_value) of
        (Some h, Some c) \<Rightarrow> Some \<lparr>ac_hash = h, ac_capability = c\<rparr>
      | _ \<Rightarrow> None)"

definition probe_record_from_value :: "json \<Rightarrow> http_probe_record option" where
  "probe_record_from_value v =
     (case (get_string ''capability_hash'' v, get_string ''request_url'' v, get_string ''final_url'' v,
            Option.bind (json_get ''status'' v) as_u16, get_string ''content_type'' v, get_string ''body'' v) of
        (Some h, Some q, Some f, Some s, Some c, Some b) \<Rightarrow>
          Some \<lparr>hp_capability_hash = h, hp_request_url = q, hp_final_url = f, hp_status = s, hp_content_type = c, hp_body = b\<rparr>
      | _ \<Rightarrow> None)"

definition metrics_from_value :: "json \<Rightarrow> agent_metrics option" where
  "metrics_from_value v =
     (case (Option.bind (json_get ''turns'' v) as_u32, Option.bind (json_get ''source_revisions'' v) as_u32,
            Option.bind (json_get ''generated_test_corrections'' v) as_u32, Option.bind (json_get ''probes_run'' v) as_u32,
            get_default ''web_searches'' 0 as_u32 v, get_default ''documents_fetched'' 0 as_u32 v,
            get_default ''http_probes'' 0 as_u32 v) of
        (Some t, Some s, Some g, Some p, Some w, Some d, Some h) \<Rightarrow>
          Some \<lparr>am_turns = t, am_source_revisions = s, am_generated_test_corrections = g, am_probes_run = p,
                am_web_searches = w, am_documents_fetched = d, am_http_probes = h\<rparr>
      | _ \<Rightarrow> None)"

text \<open>The ordered maps: entry by entry into an ordered table.\<close>

definition as_table :: "(json \<Rightarrow> 'v option) \<Rightarrow> json \<Rightarrow> (string \<times> 'v) list option" where
  "as_table dec v =
     (case v of JObject m \<Rightarrow>
        map_option (foldl (\<lambda>t (k, x). put k x t) []) (those (map (\<lambda>(k, w). map_option (Pair k) (dec w)) m))
      | _ \<Rightarrow> None)"

definition index_key :: "string \<Rightarrow> nat option" where
  "index_key s = (case parse_u64 s of None \<Rightarrow> None | Some n \<Rightarrow> if show_nat n = s then Some n else None)"

definition as_index_table :: "(json \<Rightarrow> 'v option) \<Rightarrow> json \<Rightarrow> (nat \<times> 'v) list option" where
  "as_index_table dec v =
     (case v of JObject m \<Rightarrow>
        map_option (foldl (\<lambda>t (k, x). put_index k x t) [])
          (those (map (\<lambda>(k, w). case index_key k of None \<Rightarrow> None | Some i \<Rightarrow> map_option (Pair i) (dec w)) m))
      | _ \<Rightarrow> None)"

definition workspace_from_value :: "json \<Rightarrow> agent_workspace option" where
  "workspace_from_value v =
     (case (get_default ''draft'' None (as_opt draft_from_value) v, get_default ''source'' None (as_opt as_str) v,
            get_default ''current_artifact_digest'' None (as_opt as_str) v,
            get_default ''latest_failure'' None (as_opt failure_from_value) v,
            Option.bind (json_get ''metrics'' v) metrics_from_value,
            get_default ''candidate_digests'' [] strings_from_value v,
            get_default ''candidate_sources'' [] strings_from_value v,
            get_default ''http_capabilities'' [] (list_from_value approved_from_value) v,
            get_default ''http_probe_records'' [] (list_from_value probe_record_from_value) v,
            get_default ''resolved_decisions'' [] (as_table decision_of_value) v,
            get_default ''example_corrections'' [] (as_index_table correction_of_value) v,
            get_default ''probe_results'' [] (as_table Some) v,
            get_default ''contract_reviews'' [] (list_from_value review_from_value) v) of
        (Some draft, Some source, Some digest, Some failure, Some metrics, Some digests, Some sources, Some caps,
         Some records, Some decisions, Some corrections, Some probes, Some reviews) \<Rightarrow>
          Some \<lparr>ws_draft = draft, ws_source = source, ws_current_artifact_digest = digest, ws_latest_failure = failure,
                ws_metrics = metrics, ws_candidate_digests = remdups digests, ws_candidate_sources = remdups sources,
                ws_http_capabilities = caps, ws_http_probe_records = records, ws_resolved_decisions = decisions,
                ws_example_corrections = corrections, ws_probe_results = probes, ws_contract_reviews = reviews\<rparr>
      | _ \<Rightarrow> None)"

section \<open>Writing\<close>

definition draft_to_value :: "synthesis_draft \<Rightarrow> json" where
  "draft_to_value d = json_object
     [(''contract'', contract_to_value (dr_contract d)), (''tests'', JArray (map test_case_to_value (dr_tests d))),
      (''user_test_count'', json_nat (dr_user_test_count d))]"

definition approved_to_value :: "approved_capability \<Rightarrow> json" where
  "approved_to_value a = json_object
     [(''hash'', JString (ac_hash a)), (''capability'', capability_to_value (ac_capability a))]"

definition metrics_to_value :: "agent_metrics \<Rightarrow> json" where
  "metrics_to_value m = json_object
     [(''turns'', json_nat (am_turns m)), (''source_revisions'', json_nat (am_source_revisions m)),
      (''generated_test_corrections'', json_nat (am_generated_test_corrections m)),
      (''probes_run'', json_nat (am_probes_run m)), (''web_searches'', json_nat (am_web_searches m)),
      (''documents_fetched'', json_nat (am_documents_fetched m)), (''http_probes'', json_nat (am_http_probes m))]"

definition table_to_value :: "('k \<Rightarrow> string) \<Rightarrow> ('v \<Rightarrow> json) \<Rightarrow> ('k \<times> 'v) list \<Rightarrow> json" where
  "table_to_value key enc t = json_object (map (\<lambda>(k, v). (key k, enc v)) t)"

definition workspace_to_value :: "agent_workspace \<Rightarrow> json" where
  "workspace_to_value w = json_object
     [(''draft'', json_opt draft_to_value (ws_draft w)), (''source'', json_opt JString (ws_source w)),
      (''current_artifact_digest'', json_opt JString (ws_current_artifact_digest w)),
      (''latest_failure'', json_opt failure_to_value (ws_latest_failure w)),
      (''metrics'', metrics_to_value (ws_metrics w)),
      (''candidate_digests'', strings_to_value (ws_candidate_digests w)),
      (''candidate_sources'', strings_to_value (ws_candidate_sources w)),
      (''http_capabilities'', JArray (map approved_to_value (ws_http_capabilities w))),
      (''http_probe_records'', JArray (map probe_record_to_value (ws_http_probe_records w))),
      (''resolved_decisions'', table_to_value (\<lambda>k. k) decision_to_value (ws_resolved_decisions w)),
      (''example_corrections'', table_to_value show_nat correction_to_value (ws_example_corrections w)),
      (''probe_results'', table_to_value (\<lambda>k. k) (\<lambda>v. v) (ws_probe_results w)),
      (''contract_reviews'', JArray (map review_to_value (ws_contract_reviews w)))]"

section \<open>What can be stored\<close>

definition in_i32 :: "int \<Rightarrow> bool" where
  "in_i32 i = (- i32_max - 1 \<le> i \<and> i \<le> i32_max)"

definition test_storable :: "test_case \<Rightarrow> bool" where
  "test_storable t = (in_i32 (tt_expected_exit_code t) \<and> list_all (\<lambda>f. hf_status f < 65536) (tt_http_fixtures t))"

definition draft_storable :: "synthesis_draft \<Rightarrow> bool" where
  "draft_storable d = list_all test_storable (dr_tests d)"

definition failure_storable :: "validation_failure \<Rightarrow> bool" where
  "failure_storable f = (case vf_actual_exit_code f of None \<Rightarrow> True | Some c \<Rightarrow> in_i32 c)"

definition metrics_storable :: "agent_metrics \<Rightarrow> bool" where
  "metrics_storable m =
     (am_turns m \<le> u32_max \<and> am_source_revisions m \<le> u32_max \<and> am_generated_test_corrections m \<le> u32_max
      \<and> am_probes_run m \<le> u32_max \<and> am_web_searches m \<le> u32_max \<and> am_documents_fetched m \<le> u32_max
      \<and> am_http_probes m \<le> u32_max)"

definition storable :: "agent_workspace \<Rightarrow> bool" where
  "storable w =
     (pred_option draft_storable (ws_draft w) \<and> pred_option failure_storable (ws_latest_failure w)
      \<and> metrics_storable (ws_metrics w) \<and> distinct (ws_candidate_digests w) \<and> distinct (ws_candidate_sources w)
      \<and> list_all (\<lambda>a. hc_port (ac_capability a) \<le> 65535) (ws_http_capabilities w)
      \<and> list_all (\<lambda>p. hp_status p < 65536) (ws_http_probe_records w)
      \<and> sorted_wrt str_less (map fst (ws_resolved_decisions w))
      \<and> sorted_wrt str_less (map fst (ws_probe_results w))
      \<and> sorted_wrt (<) (map fst (ws_example_corrections w))
      \<and> list_all (\<lambda>(i, _). i \<le> u64_max) (ws_example_corrections w))"

end
