(* ===== verification/Agent_Run.thy ===== *)
theory Agent_Run
  imports Agent_Checkpoint
begin

text \<open>
  The run of an agent (src/apps/jit-worker/src/jobs.rs): the dispatch of tool calls, the tools
  on offer, the loop that drives Rig's \<open>AgentRun\<close> with a checkpoint at every step, and what a
  worker does with a claimed job.  Rig's \<open>AgentRun\<close> is a library: its operations are the
  record \<open>rig\<close> over an abstract type of runs.
\<close>

section \<open>The dispatch\<close>

definition execute_tool_inner :: "agent_env \<Rightarrow> claimed_synthesis_job \<Rightarrow> tool_call \<Rightarrow> tool_execution act" where
  "execute_tool_inner env job call =
     (let name = cl_name call; arguments = cl_arguments call; call_id = cl_id call in
      if name = ''submit_contract'' then tool_submit_contract env job arguments
      else if name = ''write_source'' then tool_write_source env job arguments
      else if name = ''edit_source'' then tool_edit_source env job arguments
      else if name = ''probe'' then tool_probe env job arguments
      else if name = ''review_generated_test'' then tool_review_generated_test env job arguments
      else if name = ''abort'' then tool_abort env job arguments
      else if name = ''request_clarification'' then tool_request_clarification env job call_id arguments
      else if name = ''request_example_correction'' then tool_request_example_correction env job call_id arguments
      else if name = ''search_web'' then tool_search_web env arguments
      else if name = ''fetch_document'' then tool_fetch_document env arguments
      else if name = ''request_http_capability'' then tool_request_http_capability env job call_id arguments
      else if name = ''release_http_capability'' then tool_release_http_capability arguments
      else if name = ''probe_http'' then tool_probe_http env arguments
      else fail (invalid_action (''unknown tool '' @ we_debug (ae_worker env) name)))"

definition refused_call :: "string \<Rightarrow> tool_execution" where
  "refused_call message = ContinueWith (json_object [(''ok'', JBool False), (''error'', JString message)])"

text \<open>\<open>execute_tool\<close>: a mistake of the model is told to the model, any other failure ends the run.\<close>

definition recover :: "agent_env \<Rightarrow> job_failure + tool_execution \<Rightarrow> job_failure + tool_execution" where
  "recover env r =
     (case r of
        Inl (SynthesisFailure e) \<Rightarrow> Inr (refused_call (ae_describe env (SynthesisFailure e)))
      | Inl JsonFailure \<Rightarrow> Inr (refused_call (''invalid tool arguments: '' @ ae_describe env JsonFailure))
      | Inl (WebFailure e) \<Rightarrow> Inr (refused_call (ae_describe env (WebFailure e)))
      | _ \<Rightarrow> r)"

definition execute_tool :: "agent_env \<Rightarrow> claimed_synthesis_job \<Rightarrow> tool_call \<Rightarrow> tool_execution act" where
  "execute_tool env job call = (\<lambda>w. map_option (\<lambda>(r, w'). (recover env r, w')) (execute_tool_inner env job call w))"

section \<open>The tools on offer\<close>

definition available_tool_names :: "agent_workspace \<Rightarrow> string list" where
  "available_tool_names ws =
     [''abort'', ''request_clarification'', ''request_example_correction'']
     @ (if am_web_searches (ws_metrics ws) < max_web_searches then [''search_web''] else [])
     @ (if am_documents_fetched (ws_metrics ws) < max_document_fetches then [''fetch_document''] else [])
     @ (if length (ws_http_capabilities ws) < max_http_capabilities then [''request_http_capability''] else [])
     @ (if ws_http_capabilities ws \<noteq> []
        then ''release_http_capability''
          # (if am_http_probes (ws_metrics ws) < max_http_probes then [''probe_http''] else [])
        else [])
     @ (if ws_draft ws = None then [''submit_contract'']
        else if ws_source ws = None then [''write_source'']
        else ''edit_source''
          # (if ws_current_artifact_digest ws \<noteq> None then [''probe''] else [])
          @ (if pred_option (\<lambda>f. vf_test_origin f = GeneratedTest) (ws_latest_failure ws) \<and> ws_latest_failure ws \<noteq> None
             then [''review_generated_test''] else []))"

definition available_tools :: "string list act" where
  "available_tools =
     andthen (update_metrics (\<lambda>m. m\<lparr>am_turns := min u32_max (am_turns m + 1)\<rparr>)) (\<lambda>_.
     with_ws (\<lambda>ws. ret (available_tool_names ws)))"

definition fixture_context_of :: "claimed_synthesis_job \<Rightarrow> agent_workspace \<Rightarrow> fixture_context" where
  "fixture_context_of job ws =
     \<lparr>fc_intent = cj_intent job, fc_examples = cj_examples job, fc_has_contract = (ws_draft ws \<noteq> None),
      fc_current_source = ws_source ws, fc_latest_failure = ws_latest_failure ws,
      fc_probes_run = am_probes_run (ws_metrics ws)\<rparr>"

section \<open>Rig's run\<close>

datatype run_step =
    CallModel message "message list" nat
  | CallTools "tool_call list"
  | RunDone string

datatype turn_outcome = TurnAccepted | NeedsResolution string

type_synonym tool_reply = "string \<times> string option \<times> string"

record 'r rig =
  rg_new :: "message \<Rightarrow> nat \<Rightarrow> nat \<Rightarrow> 'r"
  rg_next :: "'r \<Rightarrow> string + run_step \<times> 'r"
  rg_model_response :: "'r \<Rightarrow> model_turn \<Rightarrow> string + turn_outcome \<times> 'r"
  rg_resolve :: "'r \<Rightarrow> string \<Rightarrow> string + turn_outcome \<times> 'r"
  rg_tool_results :: "'r \<Rightarrow> tool_reply list \<Rightarrow> string + 'r"
  rg_to_value :: "'r \<Rightarrow> json"
  rg_of_value :: "json \<Rightarrow> 'r option"
  rg_message_value :: "message \<Rightarrow> json"
  rg_choice_value :: "assistant_content list \<Rightarrow> json"
  rg_usage_value :: "nat \<Rightarrow> json"

definition runtime_result :: "string + 'a \<Rightarrow> 'a act" where
  "runtime_result r = from_result (case r of Inl e \<Rightarrow> Inl (AgentRuntime e) | Inr x \<Rightarrow> Inr x)"

definition agent_engine :: string where "agent_engine = ''rig-agent-run''"
definition agent_engine_version :: string where "agent_engine_version = ''rig-core-0.40.0+jitforge-agent-v1''"

definition checkpoint_value :: "'r rig \<Rightarrow> 'r \<Rightarrow> agent_workspace \<Rightarrow> json" where
  "checkpoint_value rig run ws = json_object [(''run'', rg_to_value rig run), (''workspace'', workspace_to_value ws)]"

definition save_checkpoint :: "'r rig \<Rightarrow> agent_env \<Rightarrow> claimed_synthesis_job \<Rightarrow> 'r \<Rightarrow> unit act" where
  "save_checkpoint rig env job run = with_ws (\<lambda>ws. registry_write env (\<lambda>n now.
     save_agent_checkpoint now (cj_job_id job) (ae_worker_id env) agent_engine agent_engine_version
       (checkpoint_value rig run ws)))"

definition initial_prompt :: "worker_ext \<Rightarrow> claimed_synthesis_job \<Rightarrow> message" where
  "initial_prompt we job = UserMessage (x_to_vec (we_registry we) (json_object
     [(''task'', JString ''create_and_publish_unix_tool''), (''name'', JString (cj_tool job)),
      (''user_intent'', JString (cj_intent job)), (''input_format'', JString (io_format_as_str (cj_input_format job))),
      (''output_format'', JString (io_format_as_str (cj_output_format job))),
      (''input_samples_without_expected_output'', strings_to_value (cj_input_samples job)),
      (''immutable_user_examples'', examples_to_value (cj_examples job))]))"

definition load_or_create_run :: "'r rig \<Rightarrow> worker_ext \<Rightarrow> claimed_synthesis_job
    \<Rightarrow> job_failure + 'r \<times> agent_workspace \<times> bool" where
  "load_or_create_run rig we job =
     (case cj_agent_checkpoint job of
        Some c \<Rightarrow>
          if cp_engine c \<noteq> agent_engine \<or> cp_engine_version c \<noteq> agent_engine_version
          then Inl (IncompatibleCheckpoint (cp_engine c) (cp_engine_version c))
          else (case (Option.bind (json_get ''run'' (cp_checkpoint c)) (rg_of_value rig),
                      Option.bind (json_get ''workspace'' (cp_checkpoint c)) workspace_from_value) of
                  (Some run, Some ws) \<Rightarrow> Inr (run, ws, True)
                | _ \<Rightarrow> Inl JsonFailure)
      | None \<Rightarrow> Inr (rg_new rig (initial_prompt we job) max_agent_turns 1, default_workspace, False))"

section \<open>The loop\<close>

definition set_phase_stage :: "agent_env \<Rightarrow> claimed_synthesis_job \<Rightarrow> unit act" where
  "set_phase_stage env job = with_ws (\<lambda>ws. set_stage env job
     (if ws_draft ws = None then SContract else if ws_source ws = None then SSynthesizing else SRepairing))"

definition tool_result :: "worker_ext \<Rightarrow> tool_call \<Rightarrow> json \<Rightarrow> tool_reply" where
  "tool_result we call v = (cl_id call, cl_call_id call, x_to_vec (we_registry we) v)"

definition rejected_tool_batch_results :: "worker_ext \<Rightarrow> tool_call list \<Rightarrow> tool_reply list option" where
  "rejected_tool_batch_results we calls =
     (if length calls \<noteq> 1
      then Some (map (\<lambda>c. tool_result we c (json_object
        [(''ok'', JBool False), (''error'', JString ''exactly one tool call is allowed per turn'')])) calls)
      else None)"

text \<open>The inner loop over a turn that names an unknown tool.\<close>

fun settle_turn :: "nat \<Rightarrow> 'r rig \<Rightarrow> agent_env \<Rightarrow> claimed_synthesis_job \<Rightarrow> turn_outcome \<Rightarrow> 'r \<Rightarrow> 'r act" where
  "settle_turn fuel rig env job TurnAccepted run = ret run"
| "settle_turn 0 rig env job (NeedsResolution name) run = (\<lambda>_. None)"
| "settle_turn (Suc fuel) rig env job (NeedsResolution name) run =
     andthen (event env job ''invalid_tool_call'' (json_object [(''tool'', JString name)])) (\<lambda>_.
     andthen (runtime_result (rg_resolve rig run (''Tool '' @ we_debug (ae_worker env) name
       @ '' is not available in the current phase. Call exactly one advertised tool.''))) (\<lambda>(outcome, run).
     settle_turn fuel rig env job outcome run))"

definition model_step :: "nat \<Rightarrow> 'r rig \<Rightarrow> agent_env \<Rightarrow> claimed_synthesis_job \<Rightarrow> message \<Rightarrow> message list \<Rightarrow> nat \<Rightarrow> 'r
    \<Rightarrow> 'r act" where
  "model_step fuel rig env job prompt history turn run =
     andthen available_tools (\<lambda>tools.
     andthen (event env job ''model_request'' (json_object
       [(''turn'', json_nat turn), (''prompt'', rg_message_value rig prompt),
        (''history'', JArray (map (rg_message_value rig) history)), (''tools'', strings_to_value tools)])) (\<lambda>_.
     with_ws (\<lambda>ws.
     let request = \<lparr>mq_prompt = prompt, mq_history = history, mq_tools = tools, mq_turn = turn,
                    mq_fixture = fixture_context_of job ws\<rparr> in
     andthen (andthen (interact (\<lambda>n w. (ae_complete env n request, w))) synthesis_result) (\<lambda>result.
     andthen (event env job ''model_response'' (json_object
       [(''turn'', json_nat turn), (''choice'', rg_choice_value rig (mt_choice result)),
        (''usage'', rg_usage_value rig (mt_usage result))])) (\<lambda>_.
     andthen (runtime_result (rg_model_response rig run result)) (\<lambda>(outcome, run).
     settle_turn fuel rig env job outcome run))))))"

definition tools_step :: "'r rig \<Rightarrow> agent_env \<Rightarrow> claimed_synthesis_job \<Rightarrow> tool_call list \<Rightarrow> 'r \<Rightarrow> (string + 'r) act" where
  "tools_step rig env job calls run =
     andthen (save_checkpoint rig env job run) (\<lambda>_.
     case rejected_tool_batch_results (ae_worker env) calls of
       Some results \<Rightarrow>
         andthen (runtime_result (rg_tool_results rig run results)) (\<lambda>run.
         andthen (event env job ''tool_batch_rejected'' (json_object [(''count'', json_nat (length calls))])) (\<lambda>_.
         ret (Inr run)))
     | None \<Rightarrow>
         (let call = calls ! 0 in
          andthen (event env job ''tool_call'' (json_object
            [(''name'', JString (cl_name call)), (''arguments'', cl_arguments call)])) (\<lambda>_.
          andthen (execute_tool env job call) (\<lambda>execution.
          case execution of
            ContinueWith v \<Rightarrow>
              andthen (event env job ''tool_result'' v) (\<lambda>_.
              andthen (runtime_result (rg_tool_results rig run [tool_result (ae_worker env) call v])) (\<lambda>run.
              ret (Inr run)))
          | PublishedDigest digest \<Rightarrow> ret (Inl digest)))))"

text \<open>One turn of the loop: the digest of a published tool, or the run to go on with.\<close>

definition drive_step :: "nat \<Rightarrow> 'r rig \<Rightarrow> agent_env \<Rightarrow> claimed_synthesis_job \<Rightarrow> 'r \<Rightarrow> (string + 'r) act" where
  "drive_step fuel rig env job run =
     andthen (set_phase_stage env job) (\<lambda>_.
     andthen (save_checkpoint rig env job run) (\<lambda>_.
     andthen (runtime_result (rg_next rig run)) (\<lambda>(step, run).
     case step of
       CallModel prompt history turn \<Rightarrow>
         andthen (model_step fuel rig env job prompt history turn run) (\<lambda>run. ret (Inr run))
     | CallTools calls \<Rightarrow> tools_step rig env job calls run
     | RunDone output \<Rightarrow>
         fail (AgentProtocol (''model ended without publishing a tool: '' @ truncate_text output)))))"

fun drive_agent :: "nat \<Rightarrow> 'r rig \<Rightarrow> agent_env \<Rightarrow> claimed_synthesis_job \<Rightarrow> 'r \<Rightarrow> string act" where
  "drive_agent 0 rig env job run = (\<lambda>_. None)"
| "drive_agent (Suc fuel) rig env job run =
     andthen (drive_step fuel rig env job run) (\<lambda>r.
     case r of Inl digest \<Rightarrow> ret digest | Inr run \<Rightarrow> drive_agent fuel rig env job run)"

section \<open>A job\<close>

text \<open>The result of an action as a value.\<close>

definition attempt :: "'a act \<Rightarrow> (job_failure + 'a) act" where
  "attempt m = (\<lambda>w. map_option (\<lambda>(r, w'). (Inr r, w')) (m w))"

fun remove_candidates :: "agent_env \<Rightarrow> string option \<Rightarrow> string set \<Rightarrow> string list \<Rightarrow> unit act" where
  "remove_candidates env published referenced [] = ret ()"
| "remove_candidates env published referenced (digest # digests) =
     andthen (if Some digest \<noteq> published \<and> digest \<notin> referenced
       then andthen (interact (\<lambda>n w. let (r, st) = remove_artifact (ae_remove_io env n) digest (w_store w) in
              (case r of Inl e \<Rightarrow> Inl (ArtifactFailure e) | Inr _ \<Rightarrow> Inr (), w\<lparr>w_store := st\<rparr>))) from_result
       else ret ()) (\<lambda>_.
     remove_candidates env published referenced digests)"

fun remove_images :: "agent_env \<Rightarrow> string set \<Rightarrow> string list \<Rightarrow> unit act" where
  "remove_images env referenced [] = ret ()"
| "remove_images env referenced (source # sources) =
     andthen (if source \<notin> referenced
       then andthen (interact (\<lambda>n w. (case remove_source_image (ae_artifact env) (ae_docker env n) source of
              Inl e \<Rightarrow> Inl (RunnerFailure e) | Inr _ \<Rightarrow> Inr (), w))) from_result
       else ret ()) (\<lambda>_.
     remove_images env referenced sources)"

definition cleanup_candidates :: "agent_env \<Rightarrow> claimed_synthesis_job \<Rightarrow> string option \<Rightarrow> unit act" where
  "cleanup_candidates env job published = with_ws (\<lambda>ws.
     andthen (registry_read env (\<lambda>d. Inr (referenced_artifacts_excluding_job (cj_job_id job) d))) (\<lambda>(digests, sources).
     andthen (remove_candidates env published digests (ws_candidate_digests ws)) (\<lambda>_.
     remove_images env sources (ws_candidate_sources ws))))"

definition process_job :: "nat \<Rightarrow> 'r rig \<Rightarrow> agent_env \<Rightarrow> claimed_synthesis_job \<Rightarrow> unit act" where
  "process_job fuel rig env job =
     andthen (from_result (load_or_create_run rig (ae_worker env) job)) (\<lambda>(run, ws, resumed).
     andthen (update_ws (\<lambda>_. ws)) (\<lambda>_.
     andthen (save_checkpoint rig env job run) (\<lambda>_.
     andthen (event env job (if resumed then ''run_resumed'' else ''run_started'') (json_object
       [(''engine'', JString agent_engine), (''engine_version'', JString agent_engine_version),
        (''attempt'', json_nat (cj_attempts job))])) (\<lambda>_.
     andthen (attempt (drive_agent fuel rig env job run)) (\<lambda>result.
     case result of
       Inl AwaitingInput \<Rightarrow> fail AwaitingInput
     | _ \<Rightarrow>
         andthen (attempt (cleanup_candidates env job (case result of Inl _ \<Rightarrow> None | Inr digest \<Rightarrow> Some digest))) (\<lambda>_.
         andthen (from_result result) (\<lambda>_. ret ())))))))"

text \<open>\<open>handle_job\<close>: the lease is renewed beside the work.  When a renewal fails first the work is
  dropped where it is; \<open>dropped\<close> is then the world at that point and the failure.\<close>

definition finish_job :: "agent_env \<Rightarrow> claimed_synthesis_job \<Rightarrow> job_failure + unit \<Rightarrow> world \<Rightarrow> world option" where
  "finish_job env job result w =
     (case result of
        Inr _ \<Rightarrow> Some w
      | Inl AwaitingInput \<Rightarrow> Some w
      | Inl e \<Rightarrow> map_option snd (registry_write env (\<lambda>n now. reject_job now (cj_job_id job) (ae_worker_id env)
            (failure_code e) (ae_describe env e) (failure_details e)) w))"

definition handle_job :: "nat \<Rightarrow> 'r rig \<Rightarrow> agent_env \<Rightarrow> claimed_synthesis_job \<Rightarrow> (world \<times> storage_error) option
    \<Rightarrow> world \<Rightarrow> world option" where
  "handle_job fuel rig env job dropped w =
     (if cj_attempts job > max_job_attempts then finish_job env job (Inl AttemptsExhausted) w
      else case dropped of
        Some (w', e) \<Rightarrow> finish_job env job (Inl (StorageFailure e)) w'
      | None \<Rightarrow> Option.bind (process_job fuel rig env job w) (\<lambda>(result, w'). finish_job env job result w'))"

definition job_lease_seconds :: int where "job_lease_seconds = 300"

text \<open>One turn of \<open>run\<close>: the jobs that others have locked are skipped.\<close>

definition worker_turn :: "nat \<Rightarrow> 'r rig \<Rightarrow> agent_env \<Rightarrow> (uuid \<Rightarrow> bool) \<Rightarrow> (world \<times> storage_error) option
    \<Rightarrow> world \<Rightarrow> world option" where
  "worker_turn fuel rig env locked dropped w =
     (case registry_write env (\<lambda>n now. claim_synthesis_job (we_registry (ae_worker env)) now locked
             (ae_worker_id env) job_lease_seconds) w of
        None \<Rightarrow> None
      | Some (Inr (Some job), w') \<Rightarrow> handle_job fuel rig env job dropped w'
      | Some (_, w') \<Rightarrow> Some w')"

end
