(* ===== verification/Agent_Logic.thy ===== *)
theory Agent_Logic
  imports Agent_Run
begin

text \<open>
  Reasoning about the agent: weakest preconditions over what an agent's invariants speak of,
  the workspace and the requests sent; one rule for each action, a locale for invariants with
  one law for each change the tools make, and the lemma that every tool call, and so the whole
  run, keeps such an invariant.
\<close>

section \<open>Weakest preconditions\<close>

definition wp :: "'a act \<Rightarrow> ('a \<Rightarrow> agent_workspace \<Rightarrow> (url \<times> ip_addr) list \<Rightarrow> bool)
    \<Rightarrow> (agent_workspace \<Rightarrow> (url \<times> ip_addr) list \<Rightarrow> bool) \<Rightarrow> agent_workspace \<Rightarrow> (url \<times> ip_addr) list \<Rightarrow> bool" where
  "wp m Q E ws sent \<longleftrightarrow>
     (\<forall>w r w'. w_ws w = ws \<and> w_sent w = sent \<and> m w = Some (r, w') \<longrightarrow>
        (case r of Inl _ \<Rightarrow> E (w_ws w') (w_sent w') | Inr x \<Rightarrow> Q x (w_ws w') (w_sent w')))"

lemma wpI:
  assumes "\<And>w r w'. w_ws w = ws \<Longrightarrow> w_sent w = sent \<Longrightarrow> m w = Some (r, w') \<Longrightarrow>
    (case r of Inl _ \<Rightarrow> E (w_ws w') (w_sent w') | Inr x \<Rightarrow> Q x (w_ws w') (w_sent w'))"
  shows "wp m Q E ws sent"
  using assms by (auto simp: wp_def)

lemma wpD:
  "wp m Q E (w_ws w) (w_sent w) \<Longrightarrow> m w = Some (r, w') \<Longrightarrow>
   (case r of Inl _ \<Rightarrow> E (w_ws w') (w_sent w') | Inr x \<Rightarrow> Q x (w_ws w') (w_sent w'))"
  by (auto simp: wp_def)

named_theorems agent_wp \<open>rules for weakest preconditions, to be applied backwards\<close>

lemma wp_ret [agent_wp]: "Q x ws sent \<Longrightarrow> wp (ret x) Q E ws sent"
  by (simp add: wp_def ret_def)

lemma wp_fail [agent_wp]: "E ws sent \<Longrightarrow> wp (fail e) Q E ws sent"
  by (simp add: wp_def fail_def)

lemma wp_andthen [agent_wp]:
  assumes "wp m (\<lambda>x. wp (k x) Q E) E ws sent"
  shows "wp (andthen m k) Q E ws sent"
proof (rule wpI)
  fix w r w'
  assume w: "w_ws w = ws" "w_sent w = sent" and run: "andthen m k w = Some (r, w')"
  then obtain r1 w1 where 1: "m w = Some (r1, w1)"
    by (auto simp: andthen_def split: option.splits)
  show "case r of Inl _ \<Rightarrow> E (w_ws w') (w_sent w') | Inr x \<Rightarrow> Q x (w_ws w') (w_sent w')"
    using wpD [of m _ E w, OF _ 1] assms w run
    by (cases r1) (auto simp: andthen_def 1 intro: wpD)
qed

lemma wp_mono:
  assumes "wp m P E ws sent" and "\<And>x ws sent. P x ws sent \<Longrightarrow> Q x ws sent"
  shows "wp m Q E ws sent"
  using assms by (fastforce simp: wp_def split: sum.splits)

lemma wp_attempt:
  assumes "wp m (\<lambda>_. P) P ws sent" and "\<And>r ws sent. P ws sent \<Longrightarrow> Q r ws sent"
  shows "wp (attempt m) Q E ws sent"
proof (rule wpI)
  fix w r w'
  assume w: "w_ws w = ws" "w_sent w = sent" and "attempt m w = Some (r, w')"
  then obtain r' where r: "m w = Some (r', w')" "r = Inr r'"
    by (auto simp: attempt_def)
  then have "P (w_ws w') (w_sent w')"
    using wpD [of m "\<lambda>_. P" P w] assms(1) w by (fastforce split: sum.splits)
  then show "case r of Inl _ \<Rightarrow> E (w_ws w') (w_sent w') | Inr x \<Rightarrow> Q x (w_ws w') (w_sent w')"
    using assms(2) r by simp
qed

lemma wp_with_ws [agent_wp]: "wp (k ws) Q E ws sent \<Longrightarrow> wp (with_ws k) Q E ws sent"
  by (auto simp: wp_def with_ws_def)

lemma wp_update_ws [agent_wp]: "Q () (f ws) sent \<Longrightarrow> wp (update_ws f) Q E ws sent"
  by (auto simp: wp_def update_ws_def)

lemma wp_update_metrics [agent_wp]:
  "Q () (ws\<lparr>ws_metrics := f (ws_metrics ws)\<rparr>) sent \<Longrightarrow> wp (update_metrics f) Q E ws sent"
  by (auto simp: wp_def update_ws_def update_metrics_def)

lemma wp_from_result [agent_wp]:
  "(\<And>x. r = Inr x \<Longrightarrow> Q x ws sent) \<Longrightarrow> (\<And>e. r = Inl e \<Longrightarrow> E ws sent) \<Longrightarrow> wp (from_result r) Q E ws sent"
  by (cases r) (simp_all add: from_result_def wp_ret wp_fail)

lemma wp_require [agent_wp]:
  "(b \<Longrightarrow> Q () ws sent) \<Longrightarrow> (\<not> b \<Longrightarrow> E ws sent) \<Longrightarrow> wp (require b e) Q E ws sent"
  by (simp add: require_def wp_ret wp_fail)

lemma wp_synthesis_result [agent_wp]:
  "(\<And>x. r = Inr x \<Longrightarrow> Q x ws sent) \<Longrightarrow> E ws sent \<Longrightarrow> wp (synthesis_result r) Q E ws sent"
  by (cases r) (simp_all add: synthesis_result_def from_result_def wp_ret wp_fail)

lemma wp_web_result [agent_wp]:
  "(\<And>x. r = Inr x \<Longrightarrow> Q x ws sent) \<Longrightarrow> E ws sent \<Longrightarrow> wp (web_result r) Q E ws sent"
  by (cases r) (simp_all add: web_result_def from_result_def wp_ret wp_fail)

lemma wp_runtime_result [agent_wp]:
  "(\<And>x. r = Inr x \<Longrightarrow> Q x ws sent) \<Longrightarrow> E ws sent \<Longrightarrow> wp (runtime_result r) Q E ws sent"
  by (cases r) (simp_all add: runtime_result_def from_result_def wp_ret wp_fail)

lemma wp_parse_args [agent_wp]:
  "(\<And>x. r = Some x \<Longrightarrow> Q x ws sent) \<Longrightarrow> E ws sent \<Longrightarrow> wp (parse_args r) Q E ws sent"
  by (cases r) (simp_all add: parse_args_def from_result_def ok_or_def wp_ret wp_fail)

lemma wp_with_args [agent_wp]:
  "(\<And>x. decoded = Some x \<Longrightarrow> validate_reason (reason x) = Inr () \<Longrightarrow> wp (k x) Q E ws sent) \<Longrightarrow> E ws sent
    \<Longrightarrow> wp (with_args decoded reason k) Q E ws sent"
  unfolding with_args_def by (intro agent_wp) auto

lemma wp_reply [agent_wp]: "Q (ContinueWith (json_object kvs)) ws sent \<Longrightarrow> wp (reply kvs) Q E ws sent"
  by (simp add: reply_def wp_ret)

text \<open>An interaction that leaves the workspace and the requests alone.\<close>

lemma wp_interact:
  assumes "\<And>n w. w_ws w = ws \<Longrightarrow> w_sent w = sent \<Longrightarrow>
    Q (fst (f n w)) (w_ws (snd (f n w))) (w_sent (snd (f n w)))"
  shows "wp (interact f) Q E ws sent"
  by (rule wpI) (use assms in \<open>auto simp: interact_def case_prod_beta Let_def\<close>)

lemma wp_interact_same:
  assumes "\<And>n w. w_ws w = ws \<Longrightarrow> w_sent w = sent \<Longrightarrow>
    w_ws (snd (f n w)) = ws \<and> w_sent (snd (f n w)) = sent"
    and "\<And>x. Q x ws sent"
  shows "wp (interact f) Q E ws sent"
  using assms by (auto intro: wp_interact)

lemma wp_ask [agent_wp]: "(\<And>n. Q (g n) ws sent) \<Longrightarrow> wp (interact (\<lambda>n w. (g n, w))) Q E ws sent"
  by (auto intro: wp_interact)

lemma wp_registry_write [agent_wp]:
  "(\<And>x. Q x ws sent) \<Longrightarrow> E ws sent \<Longrightarrow> wp (registry_write env f) Q E ws sent"
  unfolding registry_write_def
  by (intro wp_andthen wp_interact_same wp_from_result) (auto simp: Let_def split: sum.splits)

lemma wp_registry_read [agent_wp]:
  "(\<And>x. Q x ws sent) \<Longrightarrow> E ws sent \<Longrightarrow> wp (registry_read env f) Q E ws sent"
  unfolding registry_read_def
  by (intro wp_andthen wp_interact_same wp_from_result) (auto simp: Let_def)

lemma wp_event [agent_wp]: "Q () ws sent \<Longrightarrow> E ws sent \<Longrightarrow> wp (event env job kind v) Q E ws sent"
  unfolding event_def by (intro agent_wp) auto

lemma wp_set_stage [agent_wp]: "Q () ws sent \<Longrightarrow> E ws sent \<Longrightarrow> wp (set_stage env job stage) Q E ws sent"
  unfolding set_stage_def by (intro agent_wp) auto

lemma wp_suspend [agent_wp]: "E ws sent \<Longrightarrow> wp (suspend env job q) Q E ws sent"
  unfolding suspend_def by (intro agent_wp) auto

lemma wp_answer_of_call [agent_wp]:
  "(\<And>x. Q x ws sent) \<Longrightarrow> E ws sent \<Longrightarrow> wp (answer_of_call env job call_id) Q E ws sent"
  unfolding answer_of_call_def by (intro agent_wp) auto

lemma wp_save_checkpoint [agent_wp]:
  "Q () ws sent \<Longrightarrow> E ws sent \<Longrightarrow> wp (save_checkpoint rig env job run) Q E ws sent"
  unfolding save_checkpoint_def by (intro agent_wp) auto

lemma wp_build_candidate [agent_wp]:
  "Q () ws sent \<Longrightarrow> E ws sent \<Longrightarrow> wp (build_candidate env digest) Q E ws sent"
  unfolding build_candidate_def
  by (intro wp_andthen wp_interact_same wp_from_result) (auto simp: Let_def split: prod.splits)

lemma wp_store_candidate [agent_wp]:
  "(\<And>a. Q a ws sent) \<Longrightarrow> E ws sent \<Longrightarrow> wp (store_candidate env job draft source) Q E ws sent"
  unfolding store_candidate_def
  by (intro wp_andthen wp_interact_same wp_from_result) (auto simp: Let_def split: prod.splits)

lemma wp_publish [agent_wp]: "Q () ws sent \<Longrightarrow> E ws sent \<Longrightarrow> wp (publish env job a) Q E ws sent"
  unfolding publish_def by (intro agent_wp) auto

lemma wp_run_candidate [agent_wp]:
  "(\<And>r. Q r ws sent) \<Longrightarrow> wp (run_candidate env digest args stdin fixtures) Q E ws sent"
  by (rule wpI) (auto simp: run_candidate_def Let_def split: prod.splits option.splits)

lemma wp_run_samples [agent_wp]:
  "(\<And>r. Q r ws sent) \<Longrightarrow> wp (run_samples env digest fmt fixtures i samples) Q E ws sent"
  by (induction samples arbitrary: i) (auto intro!: agent_wp split: sum.split)

lemma wp_run_tests [agent_wp]:
  "(\<And>r. Q r ws sent) \<Longrightarrow> wp (run_tests env digest fmt n i tests) Q E ws sent"
  by (induction tests arbitrary: i) (auto intro!: agent_wp split: sum.split)

lemma wp_validate_candidate [agent_wp]:
  "(\<And>r. Q r ws sent) \<Longrightarrow> wp (validate_candidate env job draft digest) Q E ws sent"
  unfolding validate_candidate_def by (intro agent_wp) (auto intro!: agent_wp split: sum.split)

lemma wp_web_call [agent_wp]:
  "(\<And>n x. fst (f (net_at env n)) = Inr x \<Longrightarrow> Q x ws (sent @ snd (f (net_at env n)))) \<Longrightarrow>
   (\<And>n. E ws (sent @ snd (f (net_at env n)))) \<Longrightarrow> wp (web_call env f) Q E ws sent"
  unfolding web_call_def case_prod_beta Let_def
  by (intro wp_andthen wp_interact wp_web_result) auto

section \<open>Invariants of the agent\<close>

text \<open>What an invariant of the workspace and of the requests sent has to be kept by.\<close>

locale agent_invariant =
  fixes env :: agent_env and job :: claimed_synthesis_job
    and I :: "agent_workspace \<Rightarrow> (url \<times> ip_addr) list \<Rightarrow> bool"
  assumes reviewed: "I ws s \<Longrightarrow> I (ws\<lparr>ws_contract_reviews := ws_contract_reviews ws @ [review]\<rparr>) s"
    and drafted: "I ws s \<Longrightarrow> validate_contract (ae_worker env) args job (ws_example_corrections ws)
        (ws_http_capabilities ws) (ws_http_probe_records ws) = Inr draft \<Longrightarrow>
      I (ws\<lparr>ws_draft := Some draft, ws_latest_failure := None\<rparr>) s"
    and sourced: "I ws s \<Longrightarrow> am_source_revisions (ws_metrics ws) < max_source_revisions \<Longrightarrow>
      I (ws\<lparr>ws_source := Some source,
            ws_metrics := (ws_metrics ws)\<lparr>am_source_revisions := Suc (am_source_revisions (ws_metrics ws))\<rparr>\<rparr>) s"
    and built: "I ws s \<Longrightarrow> I (ws\<lparr>ws_candidate_digests := List.insert digest (ws_candidate_digests ws),
        ws_candidate_sources := List.insert sha (ws_candidate_sources ws),
        ws_current_artifact_digest := Some digest\<rparr>) s"
    and judged: "I ws s \<Longrightarrow> I (ws\<lparr>ws_latest_failure := failure\<rparr>) s"
    and probed: "I ws s \<Longrightarrow> am_probes_run (ws_metrics ws) < max_probes \<Longrightarrow>
      I (ws\<lparr>ws_metrics := (ws_metrics ws)\<lparr>am_probes_run := Suc (am_probes_run (ws_metrics ws))\<rparr>\<rparr>) s"
    and probe_stored: "I ws s \<Longrightarrow> I (ws\<lparr>ws_probe_results := put key v (ws_probe_results ws)\<rparr>) s"
    and oracle_corrected: "I ws s \<Longrightarrow> ws_draft ws = Some draft \<Longrightarrow>
      am_generated_test_corrections (ws_metrics ws) < max_generated_test_corrections \<Longrightarrow>
      I (ws\<lparr>ws_draft := Some (replace_oracle name stdout code draft),
            ws_metrics := (ws_metrics ws)\<lparr>am_generated_test_corrections := Suc (am_generated_test_corrections (ws_metrics ws))\<rparr>\<rparr>) s"
    and decided: "I ws s \<Longrightarrow> I (ws\<lparr>ws_resolved_decisions := put key decision (ws_resolved_decisions ws)\<rparr>) s"
    and example_corrected: "I ws s \<Longrightarrow> validate_example_correction (ae_worker env) job xargs = Inr correction \<Longrightarrow>
      apply_example_correction correction ws = Inr ws' \<Longrightarrow> I ws' s"
    and searched: "I ws s \<Longrightarrow> am_web_searches (ws_metrics ws) < max_web_searches \<Longrightarrow>
      I (ws\<lparr>ws_metrics := (ws_metrics ws)\<lparr>am_web_searches := Suc (am_web_searches (ws_metrics ws))\<rparr>\<rparr>) s"
    and fetched: "I ws s \<Longrightarrow> am_documents_fetched (ws_metrics ws) < max_document_fetches \<Longrightarrow>
      I (ws\<lparr>ws_metrics := (ws_metrics ws)\<lparr>am_documents_fetched := Suc (am_documents_fetched (ws_metrics ws))\<rparr>\<rparr>)
        (s @ snd (fetch_document (net_at env n) raw))"
    and approved: "I ws s \<Longrightarrow> length (ws_http_capabilities ws) < max_http_capabilities \<Longrightarrow>
      normalize_http_capability (ae_worker env) cargs = Inr capability \<Longrightarrow>
      \<not> list_ex (\<lambda>a. ac_hash a = http_capability_hash (ae_worker env) capability) (ws_http_capabilities ws) \<Longrightarrow>
      I (ws\<lparr>ws_http_capabilities := ws_http_capabilities ws
        @ [\<lparr>ac_hash = http_capability_hash (ae_worker env) capability, ac_capability = capability\<rparr>]\<rparr>) s"
    and released: "I ws s \<Longrightarrow> find (\<lambda>a. ac_hash a = hash) (ws_http_capabilities ws) = Some approval \<Longrightarrow>
      I (ws\<lparr>ws_http_capabilities := remove1 approval (ws_http_capabilities ws),
            ws_http_probe_records := filter (\<lambda>p. hp_capability_hash p \<noteq> ac_hash approval) (ws_http_probe_records ws)\<rparr>) s"
    and requested: "I ws s \<Longrightarrow> am_http_probes (ws_metrics ws) < max_http_probes \<Longrightarrow>
      approved_capability_for_url (ae_worker env) (ws_http_capabilities ws) raw = Inr approval \<Longrightarrow>
      I (ws\<lparr>ws_metrics := (ws_metrics ws)\<lparr>am_http_probes := Suc (am_http_probes (ws_metrics ws))\<rparr>\<rparr>)
        (s @ snd (probe (net_at env n) raw (ac_capability approval)))"
    and recorded: "I ws s \<Longrightarrow> I (ws\<lparr>ws_http_probe_records := ws_http_probe_records ws @ [r]\<rparr>) s"
    and turned: "I ws s \<Longrightarrow> I (ws\<lparr>ws_metrics := (ws_metrics ws)\<lparr>am_turns := t\<rparr>\<rparr>) s"

context agent_invariant
begin

abbreviation keeps :: "'a act \<Rightarrow> agent_workspace \<Rightarrow> (url \<times> ip_addr) list \<Rightarrow> bool" where
  "keeps m \<equiv> wp m (\<lambda>_. I) I"

lemma evaluate_keeps: "I ws s \<Longrightarrow> keeps (evaluate_after_mutation env job) ws s"
  unfolding evaluate_after_mutation_def
  by (auto split: option.split sum.split intro!: agent_wp built judged)

lemma adopt_source_keeps:
  "I ws s \<Longrightarrow> am_source_revisions (ws_metrics ws) < max_source_revisions \<Longrightarrow> keeps (adopt_source env job source) ws s"
  unfolding adopt_source_def by (intro agent_wp) (auto intro!: evaluate_keeps dest: sourced)

lemma drafted_after_review:
  assumes "I ws s" "validate_contract (ae_worker env) args job (ws_example_corrections ws)
      (ws_http_capabilities ws) (ws_http_probe_records ws) = Inr draft"
  shows "I (ws\<lparr>ws_contract_reviews := ws_contract_reviews ws @ [review], ws_draft := Some draft,
      ws_latest_failure := None\<rparr>) s"
  using drafted [OF reviewed [OF assms(1)]] assms(2) by simp

lemma submit_contract_keeps: "I ws s \<Longrightarrow> keeps (tool_submit_contract env job v) ws s"
  unfolding tool_submit_contract_def Let_def
  by (auto split: review_decision.split intro!: agent_wp reviewed intro: drafted_after_review)

lemma write_source_keeps: "I ws s \<Longrightarrow> keeps (tool_write_source env job v) ws s"
  unfolding tool_write_source_def
  by (auto split: prod.split intro!: agent_wp adopt_source_keeps)

lemma edit_source_keeps: "I ws s \<Longrightarrow> keeps (tool_edit_source env job v) ws s"
  unfolding tool_edit_source_def Let_def
  by (auto split: prod.split intro!: agent_wp adopt_source_keeps)

lemma probe_keeps: "I ws s \<Longrightarrow> keeps (tool_probe env job v) ws s"
  unfolding tool_probe_def Let_def
  by (auto split: option.split intro!: agent_wp probe_stored probed)

lemma correct_oracle_keeps:
  "I ws s \<Longrightarrow> ws_draft ws = Some draft \<Longrightarrow>
   am_generated_test_corrections (ws_metrics ws) < max_generated_test_corrections \<Longrightarrow>
   keeps (correct_oracle env job test verdict) ws s"
  unfolding correct_oracle_def
  by (auto intro!: agent_wp evaluate_keeps dest: oracle_corrected)

lemma review_generated_test_keeps: "I ws s \<Longrightarrow> keeps (tool_review_generated_test env job v) ws s"
  unfolding tool_review_generated_test_def Let_def reviewed_reply_def
  by (auto split: prod.split verdict_kind.split intro!: agent_wp correct_oracle_keeps simp: ok_or_def split: option.splits)

lemma abort_keeps: "I ws s \<Longrightarrow> keeps (tool_abort env job v) ws s"
  unfolding tool_abort_def by (auto intro!: agent_wp)

lemma clarification_keeps: "I ws s \<Longrightarrow> keeps (tool_request_clarification env job call_id v) ws s"
  unfolding tool_request_clarification_def Let_def
  by (auto split: option.split job_input_answer.split intro!: agent_wp decided)

lemma example_correction_keeps: "I ws s \<Longrightarrow> keeps (tool_request_example_correction env job call_id v) ws s"
  unfolding tool_request_example_correction_def correction_reply_def rejected_reply_def
  by (auto split: option.split job_input_answer.split intro!: agent_wp evaluate_keeps)
    (erule (2) example_corrected)+

lemma search_web_keeps: "I ws s \<Longrightarrow> keeps (tool_search_web env v) ws s"
  unfolding tool_search_web_def by (auto split: prod.split intro!: agent_wp searched)

lemma fetch_document_keeps: "I ws s \<Longrightarrow> keeps (tool_fetch_document env v) ws s"
  unfolding tool_fetch_document_def by (auto split: prod.split intro!: agent_wp fetched)

lemma request_http_capability_keeps: "I ws s \<Longrightarrow> keeps (tool_request_http_capability env job call_id v) ws s"
  unfolding tool_request_http_capability_def Let_def adopt_capability_def rejected_reply_def approve_capability_def
  by (auto split: option.split job_input_answer.split intro!: agent_wp approved)

lemma release_http_capability_keeps: "I ws s \<Longrightarrow> keeps (tool_release_http_capability v) ws s"
  unfolding tool_release_http_capability_def
  by (auto split: prod.split intro!: agent_wp simp: ok_or_def split: option.splits intro: released)

lemma probe_http_keeps: "I ws s \<Longrightarrow> keeps (tool_probe_http env v) ws s"
  unfolding tool_probe_http_def Let_def
  by (auto split: prod.split intro!: agent_wp recorded intro: requested)

lemmas tools_keep = submit_contract_keeps write_source_keeps edit_source_keeps probe_keeps
  review_generated_test_keeps abort_keeps clarification_keeps example_correction_keeps search_web_keeps
  fetch_document_keeps request_http_capability_keeps release_http_capability_keeps probe_http_keeps

lemma execute_tool_inner_keeps: "I ws s \<Longrightarrow> keeps (execute_tool_inner env job call) ws s"
  unfolding execute_tool_inner_def Let_def by (simp add: tools_keep wp_fail)

lemma execute_tool_keeps:
  assumes "I ws s"
  shows "keeps (execute_tool env job call) ws s"
proof (rule wpI)
  fix w r w'
  assume w: "w_ws w = ws" "w_sent w = s" and run: "execute_tool env job call w = Some (r, w')"
  from run obtain r' where "execute_tool_inner env job call w = Some (r', w')"
    by (auto simp: execute_tool_def)
  moreover have "keeps (execute_tool_inner env job call) (w_ws w) (w_sent w)"
    using execute_tool_inner_keeps assms w by simp
  ultimately have "case r' of Inl _ \<Rightarrow> I (w_ws w') (w_sent w') | Inr _ \<Rightarrow> I (w_ws w') (w_sent w')"
    by (intro wpD)
  then have "I (w_ws w') (w_sent w')"
    by (simp split: sum.splits)
  then show "case r of Inl _ \<Rightarrow> I (w_ws w') (w_sent w') | Inr _ \<Rightarrow> I (w_ws w') (w_sent w')"
    by (simp split: sum.split)
qed

lemma set_phase_stage_keeps: "I ws s \<Longrightarrow> keeps (set_phase_stage env job) ws s"
  unfolding set_phase_stage_def by (auto intro!: agent_wp)

lemma settle_turn_keeps: "I ws s \<Longrightarrow> keeps (settle_turn fuel rig env job outcome run) ws s"
proof (induction fuel arbitrary: outcome run)
  case 0
  then show ?case
    by (cases outcome) (auto intro!: agent_wp, simp add: wp_def)
next
  case (Suc fuel)
  then show ?case
    by (cases outcome) (auto intro!: agent_wp)
qed

lemma model_step_keeps: "I ws s \<Longrightarrow> keeps (model_step fuel rig env job prompt history turn run) ws s"
  unfolding model_step_def available_tools_def Let_def
  by (auto intro!: agent_wp settle_turn_keeps turned)

lemma tools_step_keeps: "I ws s \<Longrightarrow> keeps (tools_step rig env job calls run) ws s"
  unfolding tools_step_def Let_def
  by (auto split: option.split tool_execution.split
    intro!: wp_mono [OF execute_tool_keeps] agent_wp)

lemma drive_step_keeps: "I ws s \<Longrightarrow> keeps (drive_step fuel rig env job run) ws s"
  unfolding drive_step_def
  by (auto split: run_step.split intro!: wp_mono [OF set_phase_stage_keeps] wp_mono [OF model_step_keeps] tools_step_keeps agent_wp)

lemma drive_agent_keeps: "I ws s \<Longrightarrow> keeps (drive_agent fuel rig env job run) ws s"
proof (induction fuel arbitrary: run ws s)
  case 0
  then show ?case
    by (simp add: wp_def)
next
  case (Suc fuel)
  then show ?case
    by (auto split: sum.split intro!: wp_andthen wp_mono [OF drive_step_keeps] wp_ret)
qed

lemma remove_candidates_keeps: "I ws s \<Longrightarrow> keeps (remove_candidates env published referenced digests) ws s"
  by (induction digests)
    (auto intro!: wp_ret wp_andthen wp_interact_same wp_from_result
      simp: Let_def split: prod.splits)

lemma remove_images_keeps: "I ws s \<Longrightarrow> keeps (remove_images env referenced sources) ws s"
  by (induction sources)
    (auto intro!: wp_ret wp_andthen wp_interact_same wp_from_result)

lemma cleanup_keeps: "I ws s \<Longrightarrow> keeps (cleanup_candidates env job published) ws s"
  unfolding cleanup_candidates_def
  by (auto intro!: agent_wp wp_mono [OF remove_candidates_keeps] remove_images_keeps)

text \<open>The whole run of a job, from the workspace it loads.\<close>

lemma process_job_keeps:
  assumes "load_or_create_run rig (ae_worker env) job = Inr (run, ws', resumed)" and "I ws' s"
  shows "keeps (process_job fuel rig env job) ws s"
  unfolding process_job_def
  using assms
  by (auto split: prod.split sum.split job_failure.split
    intro!: agent_wp wp_attempt [OF drive_agent_keeps] wp_attempt [OF cleanup_keeps])

lemma process_job_result:
  assumes "process_job fuel rig env job w = Some (r, w')"
    and "load_or_create_run rig (ae_worker env) job = Inr (run, ws, resumed)" and "I ws (w_sent w)"
  shows "I (w_ws w') (w_sent w')"
  using wpD [OF process_job_keeps [OF assms(2,3)] assms(1)] by (simp split: sum.splits)

end

end
