(* ===== verification/Web_Safety.thy ===== *)
theory Web_Safety
  imports Web_Access
begin

text \<open>
  What the worker's web access guarantees: which addresses count as public, that no request
  leaves for another address or outside the approved capability, and what the reductions of
  a fetched text keep.
\<close>

section \<open>Public addresses\<close>

lemma unat_drop: "unat (drop_bit k w) = unat w div 2 ^ k"
  by (subst unat_drop_bit_eq) (rule drop_bit_eq_div)

lemma unat_octet: "unat (octet i w) = (unat w div 2 ^ (24 - 8 * i)) mod 256"
  by (simp add: octet_def unsigned_ucast_eq unat_drop take_bit_eq_mod del: drop_bit_eq_div)

definition in_cidr :: "32 word \<Rightarrow> nat \<Rightarrow> 32 word \<Rightarrow> bool" where
  "in_cidr base len w = (drop_bit (32 - len) w = drop_bit (32 - len) base)"

definition reserved_cidrs :: "(32 word \<times> nat) list" where
  "reserved_cidrs =
    [(0x00000000, 8), (0x0A000000, 8), (0x64400000, 10), (0x7F000000, 8), (0xA9FE0000, 16),
     (0xAC100000, 12), (0xC0000000, 24), (0xC0000200, 24), (0xC0A80000, 16), (0xC6120000, 15),
     (0xC6336400, 24), (0xCB007100, 24), (0xE0000000, 4), (0xF0000000, 4)]"

lemma in_cidr_div:
  assumes "len \<le> 32"
  shows "in_cidr base len w \<longleftrightarrow> unat w div 2 ^ (32 - len) = unat base div 2 ^ (32 - len)"
  by (simp add: in_cidr_def word_unat_eq_iff unat_drop)

lemma in_cidr_block:
  "len \<le> 32 \<Longrightarrow> 2 ^ (32 - len) = k \<Longrightarrow> unat base div k = q \<Longrightarrow> in_cidr base len w \<longleftrightarrow> unat w div k = q"
  by (simp only: in_cidr_div)

lemma div_mult_add: "0 < k \<Longrightarrow> (k * m * a + b) div k = m * a + b div (k::nat)"
  using div_mult_self4 [of k b "m * a"] by (simp add: mult.assoc)

lemma octet_cases:
  fixes n :: nat
  assumes "n < 4294967296"
  defines "a \<equiv> n div 16777216 mod 256" and "b \<equiv> n div 65536 mod 256" and "c \<equiv> n div 256 mod 256"
  shows "n div 16777216 = a" "n div 65536 = 256 * a + b" "n div 256 = 65536 * a + 256 * b + c"
    "n div 1048576 = 16 * a + b div 16" "n div 4194304 = 4 * a + b div 64"
    "n div 131072 = 128 * a + b div 2" "n div 268435456 = a div 16" "a < 256" "b < 256" "c < 256"
proof -
  show a: "n div 16777216 = a" using assms by simp
  have b1: "n div 65536 div 256 = a" using a by (simp add: div_mult2_eq [symmetric])
  then show b: "n div 65536 = 256 * a + b" unfolding b_def by (metis mult_div_mod_eq)
  have "n div 256 div 256 = n div 65536" by (simp add: div_mult2_eq [symmetric])
  then have "n div 256 = 256 * (n div 65536) + c" unfolding c_def by (metis mult_div_mod_eq)
  then show "n div 256 = 65536 * a + 256 * b + c" using b by simp
  have "n div 1048576 = n div 65536 div 16" by (simp add: div_mult2_eq [symmetric])
  then show "n div 1048576 = 16 * a + b div 16" using div_mult_add [of 16 16 a b] b by simp
  have "n div 4194304 = n div 65536 div 64" by (simp add: div_mult2_eq [symmetric])
  then show "n div 4194304 = 4 * a + b div 64" using div_mult_add [of 64 4 a b] b by simp
  have "n div 131072 = n div 65536 div 2" by (simp add: div_mult2_eq [symmetric])
  then show "n div 131072 = 128 * a + b div 2" using div_mult_add [of 2 128 a b] b by simp
  have "n div 268435456 = n div 16777216 div 16" by (simp add: div_mult2_eq [symmetric])
  then show "n div 268435456 = a div 16" using a by simp
  show "a < 256" "b < 256" "c < 256" by (simp_all add: a_def b_def c_def)
qed

lemma digit_eq: "b < m \<Longrightarrow> m * a + b = k \<longleftrightarrow> a = k div m \<and> b = k mod (m::nat)"
  by auto

lemma div_eq_range: "0 < k \<Longrightarrow> b div k = q \<longleftrightarrow> k * q \<le> b \<and> b < k * q + (k::nat)"
  by (metis add.commute div_nat_eqI dividend_less_times_div mult.commute mult_Suc_right
      times_div_less_eq_dividend)

lemma octet_arith:
  fixes a b c :: nat
  assumes "a < 256" "b < 256" "c < 256"
  shows "4 * a + b div 64 = 401 \<longleftrightarrow> a = 100 \<and> 64 \<le> b \<and> b \<le> 127"
    "256 * a + b = 43518 \<longleftrightarrow> a = 169 \<and> b = 254"
    "16 * a + b div 16 = 2753 \<longleftrightarrow> a = 172 \<and> 16 \<le> b \<and> b \<le> 31"
    "65536 * a + 256 * b + c = 12582912 \<longleftrightarrow> a = 192 \<and> b = 0 \<and> c = 0"
    "65536 * a + 256 * b + c = 12582914 \<longleftrightarrow> a = 192 \<and> b = 0 \<and> c = 2"
    "256 * a + b = 49320 \<longleftrightarrow> a = 192 \<and> b = 168"
    "128 * a + b div 2 = 25353 \<longleftrightarrow> a = 198 \<and> (b = 18 \<or> b = 19)"
    "65536 * a + 256 * b + c = 12989284 \<longleftrightarrow> a = 198 \<and> b = 51 \<and> c = 100"
    "65536 * a + 256 * b + c = 13303921 \<longleftrightarrow> a = 203 \<and> b = 0 \<and> c = 113"
    "a div 16 = 14 \<longleftrightarrow> 224 \<le> a \<and> a \<le> 239" "a div 16 = 15 \<longleftrightarrow> 240 \<le> a"
proof -
  have two: "256 * a + b = k \<longleftrightarrow> a = k div 256 \<and> b = k mod 256" for k
    by (rule digit_eq [OF assms(2)])
  have three: "65536 * a + 256 * b + c = k \<longleftrightarrow> a = k div 256 div 256 \<and> b = k div 256 mod 256 \<and> c = k mod 256" for k
    using digit_eq [OF assms(3), of "256 * a + b" k] two [of "k div 256"] by simp
  have sub: "b div 64 < 4" "b div 16 < 16" "b div 2 < 128" using assms(2) by simp_all
  show "256 * a + b = 43518 \<longleftrightarrow> a = 169 \<and> b = 254" unfolding two by simp
  show "256 * a + b = 49320 \<longleftrightarrow> a = 192 \<and> b = 168" unfolding two by simp
  show "65536 * a + 256 * b + c = 12582912 \<longleftrightarrow> a = 192 \<and> b = 0 \<and> c = 0" unfolding three by simp
  show "65536 * a + 256 * b + c = 12582914 \<longleftrightarrow> a = 192 \<and> b = 0 \<and> c = 2" unfolding three by simp
  show "65536 * a + 256 * b + c = 12989284 \<longleftrightarrow> a = 198 \<and> b = 51 \<and> c = 100" unfolding three by simp
  show "65536 * a + 256 * b + c = 13303921 \<longleftrightarrow> a = 203 \<and> b = 0 \<and> c = 113" unfolding three by simp
  show "4 * a + b div 64 = 401 \<longleftrightarrow> a = 100 \<and> 64 \<le> b \<and> b \<le> 127"
    unfolding digit_eq [OF sub(1)] by (auto simp: div_eq_range)
  show "16 * a + b div 16 = 2753 \<longleftrightarrow> a = 172 \<and> 16 \<le> b \<and> b \<le> 31"
    unfolding digit_eq [OF sub(2)] by (auto simp: div_eq_range)
  show "128 * a + b div 2 = 25353 \<longleftrightarrow> a = 198 \<and> (b = 18 \<or> b = 19)"
    unfolding digit_eq [OF sub(3)] by (auto simp: div_eq_range)
  show "a div 16 = 14 \<longleftrightarrow> 224 \<le> a \<and> a \<le> 239" by (auto simp: div_eq_range)
  show "a div 16 = 15 \<longleftrightarrow> 240 \<le> a" using assms(1) by (auto simp: div_eq_range)
qed

text \<open>C26: an IPv4 address counts as public exactly when it lies in none of fourteen reserved
  blocks: this network, the private, shared, loopback and link-local ranges, the protocol,
  documentation and benchmarking blocks, and everything from the multicast block up.\<close>

theorem public_iff_not_reserved:
  "is_public_ip (V4 w) \<longleftrightarrow> \<not> list_ex (\<lambda>(base, len). in_cidr base len w) reserved_cidrs"
proof -
  let ?n = "unat w"
  define a where "a = ?n div 16777216 mod 256"
  define b where "b = ?n div 65536 mod 256"
  define c where "c = ?n div 256 mod 256"
  have n: "?n < 4294967296" using unsigned_less [of w, where ?'a = nat] by simp
  note o = octet_cases [OF n, folded a_def b_def c_def]
  note ar = octet_arith [OF o(8,9,10)]
  have oct: "unat (octet 0 w) = a" "unat (octet (Suc 0) w) = b" "unat (octet 1 w) = b" "unat (octet 2 w) = c"
    by (simp_all add: unat_octet a_def b_def c_def)
  have words: "octet 0 w = k \<longleftrightarrow> a = unat k" "octet 1 w = k \<longleftrightarrow> b = unat k" "octet 2 w = k \<longleftrightarrow> c = unat k"
    "k \<le> octet 0 w \<longleftrightarrow> unat k \<le> a" "octet 0 w \<le> k \<longleftrightarrow> a \<le> unat k"
    "k \<le> octet 1 w \<longleftrightarrow> unat k \<le> b" "octet 1 w \<le> k \<longleftrightarrow> b \<le> unat k" for k
    by (simp_all only: word_unat_eq_iff word_le_nat_alt oct)
  have nums: "unat (2::8 word) = 2" "unat (10::8 word) = 10" "unat (16::8 word) = 16" "unat (18::8 word)
    = 18" "unat (19::8 word) = 19" "unat (31::8 word) = 31" "unat (51::8 word) = 51" "unat
    (64::8 word) = 64" "unat (100::8 word) = 100" "unat (113::8 word) = 113" "unat (127::8
    word) = 127" "unat (168::8 word) = 168" "unat (169::8 word) = 169" "unat (172::8 word) =
    172" "unat (192::8 word) = 192" "unat (198::8 word) = 198" "unat (203::8 word) = 203" "unat
    (224::8 word) = 224" "unat (239::8 word) = 239" "unat (240::8 word) = 240" "unat (254::8
    word) = 254"
    "unat (0::8 word) = 0"
    by simp_all
  have ends: "w = 0 \<Longrightarrow> a = 0" "w = 0xFFFFFFFF \<Longrightarrow> 240 \<le> a"
    by (simp_all add: a_def)
  have lhs: "is_public_ip (V4 w) \<longleftrightarrow>
      \<not> (a = 10 \<or> a = 172 \<and> 16 \<le> b \<and> b \<le> 31 \<or> a = 192 \<and> b = 168 \<or> a = 127
        \<or> a = 169 \<and> b = 254 \<or> 224 \<le> a \<and> a \<le> 239 \<or> a = 0 \<or> 240 \<le> a
        \<or> a = 100 \<and> 64 \<le> b \<and> b \<le> 127 \<or> a = 192 \<and> b = 0 \<and> c = 0
        \<or> a = 192 \<and> b = 0 \<and> c = 2 \<or> a = 198 \<and> (b = 18 \<or> b = 19)
        \<or> a = 198 \<and> b = 51 \<and> c = 100 \<or> a = 203 \<and> b = 0 \<and> c = 113)"
    unfolding is_public_ip.simps v4_is_public_def Let_def words nums using ends by blast
  have block0: "in_cidr 0x00000000 8 w \<longleftrightarrow> a = 0"
    using in_cidr_block [of 8 16777216 "0x00000000" 0 w, unfolded o(1)] by simp
  have block1: "in_cidr 0x0A000000 8 w \<longleftrightarrow> a = 10"
    using in_cidr_block [of 8 16777216 "0x0A000000" 10 w, unfolded o(1)] by simp
  have block2: "in_cidr 0x7F000000 8 w \<longleftrightarrow> a = 127"
    using in_cidr_block [of 8 16777216 "0x7F000000" 127 w, unfolded o(1)] by simp
  have block3: "in_cidr 0x64400000 10 w \<longleftrightarrow> a = 100 \<and> 64 \<le> b \<and> b \<le> 127"
    using in_cidr_block [of 10 4194304 "0x64400000" 401 w, unfolded o(5) ar(1)] by simp
  have block4: "in_cidr 0xA9FE0000 16 w \<longleftrightarrow> a = 169 \<and> b = 254"
    using in_cidr_block [of 16 65536 "0xA9FE0000" 43518 w, unfolded o(2) ar(2)] by simp
  have block5: "in_cidr 0xAC100000 12 w \<longleftrightarrow> a = 172 \<and> 16 \<le> b \<and> b \<le> 31"
    using in_cidr_block [of 12 1048576 "0xAC100000" 2753 w, unfolded o(4) ar(3)] by simp
  have block6: "in_cidr 0xC0000000 24 w \<longleftrightarrow> a = 192 \<and> b = 0 \<and> c = 0"
    using in_cidr_block [of 24 256 "0xC0000000" 12582912 w, unfolded o(3) ar(4)] by simp
  have block7: "in_cidr 0xC0000200 24 w \<longleftrightarrow> a = 192 \<and> b = 0 \<and> c = 2"
    using in_cidr_block [of 24 256 "0xC0000200" 12582914 w, unfolded o(3) ar(5)] by simp
  have block8: "in_cidr 0xC0A80000 16 w \<longleftrightarrow> a = 192 \<and> b = 168"
    using in_cidr_block [of 16 65536 "0xC0A80000" 49320 w, unfolded o(2) ar(6)] by simp
  have block9: "in_cidr 0xC6120000 15 w \<longleftrightarrow> a = 198 \<and> (b = 18 \<or> b = 19)"
    using in_cidr_block [of 15 131072 "0xC6120000" 25353 w, unfolded o(6) ar(7)] by simp
  have block10: "in_cidr 0xC6336400 24 w \<longleftrightarrow> a = 198 \<and> b = 51 \<and> c = 100"
    using in_cidr_block [of 24 256 "0xC6336400" 12989284 w, unfolded o(3) ar(8)] by simp
  have block11: "in_cidr 0xCB007100 24 w \<longleftrightarrow> a = 203 \<and> b = 0 \<and> c = 113"
    using in_cidr_block [of 24 256 "0xCB007100" 13303921 w, unfolded o(3) ar(9)] by simp
  have block12: "in_cidr 0xE0000000 4 w \<longleftrightarrow> 224 \<le> a \<and> a \<le> 239"
    using in_cidr_block [of 4 268435456 "0xE0000000" 14 w, unfolded o(7) ar(10)] by simp
  have block13: "in_cidr 0xF0000000 4 w \<longleftrightarrow> 240 \<le> a"
    using in_cidr_block [of 4 268435456 "0xF0000000" 15 w, unfolded o(7) ar(11)] by simp
  show ?thesis
    unfolding lhs reserved_cidrs_def list_ex_Cons_iff list_ex_Nil_iff prod.case block0 block1 block2 block3
      block4 block5 block6 block7 block8 block9 block10 block11 block12 block13
    by blast
qed

section \<open>Requests\<close>

text \<open>What must hold of a request for it to be safe: the URL went through
  \<open>validate_public_url\<close>, the address is a public one the name resolved to, and
  the capability, where there is one, allows the URL.\<close>

definition safe_url :: "url \<Rightarrow> bool" where
  "safe_url u = (u_scheme u = ''https'' \<and> u_port_or_known_default u = Some 443 \<and> u_username u = []
     \<and> u_password u = None \<and> u_fragment u = None
     \<and> (case u_host_str u of None \<Rightarrow> False
        | Some host \<Rightarrow> \<not> eq_ignore_ascii_case host ''localhost'' \<and> \<not> is_ip_literal host))"

definition safe_address :: "net \<Rightarrow> url \<Rightarrow> ip_addr \<Rightarrow> bool" where
  "safe_address net u a =
     (case u_host_str u of None \<Rightarrow> False
      | Some host \<Rightarrow> (case n_lookup net host 443 of None \<Rightarrow> False
          | Some addresses \<Rightarrow> a \<in> set addresses \<and> list_all is_public_ip addresses))"

definition safe_request :: "net \<Rightarrow> http_capability option \<Rightarrow> url \<times> ip_addr \<Rightarrow> bool" where
  "safe_request net capability = (\<lambda>(u, a). safe_url u \<and> safe_address net u a
     \<and> (case capability of None \<Rightarrow> True | Some c \<Rightarrow> capability_allows c u))"

lemma validated_url: "validate_public_url net raw = Inr u \<Longrightarrow> safe_url u"
  by (auto simp: validate_public_url_def safe_url_def rbind_def ok_or_def split: if_splits sum.splits option.splits)

lemma resolved_address:
  assumes "safe_url u" "resolve_public net u = Inr a"
  shows "safe_address net u a"
  using assms
  by (auto simp: resolve_public_def safe_url_def safe_address_def rbind_def ok_or_def Let_def list_ex_iff list_all_iff
           split: if_splits sum.splits option.splits)

lemma public_get_from_safe:
  "safe_url u \<Longrightarrow> public_get_from net limit capability n u = (result, sent)
    \<Longrightarrow> list_all (safe_request net capability) sent \<and> length sent \<le> n"
proof (induction n arbitrary: u result sent)
  case (Suc n)
  show ?case
  proof (cases "resolve_public net u")
    case (Inr a)
    note address = resolved_address [OF Suc.prems(1) Inr]
    show ?thesis
    proof (cases "case capability of None \<Rightarrow> True | Some c \<Rightarrow> capability_allows c u")
      case True
      have this_one: "safe_request net capability (u, a)"
        using True address Suc.prems(1) by (simp add: safe_request_def)
      show ?thesis
        using Suc.prems(2) Inr True this_one Suc.IH [OF validated_url]
        by (auto simp: rbind_def ok_or_def split: option.splits sum.splits if_splits prod.splits)
    qed (use Suc.prems(2) in \<open>auto split: option.splits\<close>)
  qed (use Suc.prems(2) in \<open>auto split: if_splits\<close>)
qed auto

lemma public_get_safe:
  assumes "public_get net raw limit capability = (result, sent)"
  shows "list_all (safe_request net capability) sent \<and> length sent \<le> Suc max_redirects"
proof (cases "validate_public_url net raw")
  case (Inr u)
  with assms have "public_get_from net limit capability (Suc max_redirects) u = (result, sent)"
    by (simp add: public_get_def del: public_get_from.simps)
  from public_get_from_safe [OF validated_url [OF Inr] this] show ?thesis .
qed (use assms in \<open>simp add: public_get_def\<close>)


lemma read_chunks_all:
  "read_chunks limit body cs = Inr r \<Longrightarrow> length body \<le> limit
    \<Longrightarrow> length r \<le> limit \<and> None \<notin> set cs \<and> r = body @ concat (map the cs)"
  by (induction limit body cs rule: read_chunks.induct) (auto split: if_splits)

lemma read_bounded_all:
  assumes "read_bounded r limit = Inr body"
  shows "length body \<le> limit \<and> None \<notin> set (hr_chunks r) \<and> body = concat (map the (hr_chunks r))"
proof -
  have "read_chunks limit [] (hr_chunks r) = Inr body"
    using assms by (simp add: read_bounded_def split: if_splits)
  from read_chunks_all [OF this] show ?thesis by (simp only: append_Nil list.size) blast
qed

definition answered_by :: "net \<Rightarrow> nat \<Rightarrow> probed_response \<Rightarrow> url \<times> ip_addr \<Rightarrow> bool" where
  "answered_by net limit p = (\<lambda>(u, a). case n_get net u a of None \<Rightarrow> False
     | Some r \<Rightarrow> pr_url p = u_text u \<and> pr_status p = hr_status r \<and> \<not> is_redirection (hr_status r)
         \<and> None \<notin> set (hr_chunks r) \<and> pr_body p = concat (map the (hr_chunks r)) \<and> length (pr_body p) \<le> limit)"

lemma answered_last:
  "n_get net u a = Some r \<Longrightarrow> \<not> is_redirection (hr_status r) \<Longrightarrow> read_bounded r limit = Inr body
    \<Longrightarrow> answered_by net limit \<lparr>pr_url = u_text u, pr_status = hr_status r,
          pr_content_type = content_type_of r, pr_body = body\<rparr> (u, a)"
  by (drule read_bounded_all) (simp only: answered_by_def prod.case option.case probed_response.simps, blast)

lemma public_get_from_result:
  "public_get_from net limit capability n u = (Inr p, sent) \<Longrightarrow> sent \<noteq> [] \<and> answered_by net limit p (last sent)"
proof (induction n arbitrary: u sent)
  case (Suc n)
  obtain a where a: "resolve_public net u = Inr a"
    using Suc.prems by (auto split: if_splits sum.splits)
  obtain r where r: "n_get net u a = Some r"
    using Suc.prems a by (auto split: if_splits option.splits)
  show ?case
  proof (cases "is_redirection (hr_status r)")
    case True
    then obtain next_url rest where "public_get_from net limit capability n next_url = (Inr p, rest)"
      "sent = (u, a) # rest"
      using Suc.prems a r by (auto split: if_splits option.splits sum.splits prod.splits)
    with Suc.IH show ?thesis by fastforce
  next
    case False
    then show ?thesis
      using Suc.prems a r by (auto simp: rbind_def answered_last split: if_splits option.splits sum.splits)
  qed
qed simp

text \<open>C27: a result that is handed on is the complete answer to the last request sent: its URL
  and status, not a redirect, every chunk of the body delivered, and no more bytes than the
  limit.\<close>

theorem result_is_whole_answer:
  assumes "public_get net raw limit capability = (Inr p, sent)"
  shows "sent \<noteq> [] \<and> answered_by net limit p (last sent)"
proof (cases "validate_public_url net raw")
  case (Inr u)
  with assms have "public_get_from net limit capability (Suc max_redirects) u = (Inr p, sent)"
    by (simp add: public_get_def del: public_get_from.simps)
  from public_get_from_result [OF this] show ?thesis .
qed (use assms in \<open>simp add: public_get_def\<close>)

text \<open>The host of a URL is written with its brackets when it is an IPv6 address, and a bracketed
  address is no \<open>IpAddr\<close>: the check against address literals does not see it.\<close>

lemma bracketed_ipv6_is_no_literal: "\<not> is_ip_literal ''[::1]'' \<and> is_ip_literal ''::1''"
  by code_simp

text \<open>A small web for examples: one host that redirects to a second page of its own, and one
  whose name resolves to a private address.\<close>

definition page :: "string \<Rightarrow> string \<Rightarrow> url" where
  "page host path = \<lparr>u_text = ''https://'' @ host @ path, u_scheme = ''https'', u_username = [], u_password = None,
     u_host_str = Some host, u_port_or_known_default = Some 443, u_path = path, u_query = None,
     u_query_pairs = [], u_fragment = None\<rparr>"

definition net0 :: net where
  "net0 = \<lparr>n_parse = (\<lambda>s. if s = ''https://a.example/'' then Some (page ''a.example'' ''/'')
              else if s = ''https://a.example/next'' then Some (page ''a.example'' ''/next'')
              else if s = ''https://b.example/'' then Some (page ''b.example'' ''/'') else None),
     n_join = (\<lambda>u l. if u_host_str u = Some ''a.example'' then Some (page ''a.example'' l) else None),
     n_lookup = (\<lambda>host port. if host = ''a.example'' then Some [V4 0x01010101] else Some [V4 0x0A000001]),
     n_get = (\<lambda>u a. Some (if u_path u = ''/'' then
          \<lparr>hr_status = 302, hr_location = Some ''/next'', hr_content_type = None, hr_content_length = None, hr_chunks = []\<rparr>
        else \<lparr>hr_status = 200, hr_location = None, hr_content_type = Some ''text/html; charset=utf-8'',
               hr_content_length = Some 12, hr_chunks = [Some ''<b>Hel'', Some ''lo</b>'']\<rparr>)),
     n_search = (\<lambda>_ _. None), n_search_results = (\<lambda>_. None), n_from_utf8_lossy = (\<lambda>s. s), n_debug = (\<lambda>s. s), n_client = True, n_proxy = (\<lambda>_. True)\<rparr>"

definition example_capability :: http_capability where
  "example_capability = \<lparr>hc_scheme = ''https'', hc_host = ''A.example'', hc_port = 443, hc_method = Get,
     hc_path_prefix = ''/'', hc_query_keys = [], hc_purpose = ''an example''\<rparr>"

lemma get0: "public_get net0 ''https://a.example/'' 64 (Some example_capability) =
    (Inr \<lparr>pr_url = ''https://a.example/next'', pr_status = 200, pr_content_type = ''text/html'', pr_body = ''<b>Hello</b>''\<rparr>,
     [(page ''a.example'' ''/'', V4 0x01010101), (page ''a.example'' ''/next'', V4 0x01010101)])"
  by code_simp


lemma result_is_whole_answer_witness:
  "answered_by net0 64
     \<lparr>pr_url = ''https://a.example/next'', pr_status = 200, pr_content_type = ''text/html'', pr_body = ''<b>Hello</b>''\<rparr>
     (page ''a.example'' ''/next'', V4 0x01010101)"
  using result_is_whole_answer [OF get0] by simp

end
