(* ===== verification/Agent_Invariants.thy ===== *)
theory Agent_Invariants
  imports Agent_Logic Web_Safety
begin

text \<open>
  Invariants of the agent, each an interpretation of \<open>agent_invariant\<close>: the budgets of a job
  and with them the number of requests it can send, the examples of the user, which no tool
  changes without the user's approval, the tables of the workspace, and the capabilities.
\<close>

section \<open>Budgets\<close>

definition within_budget :: "nat \<Rightarrow> agent_workspace \<Rightarrow> (url \<times> ip_addr) list \<Rightarrow> bool" where
  "within_budget before ws sent =
     (let m = ws_metrics ws in
      am_source_revisions m \<le> max_source_revisions
      \<and> am_generated_test_corrections m \<le> max_generated_test_corrections
      \<and> am_probes_run m \<le> max_probes \<and> am_web_searches m \<le> max_web_searches
      \<and> am_documents_fetched m \<le> max_document_fetches \<and> am_http_probes m \<le> max_http_probes
      \<and> length (ws_http_capabilities ws) \<le> max_http_capabilities
      \<and> length sent \<le> before + Suc max_redirects * (am_documents_fetched m + am_http_probes m))"

lemma fetch_document_sent: "snd (fetch_document net raw) = snd (public_get net raw document_response_limit None)"
  by (simp add: fetch_document_def case_prod_beta Let_def)

lemma probe_sent: "snd (probe net raw c) = snd (public_get net raw probe_response_limit (Some c))"
  by (simp add: probe_def)

lemma sent_bound: "length (snd (public_get net raw limit capability)) \<le> Suc max_redirects"
  using public_get_safe [of net raw limit capability] by (cases "public_get net raw limit capability") simp

interpretation budget: agent_invariant env job "within_budget before" for env job before
proof (unfold_locales, goal_cases)
  case (10 ws s args correction ws')
  then show ?case
    by (auto simp: within_budget_def apply_example_correction_def Let_def split: option.splits if_splits)
next
  case (12 ws s n raw)
  then show ?case
    using sent_bound [of "net_at env n" raw document_response_limit None]
    by (auto simp: within_budget_def Let_def fetch_document_sent algebra_simps)
next
  case (15 ws s raw approval n)
  then show ?case
    using sent_bound [of "net_at env n" raw probe_response_limit "Some (ac_capability approval)"]
    by (auto simp: within_budget_def Let_def probe_sent algebra_simps)
next
  case (14 ws s hash approval)
  then show ?case
    using length_remove1 [of approval "ws_http_capabilities ws"] by (auto simp: within_budget_def Let_def split: if_splits)
qed (auto simp: within_budget_def Let_def)

section \<open>The examples of the user\<close>

definition effective_example :: "claimed_synthesis_job \<Rightarrow> (nat \<times> example_correction) list \<Rightarrow> nat \<Rightarrow> tool_example" where
  "effective_example job corrections i =
     (case map_of corrections i of None \<Rightarrow> cj_examples job ! i | Some c \<Rightarrow> ec_corrected c)"

definition tests_example :: "tool_example \<Rightarrow> test_case \<Rightarrow> bool" where
  "tests_example e t = (tt_args t = [] \<and> tt_stdin t = te_input e \<and> tt_expected_stdout t = te_output e
     \<and> tt_expected_exit_code t = 0)"

definition examples_kept :: "claimed_synthesis_job \<Rightarrow> (nat \<times> example_correction) list \<Rightarrow> synthesis_draft option \<Rightarrow> bool" where
  "examples_kept job corrections draft =
     (list_all (\<lambda>(i, c). i < length (cj_examples job) \<and> ec_original c = cj_examples job ! i) corrections
      \<and> (case draft of None \<Rightarrow> True
         | Some d \<Rightarrow> dr_user_test_count d = length (cj_examples job) \<and> length (cj_examples job) \<le> length (dr_tests d)
             \<and> list_all (\<lambda>i. tests_example (effective_example job corrections i) (dr_tests d ! i))
                 [0..<length (cj_examples job)]))"

definition examples_respected :: "claimed_synthesis_job \<Rightarrow> agent_workspace \<Rightarrow> (url \<times> ip_addr) list \<Rightarrow> bool" where
  "examples_respected job ws sent = examples_kept job (ws_example_corrections ws) (ws_draft ws)"

lemma contract_tests_examples:
  assumes "i < length (cj_examples job)"
  shows "tests_example (effective_example job corrections i) (contract_tests job corrections records tests ! i)"
  using assms
  by (simp add: contract_tests_def nth_append effective_examples_def effective_example_def user_test_def
    tests_example_def nth_enumerate_eq)

lemma contract_tests_length: "length (cj_examples job) \<le> length (contract_tests job corrections records tests)"
  by (simp add: contract_tests_def effective_examples_def)

lemma validated_draft:
  assumes "validate_contract we args job corrections caps records = Inr draft"
  shows "dr_tests draft = contract_tests job corrections records (sc_tests args)"
    and "dr_user_test_count draft = length (cj_examples job)"
  using assms by (auto simp: validate_contract_def Let_def rbind_Inr_iff split: if_splits)

lemma length_update_first [simp]: "length (update_first p f xs) = length xs"
  by (induction xs) auto

lemma replace_oracle_user_tests:
  "dr_user_test_count d \<le> length (dr_tests d) \<Longrightarrow>
   length (dr_tests (replace_oracle name out code d)) = length (dr_tests d) \<and>
   (\<forall>i<dr_user_test_count d. dr_tests (replace_oracle name out code d) ! i = dr_tests d ! i)"
  by (auto simp: replace_oracle_def nth_append)

lemma validated_correction:
  assumes "validate_example_correction we job args = Inr c"
  shows "0 < ec_example_index c" "ec_example_index c - 1 < length (cj_examples job)"
    "ec_original c = cj_examples job ! (ec_example_index c - 1)"
  using assms by (auto simp: validate_example_correction_def Let_def split: if_splits)

lemma example_corrected_respects:
  assumes "examples_respected job ws s" "validate_example_correction we job args = Inr c"
    and "apply_example_correction c ws = Inr ws'"
  shows "examples_respected job ws' s"
proof -
  define k where "k = ec_example_index c - 1"
  have k: "k < length (cj_examples job)" "ec_original c = cj_examples job ! k"
    using validated_correction [OF assms(2)] by (simp_all add: k_def)
  let ?cs = "ws_example_corrections ws"
  have corrections: "ws_example_corrections ws' = put_index k c ?cs"
    using assms(3) by (auto simp: apply_example_correction_def Let_def k_def split: option.splits if_splits)
  have effective: "effective_example job (put_index k c ?cs) i =
      (if i = k then ec_corrected c else effective_example job ?cs i)" for i
    by (simp add: effective_example_def)
  have table: "list_all (\<lambda>(i, c). i < length (cj_examples job) \<and> ec_original c = cj_examples job ! i)
      (put_index k c ?cs)"
    using assms(1) k put_index_set [of k c ?cs]
    by (auto simp: examples_respected_def examples_kept_def list_all_iff)
  show ?thesis
  proof (cases "ws_draft ws")
    case None
    then have "ws_draft ws' = None"
      using assms(3) by (auto simp: apply_example_correction_def Let_def)
    with table show ?thesis
      by (simp add: examples_respected_def examples_kept_def corrections)
  next
    case (Some d)
    then have "ws_draft ws' = Some (correct_user_test k (ec_corrected c) d)"
      using assms(3) by (auto simp: apply_example_correction_def Let_def k_def split: if_splits)
    with table assms(1) Some k show ?thesis
      by (auto simp: examples_respected_def examples_kept_def corrections effective correct_user_test_def
        list_all_iff nth_list_update tests_example_def)
  qed
qed

interpretation examples: agent_invariant env job "examples_respected job" for env job
proof (unfold_locales, goal_cases)
  case (2 ws s args draft)
  then show ?case
    using contract_tests_examples [of _ job "ws_example_corrections ws"] contract_tests_length
    by (simp add: examples_respected_def examples_kept_def validated_draft list_all_iff)
next
  case (8 ws s draft name stdout code)
  then show ?case
    using replace_oracle_user_tests [of draft name stdout code]
    by (auto simp: examples_respected_def examples_kept_def replace_oracle_def list_all_iff)
next
  case (10 ws s args correction ws')
  then show ?case
    by (rule example_corrected_respects)
qed (simp_all add: examples_respected_def)

section \<open>The tables\<close>

definition tables_ordered :: "agent_workspace \<Rightarrow> (url \<times> ip_addr) list \<Rightarrow> bool" where
  "tables_ordered w sent =
     (distinct (ws_candidate_digests w) \<and> distinct (ws_candidate_sources w)
      \<and> sorted_wrt str_less (map fst (ws_resolved_decisions w))
      \<and> sorted_wrt str_less (map fst (ws_probe_results w))
      \<and> sorted_wrt (<) (map fst (ws_example_corrections w)))"

interpretation tables: agent_invariant env job tables_ordered for env job
proof (unfold_locales, goal_cases)
  case (10 ws s args correction ws')
  then show ?case
    by (auto simp: tables_ordered_def apply_example_correction_def Let_def sorted_put_index
      split: option.splits if_splits)
qed (simp_all add: tables_ordered_def sorted_put)

section \<open>The capabilities\<close>

definition normal_capability :: "http_capability \<Rightarrow> bool" where
  "normal_capability c =
     (hc_scheme c = ''https'' \<and> hc_port c = 443 \<and> hc_host c \<noteq> [] \<and> hc_host c \<noteq> ''localhost''
      \<and> starts_with (hc_path_prefix c) ''/'' \<and> distinct (hc_query_keys c))"

lemma distinct_remdups_adj_sorted:
  assumes "sorted_wrt (\<lambda>a b. \<not> str_less b a) xs"
  shows "distinct (remdups_adj xs)"
  using assms
proof (induction xs rule: remdups_adj.induct)
  case (3 x y xs)
  show ?case
  proof (cases "x = y")
    case False
    with 3(3) have "str_less x y"
      using str_less_linear [of x y] by auto
    moreover have "str_less x z" if "z \<in> set (y # xs)" for z
      using that \<open>str_less x y\<close> 3(3) str_less_linear [of y z] by (auto intro: str_less_trans)
    ultimately have "x \<notin> set (remdups_adj (y # xs))"
      by (metis remdups_adj_set str_less_irrefl)
    moreover have "remdups_adj (x # y # xs) = x # remdups_adj (y # xs)"
      using False by simp
    ultimately show ?thesis
      using 3(2) [OF False] 3(3) by (simp only: distinct.simps) simp
  qed (use 3 in auto)
qed auto

lemma normalized_is_normal:
  assumes "normalize_http_capability we args = Inr c"
  shows "normal_capability c"
proof -
  have "sorted_wrt (\<lambda>a b. \<not> str_less b a) (sort_strings xs)" for xs
    unfolding sort_strings_def
  proof (rule sorted_sort_by)
    show "\<not> str_less b a \<or> \<not> str_less a b" for a b
      using str_less_trans str_less_irrefl by blast
  qed (use str_less_linear str_less_trans in blast)
  then show ?thesis
    using assms
    by (auto simp: normalize_http_capability_def normal_capability_def Let_def distinct_remdups_adj_sorted
      split: option.splits if_splits)
qed

definition capabilities_ok :: "worker_ext \<Rightarrow> agent_workspace \<Rightarrow> (url \<times> ip_addr) list \<Rightarrow> bool" where
  "capabilities_ok we ws sent =
     (distinct (map ac_hash (ws_http_capabilities ws))
      \<and> list_all (\<lambda>a. ac_hash a = http_capability_hash we (ac_capability a) \<and> normal_capability (ac_capability a))
          (ws_http_capabilities ws))"

lemma distinct_map_remove1: "distinct (map f xs) \<Longrightarrow> distinct (map f (remove1 x xs))"
  by (induction xs) (use set_remove1_subset in fastforce)+

interpretation capabilities: agent_invariant env job "capabilities_ok (ae_worker env)" for env job
proof (unfold_locales, goal_cases)
  case (10 ws s args correction ws')
  then show ?case
    by (auto simp: capabilities_ok_def apply_example_correction_def Let_def split: option.splits if_splits)
next
  case (13 ws s cargs capability)
  then show ?case
    by (auto simp: capabilities_ok_def list_ex_iff dest: normalized_is_normal)
next
  case (14 ws s hash approval)
  then show ?case
    by (auto simp: capabilities_ok_def list_all_iff distinct_map_remove1 dest: notin_set_remove1)
qed (simp_all add: capabilities_ok_def)

lemma approved_entry:
  assumes "approved_capability_for_url we caps raw = Inr a"
  obtains u where "n_parse (we_net we) raw = Some u" "a \<in> set caps" "u_scheme u = ''https''"
    "u_port_or_known_default u = Some 443"
    "eq_ignore_ascii_case (hc_host (ac_capability a))
       (trim_end_matches CHR ''.'' (case u_host_str u of None \<Rightarrow> [] | Some h \<Rightarrow> h))"
    "starts_with (u_path u) (hc_path_prefix (ac_capability a))"
    "list_all (\<lambda>(key, _). key \<in> set (hc_query_keys (ac_capability a))) (u_query_pairs u)"
  using assms
  by (auto simp: approved_capability_for_url_def Let_def ok_or_def find_Some_iff split: option.splits if_splits)

lemma approved_url_allowed:
  assumes "capabilities_ok we ws sent"
    and "approved_capability_for_url we (ws_http_capabilities ws) raw = Inr a"
    and "n_parse (we_net we) raw = Some u"
  shows "a \<in> set (ws_http_capabilities ws)" "capability_allows (ac_capability a) u"
proof -
  from assms(2) show a: "a \<in> set (ws_http_capabilities ws)"
    by (rule approved_entry)
  then have "normal_capability (ac_capability a)"
    using assms(1) by (simp add: capabilities_ok_def list_all_iff)
  moreover have "u_host_str u \<noteq> None" if "hc_host (ac_capability a) \<noteq> []"
    using assms(2,3) that by (cases "u_host_str u") (auto elim!: approved_entry simp: trim_end_matches_def eq_ignore_ascii_case_def to_ascii_lowercase_def)
  ultimately show "capability_allows (ac_capability a) u"
    using assms(2,3) by (auto elim!: approved_entry simp: capability_allows_def normal_capability_def)
qed

end
