(* ===== verification/Agent_Publication.thy ===== *)
theory Agent_Publication
  imports Agent_Invariants
begin

text \<open>
  What a tool call that publishes has done before: every input sample and every test of the
  contract was run on the candidate, each with its fixtures, and judged to pass, and the
  registry committed the publication of that candidate.
\<close>

section \<open>Results\<close>

text \<open>\<open>yields m Q\<close>: every value of the action, with the world it ends in, satisfies \<open>Q\<close>.\<close>

definition yields :: "'a act \<Rightarrow> ('a \<Rightarrow> world \<Rightarrow> bool) \<Rightarrow> bool" where
  "yields m Q \<longleftrightarrow> (\<forall>w x w'. m w = Some (Inr x, w') \<longrightarrow> Q x w')"

named_theorems yields_intros \<open>rules for the values of an action\<close>

lemma yields_ret [yields_intros]: "(\<And>w. Q x w) \<Longrightarrow> yields (ret x) Q"
  by (simp add: yields_def ret_def)

lemma yields_fail [yields_intros]: "yields (fail e) Q"
  by (simp add: yields_def fail_def)

lemma yields_suspend [yields_intros]: "yields (suspend env job q) Q"
  by (auto simp: yields_def suspend_def andthen_def fail_def split: option.splits sum.splits)

lemma yields_andthen [yields_intros]: "(\<And>x. yields (k x) Q) \<Longrightarrow> yields (andthen m k) Q"
  by (fastforce simp: yields_def andthen_def split: option.splits sum.splits)

lemma yields_with_ws [yields_intros]: "(\<And>ws. yields (k ws) Q) \<Longrightarrow> yields (with_ws k) Q"
  by (simp add: yields_def with_ws_def)

lemma yields_with_args [yields_intros]: "(\<And>x. yields (k x) Q) \<Longrightarrow> yields (with_args decoded reason k) Q"
  unfolding with_args_def by (intro yields_intros)

lemma yields_reply [yields_intros]: "(\<And>w. Q (ContinueWith (json_object kvs)) w) \<Longrightarrow> yields (reply kvs) Q"
  unfolding reply_def by (rule yields_ret)

lemma andthen_Inr:
  "andthen m k w = Some (Inr y, w') \<longleftrightarrow> (\<exists>x w1. m w = Some (Inr x, w1) \<and> k x w1 = Some (Inr y, w'))"
  by (auto simp: andthen_def split: option.splits sum.splits)

lemma not_Inl_unit [simp]: "(\<forall>e. r \<noteq> Inl e) \<longleftrightarrow> r = Inr ()"
  by (cases r) auto

lemma ret_Inr [simp]: "ret x w = Some (Inr y, w') \<longleftrightarrow> y = x \<and> w' = w"
  by (auto simp: ret_def)

lemma fail_Inr [simp]: "fail e w \<noteq> Some (Inr y, w')"
  by (simp add: fail_def)

lemma reply_Inr [simp]: "reply kvs w = Some (Inr y, w') \<longleftrightarrow> y = ContinueWith (json_object kvs) \<and> w' = w"
  by (auto simp: reply_def)

lemma with_ws_Inr [simp]: "with_ws k w = k (w_ws w) w"
  by (simp add: with_ws_def)

lemma update_ws_Inr [simp]: "update_ws f w = Some (Inr y, w') \<longleftrightarrow> w' = w\<lparr>w_ws := f (w_ws w)\<rparr>"
  by (auto simp: update_ws_def)

lemma from_result_Inr [simp]: "from_result r w = Some (Inr y, w') \<longleftrightarrow> r = Inr y \<and> w' = w"
  by (cases r) (auto simp: from_result_def)

lemma registry_write_Inr:
  "registry_write env f w = Some (Inr y, w') \<longleftrightarrow>
     (\<exists>d'. f (w_tick w) (ae_clock env (w_tick w)) (ae_others env (w_tick w) (w_db w)) = Inr (y, d')
       \<and> w' = w\<lparr>w_db := d', w_tick := Suc (w_tick w)\<rparr>)"
  by (auto simp: registry_write_def andthen_Inr interact_def Let_def split: sum.splits prod.splits)

section \<open>The runs of a validation\<close>

lemma run_candidate_logged:
  assumes "run_candidate env digest args stdin fixtures w = Some (Inr r, w')"
  shows "w_runs w' = w_runs w @ [\<lparr>cn_digest = digest, cn_args = args, cn_stdin = stdin, cn_fixtures = fixtures, cn_result = r\<rparr>]"
    and "w_ws w' = w_ws w"
  using assms by (auto simp: run_candidate_def Let_def split: prod.splits option.splits)

definition matches_expected :: "worker_ext \<Rightarrow> io_format \<Rightarrow> test_case \<Rightarrow> execution_output \<Rightarrow> bool" where
  "matches_expected we fmt t out =
     (eo_exit_code out = tt_expected_exit_code t
      \<and> (if fmt = Text \<or> tt_expected_exit_code t \<noteq> 0 then eo_stdout out = tt_expected_stdout t
         else case (we_parse_json we (eo_stdout out), we_parse_json we (tt_expected_stdout t)) of
           (Some actual, Some expected) \<Rightarrow> json_values_equivalent actual expected
         | _ \<Rightarrow> False))"

definition well_formed_output :: "worker_ext \<Rightarrow> io_format \<Rightarrow> execution_output \<Rightarrow> bool" where
  "well_formed_output we fmt out =
     (eo_exit_code out = 0
      \<and> (if fmt = Json then we_parse_json we (eo_stdout out) \<noteq> None else we_is_utf8 we (eo_stdout out)))"

text \<open>Some run of the log gave the candidate this input and satisfies \<open>P\<close>.\<close>

definition was_run :: "world \<Rightarrow> string \<Rightarrow> string list \<Rightarrow> string \<Rightarrow> http_fixture list \<Rightarrow> (execution_output \<Rightarrow> bool) \<Rightarrow> bool" where
  "was_run w digest args stdin fixtures P =
     list_ex (\<lambda>c. cn_digest c = digest \<and> cn_args c = args \<and> cn_stdin c = stdin \<and> cn_fixtures c = Some fixtures
       \<and> (case cn_result c of Inl _ \<Rightarrow> False | Inr out \<Rightarrow> P out)) (w_runs w)"

lemma was_run_more: "was_run w digest args stdin fixtures P \<Longrightarrow> set (w_runs w) \<subseteq> set (w_runs w') \<Longrightarrow> was_run w' digest args stdin fixtures P"
  by (auto simp: was_run_def list_ex_iff)

lemma judge_test_passes:
  "judge_test we describe fmt origin t r = Inr () \<Longrightarrow> \<exists>out. r = Inr out \<and> matches_expected we fmt t out"
  by (auto simp: judge_test_def validate_stdout_def matches_expected_def split: sum.splits if_splits option.splits)

lemma judge_sample_passes:
  "judge_sample we describe fmt i r = Inr () \<Longrightarrow> \<exists>out. r = Inr out \<and> well_formed_output we fmt out"
  by (cases fmt)
    (auto simp: judge_sample_def sample_diagnostic_def well_formed_output_def Let_def split: sum.splits if_splits option.splits)

lemma run_tests_pass:
  assumes "run_tests env digest fmt n i tests w = Some (Inr (Inr ()), w')"
  shows "set (w_runs w) \<subseteq> set (w_runs w') \<and> w_ws w' = w_ws w \<and>
    (\<forall>t\<in>set tests. was_run w' digest (tt_args t) (tt_stdin t) (tt_http_fixtures t) (matches_expected (ae_worker env) fmt t))"
  using assms
proof (induction tests arbitrary: i w)
  case (Cons t tests)
  then obtain r w1 where r: "run_candidate env digest (tt_args t) (tt_stdin t) (Some (tt_http_fixtures t)) w = Some (Inr r, w1)"
    and judged: "judge_test (ae_worker env) (\<lambda>e. ae_describe env (RunnerFailure e)) fmt
      (if i < n then UserTest else GeneratedTest) t r = Inr ()"
    and rest: "run_tests env digest fmt n (Suc i) tests w1 = Some (Inr (Inr ()), w')"
    by (auto simp: andthen_Inr split: sum.splits)
  note logged = run_candidate_logged [OF r]
  obtain out where "r = Inr out" "matches_expected (ae_worker env) fmt t out"
    using judge_test_passes [OF judged] by blast
  then have "was_run w1 digest (tt_args t) (tt_stdin t) (tt_http_fixtures t) (matches_expected (ae_worker env) fmt t)"
    by (simp add: was_run_def logged)
  from was_run_more [OF this] Cons.IH [OF rest] logged show ?case
    by auto
qed simp

lemma run_samples_pass:
  assumes "run_samples env digest fmt fixtures i samples w = Some (Inr (Inr ()), w')"
  shows "set (w_runs w) \<subseteq> set (w_runs w') \<and> w_ws w' = w_ws w \<and>
    (\<forall>s\<in>set samples. was_run w' digest [] s fixtures (well_formed_output (ae_worker env) fmt))"
  using assms
proof (induction samples arbitrary: i w)
  case (Cons s samples)
  then obtain r w1 where r: "run_candidate env digest [] s (Some fixtures) w = Some (Inr r, w1)"
    and judged: "judge_sample (ae_worker env) (\<lambda>e. ae_describe env (RunnerFailure e)) fmt i r = Inr ()"
    and rest: "run_samples env digest fmt fixtures (Suc i) samples w1 = Some (Inr (Inr ()), w')"
    by (auto simp: andthen_Inr split: sum.splits)
  note logged = run_candidate_logged [OF r]
  obtain out where "r = Inr out" "well_formed_output (ae_worker env) fmt out"
    using judge_sample_passes [OF judged] by blast
  then have "was_run w1 digest [] s fixtures (well_formed_output (ae_worker env) fmt)"
    by (simp add: was_run_def logged)
  from was_run_more [OF this] Cons.IH [OF rest] logged show ?case
    by auto
qed simp

section \<open>Publication\<close>

definition candidate_passed :: "agent_env \<Rightarrow> claimed_synthesis_job \<Rightarrow> synthesis_draft \<Rightarrow> string \<Rightarrow> http_fixture list \<Rightarrow> world \<Rightarrow> bool" where
  "candidate_passed env job draft digest fixtures w =
     (list_all (\<lambda>s. was_run w digest [] s fixtures (well_formed_output (ae_worker env) (cj_output_format job))) (cj_input_samples job)
      \<and> list_all (\<lambda>t. was_run w digest (tt_args t) (tt_stdin t) (tt_http_fixtures t)
            (matches_expected (ae_worker env) (cj_output_format job) t)) (dr_tests draft))"

lemma validate_candidate_passes:
  assumes "validate_candidate env job draft digest w = Some (Inr (Inr ()), w')"
  shows "candidate_passed env job draft digest (probe_records_to_fixtures (ws_http_probe_records (w_ws w))) w' \<and> w_ws w' = w_ws w"
proof -
  let ?fs = "probe_records_to_fixtures (ws_http_probe_records (w_ws w))"
  from assms obtain w1 where samples: "run_samples env digest (cj_output_format job) ?fs 0 (cj_input_samples job) w = Some (Inr (Inr ()), w1)"
    and tests: "run_tests env digest (cj_output_format job) (dr_user_test_count draft) 0 (dr_tests draft) w1 = Some (Inr (Inr ()), w')"
    by (auto simp: validate_candidate_def andthen_Inr split: sum.splits)
  show ?thesis
    using run_samples_pass [OF samples] run_tests_pass [OF tests]
    by (auto simp: candidate_passed_def list_all_iff intro: was_run_more)
qed

text \<open>The artifact is what the store returned for this contract and source.\<close>

definition stored_from :: "agent_env \<Rightarrow> claimed_synthesis_job \<Rightarrow> synthesis_draft \<Rightarrow> string \<Rightarrow> stored_artifact \<Rightarrow> bool" where
  "stored_from env job draft source artifact \<longleftrightarrow>
     (\<exists>io temp metrics capabilities validated_at st st'.
        put_artifact (ae_artifact env) io temp (candidate_of job draft source metrics capabilities validated_at) st
          = (Inr artifact, st'))"

lemma stored_fromI:
  "put_artifact (ae_artifact env) io temp (candidate_of job draft source m caps t) st = (Inr artifact, st')
    \<Longrightarrow> stored_from env job draft source artifact"
  unfolding stored_from_def by blast

definition published_after_validation :: "agent_env \<Rightarrow> claimed_synthesis_job \<Rightarrow> string \<Rightarrow> world \<Rightarrow> bool" where
  "published_after_validation env job digest w \<longleftrightarrow>
     (\<exists>draft source artifact now d.
        ws_draft (w_ws w) = Some draft \<and> ws_source (w_ws w) = Some source
        \<and> ws_current_artifact_digest (w_ws w) = Some digest \<and> ws_latest_failure (w_ws w) = None
        \<and> candidate_passed env job draft digest (probe_records_to_fixtures (ws_http_probe_records (w_ws w))) w
        \<and> sa_digest artifact = digest \<and> stored_from env job draft source artifact
        \<and> publish_job (we_registry (ae_worker env)) now (cj_job_id job) (ae_worker_id env)
            (published_artifact_of artifact) d = Inr ((), w_db w))"

lemma candidate_passed_cong: "w_runs w' = w_runs w \<Longrightarrow> candidate_passed env job draft digest fs w' = candidate_passed env job draft digest fs w"
  by (simp add: candidate_passed_def was_run_def)

lemma same_ws [simp]:
  "event env job k v w = Some (Inr u, w') \<Longrightarrow> w_ws w' = w_ws w"
  "set_stage env job stage w = Some (Inr u, w') \<Longrightarrow> w_ws w' = w_ws w"
  "build_candidate env digest w = Some (Inr u, w') \<Longrightarrow> w_ws w' = w_ws w"
  "store_candidate env job draft source w = Some (Inr a, w') \<Longrightarrow> w_ws w' = w_ws w"
  by (auto simp: event_def set_stage_def registry_write_Inr andthen_Inr build_candidate_def store_candidate_def
    interact_def Let_def split: prod.splits)

lemma store_candidate_stored:
  "store_candidate env job draft source w = Some (Inr artifact, w') \<Longrightarrow> stored_from env job draft source artifact"
  unfolding store_candidate_def andthen_def interact_def from_result_def Let_def ret_def fail_def
  by (auto intro: stored_fromI split: prod.splits sum.splits)

lemma evaluate_publishes:
  assumes "evaluate_after_mutation env job w = Some (Inr (PublishedDigest digest), w')"
  shows "published_after_validation env job digest w'"
proof -
  obtain draft source where draft: "ws_draft (w_ws w) = Some draft" and source: "ws_source (w_ws w) = Some source"
    using assms by (auto simp: evaluate_after_mutation_def split: option.splits)
  obtain w1 artifact w2 w3 w4 w5 r where
    1: "set_stage env job SBuilding w = Some (Inr (), w1)"
    and 2: "store_candidate env job draft source w1 = Some (Inr artifact, w2)"
    and 3: "build_candidate env (sa_digest artifact) (w2\<lparr>w_ws := (w_ws w2)
        \<lparr>ws_candidate_digests := List.insert (sa_digest artifact) (ws_candidate_digests (w_ws w2)),
         ws_candidate_sources := List.insert (mf_source_sha256 (ab_manifest (sa_bundle artifact))) (ws_candidate_sources (w_ws w2)),
         ws_current_artifact_digest := Some (sa_digest artifact)\<rparr>\<rparr>) = Some (Inr (), w3)"
    and 4: "set_stage env job SValidating w3 = Some (Inr (), w4)"
    and 5: "validate_candidate env job draft (sa_digest artifact) w4 = Some (Inr r, w5)"
    and 6: "(case r of
            Inr _ \<Rightarrow>
              andthen (update_ws (\<lambda>ws. ws\<lparr>ws_latest_failure := None\<rparr>)) (\<lambda>_.
              andthen (publish env job artifact) (\<lambda>_.
              ret (PublishedDigest (sa_digest artifact))))
          | Inl failure \<Rightarrow>
              andthen (update_ws (\<lambda>ws. ws\<lparr>ws_latest_failure := Some failure\<rparr>)) (\<lambda>_.
              reply [(''ok'', JBool False), (''validation_failed'', failure_to_value failure)])) w5
        = Some (Inr (PublishedDigest digest), w')"
    using assms draft source by (auto simp: evaluate_after_mutation_def andthen_Inr)
  from 6 have r: "r = Inr ()" and digest: "digest = sa_digest artifact"
    and 7: "publish env job artifact (w5\<lparr>w_ws := (w_ws w5)\<lparr>ws_latest_failure := None\<rparr>\<rparr>) = Some (Inr (), w')"
    by (auto simp: andthen_Inr split: sum.splits)
  note passed = validate_candidate_passes [OF 5 [unfolded r]]
  from 7 have w': "w_ws w' = (w_ws w5)\<lparr>ws_latest_failure := None\<rparr>" "w_runs w' = w_runs w5"
    and db: "\<exists>now d. publish_job (we_registry (ae_worker env)) now (cj_job_id job) (ae_worker_id env)
        (published_artifact_of artifact) d = Inr ((), w_db w')"
    by (auto simp: publish_def registry_write_Inr, blast)
  have "w_ws w4 = (w_ws w)
      \<lparr>ws_candidate_digests := List.insert (sa_digest artifact) (ws_candidate_digests (w_ws w)),
       ws_candidate_sources := List.insert (mf_source_sha256 (ab_manifest (sa_bundle artifact))) (ws_candidate_sources (w_ws w)),
       ws_current_artifact_digest := Some (sa_digest artifact)\<rparr>"
    using same_ws(2) [OF 4] same_ws(3) [OF 3] same_ws(4) [OF 2] same_ws(2) [OF 1] by simp
  with passed w' db digest draft source candidate_passed_cong [OF w'(2)] store_candidate_stored [OF 2] show ?thesis
    by (auto simp: published_after_validation_def)
qed

lemma yields_evaluate [yields_intros]:
  assumes "\<And>v w. Q (ContinueWith v) w" and "\<And>d w. published_after_validation env job d w \<Longrightarrow> Q (PublishedDigest d) w"
  shows "yields (evaluate_after_mutation env job) Q"
  unfolding yields_def
proof (intro allI impI)
  fix w x w'
  assume "evaluate_after_mutation env job w = Some (Inr x, w')"
  then show "Q x w'"
    using assms by (cases x) (auto dest: evaluate_publishes)
qed

definition honest :: "agent_env \<Rightarrow> claimed_synthesis_job \<Rightarrow> tool_execution \<Rightarrow> world \<Rightarrow> bool" where
  "honest env job x w = (case x of ContinueWith _ \<Rightarrow> True | PublishedDigest d \<Rightarrow> published_after_validation env job d w)"

lemma honest_simps [simp]:
  "honest env job (ContinueWith v) w" "honest env job (PublishedDigest d) w = published_after_validation env job d w"
  by (simp_all add: honest_def)

lemma adopt_source_honest [yields_intros]: "yields (adopt_source env job source) (honest env job)"
  unfolding adopt_source_def by (intro yields_intros) simp_all

lemma correct_oracle_honest [yields_intros]: "yields (correct_oracle env job t v) (honest env job)"
  unfolding correct_oracle_def by (intro yields_intros) simp_all

lemma submit_contract_honest: "yields (tool_submit_contract env job v) (honest env job)"
  unfolding tool_submit_contract_def Let_def
  by (auto intro!: yields_intros split: option.split prod.split review_decision.split)

lemma write_source_honest: "yields (tool_write_source env job v) (honest env job)"
  unfolding tool_write_source_def
  by (auto intro!: yields_intros split: option.split prod.split)

lemma edit_source_honest: "yields (tool_edit_source env job v) (honest env job)"
  unfolding tool_edit_source_def Let_def
  by (auto intro!: yields_intros split: option.split prod.split)

lemma probe_honest: "yields (tool_probe env job v) (honest env job)"
  unfolding tool_probe_def Let_def
  by (auto intro!: yields_intros split: option.split prod.split)

lemma review_generated_test_honest: "yields (tool_review_generated_test env job v) (honest env job)"
  unfolding tool_review_generated_test_def reviewed_reply_def Let_def
  by (auto intro!: yields_intros split: option.split prod.split verdict_kind.split)

lemma abort_honest: "yields (tool_abort env job v) (honest env job)"
  unfolding tool_abort_def
  by (auto intro!: yields_intros split: option.split prod.split)

lemma request_clarification_honest: "yields (tool_request_clarification env job call_id v) (honest env job)"
  unfolding tool_request_clarification_def Let_def
  by (auto intro!: yields_intros split: option.split prod.split job_input_answer.split)

lemma request_example_correction_honest: "yields (tool_request_example_correction env job call_id v) (honest env job)"
  unfolding tool_request_example_correction_def correction_reply_def rejected_reply_def
  by (auto intro!: yields_intros split: option.split prod.split job_input_answer.split)

lemma search_web_honest: "yields (tool_search_web env v) (honest env job)"
  unfolding tool_search_web_def
  by (auto intro!: yields_intros split: option.split prod.split)

lemma fetch_document_honest: "yields (tool_fetch_document env v) (honest env job)"
  unfolding tool_fetch_document_def
  by (auto intro!: yields_intros split: option.split prod.split)

lemma request_http_capability_honest: "yields (tool_request_http_capability env job call_id v) (honest env job)"
  unfolding tool_request_http_capability_def adopt_capability_def rejected_reply_def Let_def
  by (auto intro!: yields_intros split: option.split prod.split job_input_answer.split)

lemma release_http_capability_honest: "yields (tool_release_http_capability v) (honest env job)"
  unfolding tool_release_http_capability_def
  by (auto intro!: yields_intros split: option.split prod.split)

lemma probe_http_honest: "yields (tool_probe_http env v) (honest env job)"
  unfolding tool_probe_http_def Let_def
  by (auto intro!: yields_intros split: option.split prod.split)

lemmas tools_honest = submit_contract_honest write_source_honest edit_source_honest probe_honest
  review_generated_test_honest abort_honest request_clarification_honest request_example_correction_honest
  search_web_honest fetch_document_honest request_http_capability_honest release_http_capability_honest
  probe_http_honest

lemma execute_tool_inner_honest: "yields (execute_tool_inner env job call) (honest env job)"
  unfolding execute_tool_inner_def Let_def by (simp add: tools_honest yields_fail)

lemma execute_tool_publishes:
  assumes "execute_tool env job call w = Some (Inr (PublishedDigest d), w')"
  shows "published_after_validation env job d w'"
proof -
  obtain r where "execute_tool_inner env job call w = Some (r, w')" "recover env r = Inr (PublishedDigest d)"
    using assms by (auto simp: execute_tool_def)
  moreover from this(2) have "r = Inr (PublishedDigest d)"
    by (auto simp: recover_def refused_call_def split: sum.splits job_failure.splits)
  ultimately show ?thesis
    using execute_tool_inner_honest by (fastforce simp: yields_def)
qed

end
