(* ===== verification/Agent_Totality.thy ===== *)
theory Agent_Totality
  imports Agent_Publication
begin

text \<open>
  Runs come to an end: an action of the agent returns when the processes it waits for end, and
  the loop over Rig's run returns when each of Rig's steps uses up some of a measure, as its
  limits on turns and on retries make it do.
\<close>

section \<open>Actions that return\<close>

definition returns :: "'a act \<Rightarrow> bool" where
  "returns m \<longleftrightarrow> (\<forall>w. m w \<noteq> None)"

definition processes_end :: "agent_env \<Rightarrow> bool" where
  "processes_end env \<longleftrightarrow> (\<forall>n command stdin. ps_ending (dk_run (ae_docker env n) command stdin) \<noteq> None)"

named_theorems returns_intros \<open>actions that return\<close>

lemma returns_basic [returns_intros]:
  "returns (ret x)" "returns (fail e)" "returns (from_result r)" "returns (require b e)"
  "returns (update_ws f)" "returns (update_metrics g)" "returns (interact h)" "returns (reply kvs)"
  "returns (synthesis_result r')" "returns (web_result r'')" "returns (runtime_result r3)" "returns (parse_args a)"
  by (auto simp: returns_def ret_def fail_def from_result_def require_def update_ws_def update_metrics_def
    interact_def reply_def synthesis_result_def web_result_def runtime_result_def parse_args_def Let_def case_prod_beta
    split: sum.splits)

lemma returns_andthen [returns_intros]: "returns m \<Longrightarrow> (\<And>x. returns (k x)) \<Longrightarrow> returns (andthen m k)"
  unfolding returns_def andthen_def by (fastforce split: option.splits sum.splits prod.splits)

lemma returns_with_ws [returns_intros]: "(\<And>ws. returns (k ws)) \<Longrightarrow> returns (with_ws k)"
  by (simp add: returns_def with_ws_def)

lemma returns_with_args [returns_intros]: "(\<And>x. returns (k x)) \<Longrightarrow> returns (with_args decoded reason k)"
  unfolding with_args_def by (intro returns_intros)

lemma returns_attempt [returns_intros]: "returns m \<Longrightarrow> returns (attempt m)"
  by (simp add: returns_def attempt_def)

lemma returns_registry [returns_intros]: "returns (registry_write env f)" "returns (registry_read env g)"
  unfolding registry_write_def registry_read_def by (intro returns_intros)+

lemma returns_steps [returns_intros]:
  "returns (event env job kind v)" "returns (set_stage env job stage)" "returns (suspend env job q)"
  "returns (answer_of_call env job call_id)" "returns (save_checkpoint rig env job run)"
  "returns (build_candidate env digest)" "returns (store_candidate env job draft source)"
  "returns (publish env job a)" "returns (web_call env f)" "returns (approve_capability env job hash c)"
  "returns (set_phase_stage env job)" "returns available_tools"
  unfolding event_def set_stage_def suspend_def answer_of_call_def save_checkpoint_def build_candidate_def
    store_candidate_def publish_def web_call_def approve_capability_def set_phase_stage_def available_tools_def
  by (intro returns_intros)+

text \<open>A process that ends is waited for successfully.\<close>

lemma await_process_ends: "ps_ending p \<noteq> None \<Longrightarrow> await_process dk p \<noteq> None"
  by (auto simp: await_process_def split: first_ready.splits sum.splits read_failure.splits option.splits)

lemma execute_inner_ends:
  "(\<And>command. ps_ending (dk_run dk command stdin) \<noteq> None) \<Longrightarrow>
   fst (execute_inner ax dk rn container d st digest args stdin fixtures) \<noteq> None"
  using await_process_ends
  by (auto simp: execute_inner_def Let_def split: sum.splits prod.splits if_splits option.splits runner_http_mode.splits)

lemma returns_run_candidate [returns_intros]:
  assumes "processes_end env"
  shows "returns (run_candidate env digest args stdin fixtures)"
  unfolding returns_def
proof
  fix w :: world
  have "fst (execute_inner (ae_artifact env) (ae_docker env (w_tick w)) (ae_runner env)
      (''jitforge-'' @ ae_uuid_text env (w_tick w)) (ae_others env (w_tick w) (w_db w)) (w_store w) digest args stdin fixtures) \<noteq> None"
    using assms by (intro execute_inner_ends) (simp add: processes_end_def)
  then show "run_candidate env digest args stdin fixtures w \<noteq> None"
    by (auto simp: run_candidate_def Let_def split: prod.splits option.splits)
qed

lemma returns_run_samples: "processes_end env \<Longrightarrow> returns (run_samples env digest fmt fixtures i samples)"
  by (induction samples arbitrary: i) (auto intro!: returns_intros split: sum.split)

lemma returns_run_tests: "processes_end env \<Longrightarrow> returns (run_tests env digest fmt n i tests)"
  by (induction tests arbitrary: i) (auto intro!: returns_intros split: sum.split)

lemma returns_evaluate [returns_intros]: "processes_end env \<Longrightarrow> returns (evaluate_after_mutation env job)"
  unfolding evaluate_after_mutation_def validate_candidate_def
  by (auto intro!: returns_intros returns_run_samples returns_run_tests split: option.split sum.split)

lemma returns_adopt_source [returns_intros]: "processes_end env \<Longrightarrow> returns (adopt_source env job source)"
  unfolding adopt_source_def by (intro returns_intros)

lemma returns_correct_oracle [returns_intros]: "processes_end env \<Longrightarrow> returns (correct_oracle env job t v)"
  unfolding correct_oracle_def by (intro returns_intros)

lemma submit_contract_returns: "returns (tool_submit_contract env job v)"
  unfolding tool_submit_contract_def Let_def
  by (auto intro!: returns_intros split: option.split prod.split review_decision.split)

lemma write_source_returns: "processes_end env \<Longrightarrow> returns (tool_write_source env job v)"
  unfolding tool_write_source_def
  by (auto intro!: returns_intros split: option.split prod.split)

lemma edit_source_returns: "processes_end env \<Longrightarrow> returns (tool_edit_source env job v)"
  unfolding tool_edit_source_def Let_def
  by (auto intro!: returns_intros split: option.split prod.split)

lemma probe_returns: "processes_end env \<Longrightarrow> returns (tool_probe env job v)"
  unfolding tool_probe_def Let_def
  by (auto intro!: returns_intros split: option.split prod.split)

lemma review_generated_test_returns: "processes_end env \<Longrightarrow> returns (tool_review_generated_test env job v)"
  unfolding tool_review_generated_test_def reviewed_reply_def Let_def
  by (auto intro!: returns_intros split: option.split prod.split verdict_kind.split)

lemma abort_returns: "returns (tool_abort env job v)"
  unfolding tool_abort_def
  by (auto intro!: returns_intros split: option.split prod.split)

lemma request_clarification_returns: "returns (tool_request_clarification env job call_id v)"
  unfolding tool_request_clarification_def Let_def
  by (auto intro!: returns_intros split: option.split prod.split job_input_answer.split)

lemma request_example_correction_returns: "processes_end env \<Longrightarrow> returns (tool_request_example_correction env job call_id v)"
  unfolding tool_request_example_correction_def correction_reply_def rejected_reply_def
  by (auto intro!: returns_intros split: option.split prod.split job_input_answer.split)

lemma search_web_returns: "returns (tool_search_web env v)"
  unfolding tool_search_web_def
  by (auto intro!: returns_intros split: option.split prod.split)

lemma fetch_document_returns: "returns (tool_fetch_document env v)"
  unfolding tool_fetch_document_def
  by (auto intro!: returns_intros split: option.split prod.split)

lemma request_http_capability_returns: "returns (tool_request_http_capability env job call_id v)"
  unfolding tool_request_http_capability_def adopt_capability_def rejected_reply_def Let_def
  by (auto intro!: returns_intros split: option.split prod.split job_input_answer.split)

lemma release_http_capability_returns: "returns (tool_release_http_capability v)"
  unfolding tool_release_http_capability_def
  by (auto intro!: returns_intros split: option.split prod.split)

lemma probe_http_returns: "returns (tool_probe_http env v)"
  unfolding tool_probe_http_def Let_def
  by (auto intro!: returns_intros split: option.split prod.split)

lemmas tools_return = submit_contract_returns write_source_returns edit_source_returns probe_returns
  review_generated_test_returns abort_returns request_clarification_returns request_example_correction_returns
  search_web_returns fetch_document_returns request_http_capability_returns release_http_capability_returns
  probe_http_returns

lemma returns_execute_tool [returns_intros]: "processes_end env \<Longrightarrow> returns (execute_tool env job call)"
  using tools_return
  by (simp add: returns_def execute_tool_def execute_tool_inner_def Let_def fail_def)

section \<open>The loop\<close>

text \<open>Rig's limits as a measure: whatever the model and the tools answer, it decreases from one
  call of \<open>next_step\<close> to the next.\<close>

definition rig_progress :: "'r rig \<Rightarrow> ('r \<Rightarrow> nat) \<Rightarrow> bool" where
  "rig_progress rig left \<longleftrightarrow>
     (\<forall>run step run'. rg_next rig run = Inr (step, run') \<longrightarrow> left run' \<le> left run)
     \<and> (\<forall>run turn out run'. rg_model_response rig run turn = Inr (out, run') \<longrightarrow> left run' < left run)
     \<and> (\<forall>run text out run'. rg_resolve rig run text = Inr (out, run') \<longrightarrow> left run' < left run)
     \<and> (\<forall>run results run'. rg_tool_results rig run results = Inr run' \<longrightarrow> left run' < left run)"

lemma rig_progressD:
  assumes "rig_progress rig left"
  shows "rg_next rig run = Inr (step, run') \<Longrightarrow> left run' \<le> left run"
    "rg_model_response rig run turn = Inr (out, run') \<Longrightarrow> left run' < left run"
    "rg_resolve rig run message = Inr (out, run') \<Longrightarrow> left run' < left run"
    "rg_tool_results rig run results = Inr run' \<Longrightarrow> left run' < left run"
  using assms unfolding rig_progress_def by blast+

text \<open>The same with what is known of the value of the first action.\<close>

lemma returns_bind:
  assumes "returns m" "yields m (\<lambda>x _. P x)" "\<And>x. P x \<Longrightarrow> returns (k x)"
  shows "returns (andthen m k)"
  unfolding returns_def
proof
  fix w
  obtain r w' where m: "m w = Some (r, w')"
    using assms(1) by (fastforce simp: returns_def)
  show "andthen m k w \<noteq> None"
  proof (cases r)
    case (Inr x)
    then have "P x"
      using assms(2) m unfolding yields_def by blast
    from assms(3) [OF this] show ?thesis
      by (simp add: andthen_def m Inr returns_def)
  qed (simp add: andthen_def m)
qed

lemma yields_bind:
  assumes "yields m (\<lambda>x _. P x)" "\<And>x. P x \<Longrightarrow> yields (k x) Q"
  shows "yields (andthen m k) Q"
  using assms by (fastforce simp: yields_def andthen_Inr)

lemma yields_runtime: "yields (runtime_result r) (\<lambda>x _. r = Inr x)"
  by (auto simp: yields_def runtime_result_def split: sum.splits)

lemma settle_turn_ends:
  assumes "rig_progress rig left" "left run < fuel"
  shows "returns (settle_turn fuel rig env job out run) \<and>
    yields (settle_turn fuel rig env job out run) (\<lambda>run' _. left run' \<le> left run)"
  using assms(2)
proof (induction fuel arbitrary: out run)
  case (Suc fuel)
  show ?case
  proof (cases out)
    case TurnAccepted
    then show ?thesis
      by (auto intro: returns_intros yields_ret)
  next
    case (NeedsResolution name)
    have fewer: "left run' < left run" "left run' < fuel"
      if "rg_resolve rig run message = Inr (out', run')" for message out' run'
      using rig_progressD(3) [OF assms(1) that] Suc.prems by auto
    have IH: "returns (settle_turn fuel rig env job out' run')"
      "yields (settle_turn fuel rig env job out' run') (\<lambda>run'' _. left run'' \<le> left run)"
      if "rg_resolve rig run message = Inr (out', run')" for message out' run'
      using Suc.IH [OF fewer(2) [OF that], of out'] fewer(1) [OF that] by (fastforce simp: yields_def)+
    show ?thesis
      unfolding NeedsResolution settle_turn.simps
      by (intro conjI returns_andthen returns_intros yields_andthen returns_bind [OF _ yields_runtime]
          yields_bind [OF yields_runtime]) (auto intro: IH)
  qed
qed simp

lemma model_step_ends:
  assumes "rig_progress rig left" "left run \<le> fuel"
  shows "returns (model_step fuel rig env job prompt history turn run)"
    and "yields (model_step fuel rig env job prompt history turn run) (\<lambda>run' _. left run' < left run)"
proof -
  have settle: "returns (settle_turn fuel rig env job out run')"
    "yields (settle_turn fuel rig env job out run') (\<lambda>run'' _. left run'' < left run)"
    if "rg_model_response rig run result = Inr (out, run')" for result out run'
    using settle_turn_ends [OF assms(1), of run' fuel env job out] rig_progressD(2) [OF assms(1) that] assms(2)
    by (fastforce simp: yields_def)+
  show "returns (model_step fuel rig env job prompt history turn run)"
    unfolding model_step_def Let_def
    by (intro returns_intros returns_bind [OF _ yields_runtime]) (auto intro: settle)
  show "yields (model_step fuel rig env job prompt history turn run) (\<lambda>run' _. left run' < left run)"
    unfolding model_step_def Let_def
    by (intro yields_with_ws yields_bind [OF yields_runtime] yields_andthen) (auto intro: settle)
qed

definition fewer_left :: "('r \<Rightarrow> nat) \<Rightarrow> 'r \<Rightarrow> string + 'r \<Rightarrow> bool" where
  "fewer_left left run r = (case r of Inl _ \<Rightarrow> True | Inr run' \<Rightarrow> left run' < left run)"

lemma tools_step_ends:
  assumes "rig_progress rig left" "processes_end env"
  shows "returns (tools_step rig env job calls run)"
    and "yields (tools_step rig env job calls run) (\<lambda>r _. fewer_left left run r)"
proof -
  show "returns (tools_step rig env job calls run)"
    unfolding tools_step_def Let_def
    by (auto intro!: returns_intros assms(2) split: option.split tool_execution.split)
  have results: "yields (andthen (runtime_result (rg_tool_results rig run results)) k) (\<lambda>r _. fewer_left left run r)"
    if "\<And>run'. yields (k run') (\<lambda>r _. r = Inr run')" for results k
    by (rule yields_bind [OF yields_runtime])
      (use that rig_progressD(4) [OF assms(1)] in \<open>fastforce simp: yields_def fewer_left_def\<close>)
  have executed: "yields (case execution of
        ContinueWith v \<Rightarrow>
          andthen (event env job kind v) (\<lambda>_.
          andthen (runtime_result (rg_tool_results rig run (rs v))) (\<lambda>run. ret (Inr run)))
      | PublishedDigest digest \<Rightarrow> ret (Inl digest)) (\<lambda>r _. fewer_left left run r)" for execution kind rs
    by (cases execution) (auto simp: fewer_left_def intro!: yields_ret results [unfolded fewer_left_def]
        yields_andthen [of "\<lambda>_. andthen (runtime_result (rg_tool_results rig run _)) _"])
  show "yields (tools_step rig env job calls run) (\<lambda>r _. fewer_left left run r)"
    unfolding tools_step_def Let_def
    by (rule yields_andthen)
      (auto intro!: results executed yields_andthen [of "\<lambda>_. ret _"] yields_andthen [of "\<lambda>_. andthen _ _"]
          yields_andthen [of "\<lambda>x. case x of ContinueWith v \<Rightarrow> _ v | PublishedDigest d \<Rightarrow> _ d"] yields_ret
        split: option.split)
qed

lemma drive_step_ends:
  assumes "rig_progress rig left" "processes_end env" "left run \<le> fuel"
  shows "returns (drive_step fuel rig env job run)"
    and "yields (drive_step fuel rig env job run) (\<lambda>r _. fewer_left left run r)"
proof -
  have *: "left run' \<le> left run" "left run' \<le> fuel" if "rg_next rig run = Inr (step, run')" for step run'
    using rig_progressD(1) [OF assms(1) that] assms(3) by auto
  show "returns (drive_step fuel rig env job run)"
    unfolding drive_step_def
    by (intro returns_intros returns_bind [OF _ yields_runtime])
      (auto split: run_step.split intro!: returns_intros model_step_ends(1) [OF assms(1)] tools_step_ends(1) [OF assms(1,2)]
        dest: *(2))
  have model: "yields (andthen (model_step fuel rig env job prompt history turn run') (\<lambda>run. ret (Inr run)))
      (\<lambda>r _. fewer_left left run r)" if "rg_next rig run = Inr (step, run')" for step run' prompt history turn
    by (rule yields_bind [OF model_step_ends(2) [OF assms(1) *(2) [OF that]]], rule yields_ret)
      (use *(1) [OF that] in \<open>simp add: fewer_left_def\<close>)
  have tools: "yields (tools_step rig env job calls run') (\<lambda>r _. fewer_left left run r)"
    if "rg_next rig run = Inr (step, run')" for step run' calls
    using tools_step_ends(2) [OF assms(1,2), of job calls run'] *(1) [OF that]
    by (fastforce simp: yields_def fewer_left_def split: sum.splits)
  show "yields (drive_step fuel rig env job run) (\<lambda>r _. fewer_left left run r)"
    unfolding drive_step_def
    by (intro yields_andthen yields_bind [OF yields_runtime])
      (auto split: run_step.split intro: model tools yields_fail)
qed

lemma drive_agent_ends:
  assumes "rig_progress rig left" "processes_end env"
  shows "left run < fuel \<Longrightarrow> returns (drive_agent fuel rig env job run)"
proof (induction fuel arbitrary: run)
  case (Suc fuel)
  have "returns (case r of Inl digest \<Rightarrow> ret digest | Inr run' \<Rightarrow> drive_agent fuel rig env job run')"
    if "fewer_left left run r" for r
    using that Suc by (auto simp: fewer_left_def intro!: returns_intros Suc.IH split: sum.splits)
  with Suc.prems show ?case
    by (auto intro!: returns_bind [OF drive_step_ends [OF assms]])
qed simp

lemma returns_remove_candidates [returns_intros]: "returns (remove_candidates env published referenced digests)"
  by (induction digests) (auto intro!: returns_intros)

lemma returns_remove_images [returns_intros]: "returns (remove_images env referenced sources)"
  by (induction sources) (auto intro!: returns_intros)

lemma returns_cleanup [returns_intros]: "returns (cleanup_candidates env job published)"
  unfolding cleanup_candidates_def by (auto intro!: returns_intros)

lemma finish_job_returns: "\<exists>w'. finish_job env job r w = Some w'"
proof -
  have "registry_write env f w \<noteq> None" for f :: "nat \<Rightarrow> time \<Rightarrow> db \<Rightarrow> unit committed"
    using returns_registry(1) [of env f] by (simp add: returns_def)
  then show ?thesis
    by (simp add: finish_job_def option.map_disc_iff del: map_option_eq_Some flip: not_None_eq
        split: sum.split job_failure.split)
qed

lemma process_job_returns:
  assumes "rig_progress rig left" "processes_end env"
    and "\<And>run ws resumed. load_or_create_run rig (ae_worker env) job = Inr (run, ws, resumed) \<Longrightarrow> left run < fuel"
  shows "returns (process_job fuel rig env job)"
proof -
  have load: "yields (from_result (load_or_create_run rig (ae_worker env) job))
      (\<lambda>x _. load_or_create_run rig (ae_worker env) job = Inr x)"
    by (auto simp: yields_def)
  show ?thesis
    unfolding process_job_def
    by (intro returns_bind [OF _ load])
      (auto intro!: returns_intros drive_agent_ends [OF assms(1,2)] dest: assms(3) split: sum.split job_failure.split)
qed

lemma handle_job_returns:
  assumes "returns (process_job fuel rig env job)"
  shows "\<exists>w'. handle_job fuel rig env job dropped w = Some w'"
proof -
  obtain r w1 where "process_job fuel rig env job w = Some (r, w1)"
    using assms by (fastforce simp: returns_def)
  then show ?thesis
    using finish_job_returns [of env job] by (auto simp: handle_job_def split: option.split)
qed

end
