(* ===== verification/Agent_Resume.thy ===== *)
theory Agent_Resume
  imports Agent_Run "HOL-Library.Multiset"
begin

text \<open>
  Reading a checkpoint back: the ordered tables, the round trip of each part of a workspace, and
  what a claim returns after a checkpoint was saved.
\<close>

section \<open>Ordered tables\<close>

lemma those_map_Some [simp]: "those (map Some xs) = Some xs"
  by (induction xs) simp_all

lemma put_last: "\<forall>k'\<in>set (map fst t). str_less k' k \<Longrightarrow> put k v t = t @ [(k, v)]"
  by (induction t) (auto dest: str_less_asym)

lemma puts_sorted:
  "sorted_wrt str_less (map fst t) \<Longrightarrow> foldl (\<lambda>m (k, v). put k v m) [] t = t"
  by (induction t rule: rev_induct) (auto simp: sorted_wrt_append put_last)

lemma as_table_roundtrip:
  assumes "sorted_wrt str_less (map fst t)" and "\<forall>(k, v)\<in>set t. dec (enc v) = Some v"
  shows "as_table dec (table_to_value (\<lambda>k. k) enc t) = Some t"
proof -
  have "sorted_wrt str_less (map fst (map (\<lambda>(k, v). (k, enc v)) t))"
    using assms(1) by (simp add: case_prod_beta comp_def)
  moreover have "map (\<lambda>(k, w). map_option (Pair k) (dec w)) (map (\<lambda>(k, v). (k, enc v)) t) = map Some t"
    using assms(2) by (auto simp: case_prod_beta)
  ultimately show ?thesis
    using assms(1) by (simp add: as_table_def table_to_value_def json_object_def puts_sorted del: map_map)
qed

lemma put_index_foldl:
  "map_of (foldl (\<lambda>t (k, x). put_index k x t) acc kvs) = map_of acc ++ map_of (rev kvs)"
  "sorted_wrt (<) (map fst acc) \<Longrightarrow> sorted_wrt (<) (map fst (foldl (\<lambda>t (k, x). put_index k x t) acc kvs))"
  by (induction kvs arbitrary: acc) (auto simp: sorted_put_index map_add_def fun_eq_iff split: option.splits)

lemma list_of_map: "distinct (map fst t) \<Longrightarrow> map (\<lambda>k. (k, the (map_of t k))) (map fst t) = t"
proof (induction t)
  case (Cons p t)
  have "map (\<lambda>k. (k, the (map_of (p # t) k))) (map fst t) = map (\<lambda>k. (k, the (map_of t k))) (map fst t)"
    using Cons.prems by (intro map_cong) (auto simp: rev_image_eqI)
  with Cons show ?case
    by simp
qed simp

lemma sorted_table_unique:
  fixes t u :: "('k::linorder \<times> 'v) list"
  assumes "sorted_wrt (<) (map fst t)" "sorted_wrt (<) (map fst u)" "map_of t = map_of u"
  shows "t = u"
proof -
  have "set (map fst t) = set (map fst u)"
    using assms(3) by (metis dom_map_of_conv_image_fst list.set_map)
  then have "map fst t = map fst u"
    using assms(1,2) by (simp add: strict_sorted_equal)
  then show ?thesis
    using list_of_map assms by (metis strict_sorted_iff)
qed

lemma index_key_show_nat: "n \<le> u64_max \<Longrightarrow> index_key (show_nat n) = Some n"
  by (simp add: index_key_def parse_u64_show_nat)

lemma puts_sorted_keys:
  "sorted_wrt str_less (map fst acc) \<Longrightarrow> sorted_wrt str_less (map fst (foldl (\<lambda>m (k, v). put k v m) acc kvs))"
  by (induction kvs arbitrary: acc) (auto simp: sorted_put)

lemma map_of_rev_keys: "distinct (map fst kvs) \<Longrightarrow> map_of (rev kvs) = map_of kvs"
  by (subst map_of_inject_set) (simp_all flip: rev_map)

lemma mset_puts:
  fixes kvs :: "(string \<times> 'a) list"
  assumes "distinct (map fst kvs)"
  shows "mset (foldl (\<lambda>m (k, v). put k v m) [] kvs) = mset kvs" (is "mset ?m = _")
proof -
  have "map_of ?m = map_of kvs"
    using assms by (simp add: map_of_puts map_of_rev_keys)
  moreover have m: "distinct (map fst ?m)"
    by (rule sorted_keys_distinct, rule puts_sorted_keys) simp
  ultimately have "set ?m = set kvs"
    using map_of_inject_set [OF m assms] by simp
  then show ?thesis
    using assms m set_eq_iff_mset_eq_distinct [of ?m kvs] by (simp add: distinct_map)
qed

lemma as_index_table_roundtrip:
  fixes t :: "(nat \<times> 'v) list"
  assumes "sorted_wrt (<) (map fst t)" and "\<forall>(i, v)\<in>set t. i \<le> u64_max \<and> dec (enc v) = Some v"
  shows "as_index_table dec (table_to_value show_nat enc t) = Some t"
proof -
  define kvs where "kvs = map (\<lambda>(i, v). (show_nat i, enc v)) t"
  define m where "m = foldl (\<lambda>m (k, v). put k v m) [] kvs"
  define f where "f = (\<lambda>(k, w). case index_key k of None \<Rightarrow> None | Some i \<Rightarrow> map_option (Pair i) (dec w))"
  define us where "us = map (the \<circ> f) m"
  have "distinct (map fst kvs)"
    using assms(1) by (auto simp: kvs_def case_prod_beta distinct_map strict_sorted_iff inj_on_def show_nat_inj)
  then have m: "mset m = mset kvs"
    unfolding m_def by (rule mset_puts)
  have f: "f (show_nat i, enc v) = Some (i, v)" if "(i, v) \<in> set t" for i v
    using that assms(2) by (auto simp: f_def index_key_show_nat)
  have us: "map f m = map Some us"
    using f mset_eq_setD [OF m] by (auto simp: us_def kvs_def)
  have "mset us = mset (map (the \<circ> f) kvs)"
    by (simp add: us_def m)
  also have "map (the \<circ> f) kvs = t"
    using f by (auto simp: kvs_def intro!: map_idI)
  finally have us_t: "mset us = mset t" .
  have keys: "distinct (map fst t)"
    using assms(1) by (simp add: strict_sorted_iff)
  then have keys': "distinct (map fst us)"
    using us_t by (metis mset_eq_imp_distinct_iff mset_map)
  have "foldl (\<lambda>t (k, x). put_index k x t) [] us = t"
  proof (rule sorted_table_unique)
    show "sorted_wrt (<) (map fst (foldl (\<lambda>t (k, x). put_index k x t) [] us))"
      by (rule put_index_foldl(2)) simp
    show "map_of (foldl (\<lambda>t (k, x). put_index k x t) [] us) = map_of t"
      using map_of_inject_set [OF keys' keys] mset_eq_setD [OF us_t] keys'
      by (simp add: put_index_foldl(1) map_of_rev_keys)
  qed (rule assms(1))
  with us show ?thesis
    by (simp add: as_index_table_def table_to_value_def json_object_def flip: kvs_def m_def f_def)
qed

section \<open>Round trips\<close>

lemma list_from_value_map:
  "\<forall>x\<in>set xs. dec (enc x) = Some x \<Longrightarrow> list_from_value dec (JArray (map enc xs)) = Some xs"
  by (induction xs) (auto simp: list_from_value_def as_array_def)

named_theorems checkpoint_codec \<open>the readers and writers of a checkpoint\<close>

lemmas [checkpoint_codec] =
  get_string_def get_default_def as_opt_def json_opt_def strings2_def strings3_def as_u16_def as_u32_def
  as_str_def strings_roundtrip

lemma as_i32_json_int [checkpoint_codec]: "in_i32 i \<Longrightarrow> as_i32 (json_int i) = Some i"
  by (auto simp: as_i32_def json_int_def in_i32_def)

lemma contract_roundtrip [checkpoint_codec]: "contract_from_value (contract_to_value c) = Some c"
  by (simp add: contract_from_value_def contract_to_value_def checkpoint_codec)

lemma fixture_roundtrip: "hf_status f < 65536 \<Longrightarrow> fixture_from_value (fixture_to_value f) = Some f"
  by (simp add: fixture_from_value_def fixture_to_value_def checkpoint_codec)

lemma test_case_roundtrip: "test_storable t \<Longrightarrow> test_case_from_value (test_case_to_value t) = Some t"
  by (simp add: test_case_from_value_def test_case_to_value_def test_storable_def checkpoint_codec
    list_from_value_map list_all_iff fixture_roundtrip)

lemma draft_roundtrip: "draft_storable d \<Longrightarrow> draft_from_value (draft_to_value d) = Some d"
  by (simp add: draft_from_value_def draft_to_value_def draft_storable_def checkpoint_codec
    list_from_value_map list_all_iff test_case_roundtrip)

lemma test_origin_roundtrip [checkpoint_codec]: "test_origin_from_value (JString (test_origin_as_str k)) = Some k"
  by (cases k) (simp_all add: test_origin_from_value_def as_str_def)

lemma failure_roundtrip: "failure_storable f \<Longrightarrow> failure_from_value (failure_to_value f) = Some f"
  by (cases "vf_actual_exit_code f")
    (simp_all add: failure_from_value_def failure_to_value_def failure_storable_def checkpoint_codec json_int_def
      as_i32_def in_i32_def)

lemma decision_roundtrip: "decision_of_value (decision_to_value d) = Some d"
  by (simp add: decision_of_value_def decision_to_value_def checkpoint_codec)

lemma correction_roundtrip: "correction_of_value (correction_to_value c) = Some c"
  by (simp add: correction_of_value_def correction_to_value_def checkpoint_codec)

lemma approved_roundtrip: "hc_port (ac_capability a) \<le> 65535 \<Longrightarrow> approved_from_value (approved_to_value a) = Some a"
  by (simp add: approved_from_value_def approved_to_value_def checkpoint_codec capability_roundtrip)

lemma probe_record_roundtrip: "hp_status p < 65536 \<Longrightarrow> probe_record_from_value (probe_record_to_value p) = Some p"
  by (simp add: probe_record_from_value_def probe_record_to_value_def checkpoint_codec)

lemma review_roundtrip: "review_from_value (review_to_value r) = Some r"
  by (cases "cr_decision r")
    (simp_all add: review_from_value_def review_to_value_def decision_from_value_def checkpoint_codec)

lemma metrics_roundtrip: "metrics_storable m \<Longrightarrow> metrics_from_value (metrics_to_value m) = Some m"
  by (simp add: metrics_from_value_def metrics_to_value_def metrics_storable_def checkpoint_codec)

text \<open>A keyed table is written in the order of its keys and read back entry by entry.\<close>

lemma as_table_id: "sorted_wrt str_less (map fst t) \<Longrightarrow> as_table Some (table_to_value (\<lambda>k. k) (\<lambda>v. v) t) = Some t"
  by (rule as_table_roundtrip) auto

lemma as_table_decisions:
  "sorted_wrt str_less (map fst t) \<Longrightarrow> as_table decision_of_value (table_to_value (\<lambda>k. k) decision_to_value t) = Some t"
  by (rule as_table_roundtrip) (auto simp: decision_roundtrip)

lemma as_table_corrections:
  "sorted_wrt (<) (map fst t) \<Longrightarrow> list_all (\<lambda>(i, _). i \<le> u64_max) t \<Longrightarrow>
   as_index_table correction_of_value (table_to_value show_nat correction_to_value t) = Some t"
  by (rule as_index_table_roundtrip) (auto simp: correction_roundtrip list_all_iff)

lemma as_opt_roundtrip:
  assumes "pred_option p x" "\<And>y. p y \<Longrightarrow> dec (enc y) = Some y" "\<And>y. enc y \<noteq> JNull"
  shows "as_opt dec (json_opt enc x) = Some x"
  using assms(1) assms(2) [of "the x"] assms(3) [of "the x"]
  by (cases x) (auto simp: as_opt_def json_opt_def split: json.split)

lemma never_null [simp]: "draft_to_value d \<noteq> JNull" "failure_to_value f \<noteq> JNull" "JString s \<noteq> JNull"
  by (simp_all add: draft_to_value_def failure_to_value_def json_object_def)

lemma as_opt_strings: "as_opt as_str (json_opt JString x) = Some x"
  by (rule as_opt_roundtrip [of "\<lambda>_. True"]) (simp_all add: as_str_def option.pred_True)

lemmas workspace_parts =
  as_table_id as_table_decisions as_table_corrections as_opt_strings
  as_opt_roundtrip [of draft_storable, OF _ draft_roundtrip] as_opt_roundtrip [of failure_storable, OF _ failure_roundtrip]
  list_from_value_map approved_roundtrip probe_record_roundtrip review_roundtrip metrics_roundtrip

lemma checkpoint_restores_workspace:
  "storable ws \<Longrightarrow> workspace_from_value (workspace_to_value ws) = Some ws"
  by (simp add: workspace_from_value_def workspace_to_value_def storable_def workspace_parts get_default_def
    list_all_iff distinct_remdups_id strings_roundtrip)

lemma claim_reads_checkpoint:
  assumes "save_agent_checkpoint now k w engine version v d = Inr ((), d')"
  shows "claim_checkpoint (find_run k d') =
    Inr (Some \<lparr>cp_engine = engine, cp_engine_version = version, cp_checkpoint = v\<rparr>)"
  using assms
  by (auto simp: save_agent_checkpoint_def rbind_Inr_iff find_run_def claim_checkpoint_def lookup_upsert
    split: option.splits)

end
