(* ===== verification/Artifact_Store.thy ===== *)
theory Artifact_Store
  imports Artifact
begin

text \<open>
  What the artifact store guarantees: an artifact that was put can be loaded, a failed
  write is invisible, the store refines a map from digests to bundles, and the clean-up of
  the worker removes exactly what is not referenced.
\<close>

section \<open>Directories\<close>

lemma tmp_not_hex: "starts_with s ''.tmp-'' \<Longrightarrow> \<not> hex64 s"
proof
  assume "starts_with s ''.tmp-''" "hex64 s"
  then have "is_ascii_hexdigit CHR ''.''" by (auto simp: starts_with_iff hex64_def)
  moreover have "\<not> is_ascii_hexdigit CHR ''.''" by code_simp
  ultimately show False by simp
qed

lemma dir_at_temporary:
  assumes "hex64 h" "as_dirs st' = as_dirs st @ [d]" "\<not> hex64 (sd_name d)"
  shows "dir_at st' (hex_key h) = dir_at st (hex_key h)"
  using assms by (auto simp: dir_at_def lookup_append sd_key_def hex_key_def lookup_Cons split: option.split)

lemma load_cong:
  assumes "\<And>h. digest = ''sha256:'' @ h \<Longrightarrow> hex64 h \<Longrightarrow> dir_at st' (hex_key h) = dir_at st (hex_key h)"
    "as_root st' = as_root st"
  shows "load ax st' digest = load ax st digest"
proof (cases "validate_hex_digest digest")
  case (Inr h)
  then have "digest = ''sha256:'' @ h" "hex64 h"
    by (auto simp: validate_hex_digest_def split: option.splits if_splits)
  then have "dir_at st' (hex_key h) = dir_at st (hex_key h)" by (rule assms(1))
  then show ?thesis by (simp only: load_def Inr rbind_simps assms(2))
qed (simp add: load_def)

lemma valid_hex: "hex64 h \<Longrightarrow> validate_hex_digest (''sha256:'' @ h) = Inr h"
  by (simp add: validate_hex_digest_def strip_prefix_def starts_with_def)

section \<open>Writing\<close>

definition parses_back :: "artifact_ext \<Rightarrow> artifact_bundle \<Rightarrow> bool" where
  "parses_back ax b = (ax_bundle_of_json ax (ax_bundle_json ax b) = Some b \<and> hex64 (semantic_digest ax b))"

lemma load_digest: "load ax st digest = Inr s \<Longrightarrow> sa_digest s = digest"
  by (auto simp: load_def Let_def rbind_Inr_iff split: if_splits)

lemma put_cases:
  assumes "put_artifact ax io temp a st = (Inr s, st')"
  defines "b \<equiv> bundle_of ax a"
  shows "(st' = st \<and> dir_at st (hex_key (semantic_digest ax b)) \<noteq> None \<and> load ax st (''sha256:'' @ semantic_digest ax b) = Inr s)
    \<or> (dir_at st (hex_key (semantic_digest ax b)) = None
       \<and> s = \<lparr>sa_digest = ''sha256:'' @ semantic_digest ax b, sa_relative_path = relative_path (semantic_digest ax b),
              sa_directory = as_root st @ ''/'' @ relative_path (semantic_digest ax b),
              sa_size_bytes = length (ax_bundle_json ax b), sa_bundle = b\<rparr>
       \<and> st' = st\<lparr>as_dirs := as_dirs st @ [\<lparr>sd_prefix = take 2 (semantic_digest ax b), sd_name = semantic_digest ax b,
              sd_files = bundle_files ax b\<rparr>]\<rparr>)"
  using assms by (auto simp: put_artifact_def Let_def split: sum.splits if_splits option.splits)

lemma dir_at_new:
  "dir_at st k = None \<Longrightarrow> sd_key d = k \<Longrightarrow> dir_at (st\<lparr>as_dirs := as_dirs st @ [d]\<rparr>) k = Some d"
  by (simp add: dir_at_def lookup_append lookup_Cons)

lemma load_found:
  assumes "dir_at st (hex_key h) = Some d" "map_of (sd_files d) ''bundle.json'' = Some encoded"
    "ax_bundle_of_json ax encoded = Some b" "mf_format_version (ab_manifest b) = 3"
    "semantic_digest ax b = h" "hex64 h"
  shows "load ax st (''sha256:'' @ h) = Inr \<lparr>sa_digest = ''sha256:'' @ h, sa_relative_path = relative_path h,
      sa_directory = as_root st @ ''/'' @ relative_path h, sa_size_bytes = length encoded, sa_bundle = b\<rparr>"
  unfolding load_def valid_hex [OF assms(6)] rbind_simps assms(1) Option.bind.simps assms(2) ok_or_simps assms(3) Let_def assms(4,5)
  by simp

lemma put_loads:
  assumes "put_artifact ax io temp a st = (Inr s, st')" "parses_back ax (bundle_of ax a)"
  shows "sa_digest s = ''sha256:'' @ semantic_digest ax (bundle_of ax a) \<and> load ax st' (sa_digest s) = Inr s"
  using put_cases [OF assms(1)]
proof
  assume "st' = st \<and> dir_at st (hex_key (semantic_digest ax (bundle_of ax a))) \<noteq> None
    \<and> load ax st (''sha256:'' @ semantic_digest ax (bundle_of ax a)) = Inr s"
  then show ?thesis using load_digest by metis
next
  let ?b = "bundle_of ax a" and ?h = "semantic_digest ax (bundle_of ax a)"
  assume new: "dir_at st (hex_key ?h) = None
       \<and> s = \<lparr>sa_digest = ''sha256:'' @ ?h, sa_relative_path = relative_path ?h,
              sa_directory = as_root st @ ''/'' @ relative_path ?h,
              sa_size_bytes = length (ax_bundle_json ax ?b), sa_bundle = ?b\<rparr>
       \<and> st' = st\<lparr>as_dirs := as_dirs st @ [\<lparr>sd_prefix = take 2 ?h, sd_name = ?h, sd_files = bundle_files ax ?b\<rparr>]\<rparr>"
  then have "dir_at st' (hex_key ?h) = Some \<lparr>sd_prefix = take 2 ?h, sd_name = ?h, sd_files = bundle_files ax ?b\<rparr>"
    by (auto intro!: dir_at_new simp: sd_key_def hex_key_def)
  from load_found [OF this, of "ax_bundle_json ax ?b" ax ?b] new assms(2)
  show ?thesis by (simp add: parses_back_def bundle_files_def) (simp add: bundle_of_def)
qed

text \<open>C28: an artifact that was put can be loaded under the digest it was given, and loading
  returns the very result of the write, when its JSON reads back and digests are in
  hexadecimal.\<close>

theorem put_then_load:
  assumes "parses_back ax (bundle_of ax a)"
    and "put_artifact ax io temp a st = (Inr s, st')"
  shows "load ax st' (sa_digest s) = Inr s \<and> sa_digest s = ''sha256:'' @ semantic_digest ax (bundle_of ax a)"
  using put_loads [OF assms(2,1)] by blast

text \<open>C29: a write that fails leaves nothing to be seen: every digest loads as before, the same
  digests are listed, and what is left of the temporary directory is what cleaning up
  removes.\<close>

theorem failed_put_is_invisible:
  assumes "put_artifact ax io temp a st = (Inl e, st')"
  shows "load ax st' digest = load ax st digest \<and> list_digests st' = list_digests st
    \<and> snd (cleanup_temporary st') = snd (cleanup_temporary st)"
proof -
  have "st' = st \<or> (\<exists>files prefix. st' = st\<lparr>as_dirs := as_dirs st @ [\<lparr>sd_prefix = prefix, sd_name = ''.tmp-'' @ temp, sd_files = files\<rparr>]\<rparr>)"
    using assms by (auto simp: put_artifact_def Let_def split: sum.splits if_splits option.splits)
  then show ?thesis
  proof
    assume "\<exists>files prefix. st' = st\<lparr>as_dirs := as_dirs st @ [\<lparr>sd_prefix = prefix, sd_name = ''.tmp-'' @ temp, sd_files = files\<rparr>]\<rparr>"
    then obtain files prefix where st':
      "st' = st\<lparr>as_dirs := as_dirs st @ [\<lparr>sd_prefix = prefix, sd_name = ''.tmp-'' @ temp, sd_files = files\<rparr>]\<rparr>" by blast
    have hex: "\<not> hex64 (''.tmp-'' @ temp)" by (rule tmp_not_hex) (simp add: starts_with_iff)
    have "load ax st' digest = load ax st digest"
      by (rule load_cong) (use st' hex in \<open>auto intro!: dir_at_temporary\<close>)
    with st' hex show ?thesis
      by (simp add: list_digests_def cleanup_temporary_def is_temporary_def starts_with_def)
  qed simp
qed

section \<open>The store as a map\<close>

text \<open>The abstract store: the bundle each digest stands for.\<close>

definition stored_bundle :: "artifact_ext \<Rightarrow> artifact_store \<Rightarrow> string \<Rightarrow> artifact_bundle option" where
  "stored_bundle ax st digest =
     (case load ax st digest of Inl _ \<Rightarrow> None | Inr s \<Rightarrow> Some (sa_bundle s))"

lemma stored_bundle_valid:
  "stored_bundle ax st d = Some b \<Longrightarrow> \<exists>h dir. d = ''sha256:'' @ h \<and> hex64 h \<and> dir_at st (hex_key h) = Some dir"
  by (auto simp: stored_bundle_def load_def validate_hex_digest_def rbind_Inr_iff split: sum.splits option.splits if_splits bind_splits)

lemma digest_inj: "''sha256:'' @ h = ''sha256:'' @ h' \<Longrightarrow> h = h'"
  by simp

lemma dir_at_other: "h \<noteq> h' \<Longrightarrow> dir_at (remove_dir (hex_key h) st) (hex_key h') = dir_at st (hex_key h')"
proof -
  assume "h \<noteq> h'"
  then have k: "hex_key h \<noteq> hex_key h'" by (simp add: hex_key_def)
  have "find (\<lambda>r. sd_key r = hex_key h') (filter (\<lambda>d. sd_key d \<noteq> hex_key h) ds)
      = find (\<lambda>r. sd_key r = hex_key h') ds" for ds
    using k by (induction ds) auto
  then show ?thesis by (simp add: dir_at_def remove_dir_def lookup_def)
qed

lemma dir_at_trimmed:
  "h \<noteq> h' \<Longrightarrow> dir_at (st\<lparr>as_dirs := upd sd_key (hex_key h) (\<lambda>d. d\<lparr>sd_files := g d\<rparr>) (as_dirs st)\<rparr>) (hex_key h')
    = dir_at st (hex_key h')"
  by (simp add: dir_at_def lookup_upd hex_key_def sd_key_def)

lemma dir_at_removed: "dir_at (remove_dir k st) k = None"
  by (simp add: dir_at_def remove_dir_def lookup_None_iff)

lemma remove_cases:
  assumes "remove_artifact io digest st = (r, st')"
  shows "st' = st \<or> (\<exists>h. digest = ''sha256:'' @ h \<and> hex64 h \<and> (st' = remove_dir (hex_key h) st
      \<or> (\<exists>left. st' = st\<lparr>as_dirs := upd sd_key (hex_key h) (\<lambda>d. d\<lparr>sd_files := filter (\<lambda>f. left (fst f)) (sd_files d)\<rparr>) (as_dirs st)\<rparr>)))"
  using assms by (auto simp: remove_artifact_def validate_hex_digest_def split: sum.splits if_splits option.splits)

lemma remove_other:
  assumes "remove_artifact io digest st = (r, st')" "digest' \<noteq> digest"
  shows "load ax st' digest' = load ax st digest'"
  using remove_cases [OF assms(1)]
proof
  assume "\<exists>h. digest = ''sha256:'' @ h \<and> hex64 h \<and> (st' = remove_dir (hex_key h) st
      \<or> (\<exists>left. st' = st\<lparr>as_dirs := upd sd_key (hex_key h) (\<lambda>d. d\<lparr>sd_files := filter (\<lambda>f. left (fst f)) (sd_files d)\<rparr>) (as_dirs st)\<rparr>))"
  then obtain h where h: "digest = ''sha256:'' @ h" "st' = remove_dir (hex_key h) st
      \<or> (\<exists>left. st' = st\<lparr>as_dirs := upd sd_key (hex_key h) (\<lambda>d. d\<lparr>sd_files := filter (\<lambda>f. left (fst f)) (sd_files d)\<rparr>) (as_dirs st)\<rparr>)"
    by blast
  show ?thesis
  proof (rule load_cong)
    fix h' assume "digest' = ''sha256:'' @ h'" "hex64 h'"
    with h(1) assms(2) have "h \<noteq> h'" by auto
    with h(2) show "dir_at st' (hex_key h') = dir_at st (hex_key h')"
      by (auto simp: dir_at_other dir_at_trimmed)
  qed (use h(2) in \<open>auto simp: remove_dir_def\<close>)
qed simp

lemma remove_same:
  assumes "remove_artifact None digest st = (r, st')"
  shows "stored_bundle ax st' digest = None"
proof (rule ccontr)
  assume "stored_bundle ax st' digest \<noteq> None"
  then obtain h dir where h: "digest = ''sha256:'' @ h" "hex64 h" "dir_at st' (hex_key h) = Some dir"
    using stored_bundle_valid by (metis not_None_eq)
  have "st' = (if dir_at st (hex_key h) = None then st else remove_dir (hex_key h) st)"
    using assms unfolding remove_artifact_def h(1) valid_hex [OF h(2)] by (auto split: if_splits)
  with h(3) show False by (auto simp: dir_at_removed split: if_splits)
qed

lemma stored_listed: "stored_bundle ax st d \<noteq> None \<Longrightarrow> d \<in> set (list_digests st)"
proof -
  assume "stored_bundle ax st d \<noteq> None"
  then obtain h dir where h: "d = ''sha256:'' @ h" "hex64 h" "dir_at st (hex_key h) = Some dir"
    using stored_bundle_valid by (metis not_None_eq)
  have "dir \<in> set (as_dirs st)" "sd_name dir = h"
    using h(3) lookup_Some_mem lookup_Some_key by (fastforce simp: dir_at_def sd_key_def hex_key_def)+
  with h(1,2) show ?thesis by (force simp: list_digests_def)
qed

lemma cleanup_loads: "load ax (snd (cleanup_temporary st)) digest = load ax st digest"
proof (rule load_cong)
  fix h assume "hex64 h"
  then have "\<not> is_temporary d" if "sd_key d = hex_key h" for d
    using that tmp_not_hex by (auto simp: is_temporary_def sd_key_def hex_key_def)
  then have "find (\<lambda>r. sd_key r = hex_key h) (filter (\<lambda>d. \<not> is_temporary d) ds)
      = find (\<lambda>r. sd_key r = hex_key h) ds" for ds
    by (induction ds) auto
  then show "dir_at (snd (cleanup_temporary st)) (hex_key h) = dir_at st (hex_key h)"
    by (simp add: dir_at_def cleanup_temporary_def lookup_def)
qed (simp add: cleanup_temporary_def)

lemma put_other:
  assumes "put_artifact ax io temp a st = (Inr s, st')" "digest \<noteq> ''sha256:'' @ semantic_digest ax (bundle_of ax a)"
  shows "load ax st' digest = load ax st digest"
proof (rule load_cong)
  fix h assume "digest = ''sha256:'' @ h" "hex64 h"
  with assms(2) have "hex_key h \<noteq> hex_key (semantic_digest ax (bundle_of ax a))" by (auto simp: hex_key_def)
  then show "dir_at st' (hex_key h) = dir_at st (hex_key h)"
    using put_cases [OF assms(1)]
    by (auto simp: dir_at_def lookup_append lookup_Cons sd_key_def hex_key_def split: option.split)
qed (use put_cases [OF assms(1)] in auto)

text \<open>C13: seen through \<open>stored_bundle\<close> the store is a map from digests to bundles: a write that
  succeeds adds the bundle it returns at its digest, a completed removal takes one digest out,
  and cleaning up changes nothing.\<close>

theorem store_refines_map:
  assumes "parses_back ax (bundle_of ax a)"
    and "put_artifact ax io temp a st = (Inr s, st')"
    and "remove_artifact None digest st = (r, st'')"
  shows "stored_bundle ax st' = (stored_bundle ax st)(sa_digest s := Some (sa_bundle s))
    \<and> stored_bundle ax st'' = (stored_bundle ax st)(digest := None)
    \<and> stored_bundle ax (snd (cleanup_temporary st)) = stored_bundle ax st"
proof (intro conjI ext)
  fix d
  note p = put_loads [OF assms(2,1)]
  show "stored_bundle ax st' d = ((stored_bundle ax st)(sa_digest s := Some (sa_bundle s))) d"
    using p put_other [OF assms(2), of d] by (auto simp: stored_bundle_def)
  show "stored_bundle ax st'' d = ((stored_bundle ax st)(digest := None)) d"
    using remove_same [OF assms(3)] remove_other [OF assms(3), of d] by (auto simp: stored_bundle_def)
  show "stored_bundle ax (snd (cleanup_temporary st)) d = stored_bundle ax st d"
    by (simp add: stored_bundle_def cleanup_loads)
qed

section \<open>Sweeping\<close>

text \<open>What the clean-up needs of a store: deleting one entry leaves the others alone, a complete
  deletion makes the entry go, and every entry is listed.\<close>

locale sweepable =
  fixes get :: "'s \<Rightarrow> 'k \<Rightarrow> 'v option"
    and del :: "'io option \<Rightarrow> 'k \<Rightarrow> 's \<Rightarrow> 's"
    and keys :: "'s \<Rightarrow> 'k list"
  assumes del_other: "k' \<noteq> k \<Longrightarrow> get (del io k s) k' = get s k'"
    and del_same: "get (del None k s) k = None"
    and listed: "get s k \<noteq> None \<Longrightarrow> k \<in> set (keys s)"
begin

lemma sweep_kept:
  "k \<in> keep \<Longrightarrow> get (foldl (\<lambda>s k. if k \<in> keep then s else del (io k) k s) s ks) k = get s k"
proof (induction ks arbitrary: s)
  case (Cons k' ks)
  then show ?case by (cases "k' = k") (auto simp: del_other)
qed simp

lemma sweep_gone:
  "get s k = None \<Longrightarrow> (\<And>k. io k = None) \<Longrightarrow> get (foldl (\<lambda>s k. if k \<in> keep then s else del (io k) k s) s ks) k = None"
proof (induction ks arbitrary: s)
  case (Cons k' ks)
  have "get (del (io k') k' s) k = None"
    using Cons.prems del_other [of k k' "io k'" s] del_same [of k s] by (cases "k' = k") auto
  with Cons show ?case by auto
qed simp

lemma sweep_removed:
  "k \<in> set ks \<Longrightarrow> k \<notin> keep \<Longrightarrow> (\<And>k. io k = None)
    \<Longrightarrow> get (foldl (\<lambda>s k. if k \<in> keep then s else del (io k) k s) s ks) k = None"
proof (induction ks arbitrary: s)
  case (Cons k' ks)
  then show ?case using sweep_gone del_same by (cases "k' = k") auto
qed simp

lemma swept:
  "(\<And>k. io k = None)
    \<Longrightarrow> get (foldl (\<lambda>s k. if k \<in> keep then s else del (io k) k s) s (keys s)) k = (if k \<in> keep then get s k else None)"
proof (cases "k \<in> keep")
  case False
  assume "\<And>k. io k = None"
  with False show ?thesis
    using sweep_removed [of k "keys s" keep io s] sweep_gone [of s k io keep "keys s"] listed [of s k]
    by (cases "get s k = None") auto
qed (simp add: sweep_kept)

end

definition delete_digest :: "(string \<Rightarrow> bool) option \<Rightarrow> string \<Rightarrow> artifact_store \<Rightarrow> artifact_store" where
  "delete_digest io digest st = snd (remove_artifact io digest st)"

interpretation artifacts: sweepable "stored_bundle ax" delete_digest list_digests for ax
proof
  fix k' k :: string and io st
  obtain r st' where run: "remove_artifact io k st = (r, st')" by fastforce
  show "k' \<noteq> k \<Longrightarrow> stored_bundle ax (delete_digest io k st) k' = stored_bundle ax st k'"
    using remove_other [OF run] by (simp add: delete_digest_def run stored_bundle_def)
  obtain r st'' where none: "remove_artifact None k st = (r, st'')" by fastforce
  show "stored_bundle ax (delete_digest None k st) k = None"
    using remove_same [OF none] by (simp add: delete_digest_def none)
qed (rule stored_listed)

lemma remove_stale_foldl:
  "snd (remove_stale io keep digests st)
    = foldl (\<lambda>st d. if d \<in> keep then st else delete_digest (io d) d st) st digests"
proof (induction digests arbitrary: st)
  case (Cons d digests)
  show ?case
  proof (cases "d \<in> keep")
    case False
    obtain r st' where "remove_artifact (io d) d st = (r, st')" by fastforce
    with False Cons [of st'] show ?thesis
      by (simp add: delete_digest_def case_prod_beta Let_def)
  qed (simp add: Cons)
qed simp

lemma cleanup_stale_swept:
  "(\<And>d. io d = None) \<Longrightarrow> stored_bundle ax (cleanup_stale_artifacts io (Some keep) st) d
    = (if d \<in> keep then stored_bundle ax st d else None)"
  using artifacts.swept [where ax = ax and io = io and keep = keep and s = "snd (cleanup_temporary st)" and k = d]
  by (simp add: Let_def cleanup_stale_artifacts_def remove_stale_foldl stored_bundle_def cleanup_loads)

lemma cleanup_stale_kept:
  "d \<in> keep \<Longrightarrow> stored_bundle ax (cleanup_stale_artifacts io (Some keep) st) d = stored_bundle ax st d"
  using artifacts.sweep_kept [where ax = ax and io = io and keep = keep and s = "snd (cleanup_temporary st)" and k = d]
  by (simp add: Let_def cleanup_stale_artifacts_def remove_stale_foldl stored_bundle_def cleanup_loads)

section \<open>An example store\<close>

text \<open>A toy serialization that tells two sources apart, and a store with one of the two artifacts.\<close>

definition contract1 :: tool_contract where
  "contract1 = \<lparr>tc_summary = ''echo'', tc_assumptions = [], tc_invariants = []\<rparr>"

definition summary1 :: validation_summary where
  "summary1 = \<lparr>vs_tests_total = 0, vs_tests_passed = 0, vs_input_samples_total = 0, vs_input_samples_passed = 0,
     vs_repair_rounds = 0, vs_agent_turns = 1, vs_generated_test_corrections = 0, vs_probes_run = 0,
     vs_validated_at = ''t''\<rparr>"

definition draft1 :: "string \<Rightarrow> new_artifact" where
  "draft1 source = \<lparr>na_input_format = Text, na_output_format = Text, na_contract = contract1, na_source = source,
     na_tests = [], na_validation = summary1, na_http_capabilities = []\<rparr>"

definition toy_hash :: "string \<Rightarrow> string" where
  "toy_hash s = replicate 64 (if s = ''A'' then CHR ''a'' else CHR ''b'')"

definition toy_bundle :: "string \<Rightarrow> artifact_bundle" where
  "toy_bundle source =
     \<lparr>ab_manifest = \<lparr>mf_format_version = 3, mf_runtime = ''python-stdlib-v2'', mf_input_format = Text,
        mf_output_format = Text, mf_source_sha256 = toy_hash source, mf_http_capabilities = []\<rparr>,
      ab_contract = contract1, ab_source = source, ab_tests = [], ab_validation = summary1\<rparr>"

definition ax0 :: artifact_ext where
  "ax0 = \<lparr>ax_sha256 = toy_hash, ax_bundle_json = ab_source, ax_bundle_of_json = (\<lambda>s. Some (toy_bundle s)),
     ax_payload_json = dp_source, ax_manifest_json = (\<lambda>_. ''m''), ax_contract_json = (\<lambda>_. ''c''),
     ax_tests_json = (\<lambda>_. ''t''), ax_validation_json = (\<lambda>_. ''v'')\<rparr>"

definition io_fine :: put_io where
  "io_fine = \<lparr>pi_created = True, pi_fails_at = None, pi_cleaned = True\<rparr>"

definition io_full :: put_io where
  "io_full = \<lparr>pi_created = True, pi_fails_at = Some 3, pi_cleaned = False\<rparr>"

definition store0 :: artifact_store where
  "store0 = snd (put_artifact ax0 io_fine ''u1'' (draft1 ''A'') \<lparr>as_root = ''/data'', as_dirs = []\<rparr>)"

abbreviation digest_a :: string where "digest_a \<equiv> ''sha256:'' @ toy_hash ''A''"
abbreviation digest_b :: string where "digest_b \<equiv> ''sha256:'' @ toy_hash ''B''"

lemma toy_parses: "parses_back ax0 (bundle_of ax0 (draft1 ''B''))"
  by code_simp

lemma put_then_load_witness:
  "\<exists>s st'. put_artifact ax0 io_fine ''u2'' (draft1 ''B'') store0 = (Inr s, st')
    \<and> load ax0 st' digest_b = Inr s"
proof -
  obtain r st' where run: "put_artifact ax0 io_fine ''u2'' (draft1 ''B'') store0 = (r, st')" by fastforce
  have "(case fst (put_artifact ax0 io_fine ''u2'' (draft1 ''B'') store0) of Inl _ \<Rightarrow> False | Inr s \<Rightarrow> sa_digest s = digest_b)"
    by code_simp
  then obtain s where s: "r = Inr s" "sa_digest s = digest_b" using run by (auto split: sum.splits)
  from put_then_load [OF toy_parses run [unfolded s(1)]] s run show ?thesis by metis
qed

lemma failed_put_is_invisible_witness:
  "\<exists>st'. snd (put_artifact ax0 io_full ''u2'' (draft1 ''B'') store0) = st' \<and> length (as_dirs st') = 2
    \<and> list_digests st' = list_digests store0"
proof -
  obtain r st' where run: "put_artifact ax0 io_full ''u2'' (draft1 ''B'') store0 = (r, st')" by fastforce
  have "(case fst (put_artifact ax0 io_full ''u2'' (draft1 ''B'') store0) of Inl _ \<Rightarrow> True | Inr _ \<Rightarrow> False)"
    "length (as_dirs (snd (put_artifact ax0 io_full ''u2'' (draft1 ''B'') store0))) = 2" by code_simp+
  then obtain e where "r = Inl e" "length (as_dirs st') = 2" using run by (auto split: sum.splits)
  with failed_put_is_invisible [OF run [unfolded \<open>r = Inl e\<close>]] run show ?thesis by auto
qed

lemma store_refines_map_witness:
  "\<exists>s st' r st''. put_artifact ax0 io_fine ''u2'' (draft1 ''B'') store0 = (Inr s, st')
    \<and> remove_artifact None digest_a store0 = (r, st'')
    \<and> stored_bundle ax0 st' = (stored_bundle ax0 store0)(digest_b := Some (sa_bundle s))
    \<and> stored_bundle ax0 st'' = (stored_bundle ax0 store0)(digest_a := None)"
proof -
  obtain r st' where run: "put_artifact ax0 io_fine ''u2'' (draft1 ''B'') store0 = (r, st')" by fastforce
  have "(case fst (put_artifact ax0 io_fine ''u2'' (draft1 ''B'') store0) of Inl _ \<Rightarrow> False | Inr s \<Rightarrow> sa_digest s = digest_b)"
    by code_simp
  then obtain s where s: "r = Inr s" "sa_digest s = digest_b" using run by (auto split: sum.splits)
  obtain q st'' where gone: "remove_artifact None digest_a store0 = (q, st'')" by fastforce
  from store_refines_map [OF toy_parses run [unfolded s(1)] gone] s run gone show ?thesis by metis
qed

end
