(* ===== verification/Agent_Sample.thy ===== *)
theory Agent_Sample
  imports Agent_Totality Agent_Resume Registry_Sample Artifact_Store
begin

text \<open>
  A small concrete worker for the witnesses: the registry with a job leased by \<open>w1\<close>, the toy
  artifact store, the small web, a Docker that answers every run with the letter \<open>a\<close>, and a
  run of Rig that calls one tool and then stops.
\<close>

definition toy_worker :: worker_ext where
  "toy_worker = \<lparr>we_registry = ext0, we_net = net0, we_parse_json = (\<lambda>_. None), we_fixtures_json = (\<lambda>_. ''[]''),
     we_host_domain = Some, we_debug = (\<lambda>s. s), we_lossy = (\<lambda>s. s), we_is_utf8 = (\<lambda>_. True)\<rparr>"

definition toy_process :: process where
  "toy_process = \<lparr>ps_spawned = True, ps_piped = True, ps_first = OutputFirst, ps_ending = Some (Some 0),
     ps_stdin_broken = None, ps_stdout = [Some ''a''], ps_stderr = [], ps_duration_ms = 7\<rparr>"

definition toy_docker :: docker where
  "toy_docker = \<lparr>dk_info = None, dk_inspect = (\<lambda>_. Some (False, [])), dk_build = (\<lambda>_. Some (Some (True, []))),
     dk_run = (\<lambda>_ _. toy_process), dk_remove_image = (\<lambda>_. Some (True, [])), dk_images = None,
     dk_from_utf8 = Some, dk_lossy = (\<lambda>s. s), dk_fixtures_json = (\<lambda>_. Some ''[]'')\<rparr>"

definition toy_runner :: docker_runner where
  "toy_runner = \<lparr>rn_runtime = ''runsc'', rn_http_mode = HttpDirect, rn_http_proxy_url = None\<rparr>"

definition toy_web :: web_access where
  "toy_web = \<lparr>wa_search_base_url = page ''search'' ''/'', wa_search_engines = [], wa_public_proxy = None\<rparr>"

definition toy_review :: contract_review where
  "toy_review = \<lparr>cr_decision = AcceptContract, cr_reason = ''fine'', cr_issues = []\<rparr>"

definition toy_verdict :: test_verdict where
  "toy_verdict = \<lparr>tv_classification = Ambiguous, tv_reason = ''unclear'', tv_expected_stdout = None,
     tv_expected_exit_code = None\<rparr>"

definition toy_env :: agent_env where
  "toy_env = \<lparr>ae_worker = toy_worker, ae_artifact = ax0, ae_runner = toy_runner, ae_web = toy_web,
     ae_worker_id = ''w1'', ae_docker = (\<lambda>_. toy_docker), ae_net = (\<lambda>_. net0), ae_clock = (\<lambda>n. 220 + int n),
     ae_others = (\<lambda>_ d. d), ae_uuid = (\<lambda>n. 50 + n), ae_uuid_text = show_nat, ae_put_io = (\<lambda>_. io_fine),
     ae_remove_io = (\<lambda>_. None), ae_utc_text = (\<lambda>_. ''t''),
     ae_complete = (\<lambda>_ _. Inl ModelTimeout), ae_review = (\<lambda>_ _. Inr toy_review), ae_verify = (\<lambda>_ _. Inr toy_verdict),
     ae_describe = (\<lambda>_. ''failure'')\<rparr>"

definition toy_job :: claimed_synthesis_job where
  "toy_job = \<lparr>cj_job_id = 20, cj_tool_id = 10, cj_tool = ''slug'', cj_revision = 1, cj_intent = ''make a slug'',
     cj_input_format = Text, cj_output_format = Text, cj_examples = [\<lparr>te_input = ''A'', te_output = ''a''\<rparr>],
     cj_input_samples = [''B''], cj_attempts = 1, cj_agent_checkpoint = None\<rparr>"

definition capability1 :: http_capability where
  "capability1 = \<lparr>hc_scheme = ''https'', hc_host = ''a.example'', hc_port = 443, hc_method = Get,
     hc_path_prefix = ''/'', hc_query_keys = [], hc_purpose = ''an example''\<rparr>"

definition toy_draft :: synthesis_draft where
  "toy_draft = \<lparr>dr_contract = contract1, dr_tests = contract_tests toy_job [] [] [], dr_user_test_count = 1\<rparr>"

definition toy_workspace :: agent_workspace where
  "toy_workspace = default_workspace\<lparr>ws_draft := Some toy_draft\<rparr>"

definition toy_world :: "agent_workspace \<Rightarrow> world" where
  "toy_world ws = \<lparr>w_db = db_running, w_store = \<lparr>as_root = ''/data'', as_dirs = []\<rparr>, w_ws = ws, w_tick = 0, w_sent = [],
     w_commands = [], w_runs = []\<rparr>"

text \<open>A run is the number of steps taken; it calls the given tool once.\<close>

definition toy_call :: "string \<Rightarrow> (string \<times> json) list \<Rightarrow> tool_call" where
  "toy_call name arguments = \<lparr>cl_id = ''c1'', cl_call_id = None, cl_name = name,
     cl_arguments = json_object ((''reason'', JString ''because'') # arguments)\<rparr>"

definition toy_rig :: "tool_call \<Rightarrow> nat rig" where
  "toy_rig call = \<lparr>rg_new = (\<lambda>_ _ _. 2),
     rg_next = (\<lambda>r. if r = 2 then Inr (CallTools [call], r) else Inl ''turn limit''),
     rg_model_response = (\<lambda>r _. if r = 0 then Inl ''limit'' else Inr (TurnAccepted, r - 1)),
     rg_resolve = (\<lambda>r _. if r = 0 then Inl ''limit'' else Inr (TurnAccepted, r - 1)),
     rg_tool_results = (\<lambda>r _. if r = 0 then Inl ''limit'' else Inr (r - 1)),
     rg_to_value = json_nat, rg_of_value = as_u64, rg_message_value = (\<lambda>_. JNull), rg_choice_value = (\<lambda>_. JNull),
     rg_usage_value = json_nat\<rparr>"

definition toy_write :: tool_call where
  "toy_write = toy_call ''write_source'' [(''source'', JString ''A'')]"

section \<open>A publication, step by step\<close>

definition toy_output :: execution_output where
  "toy_output = \<lparr>eo_exit_code = 0, eo_stdout = ''a'', eo_stderr = [], eo_duration_ms = 7\<rparr>"

definition toy_store :: artifact_store where
  "toy_store = \<lparr>as_root = ''/data'', as_dirs = [\<lparr>sd_prefix = take 2 (toy_hash ''A''), sd_name = toy_hash ''A'',
     sd_files = bundle_files ax0 (toy_bundle ''A'')\<rparr>]\<rparr>"

definition toy_digest :: string where "toy_digest = digest_a"

definition toy_artifact :: "new_artifact \<Rightarrow> stored_artifact" where
  "toy_artifact a = \<lparr>sa_digest = toy_digest, sa_relative_path = relative_path (toy_hash ''A''),
     sa_directory = ''/data/'' @ relative_path (toy_hash ''A''), sa_size_bytes = 1, sa_bundle = bundle_of ax0 a\<rparr>"

lemma toy_put:
  assumes "na_source a = ''A''"
  shows "put_artifact ax0 io_fine temp a \<lparr>as_root = ''/data'', as_dirs = []\<rparr> = (Inr (toy_artifact a), toy_store)"
  using assms
  by (simp add: put_artifact_def validate_artifact_source_def Let_def semantic_digest_def digest_payload_def bundle_of_def
    toy_digest_def ax0_def io_fine_def dir_at_def lookup_def toy_artifact_def toy_store_def bundle_files_def toy_bundle_def
    relative_path_def toy_hash_def hex_key_def)

lemma toy_load_artifact:
  "load ax0 toy_store toy_digest = Inr (toy_artifact (draft1 ''A''))"
  by code_simp

lemma toy_build: "\<exists>tag commands. build_artifact ax0 toy_docker toy_store toy_digest = (Inr tag, commands)"
proof -
  have "(case fst (build_artifact ax0 toy_docker toy_store toy_digest) of Inl _ \<Rightarrow> False | Inr _ \<Rightarrow> True)"
    by code_simp
  then show ?thesis
    by (cases "build_artifact ax0 toy_docker toy_store toy_digest") (auto split: sum.splits)
qed

lemma toy_await: "await_process toy_docker toy_process = Some (Inr toy_output)"
  by (simp add: await_process_def toy_process_def read_streams_def max_stream_bytes_def finish_run_def toy_output_def)

lemma toy_run:
  "fst (execute_inner ax0 toy_docker toy_runner c d toy_store toy_digest args stdin (Some fs)) = Some (Inr toy_output)"
proof -
  have "\<not> has_http (toy_artifact (draft1 ''A''))"
    by code_simp
  moreover obtain tag commands where "build_artifact ax0 toy_docker toy_store toy_digest = (Inr tag, commands)"
    using toy_build by blast
  moreover have "dk_fixtures_json toy_docker fs = Some ''[]''" "dk_run toy_docker command stdin = toy_process" for command
    by (simp_all add: toy_docker_def)
  ultimately show ?thesis
    by (simp add: execute_inner_def toy_load_artifact toy_await Let_def)
qed

lemma toy_judged:
  "judge_sample toy_worker describe Text i (Inr toy_output) = Inr ()"
  "judge_test toy_worker describe Text origin (hd (dr_tests toy_draft)) (Inr toy_output) = Inr ()"
  by code_simp+

definition toy_stage :: "time \<Rightarrow> job_stage \<Rightarrow> db \<Rightarrow> db" where
  "toy_stage now stage d = set_job_stage_version (now + 1) 20 stage (commit (set_job_stage_job now 20 ''w1'' stage) d)"

definition "toy_db1 = toy_stage 220 SBuilding db_running"
definition "toy_db2 = toy_stage 224 SValidating toy_db1"

lemma toy_stages:
  "leases ''w1'' (the (find_job 20 db_running))" "find_job 20 db_running \<noteq> None"
  "leases ''w1'' (the (find_job 20 toy_db1))" "find_job 20 toy_db1 \<noteq> None"
  by code_simp+

lemma toy_published:
  "(case publish_job ext0 228 20 ''w1'' (published_artifact_of (toy_artifact (candidate_of toy_job toy_draft ''A'' m [] ''t''))) toy_db2 of
     Inl _ \<Rightarrow> False | Inr _ \<Rightarrow> True)"
  by code_simp

end
