(* ===== verification/Agent_Sample_Run.thy ===== *)
theory Agent_Sample_Run
  imports Agent_Sample
begin

text \<open>
  The call of \<open>write_source\<close> on the sample worker, step by step: each action of the agent takes
  the small world to a known one, up to the publication of the tool.
\<close>


lemma toy_fields [simp]:
  "ae_worker_id toy_env = ''w1''" "ae_others toy_env n d = d" "ae_clock toy_env n = 220 + int n"
  "we_registry toy_worker = ext0" "cj_job_id toy_job = 20" "ae_worker toy_env = toy_worker"
  "ae_artifact toy_env = ax0" "ae_docker toy_env n = toy_docker" "ae_runner toy_env = toy_runner"
  "ae_put_io toy_env n = io_fine" "ae_utc_text toy_env n = ''t''"
  by (simp_all add: toy_env_def toy_worker_def toy_job_def)

lemma toy_set_stage:
  assumes "leases ''w1'' (the (find_job 20 (w_db w)))" "find_job 20 (w_db w) \<noteq> None"
  shows "set_stage toy_env toy_job stage w =
    Some (Inr (), w\<lparr>w_db := toy_stage (220 + int (w_tick w)) stage (w_db w), w_tick := Suc (Suc (w_tick w))\<rparr>)"
  using assms
  by (auto simp: set_stage_def registry_write_def andthen_def interact_def toy_stage_def from_result_def ret_def
    set_job_stage_job_def leased_job_def commit_def Let_def algebra_simps)

lemma toy_store_candidate:
  assumes "w_store w = \<lparr>as_root = ''/data'', as_dirs = []\<rparr>" "ws_http_capabilities (w_ws w) = []"
  shows "store_candidate toy_env toy_job draft ''A'' w =
    Some (Inr (toy_artifact (candidate_of toy_job draft ''A'' (ws_metrics (w_ws w)) [] ''t'')),
      w\<lparr>w_store := toy_store, w_tick := Suc (w_tick w)\<rparr>)"
proof -
  have "na_source (candidate_of toy_job draft ''A'' m [] ''t'') = ''A''" for m
    by (simp add: candidate_of_def)
  note put = toy_put [OF this]
  show ?thesis
    unfolding store_candidate_def with_ws_def interact_def andthen_def assms
    by (simp add: assms put from_result_def ret_def Let_def)
qed

definition after :: "world \<Rightarrow> nat \<Rightarrow> world \<Rightarrow> bool" where
  "after w n w' \<longleftrightarrow> w_db w' = w_db w \<and> w_store w' = w_store w \<and> w_ws w' = w_ws w \<and> w_tick w' = n + w_tick w"

lemma toy_build_candidate:
  assumes "w_store w = toy_store"
  shows "\<exists>w'. build_candidate toy_env toy_digest w = Some (Inr (), w') \<and> after w 1 w'"
  using assms toy_build
  by (auto simp: build_candidate_def andthen_def interact_def from_result_def ret_def after_def)

lemma toy_run_candidate:
  assumes "w_store w = toy_store"
  shows "\<exists>w'. run_candidate toy_env toy_digest args stdin (Some fs) w = Some (Inr (Inr toy_output), w') \<and> after w 1 w'"
  using assms toy_run [of "''jitforge-'' @ ae_uuid_text toy_env (w_tick w)" "w_db w" args stdin fs]
  by (auto simp: run_candidate_def Let_def after_def split: prod.splits)

lemma toy_validate:
  assumes "w_store w = toy_store"
  shows "\<exists>w'. validate_candidate toy_env toy_job toy_draft toy_digest w = Some (Inr (Inr ()), w') \<and> after w 2 w'"
proof -
  let ?fs = "probe_records_to_fixtures (ws_http_probe_records (w_ws w))" and ?t = "hd (dr_tests toy_draft)"
  have tests: "dr_tests toy_draft = [?t]"
    by code_simp
  obtain w1 where 1: "run_candidate toy_env toy_digest [] ''B'' (Some ?fs) w = Some (Inr (Inr toy_output), w1)"
    and a1: "after w 1 w1"
    using toy_run_candidate [OF assms] by blast
  then have "w_store w1 = toy_store"
    using assms by (simp add: after_def)
  then obtain w2 where 2: "run_candidate toy_env toy_digest (tt_args ?t) (tt_stdin ?t) (Some (tt_http_fixtures ?t)) w1 =
      Some (Inr (Inr toy_output), w2)" and a2: "after w1 1 w2"
    using toy_run_candidate by blast
  have "cj_input_samples toy_job = [''B'']" "cj_output_format toy_job = Text"
    by (simp_all add: toy_job_def)
  with 1 2 have "validate_candidate toy_env toy_job toy_draft toy_digest w = Some (Inr (Inr ()), w2)"
    by (subst validate_candidate_def, subst tests)
      (simp add: with_ws_def andthen_def ret_def toy_judged)
  with a1 a2 show ?thesis
    by (auto simp: after_def)
qed

lemma toy_publish:
  assumes "w_db w = toy_db2" "w_tick w = 8"
  shows "\<exists>w'. publish toy_env toy_job (toy_artifact (candidate_of toy_job toy_draft ''A'' m [] ''t'')) w = Some (Inr (), w')"
proof -
  have "220 + int (w_tick w) = 228"
    using assms by simp
  with assms toy_published [of m] show ?thesis
    by (simp add: publish_def registry_write_def andthen_def interact_def from_result_def ret_def split: sum.splits)
qed

lemma toy_evaluate:
  assumes "w_db w = db_running" "w_tick w = 0" "w_store w = \<lparr>as_root = ''/data'', as_dirs = []\<rparr>"
    and ws: "ws_draft (w_ws w) = Some toy_draft" "ws_source (w_ws w) = Some ''A''" "ws_http_capabilities (w_ws w) = []"
  shows "\<exists>w'. evaluate_after_mutation toy_env toy_job w = Some (Inr (PublishedDigest toy_digest), w')"
proof -
  let ?artifact = "toy_artifact (candidate_of toy_job toy_draft ''A'' (ws_metrics (w_ws w)) [] ''t'')"
  let ?adopt = "\<lambda>ws. ws\<lparr>ws_candidate_digests := List.insert (sa_digest ?artifact) (ws_candidate_digests ws),
     ws_candidate_sources := List.insert (mf_source_sha256 (ab_manifest (sa_bundle ?artifact))) (ws_candidate_sources ws),
     ws_current_artifact_digest := Some (sa_digest ?artifact)\<rparr>"
  have digest: "sa_digest ?artifact = toy_digest"
    by (simp add: toy_artifact_def)
  obtain w1 where 1: "set_stage toy_env toy_job SBuilding w = Some (Inr (), w1)"
    and w1: "w_db w1 = toy_db1" "w_tick w1 = 2" "w_store w1 = w_store w" "w_ws w1 = w_ws w"
    using toy_set_stage [of w SBuilding] toy_stages(1,2) assms(1,2) by (auto simp: toy_db1_def)
  obtain w2 where 2: "store_candidate toy_env toy_job toy_draft ''A'' w1 = Some (Inr ?artifact, w2)"
    and w2: "w_db w2 = toy_db1" "w_tick w2 = 3" "w_store w2 = toy_store" "w_ws w2 = w_ws w"
    using toy_store_candidate [of w1 toy_draft] w1 assms(3) ws(3) by auto
  define w3 where "w3 = w2\<lparr>w_ws := ?adopt (w_ws w)\<rparr>"
  then have 3: "update_ws ?adopt w2 = Some (Inr (), w3)"
    and w3: "w_db w3 = toy_db1" "w_tick w3 = 3" "w_store w3 = toy_store"
    using w2 by (simp_all add: update_ws_def)
  obtain w4 where 4: "build_candidate toy_env toy_digest w3 = Some (Inr (), w4)" and w4: "after w3 1 w4"
    using toy_build_candidate [OF w3(3)] by blast
  obtain w5 where 5: "set_stage toy_env toy_job SValidating w4 = Some (Inr (), w5)"
    and w5: "w_db w5 = toy_db2" "w_tick w5 = 6" "w_store w5 = toy_store"
    using toy_set_stage [of w4 SValidating] toy_stages(3,4) w3 w4 by (auto simp: toy_db2_def after_def)
  obtain w6 where 6: "validate_candidate toy_env toy_job toy_draft toy_digest w5 = Some (Inr (Inr ()), w6)"
    and w6: "after w5 2 w6"
    using toy_validate [OF w5(3)] by blast
  have "w_db (w6\<lparr>w_ws := ws'\<rparr>) = toy_db2" "w_tick (w6\<lparr>w_ws := ws'\<rparr>) = 8" for ws'
    using w5 w6 by (simp_all add: after_def)
  then obtain w7 where 7: "publish toy_env toy_job ?artifact (w6\<lparr>w_ws := (w_ws w6)\<lparr>ws_latest_failure := None\<rparr>\<rparr>) = Some (Inr (), w7)"
    using toy_publish by blast
  show ?thesis
    by (simp add: evaluate_after_mutation_def with_ws_def ws andthen_def ret_def digest 1 2 3 [unfolded digest] 4 5 6)
      (simp add: update_ws_def 7 [unfolded digest] digest)
qed


lemma toy_writes:
  "\<exists>w'. execute_tool toy_env toy_job toy_write (toy_world toy_workspace) = Some (Inr (PublishedDigest toy_digest), w')"
proof -
  have args: "write_source_args_from (cl_arguments toy_write) = Some (''A'', ''because'')" "cl_name toy_write = ''write_source''"
    by code_simp+
  have "trim ''because'' \<noteq> []"
    by code_simp
  then have valid: "validate_reason ''because'' = Inr ()" "validate_source ''A'' = Inr ()"
    by (simp_all add: validate_reason_def validate_source_def)
  let ?w = "(toy_world toy_workspace)\<lparr>w_ws := toy_workspace\<lparr>ws_source := Some ''A'',
    ws_metrics := (ws_metrics toy_workspace)\<lparr>am_source_revisions := 1\<rparr>\<rparr>\<rparr>"
  obtain w' where "evaluate_after_mutation toy_env toy_job ?w = Some (Inr (PublishedDigest toy_digest), w')"
    using toy_evaluate [of ?w] by (auto simp: toy_world_def toy_workspace_def default_workspace_def)
  then have "tool_write_source toy_env toy_job (cl_arguments toy_write) (toy_world toy_workspace) =
      Some (Inr (PublishedDigest toy_digest), w')"
    by (simp add: tool_write_source_def args with_args_def parse_args_def andthen_def ret_def synthesis_result_def valid
      with_ws_def require_def adopt_source_def update_ws_def update_metrics_def max_source_revisions_def
      toy_world_def toy_workspace_def default_workspace_def from_result_def)
  then show ?thesis
    by (simp add: execute_tool_def execute_tool_inner_def args recover_def)
qed

end
