(* ===== verification/Runner_Safety.thy ===== *)
theory Runner_Safety
  imports Agent_Sample_Run
begin

text \<open>
  What the runner guarantees: the options of every container it starts, when a container may
  reach the network, and when the runner waits without end.
\<close>

text \<open>A container started with the options of the sandbox, then only environment settings of the
  HTTP mode, then the image and the arguments.\<close>

definition http_setting :: "string \<Rightarrow> bool" where
  "http_setting s = (s = ''--env'' \<or> starts_with s ''JITFORGE_HTTP_MODE='' \<or> starts_with s ''JITFORGE_HTTP_FIXTURES=''
     \<or> starts_with s ''HTTPS_PROXY='' \<or> starts_with s ''https_proxy='')"

definition sandboxed :: "docker_runner \<Rightarrow> string \<Rightarrow> string list \<Rightarrow> string list \<Rightarrow> bool" where
  "sandboxed rn network args command \<longleftrightarrow>
     (\<exists>container settings tag. command =
        [''run'', ''--name'', container, ''--runtime'', rn_runtime rn, ''--network'', network]
        @ sandbox_run_options @ settings @ [tag] @ args \<and> list_all http_setting settings)"

definition network_allowed :: "artifact_ext \<Rightarrow> docker_runner \<Rightarrow> db \<Rightarrow> artifact_store \<Rightarrow> string \<Rightarrow> bool" where
  "network_allowed ax rn d st digest \<longleftrightarrow>
     rn_http_mode rn = HttpDirect \<and>
     (\<exists>stored. load ax st digest = Inr stored \<and> mf_http_capabilities (ab_manifest (sa_bundle stored)) \<noteq> []
       \<and> all_http_capabilities_approved
            (map hg_approval_hash (mf_http_capabilities (ab_manifest (sa_bundle stored)))) d)"

lemma run_args_sandboxed: "sandboxed rn network args (run_args rn container network fixture_json http tag args)"
proof -
  define settings where "settings =
    [''--env'', if fixture_json \<noteq> None then ''JITFORGE_HTTP_MODE=fixture''
               else if http then ''JITFORGE_HTTP_MODE=direct'' else ''JITFORGE_HTTP_MODE=disabled'']
    @ (case fixture_json of None \<Rightarrow> [] | Some f \<Rightarrow> [''--env'', ''JITFORGE_HTTP_FIXTURES='' @ f])
    @ (if fixture_json = None \<and> http
       then (case rn_http_proxy_url rn of None \<Rightarrow> []
             | Some proxy \<Rightarrow> [''--env'', ''HTTPS_PROXY='' @ proxy, ''--env'', ''https_proxy='' @ proxy])
       else [])"
  have "list_all http_setting settings"
    by (auto simp: settings_def http_setting_def starts_with_def split: option.split)
  moreover have "run_args rn container network fixture_json http tag args =
      [''run'', ''--name'', container, ''--runtime'', rn_runtime rn, ''--network'', network]
      @ sandbox_run_options @ settings @ [tag] @ args"
    by (simp only: run_args_def settings_def append_assoc)
  ultimately show ?thesis
    unfolding sandboxed_def by blast
qed

lemma build_artifact_commands:
  assumes "build_artifact ax dk st digest = (r, commands)" "c \<in> set commands"
  shows "\<exists>tag source dir. c = build_args tag source dir"
  using assms
  by (auto simp: build_artifact_def Let_def split: sum.splits option.splits prod.splits bool.splits if_splits)
    (intro exI, rule refl)+

text \<open>C6: every command the runner gives to Docker for an execution builds an image or starts a
  container under the sandbox: no network, no capabilities, a read-only root, limits on
  processes and memory, then only environment settings of the HTTP mode, the image and the
  arguments.  A container is on a network only for a live run of an artifact whose every HTTP
  capability is approved, with the worker in direct mode.\<close>

theorem containers_are_sandboxed:
  assumes "execute_inner ax dk rn container d st digest args stdin fixtures = (result, commands)"
    and "command \<in> set commands"
  shows "(\<exists>tag source directory. command = build_args tag source directory) \<or>
    sandboxed rn ''none'' args command \<or>
    sandboxed rn ''bridge'' args command \<and> fixtures = None \<and> network_allowed ax rn d st digest"
  using assms
  by (auto simp: execute_inner_def Let_def network_allowed_def has_http_def run_args_sandboxed
      split: sum.splits prod.splits if_splits option.splits runner_http_mode.splits)
    (blast dest: build_artifact_commands)+

lemma toy_commands:
  "\<exists>commands command. execute_inner ax0 toy_docker toy_runner ''c1'' db_running toy_store toy_digest [''x''] ''B'' (Some []) =
     (Some (Inr toy_output), commands @ [command]) \<and> hd command = ''run''"
proof -
  have "\<not> has_http (toy_artifact (draft1 ''A''))"
    by code_simp
  moreover obtain tag commands where "build_artifact ax0 toy_docker toy_store toy_digest = (Inr tag, commands)"
    using toy_build by blast
  moreover have "dk_fixtures_json toy_docker [] = Some ''[]''" "dk_run toy_docker command stdin = toy_process" for command stdin
    by (simp_all add: toy_docker_def)
  ultimately show ?thesis
    by (simp add: execute_inner_def toy_load_artifact toy_await Let_def run_args_def)
qed

theorem containers_are_sandboxed_witness:
  "sandboxed toy_runner ''none'' [''x'']
     (last (snd (execute_inner ax0 toy_docker toy_runner ''c1'' db_running toy_store toy_digest [''x''] ''B'' (Some []))))"
proof -
  obtain commands command where
    run: "execute_inner ax0 toy_docker toy_runner ''c1'' db_running toy_store toy_digest [''x''] ''B'' (Some []) =
      (Some (Inr toy_output), commands @ [command])" and command: "hd command = ''run''"
    using toy_commands by blast
  have "hd (build_args tag source directory) = ''build''" for tag source directory
    by (simp add: build_args_def)
  with containers_are_sandboxed [OF run, of command] command run show ?thesis
    by auto
qed

text \<open>The runner gives up waiting for a container in every case but one: a process that never
  ends after both its streams were read to their end, or after its exit was noticed first,
  is waited for without a time limit.\<close>

theorem waits_forever_iff:
  "await_process dk p = None \<longleftrightarrow>
     ps_spawned p \<and> ps_piped p \<and> ps_ending p = None \<and>
     (ps_first p = ExitFirst \<or> ps_first p = OutputFirst \<and> (\<exists>streams. read_streams p = Inr streams))"
  by (auto simp: await_process_def split: first_ready.splits sum.splits read_failure.splits option.splits)

end
