(* ===== verification/Agent_Properties.thy ===== *)
theory Agent_Properties
  imports Agent_Sample_Run
begin

text \<open>
  The properties of the agent and of a job's run, each with a witness on the small worker of
  \<open>Agent_Sample\<close>.
\<close>

section \<open>Resumption\<close>

text \<open>C11: a resumed run is the run that was saved.  When a worker has committed a checkpoint and the
  job is claimed again, loading gives back the run and the workspace of the checkpoint, with
  the run marked as resumed - for every workspace within the widths of the machine integers
  and with its tables in order, and whatever reads Rig's part back.\<close>

theorem resumed_run_is_saved_run:
  assumes "save_agent_checkpoint now (cj_job_id job) w agent_engine agent_engine_version
      (checkpoint_value rig run ws) d = Inr ((), d')"
    and "claim_checkpoint (find_run (cj_job_id job) d') = Inr (cj_agent_checkpoint job)"
    and "storable ws"
    and "rg_of_value rig (rg_to_value rig run) = Some run"
  shows "load_or_create_run rig we job = Inr (run, ws, True)"
  using assms(2-4) claim_reads_checkpoint [OF assms(1)]
  by (auto simp: load_or_create_run_def checkpoint_value_def checkpoint_restores_workspace dest: sym)

definition toy_stored :: agent_workspace where
  "toy_stored = toy_workspace\<lparr>ws_candidate_digests := [''d2'', ''d1''],
     ws_example_corrections := [(0, \<lparr>ec_example_index = 1, ec_original = \<lparr>te_input = ''A'', te_output = ''a''\<rparr>,
        ec_corrected = \<lparr>te_input = ''A'', te_output = ''b''\<rparr>, ec_reason = ''typo''\<rparr>)]\<rparr>"

definition toy_resumed :: claimed_synthesis_job where
  "toy_resumed = toy_job\<lparr>cj_agent_checkpoint := Some \<lparr>cp_engine = agent_engine, cp_engine_version = agent_engine_version,
     cp_checkpoint = checkpoint_value (toy_rig toy_write) 2 toy_stored\<rparr>\<rparr>"

theorem resumed_run_is_saved_run_witness:
  "load_or_create_run (toy_rig toy_write) toy_worker toy_resumed = Inr (2, toy_stored, True)"
proof -
  have "ensure_job_owner 20 ''w1'' db_running = Inr ()"
    by code_simp
  then obtain d where d: "save_agent_checkpoint 210 20 ''w1'' agent_engine agent_engine_version
      (checkpoint_value (toy_rig toy_write) 2 toy_stored) db_running = Inr ((), d)"
    by (simp add: save_agent_checkpoint_def)
  have "draft_storable toy_draft"
    by code_simp
  then have "storable toy_stored"
    by (simp add: storable_def toy_stored_def toy_workspace_def default_workspace_def metrics_storable_def)
  with d resumed_run_is_saved_run [of 210 toy_resumed "''w1''" "toy_rig toy_write" 2 toy_stored db_running d]
  show ?thesis
    using claim_reads_checkpoint [OF d] by (simp add: toy_resumed_def toy_job_def toy_rig_def)
qed

section \<open>The whole run of a job\<close>

lemma toy_progress: "rig_progress (toy_rig call) (\<lambda>r. r)"
  by (auto simp: rig_progress_def toy_rig_def split: if_splits)

lemma toy_processes_end: "processes_end toy_env"
  by (simp add: processes_end_def toy_env_def toy_docker_def toy_process_def)

lemma toy_load: "load_or_create_run (toy_rig call) we toy_job = Inr (2, default_workspace, False)"
  by (simp add: load_or_create_run_def toy_job_def toy_rig_def)

lemma toy_returns: "returns (process_job 3 (toy_rig call) toy_env toy_job)"
  by (rule process_job_returns [OF toy_progress toy_processes_end]) (simp add: toy_load)

text \<open>C12: a worker finishes every job it has claimed.  When each step of Rig's run uses up some of
  its limits on turns and retries, and every process that Docker starts ends, the handling of
  a job returns, with as much fuel as the loaded run has steps left.\<close>

theorem job_is_finished:
  assumes "rig_progress rig left" "processes_end env"
    and "\<And>run ws resumed. load_or_create_run rig (ae_worker env) job = Inr (run, ws, resumed) \<Longrightarrow> left run < fuel"
  shows "\<exists>w'. handle_job fuel rig env job dropped w = Some w'"
  by (rule handle_job_returns [OF process_job_returns [OF assms]])

theorem job_is_finished_witness:
  "\<exists>w'. handle_job 3 (toy_rig toy_write) toy_env toy_job None (toy_world toy_workspace) = Some w'"
  by (rule job_is_finished [OF toy_progress toy_processes_end]) (simp add: toy_load)






definition toy_capability :: approved_capability where
  "toy_capability = \<lparr>ac_hash = http_capability_hash toy_worker capability1, ac_capability = capability1\<rparr>"


section \<open>Publication\<close>

text \<open>C1: a tool is published only after it was validated.  When a tool call ends in the publication
  of a version, the artifact was put into the store from the workspace's own contract and
  source; on exactly that artifact every input sample and every test of the contract - one for
  each of the user's examples among them - was run in the sandbox and judged to pass; and the
  registry recorded the version in one transaction while the worker held the job's lease.\<close>

theorem publication_needs_validation:
  assumes "execute_tool env job call w = Some (Inr (PublishedDigest digest), w')"
    and "examples_respected job (w_ws w) (w_sent w)"
  shows "published_after_validation env job digest w' \<and> examples_respected job (w_ws w') (w_sent w')"
  using execute_tool_publishes [OF assms(1)] wpD [OF examples.execute_tool_keeps [OF assms(2)] assms(1)]
  by simp

theorem publication_needs_validation_witness:
  "\<exists>w'. execute_tool toy_env toy_job toy_write (toy_world toy_workspace) = Some (Inr (PublishedDigest toy_digest), w')
     \<and> published_after_validation toy_env toy_job toy_digest w'"
proof -
  obtain w' where run: "execute_tool toy_env toy_job toy_write (toy_world toy_workspace) =
      Some (Inr (PublishedDigest toy_digest), w')"
    using toy_writes by blast
  have "examples_respected toy_job toy_workspace []"
    by code_simp
  with publication_needs_validation [OF run] run show ?thesis
    by (auto simp: toy_world_def)
qed

end
