(* ===== verification/Agent_Schemas.thy ===== *)
theory Agent_Schemas
  imports Agent_Run
begin

text \<open>
  The tools as they are advertised to the model (src/apps/jit-worker/src/jobs.rs and synthesizer.rs):
  name, description and JSON schema of the arguments of each, and how the schemas and the reading of
  the arguments fit together.
\<close>

section \<open>Definitions of tools\<close>

record tool_definition =
  td_name :: string
  td_description :: string
  td_parameters :: json

definition string_schema :: json where
  "string_schema = json_object [(''type'', JString ''string'')]"

definition integer_schema :: json where
  "integer_schema = json_object [(''type'', JString ''integer'')]"

definition described :: "string \<Rightarrow> json" where
  "described text = json_object [(''type'', JString ''string''), (''description'', JString text)]"

definition strings_schema :: json where
  "strings_schema = json_object [(''type'', JString ''array''), (''items'', string_schema)]"

definition bounded_array :: "nat \<Rightarrow> json \<Rightarrow> json" where
  "bounded_array n items = json_object [(''type'', JString ''array''), (''maxItems'', json_nat n), (''items'', items)]"

definition object_schema :: "(string \<times> json) list \<Rightarrow> string list \<Rightarrow> json" where
  "object_schema properties required = json_object
     [(''type'', JString ''object''), (''properties'', json_object properties),
      (''required'', strings_to_value required), (''additionalProperties'', JBool False)]"

definition fixture_schema :: json where
  "fixture_schema = object_schema
     [(''request_url'', string_schema), (''response_url'', string_schema), (''status'', integer_schema),
      (''content_type'', string_schema), (''body'', string_schema)]
     [''request_url'', ''response_url'', ''status'', ''content_type'', ''body'']"

definition test_case_schema :: json where
  "test_case_schema = object_schema
     [(''name'', string_schema), (''args'', strings_schema), (''stdin'', string_schema),
      (''expected_stdout'', string_schema), (''expected_exit_code'', integer_schema),
      (''http_fixtures'', bounded_array 8 fixture_schema)]
     [''name'', ''args'', ''stdin'', ''expected_stdout'', ''expected_exit_code'', ''http_fixtures'']"

definition submit_contract_tool :: tool_definition where
  "submit_contract_tool =
     \<lparr>td_name = ''submit_contract'', td_description = ''Submit the contract and generated tests before writing source.'',
      td_parameters = object_schema
        [(''summary'', string_schema), (''assumptions'', strings_schema), (''invariants'', strings_schema),
         (''tests'', bounded_array 12 test_case_schema), (''reason'', string_schema)]
        [''summary'', ''assumptions'', ''invariants'', ''tests'', ''reason'']\<rparr>"

definition write_source_tool :: tool_definition where
  "write_source_tool =
     \<lparr>td_name = ''write_source'', td_description = ''Write the complete initial Python source. This is allowed once.'',
      td_parameters = object_schema [(''source'', string_schema), (''reason'', string_schema)] [''source'', ''reason'']\<rparr>"

definition edit_source_tool :: tool_definition where
  "edit_source_tool =
     \<lparr>td_name = ''edit_source'', td_description = ''Replace one exact source fragment. old_text must occur exactly once.'',
      td_parameters = object_schema
        [(''old_text'', string_schema), (''new_text'', string_schema), (''reason'', string_schema)]
        [''old_text'', ''new_text'', ''reason'']\<rparr>"

definition probe_tool :: tool_definition where
  "probe_tool =
     \<lparr>td_name = ''probe'', td_description = ''Run one focused input against the current candidate in gVisor.'',
      td_parameters = object_schema
        [(''args'', strings_schema), (''stdin'', string_schema), (''reason'', string_schema)]
        [''args'', ''stdin'', ''reason'']\<rparr>"

definition review_generated_test_tool :: tool_definition where
  "review_generated_test_tool =
     \<lparr>td_name = ''review_generated_test'',
      td_description = ''Ask the independent verifier to classify the latest failing generated test.'',
      td_parameters = object_schema [(''test_name'', string_schema), (''reason'', string_schema)] [''test_name'', ''reason'']\<rparr>"

definition abort_tool :: tool_definition where
  "abort_tool =
     \<lparr>td_name = ''abort'', td_description = ''Stop when the requirement is contradictory or unsupported.'',
      td_parameters = object_schema [(''reason'', string_schema)] [''reason'']\<rparr>"

definition choice_schema :: json where
  "choice_schema = object_schema
     [(''value'', string_schema), (''label'', string_schema), (''description'', string_schema)] [''value'', ''label'']"

definition request_clarification_tool :: tool_definition where
  "request_clarification_tool =
     \<lparr>td_name = ''request_clarification'',
      td_description = ''Pause and ask the user one necessary question instead of guessing.'',
      td_parameters = object_schema
        [(''decision_key'', described ''Stable lowercase semantic key, for example input.whitespace_policy''),
         (''question'', string_schema), (''choices'', bounded_array 3 choice_schema), (''reason'', string_schema)]
        [''decision_key'', ''question'', ''choices'', ''reason'']\<rparr>"

definition request_example_correction_tool :: tool_definition where
  "request_example_correction_tool =
     \<lparr>td_name = ''request_example_correction'',
      td_description = ''Ask the user to approve an exact replacement for one malformed or contradictory registered example. The original remains in the audit history.'',
      td_parameters = object_schema
        [(''example_index'', json_object [(''type'', JString ''integer''), (''minimum'', json_nat 1),
            (''description'', JString ''One-based index in immutable_user_examples'')]),
         (''corrected_input'', string_schema), (''corrected_output'', string_schema), (''reason'', string_schema)]
        [''example_index'', ''corrected_input'', ''corrected_output'', ''reason'']\<rparr>"

definition search_web_tool :: tool_definition where
  "search_web_tool =
     \<lparr>td_name = ''search_web'',
      td_description = ''Search the web for public API documentation and candidate data sources.'',
      td_parameters = object_schema [(''query'', string_schema), (''reason'', string_schema)] [''query'', ''reason'']\<rparr>"

definition fetch_document_tool :: tool_definition where
  "fetch_document_tool =
     \<lparr>td_name = ''fetch_document'',
      td_description = ''Fetch one public HTTPS documentation page returned by web search.'',
      td_parameters = object_schema [(''url'', string_schema), (''reason'', string_schema)] [''url'', ''reason'']\<rparr>"

definition request_http_capability_tool :: tool_definition where
  "request_http_capability_tool =
     \<lparr>td_name = ''request_http_capability'',
      td_description = ''Request user approval for one exact keyless HTTPS GET API capability before probing or generating code that uses it.'',
      td_parameters = object_schema
        [(''host'', described ''DNS hostname only''),
         (''path_prefix'', described ''Absolute API path prefix beginning with /''),
         (''query_keys'', bounded_array 32 string_schema), (''purpose'', string_schema), (''reason'', string_schema)]
        [''host'', ''path_prefix'', ''query_keys'', ''purpose'', ''reason'']\<rparr>"

definition release_http_capability_tool :: tool_definition where
  "release_http_capability_tool =
     \<lparr>td_name = ''release_http_capability'',
      td_description = ''Remove an approved but failed or unused HTTP capability from this task before the artifact is created.'',
      td_parameters = object_schema
        [(''capability_hash'', string_schema), (''reason'', string_schema)] [''capability_hash'', ''reason'']\<rparr>"

definition probe_http_tool :: tool_definition where
  "probe_http_tool =
     \<lparr>td_name = ''probe_http'',
      td_description = ''Send one live GET request covered by an approved HTTP capability and inspect the bounded response.'',
      td_parameters = object_schema [(''url'', string_schema), (''reason'', string_schema)] [''url'', ''reason'']\<rparr>"

definition enum_schema :: "string list \<Rightarrow> json" where
  "enum_schema names = json_object [(''type'', JString ''string''), (''enum'', strings_to_value names)]"

definition contract_review_tool_definition :: tool_definition where
  "contract_review_tool_definition =
     \<lparr>td_name = ''submit_contract_review'',
      td_description = ''Submit the independent review of the proposed contract and generated tests.'',
      td_parameters = object_schema
        [(''decision'', enum_schema [''accept'', ''revise'', ''reject'']), (''reason'', string_schema),
         (''issues'', bounded_array 3 string_schema)]
        [''decision'', ''reason'', ''issues'']\<rparr>"

definition verifier_tool_definition :: tool_definition where
  "verifier_tool_definition =
     \<lparr>td_name = ''submit_test_verdict'',
      td_description = ''Submit the independent classification of the failing generated test.'',
      td_parameters = object_schema
        [(''classification'', enum_schema [''implementation_wrong'', ''oracle_wrong'', ''ambiguous'']),
         (''reason'', string_schema), (''expected_stdout'', string_schema), (''expected_exit_code'', integer_schema)]
        [''classification'', ''reason'']\<rparr>"

text \<open>The vector that \<open>available_tools\<close> returns.\<close>

definition available_tool_definitions :: "agent_workspace \<Rightarrow> tool_definition list" where
  "available_tool_definitions ws =
     [abort_tool, request_clarification_tool, request_example_correction_tool]
     @ (if am_web_searches (ws_metrics ws) < max_web_searches then [search_web_tool] else [])
     @ (if am_documents_fetched (ws_metrics ws) < max_document_fetches then [fetch_document_tool] else [])
     @ (if length (ws_http_capabilities ws) < max_http_capabilities then [request_http_capability_tool] else [])
     @ (if ws_http_capabilities ws \<noteq> []
        then release_http_capability_tool
          # (if am_http_probes (ws_metrics ws) < max_http_probes then [probe_http_tool] else [])
        else [])
     @ (if ws_draft ws = None then [submit_contract_tool]
        else if ws_source ws = None then [write_source_tool]
        else edit_source_tool
          # (if ws_current_artifact_digest ws \<noteq> None then [probe_tool] else [])
          @ (if pred_option (\<lambda>f. vf_test_origin f = GeneratedTest) (ws_latest_failure ws) \<and> ws_latest_failure ws \<noteq> None
             then [review_generated_test_tool] else []))"

lemmas tool_defs = abort_tool_def request_clarification_tool_def request_example_correction_tool_def search_web_tool_def
  fetch_document_tool_def request_http_capability_tool_def release_http_capability_tool_def probe_http_tool_def
  submit_contract_tool_def write_source_tool_def edit_source_tool_def probe_tool_def review_generated_test_tool_def

text \<open>The names with which the run works are those of the definitions.\<close>

lemma available_names: "map td_name (available_tool_definitions ws) = available_tool_names ws"
  by (auto simp: available_tool_definitions_def available_tool_names_def tool_defs)

section \<open>Conforming to a schema\<close>

text \<open>JSON Schema with the keywords of the definitions above; an integer is one that \<open>serde_json\<close> keeps
  as such, below zero exactly in \<open>NegInt\<close>.\<close>

definition schema_member :: "json \<Rightarrow> json \<Rightarrow> bool" where
  "schema_member s v = (case json_get ''enum'' s of Some (JArray es) \<Rightarrow> v \<in> set es | _ \<Rightarrow> True)"

definition schema_minimum :: "json \<Rightarrow> int \<Rightarrow> bool" where
  "schema_minimum s i = (case Option.bind (json_get ''minimum'' s) as_u64 of None \<Rightarrow> True | Some m \<Rightarrow> int m \<le> i)"

definition schema_room :: "json \<Rightarrow> nat \<Rightarrow> bool" where
  "schema_room s n = (case Option.bind (json_get ''maxItems'' s) as_u64 of None \<Rightarrow> True | Some m \<Rightarrow> n \<le> m)"

definition schema_required :: "json \<Rightarrow> string list" where
  "schema_required s = (case Option.bind (json_get ''required'' s) strings_from_value of None \<Rightarrow> [] | Some ks \<Rightarrow> ks)"

definition schema_closed :: "json \<Rightarrow> bool" where
  "schema_closed s \<longleftrightarrow> json_get ''additionalProperties'' s = Some (JBool False)"

function conforms :: "json \<Rightarrow> json \<Rightarrow> bool" where
  "conforms s (JString x) = (json_get ''type'' s = Some (JString ''string'') \<and> schema_member s (JString x))"
| "conforms s (JNumber (PosInt n)) = (json_get ''type'' s = Some (JString ''integer'') \<and> schema_minimum s (int n))"
| "conforms s (JNumber (NegInt i)) = (i < 0 \<and> json_get ''type'' s = Some (JString ''integer'') \<and> schema_minimum s i)"
| "conforms s (JNumber (Float x)) = False"
| "conforms s (JArray xs) =
     (json_get ''type'' s = Some (JString ''array'') \<and> schema_room s (length xs)
      \<and> (case json_get ''items'' s of None \<Rightarrow> True | Some items \<Rightarrow> \<forall>x\<in>set xs. conforms items x))"
| "conforms s (JObject m) =
     (json_get ''type'' s = Some (JString ''object'') \<and> list_all (\<lambda>k. map_of m k \<noteq> None) (schema_required s)
      \<and> (\<forall>e\<in>set m. case Option.bind (json_get ''properties'' s) (json_get (fst e)) of
                        None \<Rightarrow> \<not> schema_closed s
                      | Some p \<Rightarrow> conforms p (snd e)))"
| "conforms s JNull = False"
| "conforms s (JBool b) = False"
  by pat_completeness auto
termination
  by (relation "measure (\<lambda>(s, v). size v)")
    (force simp: less_Suc_eq_le intro: size_list_estimation')+

lemma json_kinds:
  obtains x where "v = JString x" | n where "v = JNumber (PosInt n)" | i where "v = JNumber (NegInt i)"
    | f where "v = JNumber (Float f)" | xs where "v = JArray xs" | m where "v = JObject m" | "v = JNull"
    | b where "v = JBool b"
proof (cases v)
  case (JNumber n)
  then show thesis using that by (cases n) auto
qed (use that in auto)

lemma schema_gets [simp]:
  "json_get ''type'' (object_schema props req) = Some (JString ''object'')"
  "json_get ''properties'' (object_schema props req) = Some (json_object props)"
  "schema_required (object_schema props req) = req" "schema_closed (object_schema props req)"
  by (simp_all add: object_schema_def schema_required_def schema_closed_def)

text \<open>What a conforming object holds, field by field.\<close>

lemma conforms_fields:
  assumes "conforms (object_schema props req) v" "distinct (map fst props)"
  shows "list_all (\<lambda>(k, p). case json_get k v of None \<Rightarrow> k \<notin> set req | Some x \<Rightarrow> conforms p x) props"
proof -
  obtain m where m: "v = JObject m"
    using assms(1) by (cases v rule: json_kinds)
      (auto simp: object_schema_def)
  have keys: "map_of (rev props) k = Some p" if "(k, p) \<in> set props" for k p
    using that assms(2) by (simp add: rev_map [symmetric])
  have "case map_of m k of None \<Rightarrow> k \<notin> set req | Some x \<Rightarrow> conforms p x" if "(k, p) \<in> set props" for k p
  proof (cases "map_of m k")
    case None
    then show ?thesis using assms(1) m by (auto simp: list_all_iff)
  next
    case (Some x)
    then have "(k, x) \<in> set m" by (rule map_of_SomeD)
    with assms(1) m keys [OF that] Some show ?thesis by force
  qed
  then show ?thesis by (auto simp: m json_get_def list_all_iff)
qed

lemma conforms_unknown:
  assumes "conforms (object_schema props req) v" "k \<notin> fst ` set props"
  shows "json_get k v = None"
proof -
  obtain m where m: "v = JObject m"
    using assms(1) by (cases v rule: json_kinds)
      (auto simp: object_schema_def)
  have none: "map_of (rev props) k = None"
    using assms(2) by (simp add: map_of_eq_None_iff)
  have "(k, x) \<notin> set m" for x
    using assms(1) m none by force
  then show ?thesis
    by (simp add: m json_get_def map_of_eq_None_iff) force
qed

lemma conforms_string [simp]: "conforms string_schema x \<longleftrightarrow> (\<exists>s. x = JString s)"
    "conforms (described t) x \<longleftrightarrow> (\<exists>s. x = JString s)"
  by (cases x rule: json_kinds;
      simp add: string_schema_def described_def schema_member_def)+

lemma conforms_enum [simp]: "conforms (enum_schema names) x \<longleftrightarrow> (\<exists>s. x = JString s \<and> s \<in> set names)"
  by (cases x rule: json_kinds)
    (auto simp: enum_schema_def schema_member_def strings_to_value_def)

lemma conforms_arrays [simp]:
  "conforms strings_schema x \<longleftrightarrow> (\<exists>xs. x = JArray xs \<and> list_all (conforms string_schema) xs)"
  "conforms (bounded_array n items) x \<longleftrightarrow> (\<exists>xs. x = JArray xs \<and> length xs \<le> n \<and> list_all (conforms items) xs)"
  by (cases x rule: json_kinds;
      force simp: strings_schema_def bounded_array_def schema_room_def as_u64_def json_nat_def list_all_iff)+

fun integer_of :: "json \<Rightarrow> int option" where
  "integer_of (JNumber (PosInt n)) = Some (int n)"
| "integer_of (JNumber (NegInt i)) = Some i"
| "integer_of _ = None"

lemma conforms_integer:
  assumes "conforms integer_schema x"
  shows "\<exists>i. integer_of x = Some i \<and> (as_i32 x \<noteq> None \<longleftrightarrow> - i32_max - 1 \<le> i \<and> i \<le> i32_max)
    \<and> (as_u16 x \<noteq> None \<longleftrightarrow> 0 \<le> i \<and> i < 65536)"
  using assms
  by (cases x rule: json_kinds)
    (auto simp: integer_schema_def as_i32_def as_u16_def as_u64_def i32_max_def)

lemma those_total: "those (map f xs) = None \<longleftrightarrow> \<not> list_all (\<lambda>x. f x \<noteq> None) xs"
  by (induction xs) (auto split: option.splits)

lemma list_read [simp]: "list_from_value f (JArray xs) = None \<longleftrightarrow> \<not> list_all (\<lambda>x. f x \<noteq> None) xs"
  by (simp add: list_from_value_def as_array_def those_total)

lemma strings_read: "list_all (conforms string_schema) xs \<Longrightarrow> \<exists>ss. strings_from_value (JArray xs) = Some ss"
proof -
  assume strings: "list_all (conforms string_schema) xs"
  then have "list_from_value as_str (JArray xs) \<noteq> None"
    unfolding list_read by (auto simp: list_all_iff as_str_def split: json.split)
  then show ?thesis by (simp add: strings_from_value_def del: list_read)
qed

section \<open>Reading what conforms\<close>

text \<open>The arguments of a tool can be read.\<close>

definition readable :: "string \<Rightarrow> json \<Rightarrow> bool" where
  "readable name v \<longleftrightarrow>
     (if name = ''submit_contract'' then submit_contract_args_from v \<noteq> None
      else if name = ''write_source'' then write_source_args_from v \<noteq> None
      else if name = ''edit_source'' then edit_source_args_from v \<noteq> None
      else if name = ''probe'' then probe_args_from v \<noteq> None
      else if name = ''review_generated_test'' then review_test_args_from v \<noteq> None
      else if name = ''abort'' then abort_args_from v \<noteq> None
      else if name = ''request_clarification'' then clarification_args_from v \<noteq> None
      else if name = ''request_example_correction'' then correction_args_from v \<noteq> None
      else if name = ''search_web'' then search_args_from v \<noteq> None
      else if name = ''fetch_document'' then fetch_args_from v \<noteq> None
      else if name = ''request_http_capability'' then capability_args_from v \<noteq> None
      else if name = ''release_http_capability'' then release_args_from v \<noteq> None
      else name = ''probe_http'' \<and> probe_http_args_from v \<noteq> None)"

text \<open>A call that cannot be read fails at once and does nothing.\<close>

lemma unreadable_call:
  assumes "\<not> readable (cl_name call) (cl_arguments call)"
  shows "\<exists>e. execute_tool_inner env job call w = Some (Inl e, w)
    \<and> (e = JsonFailure \<or> e = invalid_action (''unknown tool '' @ we_debug (ae_worker env) (cl_name call)))"
proof -
  have unread: "with_args None reason k w = Some (Inl JsonFailure, w)" for reason :: "'x \<Rightarrow> string" and k :: "'x \<Rightarrow> 'y act"
    by (simp add: with_args_def parse_args_def from_result_def ok_or_def andthen_def fail_def)
  from assms show ?thesis
    unfolding execute_tool_inner_def readable_def Let_def
    by (auto simp: unread fail_def tool_submit_contract_def tool_write_source_def tool_edit_source_def tool_probe_def
        tool_review_generated_test_def tool_abort_def tool_request_clarification_def tool_request_example_correction_def
        tool_search_web_def tool_fetch_document_def tool_request_http_capability_def tool_release_http_capability_def
        tool_probe_http_def simp del: not_None_eq split: if_splits)
qed

text \<open>The integers of the tests are in the ranges of their types, \<open>i32\<close> and \<open>u16\<close>.\<close>

definition in_range :: "int \<Rightarrow> int \<Rightarrow> string \<Rightarrow> json \<Rightarrow> bool" where
  "in_range lo hi k v =
     (case Option.bind (json_get k v) integer_of of None \<Rightarrow> True | Some i \<Rightarrow> lo \<le> i \<and> i \<le> hi)"

definition items_of :: "string \<Rightarrow> json \<Rightarrow> json list" where
  "items_of k v = (case json_get k v of Some (JArray xs) \<Rightarrow> xs | _ \<Rightarrow> [])"

definition integers_fit :: "json \<Rightarrow> bool" where
  "integers_fit v = list_all (\<lambda>test. in_range (- i32_max - 1) i32_max ''expected_exit_code'' test
     \<and> list_all (in_range 0 65535 ''status'') (items_of ''http_fixtures'' test)) (items_of ''tests'' v)"

lemma fixture_reads:
  assumes "conforms fixture_schema v"
  shows "fixture_from_value v \<noteq> None \<longleftrightarrow> in_range 0 65535 ''status'' v"
  using conforms_fields [OF assms [unfolded fixture_schema_def]]
  by (auto simp: fixture_from_value_def in_range_def get_string_def as_str_def split: option.splits
      dest!: conforms_integer)

lemma test_case_reads:
  assumes "conforms test_case_schema v"
  shows "test_case_from_value v \<noteq> None \<longleftrightarrow> in_range (- i32_max - 1) i32_max ''expected_exit_code'' v
    \<and> list_all (in_range 0 65535 ''status'') (items_of ''http_fixtures'' v)"
proof -
  obtain n ss i e c fs where g: "json_get ''name'' v = Some (JString n)" "json_get ''args'' v = Some (JArray ss)"
      "json_get ''stdin'' v = Some (JString i)" "json_get ''expected_stdout'' v = Some (JString e)"
      "json_get ''expected_exit_code'' v = Some c" "json_get ''http_fixtures'' v = Some (JArray fs)"
    and parts: "list_all (conforms string_schema) ss" "conforms integer_schema c" "list_all (conforms fixture_schema) fs"
    using conforms_fields [OF assms [unfolded test_case_schema_def]] by (auto split: option.splits)
  obtain args where args: "strings_from_value (JArray ss) = Some args"
    using parts(1) strings_read [of ss] by auto
  obtain j where j: "integer_of c = Some j" "as_i32 c \<noteq> None \<longleftrightarrow> - i32_max - 1 \<le> j \<and> j \<le> i32_max"
    using conforms_integer [OF parts(2)] by blast
  have "list_all (\<lambda>x. fixture_from_value x \<noteq> None) fs = list_all (in_range 0 65535 ''status'') fs"
    using parts(3) fixture_reads by (auto simp: list_all_iff)
  then have fs: "list_from_value fixture_from_value (JArray fs) \<noteq> None \<longleftrightarrow> list_all (in_range 0 65535 ''status'') fs"
    by simp
  have "test_case_from_value v \<noteq> None \<longleftrightarrow> as_i32 c \<noteq> None \<and> list_from_value fixture_from_value (JArray fs) \<noteq> None"
    by (simp add: test_case_from_value_def get_string_def get_default_def g args as_str_def del: list_read split: option.split)
  with j fs show ?thesis by (simp add: in_range_def items_of_def g del: list_read)
qed

text \<open>The other arguments.\<close>

lemma choice_reads: "conforms choice_schema v \<Longrightarrow> choice_from_value v \<noteq> None"
  using conforms_fields [of "[(''value'', string_schema), (''label'', string_schema), (''description'', string_schema)]"
    "[''value'', ''label'']" v]
  by (auto simp: choice_schema_def choice_from_value_def get_string_def get_opt_string_def as_str_def split: option.splits json.splits)

lemma no_tests: "''tests'' \<notin> fst ` set props \<Longrightarrow> conforms (object_schema props req) v \<Longrightarrow> integers_fit v"
  by (simp add: integers_fit_def items_of_def conforms_unknown)

lemma submit_contract_reads:
  assumes "conforms (td_parameters submit_contract_tool) v"
  shows "submit_contract_args_from v \<noteq> None \<longleftrightarrow> integers_fit v"
proof -
  obtain s xs ys ts r where g: "json_get ''summary'' v = Some (JString s)" "json_get ''assumptions'' v = Some (JArray xs)"
      "json_get ''invariants'' v = Some (JArray ys)" "json_get ''tests'' v = Some (JArray ts)"
      "json_get ''reason'' v = Some (JString r)"
    and parts: "list_all (conforms string_schema) xs" "list_all (conforms string_schema) ys"
      "list_all (conforms test_case_schema) ts"
    using conforms_fields [OF assms [unfolded submit_contract_tool_def tool_definition.select_convs]]
    by (auto split: option.splits)
  obtain xs' ys' where lists: "strings_from_value (JArray xs) = Some xs'" "strings_from_value (JArray ys) = Some ys'"
    using parts(1,2) strings_read [of xs] strings_read [of ys] by auto
  have "list_all (\<lambda>x. test_case_from_value x \<noteq> None) ts \<longleftrightarrow> integers_fit v"
    using parts(3) test_case_reads by (auto simp: list_all_iff integers_fit_def items_of_def g)
  then have ts: "list_from_value test_case_from_value (JArray ts) \<noteq> None \<longleftrightarrow> integers_fit v" by simp
  show ?thesis
    unfolding ts [symmetric]
    by (simp add: submit_contract_args_from_def get_string_def get_default_def g lists as_str_def del: list_read split: option.split)
qed

lemma string_tools_read:
  "conforms (td_parameters write_source_tool) v \<Longrightarrow> write_source_args_from v \<noteq> None"
  "conforms (td_parameters edit_source_tool) v \<Longrightarrow> edit_source_args_from v \<noteq> None"
  "conforms (td_parameters review_generated_test_tool) v \<Longrightarrow> review_test_args_from v \<noteq> None"
  "conforms (td_parameters abort_tool) v \<Longrightarrow> abort_args_from v \<noteq> None"
  "conforms (td_parameters search_web_tool) v \<Longrightarrow> search_args_from v \<noteq> None"
  "conforms (td_parameters fetch_document_tool) v \<Longrightarrow> fetch_args_from v \<noteq> None"
  "conforms (td_parameters release_http_capability_tool) v \<Longrightarrow> release_args_from v \<noteq> None"
  "conforms (td_parameters probe_http_tool) v \<Longrightarrow> probe_http_args_from v \<noteq> None"
  by (auto simp: tool_defs write_source_args_from_def edit_source_args_from_def review_test_args_from_def abort_args_from_def
      search_args_from_def fetch_args_from_def release_args_from_def probe_http_args_from_def strings2_def strings3_def
      get_string_def as_str_def dest!: conforms_fields split: option.splits)

lemma list_tools_read:
  "conforms (td_parameters probe_tool) v \<Longrightarrow> probe_args_from v \<noteq> None"
  "conforms (td_parameters request_http_capability_tool) v \<Longrightarrow> capability_args_from v \<noteq> None"
proof -
  show "conforms (td_parameters probe_tool) v \<Longrightarrow> probe_args_from v \<noteq> None"
    by (auto simp: tool_defs probe_args_from_def get_string_def get_default_def as_str_def
        dest!: conforms_fields strings_read split: option.splits)
  show "conforms (td_parameters request_http_capability_tool) v \<Longrightarrow> capability_args_from v \<noteq> None"
    by (auto simp: tool_defs capability_args_from_def get_string_def get_default_def as_str_def
        dest!: conforms_fields strings_read split: option.splits)
qed

lemma clarification_reads:
  assumes "conforms (td_parameters request_clarification_tool) v"
  shows "clarification_args_from v \<noteq> None"
proof -
  obtain k q cs r where g: "json_get ''decision_key'' v = Some (JString k)" "json_get ''question'' v = Some (JString q)"
      "json_get ''choices'' v = Some (JArray cs)" "json_get ''reason'' v = Some (JString r)"
    and "list_all (conforms choice_schema) cs"
    using conforms_fields [OF assms [unfolded request_clarification_tool_def tool_definition.select_convs]]
    by (auto split: option.splits)
  then have "list_from_value choice_from_value (JArray cs) \<noteq> None"
    using choice_reads by (auto simp: list_all_iff)
  then show ?thesis
    by (auto simp: clarification_args_from_def get_string_def get_default_def g as_str_def simp del: list_read)
qed

lemma correction_reads:
  assumes "conforms (td_parameters request_example_correction_tool) v"
  shows "correction_args_from v \<noteq> None"
proof -
  have index: "as_u64 x \<noteq> None" if "conforms (json_object [(''type'', JString ''integer''), (''minimum'', json_nat 1),
      (''description'', JString ''One-based index in immutable_user_examples'')]) x" for x
    using that by (cases x rule: json_kinds) (auto simp: as_u64_def schema_minimum_def json_nat_def)
  obtain i a b r where "json_get ''example_index'' v = Some i" "as_u64 i \<noteq> None"
      "json_get ''corrected_input'' v = Some (JString a)" "json_get ''corrected_output'' v = Some (JString b)"
      "json_get ''reason'' v = Some (JString r)"
    using conforms_fields [OF assms [unfolded request_example_correction_tool_def tool_definition.select_convs]] index
    by (auto split: option.splits)
  then show ?thesis
    by (auto simp: correction_args_from_def get_string_def as_str_def)
qed

lemma available_cases:
  "tool \<in> set (available_tool_definitions ws) \<Longrightarrow> tool \<in> {abort_tool, request_clarification_tool,
     request_example_correction_tool, search_web_tool, fetch_document_tool, request_http_capability_tool,
     release_http_capability_tool, probe_http_tool, submit_contract_tool, write_source_tool, edit_source_tool, probe_tool,
     review_generated_test_tool}"
  by (auto simp: available_tool_definitions_def split: if_splits)

lemma tools_fit:
  "conforms (td_parameters abort_tool) v \<Longrightarrow> integers_fit v"
  "conforms (td_parameters request_clarification_tool) v \<Longrightarrow> integers_fit v"
  "conforms (td_parameters request_example_correction_tool) v \<Longrightarrow> integers_fit v"
  "conforms (td_parameters search_web_tool) v \<Longrightarrow> integers_fit v"
  "conforms (td_parameters fetch_document_tool) v \<Longrightarrow> integers_fit v"
  "conforms (td_parameters request_http_capability_tool) v \<Longrightarrow> integers_fit v"
  "conforms (td_parameters release_http_capability_tool) v \<Longrightarrow> integers_fit v"
  "conforms (td_parameters probe_http_tool) v \<Longrightarrow> integers_fit v"
  "conforms (td_parameters write_source_tool) v \<Longrightarrow> integers_fit v"
  "conforms (td_parameters edit_source_tool) v \<Longrightarrow> integers_fit v"
  "conforms (td_parameters probe_tool) v \<Longrightarrow> integers_fit v"
  "conforms (td_parameters review_generated_test_tool) v \<Longrightarrow> integers_fit v"
  unfolding tool_defs tool_definition.select_convs by (erule no_tests [rotated], simp)+

lemma other_tools_fit:
  assumes "tool \<in> set (available_tool_definitions ws)" "tool \<noteq> submit_contract_tool" "conforms (td_parameters tool) v"
  shows "integers_fit v"
  using available_cases [OF assms(1)] assms(2,3) by (auto simp: tools_fit)

lemma tool_names:
  "td_name abort_tool = ''abort''" "td_name request_clarification_tool = ''request_clarification''"
  "td_name request_example_correction_tool = ''request_example_correction''" "td_name search_web_tool = ''search_web''"
  "td_name fetch_document_tool = ''fetch_document''" "td_name request_http_capability_tool = ''request_http_capability''"
  "td_name release_http_capability_tool = ''release_http_capability''" "td_name probe_http_tool = ''probe_http''"
  "td_name submit_contract_tool = ''submit_contract''" "td_name write_source_tool = ''write_source''"
  "td_name edit_source_tool = ''edit_source''" "td_name probe_tool = ''probe''"
  "td_name review_generated_test_tool = ''review_generated_test''"
  by (simp_all add: tool_defs)

lemma available_readable:
  assumes "tool \<in> set (available_tool_definitions ws)" "conforms (td_parameters tool) v"
  shows "readable (td_name tool) v \<longleftrightarrow> integers_fit v"
proof (cases "tool = submit_contract_tool")
  case True
  with assms(2) show ?thesis by (simp add: readable_def tool_names submit_contract_reads del: not_None_eq)
next
  case False
  have "readable (td_name tool) v"
    using available_cases [OF assms(1)] False assms(2)
    by (elim insertE emptyE)
      (simp_all add: readable_def tool_names string_tools_read list_tools_read clarification_reads correction_reads
        del: not_None_eq)
  with other_tools_fit [OF assms(1) False assms(2)] show ?thesis by simp
qed


text \<open>A contract with a response of status 70000.\<close>

definition odd_fixture :: json where
  "odd_fixture = JObject
     [(''body'', JString ''x''), (''content_type'', JString ''text/plain''), (''request_url'', JString ''https://a.example/x''),
      (''response_url'', JString ''https://a.example/x''), (''status'', JNumber (PosInt 70000))]"

definition odd_test :: json where
  "odd_test = JObject
     [(''args'', JArray []), (''expected_exit_code'', JNumber (PosInt 0)), (''expected_stdout'', JString ''o''),
      (''http_fixtures'', JArray [odd_fixture]), (''name'', JString ''n''), (''stdin'', JString ''i'')]"

definition odd_contract :: json where
  "odd_contract = JObject
     [(''assumptions'', JArray []), (''invariants'', JArray [JString ''v'']), (''reason'', JString ''r''),
      (''summary'', JString ''s''), (''tests'', JArray [odd_test])]"

definition odd_call :: tool_call where
  "odd_call = \<lparr>cl_id = ''1'', cl_call_id = None, cl_name = ''submit_contract'', cl_arguments = odd_contract\<rparr>"

lemma odd_conforms: "conforms (td_parameters submit_contract_tool) odd_contract"
proof -
  have types: "json_get ''type'' string_schema = Some (JString ''string'')" "schema_member string_schema v"
    "json_get ''type'' integer_schema = Some (JString ''integer'')" "schema_minimum integer_schema i" for v i
    by (simp_all add: string_schema_def integer_schema_def schema_member_def schema_minimum_def)
  have arrays: "json_get ''type'' strings_schema = Some (JString ''array'')" "schema_room strings_schema k"
    "json_get ''items'' strings_schema = Some string_schema"
    "json_get ''type'' (bounded_array n s) = Some (JString ''array'')" "schema_room (bounded_array n s) k \<longleftrightarrow> k \<le> n"
    "json_get ''items'' (bounded_array n s) = Some s" for k n s
    by (simp_all add: strings_schema_def bounded_array_def schema_room_def json_nat_def as_u64_def)
  have "conforms fixture_schema odd_fixture"
    by (simp add: fixture_schema_def odd_fixture_def types)
  then have "conforms test_case_schema odd_test"
    by (simp add: test_case_schema_def odd_test_def types arrays)
  then show ?thesis
    by (simp add: submit_contract_tool_def odd_contract_def types arrays)
qed


section \<open>The reviewers\<close>

lemma review_reads:
  assumes "conforms (td_parameters contract_review_tool_definition) v"
  shows "review_from_value v \<noteq> None"
proof -
  obtain d r xs where g: "json_get ''decision'' v = Some (JString d)" "json_get ''reason'' v = Some (JString r)"
      "json_get ''issues'' v = Some (JArray xs)"
    and parts: "d \<in> {''accept'', ''revise'', ''reject''}" "list_all (conforms string_schema) xs"
    using conforms_fields [OF assms [unfolded contract_review_tool_definition_def tool_definition.select_convs]]
    by (auto split: option.splits)
  have "decision_from_value (JString d) \<noteq> None"
    using parts(1) by (auto simp: decision_from_value_def as_str_def)
  with strings_read [OF parts(2)] show ?thesis
    by (auto simp: review_from_value_def get_default_def g as_str_def)
qed

lemma verdict_reads:
  assumes "conforms (td_parameters verifier_tool_definition) v"
  shows "verdict_from_value v \<noteq> None \<longleftrightarrow> in_range (- i32_max - 1) i32_max ''expected_exit_code'' v"
proof -
  note fields = conforms_fields [OF assms [unfolded verifier_tool_definition_def tool_definition.select_convs]]
  obtain k r where g: "json_get ''classification'' v = Some (JString k)" "json_get ''reason'' v = Some (JString r)"
    and k: "k \<in> {''implementation_wrong'', ''oracle_wrong'', ''ambiguous''}"
    using fields by (auto split: option.splits)
  have kind: "verdict_kind_from_value (JString k) \<noteq> None"
    using k by (auto simp: verdict_kind_from_value_def as_str_def)
  have out: "get_default ''expected_stdout'' None (as_opt as_str) v \<noteq> None"
    using fields by (auto simp: get_default_def as_opt_def as_str_def split: option.splits)
  have code: "get_default ''expected_exit_code'' None (as_opt as_i32) v \<noteq> None
      \<longleftrightarrow> in_range (- i32_max - 1) i32_max ''expected_exit_code'' v"
  proof (cases "json_get ''expected_exit_code'' v")
    case (Some c)
    with fields have "conforms integer_schema c" by simp
    moreover from this have "c \<noteq> JNull" by auto
    ultimately show ?thesis
      using conforms_integer [of c] by (cases c) (auto simp: get_default_def as_opt_def in_range_def Some)
  qed (simp add: get_default_def in_range_def)
  show ?thesis
    unfolding code [symmetric] using kind out
    by (auto simp: verdict_from_value_def g as_str_def split: option.split)
qed

end
