(* ===== verification/Web_Session.thy ===== *)
theory Web_Session
  imports Schema
begin

text \<open>
  Browser sessions of the server (src/apps/jit-server/src/web.rs): the table of sessions with
  its expiry and its limit, the cookie and the CSRF header, and the handlers \<open>login\<close>,
  \<open>current_session\<close> and \<open>logout\<close>, with the errors of the API that they answer.
\<close>

section \<open>What the server calls outside its repository\<close>

text \<open>\<open>HeaderValue::to_str\<close>, the comparison \<open>ct_eq\<close> of two texts of the same length, the text of a
  time, and \<open>{:?}\<close> of a string.\<close>

record web_ext =
  wx_to_str :: "string \<Rightarrow> string option"
  wx_ct_eq :: "string \<Rightarrow> string \<Rightarrow> bool"
  wx_rfc3339 :: "time \<Rightarrow> string"
  wx_debug :: "string \<Rightarrow> string"

type_synonym headers = "(string \<times> string) list"

text \<open>\<open>headers.get(name).and_then(to_str)\<close>: the first value of a header, when it is text.\<close>

definition header_text :: "web_ext \<Rightarrow> string \<Rightarrow> headers \<Rightarrow> string option" where
  "header_text wx name headers = Option.bind (map_of headers name) (wx_to_str wx)"

definition constant_time_eq :: "web_ext \<Rightarrow> string \<Rightarrow> string \<Rightarrow> bool" where
  "constant_time_eq wx left right = (length left = length right \<and> wx_ct_eq wx left right)"

text \<open>What \<open>subtle\<close> documents.\<close>

definition compares_bytes :: "web_ext \<Rightarrow> bool" where
  "compares_bytes wx \<longleftrightarrow> (\<forall>a b. length a = length b \<longrightarrow> wx_ct_eq wx a b = (a = b))"

lemma constant_time_eq_iff: "compares_bytes wx \<Longrightarrow> constant_time_eq wx a b = (a = b)"
  by (auto simp: constant_time_eq_def compares_bytes_def)

section \<open>Errors of the API\<close>

record api_error =
  xe_status :: nat
  xe_body :: error_response

definition api_error_new :: "string \<Rightarrow> nat \<Rightarrow> string \<Rightarrow> string \<Rightarrow> api_error" where
  "api_error_new ulid status code message =
     \<lparr>xe_status = status, xe_body = error_response_new code message (''req_'' @ ulid)\<rparr>"

definition bad_request :: "string \<Rightarrow> string \<Rightarrow> api_error" where
  "bad_request ulid message = api_error_new ulid 400 ''invalid_request'' message"

definition internal_error :: "string \<Rightarrow> string \<Rightarrow> api_error" where
  "internal_error ulid message = api_error_new ulid 500 ''internal_error'' message"

lemma api_error_status [simp]:
  "xe_status (api_error_new ulid status code message) = status"
  "xe_status (bad_request ulid message) = 400" "xe_status (internal_error ulid message) = 500"
  by (simp_all add: api_error_new_def bad_request_def internal_error_def)

section \<open>The table of sessions\<close>

record web_session =
  wb_id :: string
  wb_csrf_token :: string
  wb_expires_at :: time

definition session_ttl :: time where "session_ttl = 12 * 60 * 60 * 1000000"
definition max_sessions :: nat where "max_sessions = 1024"

text \<open>The hash map from identifiers to sessions, as its sessions; \<open>order\<close> is the order in which the
  map happens to visit its values.\<close>

type_synonym session_table = "web_session list"

definition find_session :: "string \<Rightarrow> session_table \<Rightarrow> web_session option" where
  "find_session i sessions = find (\<lambda>s. wb_id s = i) sessions"

definition retain_live :: "time \<Rightarrow> session_table \<Rightarrow> session_table" where
  "retain_live now sessions = filter (\<lambda>s. now < wb_expires_at s) sessions"

definition session_remove :: "string \<Rightarrow> session_table \<Rightarrow> session_table" where
  "session_remove i sessions = filter (\<lambda>s. wb_id s \<noteq> i) sessions"

text \<open>\<open>min_by_key\<close>: the first of the least elements.\<close>

definition min_by_key :: "('a \<Rightarrow> time) \<Rightarrow> 'a list \<Rightarrow> 'a option" where
  "min_by_key f xs = (case xs of [] \<Rightarrow> None | x # xs \<Rightarrow> Some (foldl (\<lambda>m y. if f y < f m then y else m) x xs))"

definition session_create :: "(session_table \<Rightarrow> session_table) \<Rightarrow> time \<Rightarrow> time \<Rightarrow> string \<Rightarrow> string \<Rightarrow> session_table
    \<Rightarrow> web_session \<times> session_table" where
  "session_create order now ttl i csrf sessions =
     (let live = retain_live now sessions;
          kept = (if length live \<ge> max_sessions
                  then case min_by_key wb_expires_at (order live) of
                         None \<Rightarrow> live | Some oldest \<Rightarrow> session_remove (wb_id oldest) live
                  else live);
          session = \<lparr>wb_id = i, wb_csrf_token = csrf, wb_expires_at = now + ttl\<rparr>
      in (session, session_remove i kept @ [session]))"

definition session_get :: "time \<Rightarrow> string \<Rightarrow> session_table \<Rightarrow> web_session option \<times> session_table" where
  "session_get now i sessions = (let live = retain_live now sessions in (find_session i live, live))"

section \<open>Cookie and CSRF token\<close>

definition session_cookie :: string where "session_cookie = ''jitforge_session''"
definition csrf_header :: string where "csrf_header = ''x-jitforge-csrf''"

text \<open>\<open>find_map\<close> over the parts of a cookie.\<close>

definition cookie_session :: "string \<Rightarrow> string option" where
  "cookie_session raw =
     (case List.map_filter (\<lambda>part. case split_once ''='' (trim part) of
          None \<Rightarrow> None
        | Some (name, value) \<Rightarrow> if name = session_cookie then Some value else None) (split_char CHR '';'' raw) of
        [] \<Rightarrow> None | value # _ \<Rightarrow> Some value)"

definition session_from_headers :: "web_ext \<Rightarrow> time \<Rightarrow> headers \<Rightarrow> session_table
    \<Rightarrow> web_session option \<times> session_table" where
  "session_from_headers wx now headers sessions =
     (case Option.bind (header_text wx ''cookie'' headers) cookie_session of
        None \<Rightarrow> (None, sessions) | Some i \<Rightarrow> session_get now i sessions)"

definition csrf_matches :: "web_ext \<Rightarrow> web_session \<Rightarrow> headers \<Rightarrow> bool" where
  "csrf_matches wx session headers =
     (case header_text wx csrf_header headers of
        None \<Rightarrow> False | Some value \<Rightarrow> constant_time_eq wx value (wb_csrf_token session))"

section \<open>Handlers\<close>

record session_response =
  sr_csrf_token :: string
  sr_expires_at :: string

definition session_response_of :: "web_ext \<Rightarrow> web_session \<Rightarrow> session_response" where
  "session_response_of wx session =
     \<lparr>sr_csrf_token = wb_csrf_token session, sr_expires_at = wx_rfc3339 wx (wb_expires_at session)\<rparr>"

definition unauthorized :: "string \<Rightarrow> api_error" where
  "unauthorized ulid = api_error_new ulid 401 ''unauthorized'' ''a valid browser session is required''"

definition csrf_failed :: "string \<Rightarrow> api_error" where
  "csrf_failed ulid = api_error_new ulid 403 ''csrf_failed'' ''a valid CSRF token is required''"

text \<open>A login answers the session and the cookie to set; the identifier and the CSRF token are two
  fresh random UUIDs.\<close>

definition login :: "web_ext \<Rightarrow> string \<Rightarrow> string \<Rightarrow> (session_table \<Rightarrow> session_table) \<Rightarrow> time \<Rightarrow> string \<Rightarrow> string \<Rightarrow> string
    \<Rightarrow> session_table \<Rightarrow> (api_error + session_response \<times> string) \<times> session_table" where
  "login wx auth_token ulid order now i csrf token sessions =
     (if token = [] \<or> length token > 4096 \<or> \<not> constant_time_eq wx token auth_token
      then (Inl (api_error_new ulid 401 ''unauthorized'' ''invalid authentication token''), sessions)
      else let (session, sessions') = session_create order now session_ttl i csrf sessions
           in (Inr (session_response_of wx session,
                 session_cookie @ ''='' @ wb_id session @ ''; HttpOnly; SameSite=Strict; Path=/v1; Max-Age=43200''),
               sessions'))"

definition current_session :: "web_ext \<Rightarrow> string \<Rightarrow> time \<Rightarrow> headers \<Rightarrow> session_table
    \<Rightarrow> (api_error + session_response) \<times> session_table" where
  "current_session wx ulid now headers sessions =
     (case session_from_headers wx now headers sessions of
        (None, sessions') \<Rightarrow> (Inl (unauthorized ulid), sessions')
      | (Some session, sessions') \<Rightarrow> (Inr (session_response_of wx session), sessions'))"

definition logout :: "web_ext \<Rightarrow> string \<Rightarrow> time \<Rightarrow> headers \<Rightarrow> session_table
    \<Rightarrow> (api_error + string) \<times> session_table" where
  "logout wx ulid now headers sessions =
     (case session_from_headers wx now headers sessions of
        (None, sessions') \<Rightarrow> (Inl (unauthorized ulid), sessions')
      | (Some session, sessions') \<Rightarrow>
          if \<not> csrf_matches wx session headers then (Inl (csrf_failed ulid), sessions')
          else (Inr ''jitforge_session=; HttpOnly; SameSite=Strict; Path=/v1; Max-Age=0'',
                session_remove (wb_id session) sessions'))"

section \<open>The table as an expiring map\<close>

text \<open>The interface that the handlers rely on: at each time the live sessions are a map from
  identifiers.\<close>

definition live_session :: "time \<Rightarrow> session_table \<Rightarrow> string \<Rightarrow> web_session option" where
  "live_session now sessions i = find_session i (retain_live now sessions)"

locale expiring_map =
  fixes live :: "time \<Rightarrow> 's \<Rightarrow> string \<Rightarrow> web_session option"
    and fetch :: "time \<Rightarrow> string \<Rightarrow> 's \<Rightarrow> web_session option \<times> 's"
    and remove :: "string \<Rightarrow> 's \<Rightarrow> 's"
  assumes fetch_live: "fst (fetch now i s) = live now s i"
    and fetch_keeps: "now \<le> later \<Longrightarrow> live later (snd (fetch now i s)) j = live later s j"
    and remove_live: "live now (remove i s) j = (if j = i then None else live now s j)"
    and live_fresh: "live now s i = Some session \<Longrightarrow> wb_id session = i \<and> now < wb_expires_at session"
begin

lemma fetch_after_remove: "fst (fetch now i (remove i s)) = None"
  by (simp add: fetch_live remove_live)

lemma fetched_is_fresh: "fst (fetch now i s) = Some session \<Longrightarrow> wb_id session = i \<and> now < wb_expires_at session"
  by (simp add: fetch_live live_fresh)

end

lemma find_session_filter:
  "find_session i (filter P sessions) = Some s \<Longrightarrow> P s \<and> wb_id s = i"
  by (auto simp: find_session_def find_Some_iff dest: nth_mem)

lemma retain_retain: "now \<le> later \<Longrightarrow> retain_live later (retain_live now sessions) = retain_live later sessions"
  by (auto simp: retain_live_def intro: filter_cong)

lemma find_session_remove: "find_session j (session_remove i xs) = (if j = i then None else find_session j xs)"
  by (induction xs) (auto simp: find_session_def session_remove_def)

lemma retain_remove: "retain_live now (session_remove i xs) = session_remove i (retain_live now xs)"
  by (simp add: retain_live_def session_remove_def conj_commute)

interpretation sessions: expiring_map live_session session_get session_remove
  by unfold_locales
    (auto simp: Let_def live_session_def session_get_def retain_retain retain_remove find_session_remove
      dest: find_session_filter [where P = "\<lambda>s. _ < wb_expires_at s", folded retain_live_def])

section \<open>The limit on sessions\<close>

definition sessions_ok :: "session_table \<Rightarrow> bool" where
  "sessions_ok sessions \<longleftrightarrow> length sessions \<le> max_sessions \<and> distinct (map wb_id sessions)"

text \<open>\<open>HashMap::values\<close> visits every value, in some order.\<close>

definition visits_all :: "(session_table \<Rightarrow> session_table) \<Rightarrow> bool" where
  "visits_all order \<longleftrightarrow> (\<forall>sessions. set (order sessions) = set sessions)"

lemma distinct_map_filter_id: "distinct (map wb_id xs) \<Longrightarrow> distinct (map wb_id (filter P xs))"
  by (induction xs) auto

lemma sessions_ok_filter: "sessions_ok xs \<Longrightarrow> sessions_ok (filter P xs)"
  by (auto simp: sessions_ok_def distinct_map_filter_id intro: le_trans [OF length_filter_le])

lemma min_by_key_mem: "min_by_key f xs = Some m \<Longrightarrow> m \<in> set xs"
proof -
  have "foldl (\<lambda>m y. if f y < f m then y else m) x xs \<in> set (x # xs)" for x xs
    by (induction xs arbitrary: x) (fastforce split: if_splits)+
  then show "min_by_key f xs = Some m \<Longrightarrow> m \<in> set xs"
    by (auto simp: min_by_key_def split: list.splits)
qed

lemma min_by_key_least: "min_by_key f xs = Some m \<Longrightarrow> x \<in> set xs \<Longrightarrow> f m \<le> f x"
proof -
  have "f (foldl (\<lambda>m y. if f y < f m then y else m) x xs) \<le> f x
      \<and> (\<forall>y\<in>set xs. f (foldl (\<lambda>m y. if f y < f m then y else m) x xs) \<le> f y)" for x xs
  proof (induction xs arbitrary: x)
    case (Cons a xs)
    show ?case
      using Cons.IH [of a] Cons.IH [of x] by (cases "f a < f x") (auto intro: order_trans [OF _ less_imp_le] order_trans)
  qed simp
  then show "min_by_key f xs = Some m \<Longrightarrow> x \<in> set xs \<Longrightarrow> f m \<le> f x"
    by (auto simp: min_by_key_def split: list.splits)
qed

lemma min_by_key_None: "min_by_key f xs = None \<longleftrightarrow> xs = []"
  by (simp add: min_by_key_def split: list.split)

lemma session_remove_shorter: "s \<in> set xs \<Longrightarrow> length (session_remove (wb_id s) xs) < length xs"
  by (simp add: session_remove_def length_filter_less)

lemma session_create_room:
  assumes "visits_all order" "sessions_ok sessions"
  shows "length (case min_by_key wb_expires_at (order (retain_live now sessions)) of
      None \<Rightarrow> retain_live now sessions
    | Some oldest \<Rightarrow> session_remove (wb_id oldest) (retain_live now sessions)) < max_sessions
    \<or> retain_live now sessions = []"
proof (cases "min_by_key wb_expires_at (order (retain_live now sessions))")
  case None
  then have "order (retain_live now sessions) = []"
    by (simp add: min_by_key_None)
  moreover have "set (order (retain_live now sessions)) = set (retain_live now sessions)"
    using assms(1) unfolding visits_all_def by blast
  ultimately show ?thesis
    by simp
next
  case (Some oldest)
  then have "oldest \<in> set (retain_live now sessions)"
    using assms(1) by (auto simp: visits_all_def dest: min_by_key_mem)
  then have "length (session_remove (wb_id oldest) (retain_live now sessions)) < length (retain_live now sessions)"
    by (rule session_remove_shorter)
  then show ?thesis
    using Some assms(2) by (auto simp: sessions_ok_def retain_live_def intro: less_le_trans le_trans [OF length_filter_le])
qed

lemma session_create_ok:
  assumes "visits_all order" "sessions_ok sessions"
  shows "sessions_ok (snd (session_create order now ttl i csrf sessions))"
proof -
  define live where "live = retain_live now sessions"
  define kept where "kept = (if length live \<ge> max_sessions
    then case min_by_key wb_expires_at (order live) of None \<Rightarrow> live | Some oldest \<Rightarrow> session_remove (wb_id oldest) live
    else live)"
  have "sessions_ok live"
    using assms(2) by (simp add: live_def retain_live_def sessions_ok_filter)
  then have "sessions_ok kept"
    by (auto simp: kept_def session_remove_def sessions_ok_filter split: option.split)
  moreover have "length kept < max_sessions"
    unfolding kept_def live_def using session_create_room [OF assms, of now] by (auto simp: max_sessions_def)
  ultimately have "length (session_remove i kept) < max_sessions" "distinct (map wb_id (session_remove i kept))"
    by (auto simp: session_remove_def sessions_ok_def distinct_map_filter_id intro: le_less_trans [OF length_filter_le])
  moreover have "i \<notin> wb_id ` set (session_remove i kept)"
    by (auto simp: session_remove_def)
  ultimately show ?thesis
    by (simp add: sessions_ok_def session_create_def Let_def live_def [symmetric] kept_def [symmetric])
qed

lemma session_get_ok: "sessions_ok sessions \<Longrightarrow> sessions_ok (snd (session_get now i sessions))"
  by (simp add: session_get_def Let_def retain_live_def sessions_ok_filter)

lemma session_remove_ok: "sessions_ok sessions \<Longrightarrow> sessions_ok (session_remove i sessions)"
  by (simp add: session_remove_def sessions_ok_filter)

lemma session_from_headers_ok:
  "sessions_ok sessions \<Longrightarrow> sessions_ok (snd (session_from_headers wx now headers sessions))"
  by (simp add: session_from_headers_def session_get_ok split: option.split)

lemma find_session_append:
  "find_session i (xs @ ys) = (case find_session i xs of None \<Rightarrow> find_session i ys | Some s \<Rightarrow> Some s)"
  by (induction xs) (auto simp: find_session_def)

lemma created_session_live:
  assumes "session_create order now ttl i csrf sessions = (session, sessions')" "now \<le> later" "later < now + ttl"
  shows "live_session later sessions' i = Some session"
  using assms
  by (auto simp: session_create_def Let_def live_session_def retain_live_def find_session_append find_session_remove
      retain_remove [unfolded retain_live_def] find_session_def [of _ "[_]"] split: option.split)

end
