(* ===== verification/Server_Api.thy ===== *)
theory Server_Api
  imports Web_Session Registry Registry_Jobs Artifact
begin

text \<open>
  The handlers of the HTTP API (src/apps/jit-server/src/main.rs) over the registry, the artifact
  store and the worker: registration, revocation, jobs and their questions, capabilities,
  listings, artifacts and invocations, with the mapping of every error to a response.
\<close>

section \<open>The environment of the server\<close>

text \<open>A call of the worker, as worker.proto has it, and the codes of gRPC.\<close>

record execute_request =
  xq_invocation_id :: string
  xq_artifact_digest :: string
  xq_args :: "string list"
  xq_stdin :: string
  xq_timeout_ms :: nat

record execute_response =
  xr_exit_code :: int
  xr_stdout :: string
  xr_stderr :: string
  xr_duration_ms :: nat

datatype grpc_code =
    GrpcCancelled | GrpcUnknown | GrpcInvalidArgument | GrpcDeadlineExceeded | GrpcNotFound | GrpcAlreadyExists
  | GrpcPermissionDenied | GrpcResourceExhausted | GrpcFailedPrecondition | GrpcAborted | GrpcOutOfRange
  | GrpcUnimplemented | GrpcInternal | GrpcUnavailable | GrpcDataLoss | GrpcUnauthenticated

record grpc_status =
  gs_code :: grpc_code
  gs_message :: string

text \<open>The configuration of the server with what it calls outside its repository: the worker behind
  the channel (given the \<open>authorization\<close> metadata and the registry as it then is), the parser of
  metadata values, Base64 and the JSON parser with the text of its errors.\<close>

record server_env =
  se_web :: web_ext
  se_registry :: ext
  se_artifact :: artifact_ext
  se_auth_token :: string
  se_worker_token :: string
  se_worker :: "string \<Rightarrow> db \<Rightarrow> execute_request \<Rightarrow> grpc_status + execute_response"
  se_metadata_ok :: "string \<Rightarrow> bool"
  se_base64_decode :: "string \<Rightarrow> string option"
  se_base64_encode :: "string \<Rightarrow> string"
  se_parse_json :: "string \<Rightarrow> string + json"

text \<open>One request: its ULID, the time of each of its transactions, fresh UUIDs, and what others do to
  the registry before its second and later transactions.\<close>

record request_context =
  rc_ulid :: string
  rc_clock :: "nat \<Rightarrow> time"
  rc_uuid :: "nat \<Rightarrow> uuid"
  rc_others :: "nat \<Rightarrow> db \<Rightarrow> db"

section \<open>Errors\<close>

fun domain_error_text :: "(string \<Rightarrow> string) \<Rightarrow> domain_error \<Rightarrow> string" where
  "domain_error_text debug InvalidToolName =
     ''tool name must be 1-64 characters of lowercase ASCII letters, digits, '' @ [CHR 0x27] @ ''-'' @ [CHR 0x27]
       @ '' or '' @ [CHR 0x27] @ ''_'' @ [CHR 0x27]"
| "domain_error_text debug InvalidIntent = ''intent must contain 1-4096 non-whitespace bytes''"
| "domain_error_text debug (InvalidVersionStatus s) = ''unknown tool version status '' @ debug s"

fun from_storage :: "web_ext \<Rightarrow> string \<Rightarrow> storage_error \<Rightarrow> api_error" where
  "from_storage wx u ToolNotFound = api_error_new u 404 ''tool_not_found'' ''tool not found''"
| "from_storage wx u VersionNotFound = api_error_new u 404 ''version_not_found'' ''tool version not found''"
| "from_storage wx u (VersionNotRevocable status) = api_error_new u 409 ''version_not_revocable''
     (''tool version in status '' @ wx_debug wx status @ '' cannot be revoked'')"
| "from_storage wx u JobNotFound = api_error_new u 404 ''job_not_found'' ''synthesis job not found''"
| "from_storage wx u (JobNotCancellable status) = api_error_new u 409 ''job_not_cancellable''
     (''synthesis job in status '' @ wx_debug wx status @ '' cannot be cancelled'')"
| "from_storage wx u InvalidCancellationReason = api_error_new u 400 ''invalid_cancellation_reason''
     ''cancellation reason must contain 1-4096 bytes''"
| "from_storage wx u JobInputNotFound = api_error_new u 409 ''job_input_not_pending''
     ''the synthesis job no longer has that pending input''"
| "from_storage wx u InvalidJobInputAnswer = api_error_new u 400 ''invalid_job_answer''
     ''the answer does not match the pending input''"
| "from_storage wx u HttpCapabilityNotFound = api_error_new u 409 ''http_capability_not_active''
     ''HTTP capability approval was not found or is already revoked''"
| "from_storage wx u InvalidRevocationReason = api_error_new u 400 ''invalid_revocation_reason''
     ''revocation reason must contain 1-4096 bytes''"
| "from_storage wx u IdempotencyConflict = api_error_new u 409 ''idempotency_conflict''
     ''idempotency key was already used for a different request''"
| "from_storage wx u ToolNotReady = api_error_new u 409 ''tool_not_ready''
     ''the selected tool version has not completed synthesis and validation''"
| "from_storage wx u ArtifactNotFound = api_error_new u 404 ''artifact_not_found''
     ''tool version has no published artifact''"
| "from_storage wx u other = api_error_new u 500 ''internal_error'' ''the registry operation failed''"

text \<open>The only i/o error of \<open>load\<close> on the model's store is a file that is not there.\<close>

fun from_artifact :: "string \<Rightarrow> artifact_error \<Rightarrow> api_error" where
  "from_artifact u ArtifactIo = api_error_new u 404 ''artifact_not_found'' ''published artifact is not available''"
| "from_artifact u other = internal_error u ''failed to load the published artifact''"

text \<open>A handler answers and leaves the registry changed or not; a failed transaction changes nothing.\<close>

type_synonym 'a handled = "(api_error + 'a) \<times> db"

definition stored :: "server_env \<Rightarrow> request_context \<Rightarrow> db \<Rightarrow> 'a committed \<Rightarrow> 'a handled" where
  "stored env ctx d result =
     (case result of Inl e \<Rightarrow> (Inl (from_storage (se_web env) (rc_ulid ctx) e), d) | Inr (a, d') \<Rightarrow> (Inr a, d'))"

definition queried :: "server_env \<Rightarrow> request_context \<Rightarrow> 'a sres \<Rightarrow> api_error + 'a" where
  "queried env ctx result = (case result of Inl e \<Rightarrow> Inl (from_storage (se_web env) (rc_ulid ctx) e) | Inr a \<Rightarrow> Inr a)"

definition refuse :: "request_context \<Rightarrow> string \<Rightarrow> api_error + 'a" where
  "refuse ctx message = Inl (bad_request (rc_ulid ctx) message)"

definition parse_name :: "server_env \<Rightarrow> request_context \<Rightarrow> string \<Rightarrow> api_error + tool_name" where
  "parse_name env ctx raw =
     (case tool_name_from_str raw of
        Inl e \<Rightarrow> refuse ctx (domain_error_text (wx_debug (se_web env)) e) | Inr name \<Rightarrow> Inr name)"

definition parse_job_id :: "server_env \<Rightarrow> request_context \<Rightarrow> string \<Rightarrow> api_error + uuid" where
  "parse_job_id env ctx raw =
     (case x_parse_uuid (se_registry env) raw of None \<Rightarrow> refuse ctx ''job ID must be a UUID'' | Some i \<Rightarrow> Inr i)"

section \<open>Registration and revocation\<close>

definition idempotency_key_header :: string where "idempotency_key_header = ''idempotency-key''"

definition idempotency_key_of :: "server_env \<Rightarrow> headers \<Rightarrow> string option" where
  "idempotency_key_of env headers =
     (case header_text (se_web env) idempotency_key_header headers of
        None \<Rightarrow> None | Some key \<Rightarrow> if key \<noteq> [] \<and> length key \<le> 200 then Some key else None)"

fun check_json_samples :: "server_env \<Rightarrow> request_context \<Rightarrow> string list \<Rightarrow> api_error + unit" where
  "check_json_samples env ctx [] = Inr ()"
| "check_json_samples env ctx (sample # samples) =
     (case se_parse_json env sample of
        Inl e \<Rightarrow> refuse ctx (''input sample is not valid JSON: '' @ e)
      | Inr _ \<Rightarrow> check_json_samples env ctx samples)"

definition check_registration :: "server_env \<Rightarrow> request_context \<Rightarrow> registration_request \<Rightarrow> api_error + unit" where
  "check_registration env ctx request =
     (case tool_intent_from_str (rq_intent request) of
        Inl e \<Rightarrow> refuse ctx (domain_error_text (wx_debug (se_web env)) e)
      | Inr _ \<Rightarrow>
        if length (rq_examples request) > 32 then refuse ctx ''at most 32 examples are allowed''
        else if length (rq_input_samples request) > max_input_samples
        then refuse ctx (''at most '' @ show_nat max_input_samples @ '' input samples are allowed'')
        else if list_ex (\<lambda>s. length s > max_input_sample_bytes) (rq_input_samples request)
             \<or> sum_list (map length (rq_input_samples request)) > max_input_samples_total_bytes
        then Inl (api_error_new (rc_ulid ctx) 413 ''input_samples_too_large''
               ''input samples must be at most 256 KiB each and 1 MiB in total'')
        else if rq_input_format request = Json
        then check_json_samples env ctx (rq_input_samples request)
        else Inr ())"

definition register_tool :: "server_env \<Rightarrow> request_context \<Rightarrow> string \<Rightarrow> headers \<Rightarrow> registration_request \<Rightarrow> db
    \<Rightarrow> registration_response handled" where
  "register_tool env ctx raw_name headers request d =
     (case parse_name env ctx raw_name of Inl e \<Rightarrow> (Inl e, d) | Inr name \<Rightarrow>
     (case check_registration env ctx request of Inl e \<Rightarrow> (Inl e, d) | Inr _ \<Rightarrow>
     (case idempotency_key_of env headers of
        None \<Rightarrow> (refuse ctx ''Idempotency-Key header is required and must be 1-200 bytes'', d)
      | Some key \<Rightarrow> stored env ctx d
          (register (se_registry env) (rc_clock ctx 0) (rc_uuid ctx 0) (rc_uuid ctx 1) name request key d))))"

definition revoke_version :: "server_env \<Rightarrow> request_context \<Rightarrow> string \<Rightarrow> nat \<Rightarrow> string \<Rightarrow> db \<Rightarrow> revoke_response handled" where
  "revoke_version env ctx raw_name revision raw_reason d =
     (case parse_name env ctx raw_name of Inl e \<Rightarrow> (Inl e, d) | Inr name \<Rightarrow>
      let reason = trim raw_reason in
      if reason = [] \<or> length reason > 4096
      then (refuse ctx ''revocation reason must contain 1-4096 non-whitespace bytes'', d)
      else if revision = 0 then (refuse ctx ''tool revision must be positive'', d)
      else stored env ctx d (revoke_tool_version (se_registry env) (rc_clock ctx 0) name revision reason d))"

section \<open>Jobs\<close>

definition show_job :: "server_env \<Rightarrow> request_context \<Rightarrow> string \<Rightarrow> db \<Rightarrow> api_error + job_response" where
  "show_job env ctx raw d =
     rbind (parse_job_id env ctx raw) (\<lambda>job_id. queried env ctx (get_job (se_registry env) job_id d))"

definition answer_job :: "server_env \<Rightarrow> request_context \<Rightarrow> string \<Rightarrow> job_answer_request \<Rightarrow> db \<Rightarrow> job_response handled" where
  "answer_job env ctx raw request d =
     (case parse_job_id env ctx raw of Inl e \<Rightarrow> (Inl e, d) | Inr job_id \<Rightarrow>
     (case answer_job_input (se_registry env) (rc_clock ctx 0) job_id request d of
        Inl e \<Rightarrow> (queried env ctx (Inl e), d)
      | Inr (response, d') \<Rightarrow> (queried env ctx response, d')))"

definition cancel_job_request :: "server_env \<Rightarrow> request_context \<Rightarrow> string \<Rightarrow> string \<Rightarrow> db \<Rightarrow> job_response handled" where
  "cancel_job_request env ctx raw reason d =
     (case parse_job_id env ctx raw of Inl e \<Rightarrow> (Inl e, d) | Inr job_id \<Rightarrow>
     (case cancel_job (se_registry env) (rc_clock ctx 0) job_id reason d of
        Inl e \<Rightarrow> (queried env ctx (Inl e), d)
      | Inr (_, d1) \<Rightarrow>
        let d2 = rc_others ctx 1 d1 in (queried env ctx (get_job (se_registry env) job_id d2), d2)))"

section \<open>Listings and artifacts\<close>

definition validated_page :: "request_context \<Rightarrow> nat option \<Rightarrow> nat option \<Rightarrow> api_error + nat \<times> nat" where
  "validated_page ctx limit offset =
     (let limit = (case limit of None \<Rightarrow> 50 | Some l \<Rightarrow> l);
          offset = (case offset of None \<Rightarrow> 0 | Some o' \<Rightarrow> o')
      in if \<not> (1 \<le> limit \<and> limit \<le> 100) then refuse ctx ''limit must be between 1 and 100''
         else if int offset > i64_max then refuse ctx ''offset is too large''
         else Inr (limit, offset))"

text \<open>\<open>as_deref().filter(nonempty).map(parse).transpose()\<close> of a query parameter.\<close>

definition optional_status :: "request_context \<Rightarrow> (string \<Rightarrow> 'a option) \<Rightarrow> (string \<Rightarrow> string) \<Rightarrow> string option
    \<Rightarrow> api_error + 'a option" where
  "optional_status ctx parse message value =
     (case value of
        None \<Rightarrow> Inr None
      | Some s \<Rightarrow> if s = [] then Inr None
                  else (case parse s of None \<Rightarrow> refuse ctx (message s) | Some a \<Rightarrow> Inr (Some a)))"

definition show_jobs :: "server_env \<Rightarrow> request_context \<Rightarrow> string option \<Rightarrow> nat option \<Rightarrow> nat option \<Rightarrow> db
    \<Rightarrow> api_error + job_list_response" where
  "show_jobs env ctx status limit offset d =
     rbind (validated_page ctx limit offset) (\<lambda>(limit, offset).
     rbind (optional_status ctx job_status_parse
         (\<lambda>s. ''unknown job status '' @ wx_debug (se_web env) s) status) (\<lambda>status.
     queried env ctx (list_jobs (se_registry env) status limit offset d)))"

definition show_tools :: "server_env \<Rightarrow> request_context \<Rightarrow> string \<Rightarrow> bool \<Rightarrow> string option \<Rightarrow> nat option \<Rightarrow> nat option \<Rightarrow> db
    \<Rightarrow> api_error + tool_list_response" where
  "show_tools env ctx query include_unready status limit offset d =
     (if length query > 256 then refuse ctx ''tool search query must not exceed 256 bytes''
      else rbind (validated_page ctx limit offset) (\<lambda>(limit, offset).
      rbind (optional_status ctx (\<lambda>s. case version_status_from_str s of Inl _ \<Rightarrow> None | Inr a \<Rightarrow> Some a)
         (\<lambda>s. ''unknown tool version status '' @ wx_debug (se_web env) s) status) (\<lambda>status.
      queried env ctx (list_tools (se_registry env) query (include_unready \<or> status \<noteq> None) status limit offset d))))"

definition show_tool :: "server_env \<Rightarrow> request_context \<Rightarrow> string \<Rightarrow> nat option \<Rightarrow> db \<Rightarrow> api_error + tool_summary_response" where
  "show_tool env ctx raw_name revision d =
     rbind (parse_name env ctx raw_name) (\<lambda>name. queried env ctx (inspect_tool (se_registry env) name revision d))"

definition show_versions :: "server_env \<Rightarrow> request_context \<Rightarrow> string \<Rightarrow> nat option \<Rightarrow> nat option \<Rightarrow> db
    \<Rightarrow> api_error + tool_version_list_response" where
  "show_versions env ctx raw_name limit offset d =
     rbind (parse_name env ctx raw_name) (\<lambda>name.
     rbind (validated_page ctx limit offset) (\<lambda>(limit, offset).
     queried env ctx (list_tool_versions (se_registry env) name limit offset d)))"

record tool_artifact_response =
  ta_tool :: string
  ta_revision :: nat
  ta_digest :: string
  ta_manifest :: tool_artifact_manifest
  ta_source :: string
  ta_tests :: "tool_artifact_test_case list"

definition artifact_test :: "test_case \<Rightarrow> tool_artifact_test_case" where
  "artifact_test t = \<lparr>atc_name = tt_name t, atc_args = tt_args t, atc_stdin = tt_stdin t,
     atc_expected_stdout = tt_expected_stdout t, atc_expected_exit_code = tt_expected_exit_code t\<rparr>"

definition show_artifact :: "server_env \<Rightarrow> request_context \<Rightarrow> string \<Rightarrow> nat \<Rightarrow> artifact_store \<Rightarrow> db
    \<Rightarrow> api_error + tool_artifact_response" where
  "show_artifact env ctx raw_name revision st d =
     rbind (parse_name env ctx raw_name) (\<lambda>name.
     if revision = 0 then refuse ctx ''tool revision must be positive''
     else rbind (queried env ctx (artifact_digest_for_version name revision d)) (\<lambda>digest.
     (case load (se_artifact env) st digest of
        Inl e \<Rightarrow> Inl (from_artifact (rc_ulid ctx) e)
      | Inr artifact \<Rightarrow>
        let bundle = sa_bundle artifact; manifest = ab_manifest bundle in
        Inr \<lparr>ta_tool = tool_name_str name, ta_revision = revision, ta_digest = digest,
             ta_manifest = \<lparr>am_format_version = mf_format_version manifest, am_runtime = mf_runtime manifest,
               am_input_format = mf_input_format manifest, am_output_format = mf_output_format manifest,
               am_source_sha256 = mf_source_sha256 manifest, am_http_capabilities = mf_http_capabilities manifest\<rparr>,
             ta_source = ab_source bundle, ta_tests = map artifact_test (ab_tests bundle)\<rparr>)))"

section \<open>Invocations\<close>

definition default_execution_timeout_ms :: nat where "default_execution_timeout_ms = 5000"
definition default_http_execution_timeout_ms :: nat where "default_http_execution_timeout_ms = 30000"

text \<open>The checks before the registry is asked, with the decoded input.\<close>

definition check_invocation :: "server_env \<Rightarrow> request_context \<Rightarrow> invocation_request \<Rightarrow> api_error + string" where
  "check_invocation env ctx request =
     (if length (iq_args request) > 128 \<or> list_ex (\<lambda>a. length a > 4096) (iq_args request)
      then refuse ctx ''tool arguments exceed their limit''
      else if (case iq_timeout_ms request of None \<Rightarrow> False | Some t \<Rightarrow> \<not> (1 \<le> t \<and> t \<le> 30000))
      then refuse ctx ''timeout_ms must be between 1 and 30000''
      else case se_base64_decode env (iq_stdin_base64 request) of
        None \<Rightarrow> refuse ctx ''stdin_base64 is not valid Base64''
      | Some stdin \<Rightarrow>
          if length stdin > 4 * 1024 * 1024
          then Inl (api_error_new (rc_ulid ctx) 413 ''input_too_large'' ''call input exceeds 4 MiB'')
          else Inr stdin)"

definition timeout_of :: "server_env \<Rightarrow> request_context \<Rightarrow> artifact_store \<Rightarrow> string \<Rightarrow> nat option \<Rightarrow> api_error + nat" where
  "timeout_of env ctx st digest requested =
     (case requested of
        Some t \<Rightarrow> Inr t
      | None \<Rightarrow> (case load (se_artifact env) st digest of
            Inl e \<Rightarrow> Inl (from_artifact (rc_ulid ctx) e)
          | Inr artifact \<Rightarrow>
              Inr (if mf_http_capabilities (ab_manifest (sa_bundle artifact)) = []
                   then default_execution_timeout_ms else default_http_execution_timeout_ms)))"

definition check_media_type :: "request_context \<Rightarrow> io_format \<Rightarrow> string \<Rightarrow> api_error + unit" where
  "check_media_type ctx format content_type =
     (let media_type = trim (hd (split_char CHR '';'' content_type));
          expected = (case format of Text \<Rightarrow> ''text/plain'' | Json \<Rightarrow> ''application/json'')
      in if media_type \<noteq> expected
         then Inl (api_error_new (rc_ulid ctx) 415 ''unsupported_media_type'' (''tool input requires '' @ expected))
         else Inr ())"

text \<open>The status of the invocation, of the response and its code, for an error of the worker.\<close>

fun worker_failure :: "grpc_code \<Rightarrow> string \<times> nat \<times> string" where
  "worker_failure GrpcDeadlineExceeded = (''timed_out'', 504, ''execution_timeout'')"
| "worker_failure GrpcResourceExhausted = (''failed'', 413, ''output_limit_exceeded'')"
| "worker_failure GrpcUnavailable = (''failed'', 503, ''worker_unavailable'')"
| "worker_failure GrpcNotFound = (''failed'', 500, ''artifact_unavailable'')"
| "worker_failure _ = (''failed'', 502, ''execution_failed'')"

text \<open>Recording the end of an invocation; a failure to do so is only logged.\<close>

definition record_end :: "request_context \<Rightarrow> string \<Rightarrow> int option \<Rightarrow> nat \<Rightarrow> nat \<Rightarrow> nat \<Rightarrow> db \<Rightarrow> db" where
  "record_end ctx status exit_code duration out err d =
     (case finish_invocation (rc_clock ctx 2) (rc_uuid ctx 0) status exit_code duration out err d of
        Inl _ \<Rightarrow> d | Inr (_, d') \<Rightarrow> d')"

definition run_invocation :: "server_env \<Rightarrow> request_context \<Rightarrow> resolved_tool \<Rightarrow> string list \<Rightarrow> string \<Rightarrow> nat \<Rightarrow> db
    \<Rightarrow> invocation_response handled" where
  "run_invocation env ctx resolved args stdin timeout_ms d =
     (let authorization = ''Bearer '' @ se_worker_token env in
      if \<not> se_metadata_ok env authorization
      then (Inl (internal_error (rc_ulid ctx) ''invalid worker authentication configuration''), d)
      else
      let d1 = rc_others ctx 2 d;
          invocation_id = x_show_uuid (se_registry env) (rc_uuid ctx 0) in
      case se_worker env authorization d1 \<lparr>xq_invocation_id = invocation_id,
             xq_artifact_digest = rt_artifact_digest resolved, xq_args = args, xq_stdin = stdin,
             xq_timeout_ms = timeout_ms\<rparr> of
        Inl status \<Rightarrow>
          let (recorded, http, code) = worker_failure (gs_code status) in
          (Inl (api_error_new (rc_ulid ctx) http code (gs_message status)),
           record_end ctx recorded None 0 0 0 (rc_others ctx 3 d1))
      | Inr output \<Rightarrow>
          (Inr \<lparr>ir_invocation_id = invocation_id, ir_resolved_revision = rt_revision resolved,
                ir_exit_code = xr_exit_code output, ir_stdout_base64 = se_base64_encode env (xr_stdout output),
                ir_stderr_base64 = se_base64_encode env (xr_stderr output), ir_duration_ms = xr_duration_ms output\<rparr>,
           record_end ctx (if xr_exit_code output = 0 then ''succeeded'' else ''failed'') (Some (xr_exit_code output))
             (xr_duration_ms output) (length (xr_stdout output)) (length (xr_stderr output)) (rc_others ctx 3 d1)))"

text \<open>What the server decides before it starts an invocation: the input, what the name resolved to, and
  the time limit.\<close>

definition admit_invocation :: "server_env \<Rightarrow> request_context \<Rightarrow> string \<Rightarrow> invocation_request \<Rightarrow> artifact_store \<Rightarrow> db
    \<Rightarrow> api_error + string \<times> resolved_tool \<times> nat" where
  "admit_invocation env ctx raw_name request st d =
     rbind (parse_name env ctx raw_name) (\<lambda>name.
     rbind (check_invocation env ctx request) (\<lambda>stdin.
     rbind (queried env ctx (resolve_tool (se_registry env) name (iq_revision request) d)) (\<lambda>resolved.
     rbind (timeout_of env ctx st (rt_artifact_digest resolved) (iq_timeout_ms request)) (\<lambda>timeout_ms.
     rbind (check_media_type ctx (rt_input_format resolved) (iq_content_type request)) (\<lambda>_.
     Inr (stdin, resolved, timeout_ms))))))"

definition invoke_tool :: "server_env \<Rightarrow> request_context \<Rightarrow> string \<Rightarrow> invocation_request \<Rightarrow> artifact_store \<Rightarrow> db
    \<Rightarrow> invocation_response handled" where
  "invoke_tool env ctx raw_name request st d =
     (case admit_invocation env ctx raw_name request st d of
        Inl e \<Rightarrow> (Inl e, d)
      | Inr (stdin, resolved, timeout_ms) \<Rightarrow>
        let d1 = rc_others ctx 1 d in
        case start_invocation (rc_clock ctx 1) (rc_uuid ctx 0) resolved (length stdin) d1 of
          Inl e \<Rightarrow> (queried env ctx (Inl e), d1)
        | Inr (_, d2) \<Rightarrow> run_invocation env ctx resolved (iq_args request) stdin timeout_ms d2)"

end
