(* ===== verification/Server_Main.thy ===== *)
theory Server_Main
  imports Server_Api
begin

text \<open>
  The server as a whole (\<open>build_router\<close>, \<open>require_auth\<close>, \<open>ready\<close> of src/apps/jit-server/src/main.rs):
  every call of the API with its method, the check that guards the protected ones, and one
  transition of the state of the server - registry, sessions and artifact store - for a request.
\<close>

section \<open>Calls\<close>

text \<open>A request of a protected route, with the parameters its path, query and body carry.\<close>

datatype api_call =
    ListTools string bool "string option" "nat option" "nat option"
  | InspectTool string "nat option"
  | ListToolVersions string "nat option" "nat option"
  | GetToolArtifact string nat
  | RegisterTool string registration_request
  | RevokeToolVersion string nat string
  | InvokeTool string invocation_request
  | ListJobs "string option" "nat option" "nat option"
  | GetJob string
  | AnswerJobInput string job_answer_request
  | CancelJob string string
  | ListHttpCapabilityApprovals
  | RevokeHttpCapability string string

datatype http_call =
    Protected api_call
  | Login string
  | CurrentSession
  | Logout
  | Health
  | Ready

datatype http_verb = HttpGet | HttpPost

text \<open>The method the router gives each route.\<close>

fun api_method :: "api_call \<Rightarrow> http_verb" where
  "api_method (RegisterTool _ _) = HttpPost"
| "api_method (RevokeToolVersion _ _ _) = HttpPost"
| "api_method (InvokeTool _ _) = HttpPost"
| "api_method (AnswerJobInput _ _) = HttpPost"
| "api_method (CancelJob _ _) = HttpPost"
| "api_method (RevokeHttpCapability _ _) = HttpPost"
| "api_method _ = HttpGet"

record ready_response =
  rd_status :: string
  rd_database :: bool
  rd_worker :: bool

datatype api_body =
    ToolsBody tool_list_response
  | ToolBody tool_summary_response
  | VersionsBody tool_version_list_response
  | ArtifactBody tool_artifact_response
  | RegistrationBody registration_response
  | RevokeBody revoke_response
  | InvocationBody invocation_response
  | JobsBody job_list_response
  | JobBody job_response
  | ApprovalsBody "http_capability_approval list"
  | SessionBody session_response "string option"
  | CookieBody string
  | HealthBody
  | ReadyBody ready_response
  | NoBody

record server_state =
  sv_db :: db
  sv_store :: artifact_store
  sv_sessions :: session_table

text \<open>A success with its status and body, or an error.\<close>

type_synonym api_result = "api_error + nat \<times> api_body"

definition answers :: "nat \<Rightarrow> ('a \<Rightarrow> api_body) \<Rightarrow> api_error + 'a \<Rightarrow> api_result" where
  "answers status body r = (case r of Inl e \<Rightarrow> Inl e | Inr a \<Rightarrow> Inr (status, body a))"

definition handle :: "server_env \<Rightarrow> request_context \<Rightarrow> headers \<Rightarrow> api_call \<Rightarrow> artifact_store \<Rightarrow> db \<Rightarrow> api_result \<times> db" where
  "handle env ctx headers call st d =
     (case call of
        ListTools query unready status limit offset \<Rightarrow>
          (answers 200 ToolsBody (show_tools env ctx query unready status limit offset d), d)
      | InspectTool name revision \<Rightarrow> (answers 200 ToolBody (show_tool env ctx name revision d), d)
      | ListToolVersions name limit offset \<Rightarrow> (answers 200 VersionsBody (show_versions env ctx name limit offset d), d)
      | GetToolArtifact name revision \<Rightarrow> (answers 200 ArtifactBody (show_artifact env ctx name revision st d), d)
      | RegisterTool name request \<Rightarrow> map_prod (answers 202 RegistrationBody) id (register_tool env ctx name headers request d)
      | RevokeToolVersion name revision reason \<Rightarrow>
          map_prod (answers 200 RevokeBody) id (revoke_version env ctx name revision reason d)
      | InvokeTool name request \<Rightarrow> map_prod (answers 200 InvocationBody) id (invoke_tool env ctx name request st d)
      | ListJobs status limit offset \<Rightarrow> (answers 200 JobsBody (show_jobs env ctx status limit offset d), d)
      | GetJob raw \<Rightarrow> (answers 200 JobBody (show_job env ctx raw d), d)
      | AnswerJobInput raw request \<Rightarrow> map_prod (answers 200 JobBody) id (answer_job env ctx raw request d)
      | CancelJob raw reason \<Rightarrow> map_prod (answers 200 JobBody) id (cancel_job_request env ctx raw reason d)
      | ListHttpCapabilityApprovals \<Rightarrow>
          (answers 200 ApprovalsBody (queried env ctx (list_http_capability_approvals (se_registry env) d)), d)
      | RevokeHttpCapability capability_hash reason \<Rightarrow>
          map_prod (answers 204 (\<lambda>_. NoBody)) id
            (stored env ctx d (revoke_http_capability (rc_clock ctx 0) capability_hash reason d)))"

section \<open>Authorisation\<close>

definition bearer_authorized :: "server_env \<Rightarrow> headers \<Rightarrow> bool" where
  "bearer_authorized env headers =
     (case Option.bind (header_text (se_web env) ''authorization'' headers) (strip_prefix ''Bearer '') of
        None \<Rightarrow> False | Some token \<Rightarrow> constant_time_eq (se_web env) token (se_auth_token env))"

text \<open>\<open>Inr\<close>: the request goes on to its handler.  Looking for a session drops expired ones.\<close>

definition require_auth :: "server_env \<Rightarrow> request_context \<Rightarrow> http_verb \<Rightarrow> headers \<Rightarrow> session_table
    \<Rightarrow> (api_error + unit) \<times> session_table" where
  "require_auth env ctx verb headers sessions =
     (if bearer_authorized env headers then (Inr (), sessions)
      else case session_from_headers (se_web env) (rc_clock ctx 0) headers sessions of
        (Some session, sessions') \<Rightarrow>
          (if verb = HttpGet \<or> csrf_matches (se_web env) session headers then Inr () else Inl (csrf_failed (rc_ulid ctx)),
           sessions')
      | (None, sessions') \<Rightarrow>
          (Inl (api_error_new (rc_ulid ctx) 401 ''unauthorized'' ''a valid bearer token or browser session is required''),
           sessions'))"

definition ready :: "bool \<Rightarrow> time \<Rightarrow> db \<Rightarrow> nat \<times> ready_response" where
  "ready database_ready now d =
     (let worker = (database_ready \<and> has_recent_worker now d) in
      if database_ready \<and> worker
      then (200, \<lparr>rd_status = ''ready'', rd_database = database_ready, rd_worker = worker\<rparr>)
      else (503, \<lparr>rd_status = ''not_ready'', rd_database = database_ready, rd_worker = worker\<rparr>))"

section \<open>A request\<close>

text \<open>\<open>serve\<close>: one request.  \<open>order\<close> is the order in which the session map is visited, \<open>i\<close> and \<open>csrf\<close>
  the two random UUIDs of a new session.\<close>

definition serve :: "server_env \<Rightarrow> request_context \<Rightarrow> (session_table \<Rightarrow> session_table) \<Rightarrow> string \<Rightarrow> string \<Rightarrow> bool
    \<Rightarrow> headers \<Rightarrow> http_call \<Rightarrow> server_state \<Rightarrow> api_result \<times> server_state" where
  "serve env ctx order i csrf database_ready headers call s =
     (let wx = se_web env; now = rc_clock ctx 0; ulid = rc_ulid ctx in
      case call of
        Protected api \<Rightarrow>
          (case require_auth env ctx (api_method api) headers (sv_sessions s) of
             (Inl e, sessions) \<Rightarrow> (Inl e, s\<lparr>sv_sessions := sessions\<rparr>)
           | (Inr _, sessions) \<Rightarrow>
               let (response, d) = handle env ctx headers api (sv_store s) (sv_db s)
               in (response, s\<lparr>sv_sessions := sessions, sv_db := d\<rparr>))
      | Login token \<Rightarrow>
          let (response, sessions) = login wx (se_auth_token env) ulid order now i csrf token (sv_sessions s)
          in (answers 200 (\<lambda>(r, cookie). SessionBody r (Some cookie)) response, s\<lparr>sv_sessions := sessions\<rparr>)
      | CurrentSession \<Rightarrow>
          let (response, sessions) = current_session wx ulid now headers (sv_sessions s)
          in (answers 200 (\<lambda>r. SessionBody r None) response, s\<lparr>sv_sessions := sessions\<rparr>)
      | Logout \<Rightarrow>
          let (response, sessions) = logout wx ulid now headers (sv_sessions s)
          in (answers 204 CookieBody response, s\<lparr>sv_sessions := sessions\<rparr>)
      | Health \<Rightarrow> (Inr (200, HealthBody), s)
      | Ready \<Rightarrow> (let (status, body) = ready database_ready now (sv_db s) in (Inr (status, ReadyBody body), s)))"

section \<open>Who may change what\<close>

text \<open>The token of the server was presented, or a live session with its CSRF token.\<close>

definition may_write :: "server_env \<Rightarrow> time \<Rightarrow> headers \<Rightarrow> session_table \<Rightarrow> bool" where
  "may_write env now headers sessions \<longleftrightarrow>
     Option.bind (header_text (se_web env) ''authorization'' headers) (strip_prefix ''Bearer '') = Some (se_auth_token env)
     \<or> (\<exists>i session. Option.bind (header_text (se_web env) ''cookie'' headers) cookie_session = Some i
          \<and> live_session now sessions i = Some session
          \<and> header_text (se_web env) csrf_header headers = Some (wb_csrf_token session))"

lemma reads_change_nothing: "api_method call = HttpGet \<Longrightarrow> snd (handle env ctx headers call st d) = d"
  by (cases call) (simp_all add: handle_def)

lemma session_from_headers_live:
  "session_from_headers wx now headers sessions = (Some session, sessions') \<Longrightarrow>
     \<exists>i. Option.bind (header_text wx ''cookie'' headers) cookie_session = Some i
       \<and> live_session now sessions i = Some session"
  using sessions.fetch_live [of now _ sessions]
  by (auto simp: session_from_headers_def split: option.splits) (metis fst_conv)

lemma csrf_matches_iff:
  "compares_bytes wx \<Longrightarrow> csrf_matches wx session headers \<longleftrightarrow>
     header_text wx csrf_header headers = Some (wb_csrf_token session)"
  by (auto simp: csrf_matches_def constant_time_eq_iff split: option.split)

lemma require_auth_admits:
  assumes "compares_bytes (se_web env)" "require_auth env ctx verb headers sessions = (Inr u, sessions')"
  shows "verb = HttpGet \<or> may_write env (rc_clock ctx 0) headers sessions"
proof (cases "bearer_authorized env headers")
  case True
  then show ?thesis
    using assms(1) by (auto simp: bearer_authorized_def may_write_def constant_time_eq_iff split: option.splits)
next
  case False
  with assms(2) obtain session where
    session: "session_from_headers (se_web env) (rc_clock ctx 0) headers sessions = (Some session, sessions')"
    and "verb = HttpGet \<or> csrf_matches (se_web env) session headers"
    by (auto simp: require_auth_def split: prod.splits option.splits if_splits)
  then show ?thesis
    using session_from_headers_live [OF session] csrf_matches_iff [OF assms(1)] by (auto simp: may_write_def)
qed

section \<open>Where sessions come from\<close>

lemma session_from_headers_subset:
  "session_from_headers wx now headers sessions = (r, sessions') \<Longrightarrow> set sessions' \<subseteq> set sessions"
  by (auto simp: session_from_headers_def session_get_def Let_def retain_live_def split: option.splits)

lemma require_auth_sessions:
  assumes "require_auth env ctx verb headers sessions = (r, sessions')"
  shows "set sessions' \<subseteq> set sessions \<and> (sessions_ok sessions \<longrightarrow> sessions_ok sessions')"
  using assms session_from_headers_ok [of sessions "se_web env" "rc_clock ctx 0" headers]
  by (auto simp: require_auth_def dest: session_from_headers_subset split: prod.splits option.splits if_splits)

lemma current_session_sessions:
  assumes "current_session wx ulid now headers sessions = (r, sessions')"
  shows "set sessions' \<subseteq> set sessions \<and> (sessions_ok sessions \<longrightarrow> sessions_ok sessions')"
  using assms session_from_headers_ok [of sessions wx now headers]
  by (auto simp: current_session_def dest: session_from_headers_subset split: prod.splits option.splits)

lemma logout_sessions:
  assumes "logout wx ulid now headers sessions = (r, sessions')"
  shows "set sessions' \<subseteq> set sessions \<and> (sessions_ok sessions \<longrightarrow> sessions_ok sessions')"
  using assms session_from_headers_ok [of sessions wx now headers]
  by (auto simp: logout_def session_remove_ok dest!: session_from_headers_subset split: prod.splits option.splits if_splits)
    (auto simp: session_remove_def)

lemma login_sessions:
  assumes "compares_bytes wx" "login wx auth ulid order now i csrf token sessions = (r, sessions')"
  shows "\<forall>session\<in>set sessions'. session \<in> set sessions
    \<or> token = auth \<and> session = \<lparr>wb_id = i, wb_csrf_token = csrf, wb_expires_at = now + session_ttl\<rparr>"
  using assms
  by (auto simp: login_def session_create_def Let_def constant_time_eq_iff session_remove_def retain_live_def
      split: if_splits option.splits)

end
