(* ===== verification/Cli.thy ===== *)
theory Cli
  imports Server_Main Config
begin

text \<open>
  The command line (src/apps/jit-cli/src/main.rs): what each command sends to the server, prints and
  exits with.  \<open>clap\<close> has parsed the arguments: a command line is the record \<open>cli\<close>.  What the client
  meets is the record \<open>cli_env\<close> - the configuration, the files and standard input, and the server as a
  function of the time, the request and its own state - and what it changes is the world.  Reading and
  writing at the controlling terminal, once it is open, and printing lines do not fail here.
\<close>

section \<open>Command lines\<close>

record list_options =
  lo_all :: bool
  lo_names_only :: bool
  lo_limit :: nat
  lo_offset :: nat

text \<open>Durations are in nanoseconds.\<close>

datatype command =
    Register string string "string list" string string bool nat
  | Call string "string option" "string option" string "nat option" "string list"
  | Status string
  | Answer string "string option" bool bool "string option"
  | Cancel string string
  | Tools "string option" list_options
  | Search string list_options
  | Inspect string
  | Revoke string string

record cli =
  ci_config :: "string option"
  ci_server :: "string option"
  ci_token :: "string option"
  ci_json :: bool
  ci_command :: command

section \<open>The world\<close>

datatype http_body =
    RegistrationJson registration_request
  | InvocationJson invocation_request
  | AnswerJson job_answer_request
  | CancelJson string
  | RevokeJson string
  | NoJson

record http_request =
  hq_verb :: http_verb
  hq_url :: string
  hq_query :: "(string \<times> string) list"
  hq_token :: string
  hq_key :: "string option"
  hq_body :: http_body

text \<open>A reply with what its body reads as: a message of the API, an error, or neither.\<close>

record http_reply =
  rl_status :: nat
  rl_body :: "api_body option"
  rl_error :: "error_response option"

text \<open>\<open>ce_stdin\<close>: \<open>None\<close> is a terminal, \<open>Some None\<close> a failed read; \<open>ce_latency\<close> and \<open>ce_oversleep\<close> say
  how long the n-th request takes and how much longer than asked the n-th sleep, in nanoseconds.\<close>

record 's cli_env =
  ce_host :: host_env
  ce_serve :: "nat \<Rightarrow> http_request \<Rightarrow> 's \<Rightarrow> http_reply option \<times> 's"
  ce_latency :: "nat \<Rightarrow> nat"
  ce_oversleep :: "nat \<Rightarrow> nat"
  ce_uuid :: string
  ce_stdin :: "string option option"
  ce_read_file :: "string \<Rightarrow> string option"
  ce_is_utf8 :: "string \<Rightarrow> bool"
  ce_client_builds :: bool
  ce_stdout_ok :: bool
  ce_stderr_ok :: bool
  ce_base64_encode :: "string \<Rightarrow> string"
  ce_base64_decode :: "string \<Rightarrow> string option"
  ce_json :: "api_body \<Rightarrow> string option"
  ce_pretty :: "json \<Rightarrow> string option"
  ce_debug :: "string \<Rightarrow> string"
  ce_status_text :: "nat \<Rightarrow> string"

text \<open>\<open>cw_tty\<close> are the lines that the user will type at the controlling terminal, \<open>None\<close> when there is
  no terminal.\<close>

record 's cli_world =
  cw_server :: 's
  cw_now :: nat
  cw_sent :: "http_request list"
  cw_tty :: "string list option"
  cw_console :: "string list"
  cw_stdout :: "string list"
  cw_stderr :: "string list"

section \<open>Failures\<close>

record cli_failure =
  xf_exit_code :: int
  xf_code :: string
  xf_message :: string
  xf_request_id :: string
  xf_details :: "json option"

definition local_failure :: "int \<Rightarrow> string \<Rightarrow> string \<Rightarrow> cli_failure" where
  "local_failure exit_code code message =
     \<lparr>xf_exit_code = exit_code, xf_code = code, xf_message = message, xf_request_id = ''local'', xf_details = None\<rparr>"

definition internal_failure :: "string \<Rightarrow> cli_failure" where
  "internal_failure message = local_failure 70 ''internal_error'' message"

definition transport_failure :: "string \<Rightarrow> cli_failure" where
  "transport_failure message = local_failure 69 ''service_unavailable'' message"

definition io_failure :: "string \<Rightarrow> cli_failure" where
  "io_failure message = local_failure 70 ''io_error'' message"

definition status_to_exit :: "nat \<Rightarrow> int" where
  "status_to_exit status =
     (if status = 401 \<or> status = 403 then 77
      else if status = 404 then 127
      else if status = 408 \<or> status = 504 then 124
      else if status = 503 \<or> status = 502 then 69
      else if 400 \<le> status \<and> status < 500 then 64
      else 70)"

definition from_api :: "nat \<Rightarrow> error_response \<Rightarrow> cli_failure" where
  "from_api status body =
     \<lparr>xf_exit_code =
        (if er_code body = ''unauthorized'' then 77
         else if er_code body \<in> {''tool_not_found'', ''version_not_found'', ''job_not_found''} then 127
         else if er_code body = ''worker_unavailable'' then 69
         else if er_code body = ''execution_timeout'' then 124
         else status_to_exit status),
      xf_code = er_code body, xf_message = er_message body, xf_request_id = er_request_id body,
      xf_details = er_details body\<rparr>"

definition job_rejected :: "job_response \<Rightarrow> cli_failure" where
  "job_rejected job =
     (case jr_error job of
        Some e \<Rightarrow> \<lparr>xf_exit_code = 1, xf_code = je_code e, xf_message = je_message e,
                    xf_request_id = jr_job_id job, xf_details = je_details e\<rparr>
      | None \<Rightarrow> local_failure 1 ''synthesis_rejected'' ''synthesis was rejected'')"

section \<open>Actions\<close>

type_synonym ('s, 'a) cli_act = "'s cli_world \<Rightarrow> (cli_failure + 'a) \<times> 's cli_world"

definition ok :: "'a \<Rightarrow> ('s, 'a) cli_act" where
  "ok x = (\<lambda>w. (Inr x, w))"

definition raise :: "cli_failure \<Rightarrow> ('s, 'a) cli_act" where
  "raise e = (\<lambda>w. (Inl e, w))"

definition bind :: "('s, 'a) cli_act \<Rightarrow> ('a \<Rightarrow> ('s, 'b) cli_act) \<Rightarrow> ('s, 'b) cli_act" where
  "bind m k = (\<lambda>w. case m w of (Inl e, w') \<Rightarrow> (Inl e, w') | (Inr x, w') \<Rightarrow> k x w')"

definition lift :: "cli_failure + 'a \<Rightarrow> ('s, 'a) cli_act" where
  "lift r = (\<lambda>w. (r, w))"

definition println :: "string \<Rightarrow> ('s, unit) cli_act" where
  "println s = (\<lambda>w. (Inr (), w\<lparr>cw_stdout := cw_stdout w @ [s @ [CHR 0x0A]]\<rparr>))"

definition eprintln :: "string \<Rightarrow> ('s, unit) cli_act" where
  "eprintln s = (\<lambda>w. (Inr (), w\<lparr>cw_stderr := cw_stderr w @ [s @ [CHR 0x0A]]\<rparr>))"

definition write_out :: "bool \<Rightarrow> string \<Rightarrow> ('s, unit) cli_act" where
  "write_out works s = (\<lambda>w. if works then (Inr (), w\<lparr>cw_stdout := cw_stdout w @ [s]\<rparr>) else (Inl (io_failure ''stdout''), w))"

definition write_err :: "bool \<Rightarrow> string \<Rightarrow> ('s, unit) cli_act" where
  "write_err works s = (\<lambda>w. if works then (Inr (), w\<lparr>cw_stderr := cw_stderr w @ [s]\<rparr>) else (Inl (io_failure ''stderr''), w))"

definition whenever :: "bool \<Rightarrow> ('s, unit) cli_act \<Rightarrow> ('s, unit) cli_act" where
  "whenever b m = (if b then m else ok ())"

definition print_json :: "'s cli_env \<Rightarrow> api_body \<Rightarrow> ('s, unit) cli_act" where
  "print_json env body =
     bind (lift (ok_or (internal_failure ''failed to encode JSON output'') (ce_json env body))) println"

text \<open>\<open>send().await\<close>: the reply, or a failure of the transport.\<close>

definition send :: "'s cli_env \<Rightarrow> http_request \<Rightarrow> ('s, http_reply) cli_act" where
  "send env request = (\<lambda>w.
     let now = cw_now w + ce_latency env (length (cw_sent w));
         (reply, server) = ce_serve env now request (cw_server w);
         w' = w\<lparr>cw_server := server, cw_now := now, cw_sent := cw_sent w @ [request]\<rparr>
     in (ok_or (transport_failure ''request failed'') reply, w'))"

definition decode_response :: "'s cli_env \<Rightarrow> (api_body \<Rightarrow> 'a option) \<Rightarrow> http_reply \<Rightarrow> cli_failure + 'a" where
  "decode_response env read reply =
     (if 200 \<le> rl_status reply \<and> rl_status reply < 300
      then ok_or (internal_failure ''server returned an invalid success response'') (Option.bind (rl_body reply) read)
      else case rl_error reply of
        Some body \<Rightarrow> Inl (from_api (rl_status reply) body)
      | None \<Rightarrow> Inl (local_failure (status_to_exit (rl_status reply)) ''http_error''
                  (''server returned HTTP '' @ ce_status_text env (rl_status reply))))"

definition request :: "'s cli_env \<Rightarrow> (api_body \<Rightarrow> 'a option) \<Rightarrow> http_request \<Rightarrow> ('s, 'a) cli_act" where
  "request env read r = bind (send env r) (\<lambda>reply. lift (decode_response env read reply))"

text \<open>A client with its server and its token.\<close>

record client =
  cn_base :: string
  cn_token :: string

definition get_request :: "client \<Rightarrow> string \<Rightarrow> (string \<times> string) list \<Rightarrow> http_request" where
  "get_request c path query =
     \<lparr>hq_verb = HttpGet, hq_url = cn_base c @ path, hq_query = query, hq_token = cn_token c, hq_key = None, hq_body = NoJson\<rparr>"

definition post_request :: "client \<Rightarrow> string \<Rightarrow> http_body \<Rightarrow> http_request" where
  "post_request c path body =
     \<lparr>hq_verb = HttpPost, hq_url = cn_base c @ path, hq_query = [], hq_token = cn_token c, hq_key = None, hq_body = body\<rparr>"

fun as_job :: "api_body \<Rightarrow> job_response option" where
  "as_job (JobBody j) = Some j" | "as_job _ = None"
fun as_registration :: "api_body \<Rightarrow> registration_response option" where
  "as_registration (RegistrationBody r) = Some r" | "as_registration _ = None"
fun as_invocation :: "api_body \<Rightarrow> invocation_response option" where
  "as_invocation (InvocationBody r) = Some r" | "as_invocation _ = None"
fun as_tools :: "api_body \<Rightarrow> tool_list_response option" where
  "as_tools (ToolsBody r) = Some r" | "as_tools _ = None"
fun as_tool :: "api_body \<Rightarrow> tool_summary_response option" where
  "as_tool (ToolBody r) = Some r" | "as_tool _ = None"
fun as_revoked :: "api_body \<Rightarrow> revoke_response option" where
  "as_revoked (RevokeBody r) = Some r" | "as_revoked _ = None"

section \<open>Reading the arguments\<close>

definition parse_format :: "'s cli_env \<Rightarrow> string \<Rightarrow> cli_failure + io_format" where
  "parse_format env s =
     ok_or (local_failure 64 ''invalid_format'' (''unsupported I/O format '' @ ce_debug env s)) (io_format_parse s)"

definition parse_example :: "string \<Rightarrow> cli_failure + tool_example" where
  "parse_example s =
     (case split_once ''=>'' s of
        None \<Rightarrow> Inl (local_failure 64 ''invalid_example''
          (''examples must use the form '' @ [CHR 0x27] @ ''INPUT => OUTPUT'' @ [CHR 0x27]))
      | Some (input, output') \<Rightarrow> Inr \<lparr>te_input = trim input, te_output = trim output'\<rparr>)"

definition parse_tool_reference :: "string \<Rightarrow> cli_failure + string \<times> nat option" where
  "parse_tool_reference s =
     (case rsplit_once CHR ''@'' s of
        None \<Rightarrow> Inr (s, None)
      | Some (name, revision) \<Rightarrow>
          if name \<noteq> [] \<and> revision \<noteq> []
          then (case parse_u64 revision of
                  None \<Rightarrow> Inl (local_failure 64 ''invalid_tool_reference'' ''tool revision must be a positive integer'')
                | Some n \<Rightarrow>
                    if n = 0 then Inl (local_failure 64 ''invalid_tool_reference'' ''tool revision must be a positive integer'')
                    else Inr (name, Some n))
          else Inl (local_failure 64 ''invalid_tool_reference'' ''tool reference must use NAME@REVISION''))"

definition read_call_input :: "'s cli_env \<Rightarrow> string option \<Rightarrow> string option \<Rightarrow> cli_failure + string" where
  "read_call_input env input file =
     (case input of
        Some text \<Rightarrow> Inr text
      | None \<Rightarrow>
        (case file of
           Some path \<Rightarrow> ok_or (local_failure 66 ''input_read_failed'' (''failed to read '' @ path)) (ce_read_file env path)
         | None \<Rightarrow>
           (case ce_stdin env of
              None \<Rightarrow> Inr []
            | Some bytes \<Rightarrow> ok_or (io_failure ''stdin'') bytes)))"

text \<open>\<open>read_input_sample\<close> reads at most one byte more than is allowed.\<close>

definition read_input_sample :: "'s cli_env \<Rightarrow> string option \<Rightarrow> cli_failure + string list" where
  "read_input_sample env input =
     rbind (ok_or (io_failure ''stdin'') (map_option (take (max_input_sample_bytes + 1)) input)) (\<lambda>bytes.
     if length bytes > max_input_sample_bytes
     then Inl (local_failure 64 ''input_sample_too_large'' ''registration input sample exceeds the 256 KiB limit'')
     else if bytes = [] then Inr []
     else if ce_is_utf8 env bytes then Inr [bytes]
     else Inl (local_failure 64 ''invalid_input_sample'' ''registration input sample must be UTF-8 text''))"

definition read_registration_input_samples :: "'s cli_env \<Rightarrow> cli_failure + string list" where
  "read_registration_input_samples env =
     (case ce_stdin env of None \<Rightarrow> Inr [] | Some input \<Rightarrow> read_input_sample env input)"

section \<open>Questions at the terminal\<close>

text \<open>Each reads lines until it has an answer; at the end of the input there is none.\<close>

fun ask_approval :: "string \<Rightarrow> string list \<Rightarrow> job_input_answer option \<times> string list \<times> string list" where
  "ask_approval prompt [] = (None, [], [prompt])"
| "ask_approval prompt (line # lines) =
     (if line = [] then (None, lines, [prompt])
      else let answer = to_ascii_lowercase (trim line) in
      if answer = ''y'' \<or> answer = ''yes'' then (Some ApproveAnswer, lines, [prompt])
      else if answer = [] \<or> answer = ''n'' \<or> answer = ''no'' then (Some (RejectAnswer None), lines, [prompt])
      else let (result, rest, shown) = ask_approval prompt lines
           in (result, rest, prompt # (''Please answer y or n.'' @ [CHR 0x0A]) # shown))"

text \<open>\<open>parse().ok().and_then(checked_sub 1).and_then(get)\<close>.\<close>

definition chosen :: "job_input_choice list \<Rightarrow> string \<Rightarrow> string" where
  "chosen choices raw =
     (case parse_u64 raw of
        None \<Rightarrow> raw
      | Some n \<Rightarrow> if 1 \<le> n \<and> n - 1 < length choices then jc_value (choices ! (n - 1)) else raw)"

fun ask_clarification :: "job_input_choice list \<Rightarrow> string list \<Rightarrow> job_input_answer option \<times> string list \<times> string list" where
  "ask_clarification choices [] = (None, [], [''Answer: ''])"
| "ask_clarification choices (line # lines) =
     (if line = [] then (None, lines, [''Answer: ''])
      else let raw = trim line in
      if raw = []
      then let (result, rest, shown) = ask_clarification choices lines
           in (result, rest, ''Answer: '' # (''Answer must not be empty.'' @ [CHR 0x0A]) # shown)
      else (Some (TextAnswer (chosen choices raw)), lines, [''Answer: '']))"

definition em_dash :: string where "em_dash = [CHR 0xE2, CHR 0x80, CHR 0x94]"

fun choice_lines :: "nat \<Rightarrow> job_input_choice list \<Rightarrow> string list" where
  "choice_lines n [] = []"
| "choice_lines n (c # cs) =
     (''  '' @ show_nat (Suc n) @ ''. '' @ jc_label c
       @ (case jc_description c of None \<Rightarrow> [] | Some d \<Rightarrow> '' '' @ em_dash @ '' '' @ d) @ [CHR 0x0A])
     # choice_lines (Suc n) cs"

definition shows_context :: "json \<Rightarrow> bool" where
  "shows_context v = (case v of JNull \<Rightarrow> False | JObject m \<Rightarrow> m \<noteq> [] | _ \<Rightarrow> True)"

definition tty_context :: "'s cli_env \<Rightarrow> json \<Rightarrow> cli_failure + string list" where
  "tty_context env v =
     (if shows_context v
      then rbind (ok_or (internal_failure ''context'') (ce_pretty env v)) (\<lambda>s. Inr [s @ [CHR 0x0A]])
      else Inr [])"

definition ask_user :: "pending_job_input \<Rightarrow> string list \<Rightarrow> job_input_answer option \<times> string list \<times> string list" where
  "ask_user pending lines =
     (case pi_kind pending of
        SourceApproval \<Rightarrow> ask_approval ''Approve this source? [y/N] '' lines
      | ExampleCorrection \<Rightarrow> ask_approval ''Approve this example correction? [y/N] '' lines
      | Clarification \<Rightarrow> ask_clarification (pi_choices pending) lines)"

definition prompt_for_job_input :: "'s cli_env \<Rightarrow> job_response \<Rightarrow> ('s, job_answer_request option) cli_act" where
  "prompt_for_job_input env job =
     (case jr_pending_input job of
        None \<Rightarrow> raise (internal_failure ''awaiting_input job omitted pending_input'')
      | Some pending \<Rightarrow> (\<lambda>w.
        case cw_tty w of
          None \<Rightarrow> (Inr None, w)
        | Some lines \<Rightarrow>
          let w = w\<lparr>cw_console := cw_console w @ [[CHR 0x0A] @ ''jit: '' @ pi_prompt pending @ [CHR 0x0A]]\<rparr> in
          (case tty_context env (pi_context pending) of
             Inl e \<Rightarrow> (Inl e, w)
           | Inr context \<Rightarrow>
             let (answer, rest, shown) = ask_user pending lines in
             (Inr (map_option (\<lambda>a. \<lparr>ja_input_id = pi_id pending, ja_answer = a\<rparr>) answer),
              w\<lparr>cw_tty := Some rest,
                cw_console := cw_console w @ context @ choice_lines 0 (pi_choices pending) @ shown\<rparr>))))"

end
