(* ===== verification/Cli_Commands.thy ===== *)
theory Cli_Commands
  imports Cli
begin

text \<open>
  The commands of the client (src/apps/jit-cli/src/main.rs): waiting for a job, with its termination,
  the texts of lists and summaries, every command, and \<open>main\<close> with its exit code.
\<close>

section \<open>Jobs\<close>

definition fetch_job :: "'s cli_env \<Rightarrow> client \<Rightarrow> string \<Rightarrow> ('s, job_response) cli_act" where
  "fetch_job env c job_id = request env as_job (get_request c (''/v1/jobs/'' @ job_id) [])"

definition submit_job_answer :: "'s cli_env \<Rightarrow> client \<Rightarrow> string \<Rightarrow> job_answer_request \<Rightarrow> ('s, job_response) cli_act" where
  "submit_job_answer env c job_id answer =
     request env as_job (post_request c (''/v1/jobs/'' @ job_id) (AnswerJson answer))"

definition poll_interval :: nat where "poll_interval = 500 * 1000000"

definition sleep :: "'s cli_env \<Rightarrow> 's cli_world \<Rightarrow> 's cli_world" where
  "sleep env w = w\<lparr>cw_now := cw_now w + poll_interval + ce_oversleep env (length (cw_sent w))\<rparr>"

definition show_stage :: "bool \<Rightarrow> job_stage option \<Rightarrow> job_stage \<Rightarrow> 's cli_world \<Rightarrow> 's cli_world" where
  "show_stage progress previous stage w =
     (if progress \<and> previous \<noteq> Some stage
      then w\<lparr>cw_stderr := cw_stderr w @ [''jit: '' @ job_stage_as_str stage @ [CHR 0x0A]]\<rparr> else w)"

text \<open>One turn of the loop of \<open>wait_for_job\<close>: the result, or the world and the stage that was shown last
  with which the loop goes on.\<close>

datatype 'a turn = Done 'a | Again "job_stage option"

definition wait_turn :: "'s cli_env \<Rightarrow> client \<Rightarrow> string \<Rightarrow> nat \<Rightarrow> bool \<Rightarrow> job_stage option \<Rightarrow> 's cli_world
    \<Rightarrow> (cli_failure + job_response) turn \<times> 's cli_world" where
  "wait_turn env c job_id deadline progress previous w =
     (case fetch_job env c job_id w of
        (Inl e, w) \<Rightarrow> (Done (Inl e), w)
      | (Inr job, w) \<Rightarrow>
        let w = show_stage progress previous (jr_stage job) w;
            previous = (if progress then Some (jr_stage job) else previous) in
        if is_terminal (jr_status job) then (Done (Inr job), w)
        else if jr_status job = JAwaitingInput
        then (if progress
              then (case prompt_for_job_input env job w of
                      (Inl e, w) \<Rightarrow> (Done (Inl e), w)
                    | (Inr None, w) \<Rightarrow> (Done (Inr job), w)
                    | (Inr (Some answer), w) \<Rightarrow>
                      (case submit_job_answer env c job_id answer w of
                         (Inl e, w) \<Rightarrow> (Done (Inl e), w)
                       | (Inr _, w) \<Rightarrow> (Again None, w)))
              else (Done (Inr job), w))
        else if deadline \<le> cw_now w
        then (Done (Inl (local_failure 124 ''wait_timeout''
               ''timed out waiting for synthesis; the server job is still running'')), w)
        else (Again previous, sleep env w))"

definition tty_lines :: "'s cli_world \<Rightarrow> nat" where
  "tty_lines w = (case cw_tty w of None \<Rightarrow> 0 | Some lines \<Rightarrow> length lines)"

lemma request_frame:
  "request env read r w = (x, w') \<Longrightarrow> cw_now w \<le> cw_now w' \<and> cw_tty w' = cw_tty w \<and> cw_sent w' = cw_sent w @ [r]"
  by (auto simp: request_def bind_def send_def lift_def Let_def split: prod.splits sum.splits)

lemma show_stage_frame [simp]:
  "cw_now (show_stage p s t w) = cw_now w" "cw_tty (show_stage p s t w) = cw_tty w"
  "cw_sent (show_stage p s t w) = cw_sent w" "cw_server (show_stage p s t w) = cw_server w"
  by (simp_all add: show_stage_def)

lemma ask_approval_uses: "ask_approval prompt lines = (Some a, rest, shown) \<Longrightarrow> length rest < length lines"
  by (induction prompt lines arbitrary: shown rule: ask_approval.induct)
    (fastforce simp: Let_def split: if_splits prod.splits)+

lemma ask_clarification_uses:
  "ask_clarification choices lines = (Some a, rest, shown) \<Longrightarrow> length rest < length lines"
  by (induction choices lines arbitrary: shown rule: ask_clarification.induct)
    (fastforce simp: Let_def split: if_splits prod.splits)+

lemma prompt_frame:
  assumes "prompt_for_job_input env job w = (r, w')"
  shows "cw_now w' = cw_now w \<and> cw_sent w' = cw_sent w \<and> (\<forall>a. r = Inr (Some a) \<longrightarrow> tty_lines w' < tty_lines w)"
  using assms
  by (auto simp: prompt_for_job_input_def raise_def ask_user_def tty_lines_def Let_def
      dest: ask_approval_uses ask_clarification_uses
      split: option.splits sum.splits prod.splits job_input_kind.splits)

text \<open>A turn that is not the last has used a line of the terminal or slept before the deadline.\<close>

lemma wait_turn_again:
  assumes "wait_turn env c job_id deadline progress previous w = (Again p, w')"
  shows "tty_lines w' < tty_lines w \<and> length (cw_sent w') = length (cw_sent w) + 2 \<and> cw_now w \<le> cw_now w' \<and> progress
    \<or> tty_lines w' = tty_lines w \<and> length (cw_sent w') = length (cw_sent w) + 1
      \<and> cw_now w + poll_interval \<le> cw_now w' \<and> cw_now w < deadline"
proof -
  obtain r w1 where fetch: "fetch_job env c job_id w = (r, w1)" by fastforce
  note f = request_frame [OF fetch [unfolded fetch_job_def]]
  with assms fetch show ?thesis
    by (auto simp: wait_turn_def Let_def sleep_def submit_job_answer_def tty_lines_def
        dest!: request_frame prompt_frame split: sum.splits prod.splits if_splits option.splits)
qed

function wait_for_job_from :: "'s cli_env \<Rightarrow> client \<Rightarrow> string \<Rightarrow> nat \<Rightarrow> bool \<Rightarrow> job_stage option
    \<Rightarrow> ('s, job_response) cli_act" where
  "wait_for_job_from env c job_id deadline progress previous w =
     (case wait_turn env c job_id deadline progress previous w of
        (Done r, w') \<Rightarrow> (r, w')
      | (Again previous', w') \<Rightarrow> wait_for_job_from env c job_id deadline progress previous' w')"
  by pat_completeness auto
termination
proof (relation "measures [\<lambda>(env, c, job_id, deadline, progress, previous, w). tty_lines w,
    \<lambda>(env, c, job_id, deadline, progress, previous, w). deadline - cw_now w]", goal_cases)
  case (2 env c job_id deadline progress previous w x w' previous')
  with wait_turn_again [of env c job_id deadline progress previous w previous' w'] show ?case
    by (auto simp: poll_interval_def)
qed simp

declare wait_for_job_from.simps [simp del]

definition wait_for_job :: "'s cli_env \<Rightarrow> client \<Rightarrow> string \<Rightarrow> nat \<Rightarrow> bool \<Rightarrow> ('s, job_response) cli_act" where
  "wait_for_job env c job_id timeout progress =
     (\<lambda>w. wait_for_job_from env c job_id (cw_now w + timeout) progress None w)"

section \<open>Lists\<close>

definition control_chars :: "string list" where
  "control_chars = map (\<lambda>n. [char_of n]) ([0..<32] @ [127]) @ map (\<lambda>n. [CHR 0xC2, char_of n]) [128..<160]"

text \<open>\<open>char::is_control\<close>: U+0000 to U+001F and U+007F to U+009F.\<close>

definition is_control :: "string \<Rightarrow> bool" where
  "is_control ch = (ch \<in> set control_chars)"

fun split_words :: "string list \<Rightarrow> string list \<Rightarrow> string list list" where
  "split_words cur [] = (if cur = [] then [] else [rev cur])"
| "split_words cur (ch # chs) =
     (if is_whitespace ch then (if cur = [] then split_words [] chs else rev cur # split_words [] chs)
      else split_words (ch # cur) chs)"

definition join_words :: "string list list \<Rightarrow> string list" where
  "join_words ws = (case ws of [] \<Rightarrow> [] | w # ws \<Rightarrow> w @ concat (map (\<lambda>v. [CHR '' ''] # v) ws))"

definition ellipsis :: string where "ellipsis = [CHR 0xE2, CHR 0x80, CHR 0xA6]"

definition single_line :: "string \<Rightarrow> nat \<Rightarrow> string" where
  "single_line value limit =
     (let sanitized = map (\<lambda>ch. if is_control ch then [CHR '' ''] else ch) (chars value);
          normalized = join_words (split_words [] sanitized);
          abbreviated = concat (take limit normalized)
      in if length normalized > limit then abbreviated @ ellipsis else abbreviated)"

definition pad_right :: "nat \<Rightarrow> string \<Rightarrow> string" where
  "pad_right n s = s @ replicate (n - length (chars s)) CHR '' ''"

definition pad_left :: "nat \<Rightarrow> string \<Rightarrow> string" where
  "pad_left n s = replicate (n - length (chars s)) CHR '' '' @ s"

definition tool_line :: "nat \<Rightarrow> string \<Rightarrow> string \<Rightarrow> string \<Rightarrow> string \<Rightarrow> string \<Rightarrow> string" where
  "tool_line width name revision status io description =
     pad_right width name @ ''  '' @ pad_left 8 revision @ ''  '' @ pad_right 11 status @ ''  '' @ pad_right 9 io
     @ ''  '' @ description"

definition tool_list_lines :: "tool_list_response \<Rightarrow> bool \<Rightarrow> string list" where
  "tool_list_lines response names_only =
     (let tools = tlr_tools response in
      if names_only then map tl_tool tools
      else if tools = [] then []
      else let width = max (Max (set (map (\<lambda>t. length (chars (tl_tool t))) tools))) 4
           in tool_line width ''NAME'' ''REVISION'' ''STATUS'' ''I/O'' ''DESCRIPTION''
              # map (\<lambda>t. tool_line width (tl_tool t) (show_nat (tl_selected_revision t))
                  (version_status_as_str (tl_status t))
                  (io_format_as_str (tl_input_format t) @ ''/'' @ io_format_as_str (tl_output_format t))
                  (single_line (tl_description t) 96)) tools)"

fun print_lines :: "string list \<Rightarrow> ('s, unit) cli_act" where
  "print_lines [] = ok ()"
| "print_lines (l # ls) = bind (println l) (\<lambda>_. print_lines ls)"

definition format_revision :: "nat option \<Rightarrow> string" where
  "format_revision revision = (case revision of None \<Rightarrow> ''none'' | Some n \<Rightarrow> show_nat n)"

definition tool_summary_lines :: "tool_summary_response \<Rightarrow> string list" where
  "tool_summary_lines tool =
     (let v = ts_selected tool in
      [ts_tool tool @ ''@'' @ show_nat (vs_revision v) @ '' '' @ version_status_as_str (vs_status v),
       ''stable: '' @ format_revision (ts_stable_revision tool),
       ''latest: '' @ show_nat (ts_latest_revision tool),
       ''input: '' @ io_format_as_str (vs_input_format v),
       ''output: '' @ io_format_as_str (vs_output_format v),
       ''intent: '' @ vs_requested_intent v,
       ''description: '' @ vs_description v]
      @ (if vs_assumptions v = [] then [] else ''assumptions:'' # map (\<lambda>a. ''- '' @ a) (vs_assumptions v))
      @ (case vs_artifact_digest v of None \<Rightarrow> [] | Some d \<Rightarrow> [''artifact: '' @ d])
      @ (case vs_error v of None \<Rightarrow> [] | Some e \<Rightarrow> [''error: '' @ je_code e @ '': '' @ je_message e]))"

definition show_bool :: "bool \<Rightarrow> string" where
  "show_bool b = (if b then ''true'' else ''false'')"

definition list_command :: "'s cli_env \<Rightarrow> client \<Rightarrow> string \<Rightarrow> list_options \<Rightarrow> bool \<Rightarrow> ('s, int) cli_act" where
  "list_command env c query options json =
     (if length query > 256
      then raise (local_failure 64 ''invalid_query'' ''tool search query must not exceed 256 bytes'')
      else if \<not> (1 \<le> lo_limit options \<and> lo_limit options \<le> 100)
      then raise (local_failure 64 ''invalid_limit'' ''list limit must be between 1 and 100'')
      else bind (request env as_tools (get_request c ''/v1/tools''
        [(''query'', query), (''include_unready'', show_bool (lo_all options)),
         (''limit'', show_nat (lo_limit options)), (''offset'', show_nat (lo_offset options))])) (\<lambda>response.
      bind (if json then print_json env (ToolsBody response)
            else bind (print_lines (tool_list_lines response (lo_names_only options))) (\<lambda>_.
                 case tlr_next_offset response of
                   None \<Rightarrow> ok ()
                 | Some n \<Rightarrow> eprintln (''jit: more tools available; use --offset '' @ show_nat n))) (\<lambda>_.
      ok 0)))"

section \<open>Commands\<close>

definition at :: "string \<Rightarrow> nat \<Rightarrow> string" where
  "at name revision = name @ ''@'' @ show_nat revision"

definition backquoted :: "string \<Rightarrow> string" where
  "backquoted s = [CHR 0x60] @ s @ [CHR 0x60]"

definition register_command :: "'s cli_env \<Rightarrow> client \<Rightarrow> bool \<Rightarrow> string \<Rightarrow> string \<Rightarrow> string list \<Rightarrow> string \<Rightarrow> string
    \<Rightarrow> bool \<Rightarrow> nat \<Rightarrow> ('s, int) cli_act" where
  "register_command env c json name intent examples input_format output_format no_wait timeout =
     bind (lift (read_registration_input_samples env)) (\<lambda>samples.
     bind (whenever (ce_stdin env \<noteq> None \<and> samples = [] \<and> \<not> json)
       (eprintln ''jit: warning: piped stdin was empty; registering without an input sample'')) (\<lambda>_.
     bind (lift (parse_format env input_format)) (\<lambda>input_format.
     bind (lift (parse_format env output_format)) (\<lambda>output_format.
     bind (lift (mapM parse_example examples)) (\<lambda>examples.
     bind (request env as_registration ((post_request c (''/v1/tools/'' @ name @ ''/registrations'')
        (RegistrationJson \<lparr>rq_intent = intent, rq_input_format = input_format, rq_output_format = output_format,
           rq_examples = examples, rq_input_samples = samples\<rparr>))\<lparr>hq_key := Some (ce_uuid env)\<rparr>)) (\<lambda>registration.
     if no_wait
     then bind (if json then print_json env (RegistrationBody registration)
                else bind (println (rp_job_id registration)) (\<lambda>_.
                     eprintln (''jit: queued '' @ at (rp_tool registration) (rp_revision registration)))) (\<lambda>_. ok 0)
     else
     bind (whenever (\<not> json) (bind (eprintln (''jit: job '' @ rp_job_id registration)) (\<lambda>_.
        eprintln (''jit: Ctrl-C detaches locally; cancel remotely with ''
          @ backquoted (''jit cancel '' @ rp_job_id registration))))) (\<lambda>_.
     bind (wait_for_job env c (rp_job_id registration) timeout (\<not> json)) (\<lambda>job.
     bind (whenever json (print_json env (JobBody job))) (\<lambda>_.
     case jr_status job of
       JReady \<Rightarrow> bind (whenever (\<not> json) (println (at (jr_tool job) (jr_revision job)))) (\<lambda>_. ok 0)
     | JRejected \<Rightarrow> raise (job_rejected job)
     | JAwaitingInput \<Rightarrow>
         bind (whenever (\<not> json) (bind (println (jr_job_id job)) (\<lambda>_.
           case jr_pending_input job of
             None \<Rightarrow> ok ()
           | Some input \<Rightarrow> bind (eprintln (''jit: awaiting input: '' @ pi_prompt input)) (\<lambda>_.
               eprintln (''jit: answer with '' @ backquoted (''jit answer '' @ jr_job_id job @ '' ...'')))))) (\<lambda>_. ok 75)
     | _ \<Rightarrow> raise (internal_failure ''job polling ended before a terminal state''))))))))))"

definition clamp :: "int \<Rightarrow> int \<Rightarrow> int \<Rightarrow> int" where
  "clamp lo hi i = max lo (min hi i)"

definition call_command :: "'s cli_env \<Rightarrow> client \<Rightarrow> bool \<Rightarrow> string \<Rightarrow> string option \<Rightarrow> string option \<Rightarrow> string
    \<Rightarrow> nat option \<Rightarrow> string list \<Rightarrow> ('s, int) cli_act" where
  "call_command env c json tool input file content_type timeout args =
     (if (case timeout of None \<Rightarrow> False | Some t \<Rightarrow> t > 30 * 1000000000 \<or> t = 0)
      then raise (local_failure 64 ''invalid_timeout'' ''call timeout must be greater than zero and at most 30s'')
      else
      bind (lift (parse_tool_reference tool)) (\<lambda>(name, revision).
      bind (lift (read_call_input env input file)) (\<lambda>stdin.
      if length stdin > 4 * 1024 * 1024
      then raise (local_failure 64 ''input_too_large'' ''call input exceeds the 4 MiB limit'')
      else
      bind (request env as_invocation (post_request c (''/v1/tools/'' @ name @ ''/invocations'')
         (InvocationJson \<lparr>iq_revision = revision, iq_args = args, iq_content_type = content_type,
            iq_stdin_base64 = ce_base64_encode env stdin,
            iq_timeout_ms = map_option (\<lambda>t. t div 1000000) timeout\<rparr>))) (\<lambda>response.
      bind (if json then print_json env (InvocationBody response)
            else
              bind (lift (ok_or (internal_failure ''server returned invalid stdout encoding'')
                (ce_base64_decode env (ir_stdout_base64 response)))) (\<lambda>out.
              bind (lift (ok_or (internal_failure ''server returned invalid stderr encoding'')
                (ce_base64_decode env (ir_stderr_base64 response)))) (\<lambda>err.
              bind (write_out (ce_stdout_ok env) out) (\<lambda>_.
              write_err (ce_stderr_ok env) err)))) (\<lambda>_.
      ok (clamp 0 125 (ir_exit_code response)))))))"

definition status_command :: "'s cli_env \<Rightarrow> client \<Rightarrow> bool \<Rightarrow> string \<Rightarrow> ('s, int) cli_act" where
  "status_command env c json job_id =
     bind (fetch_job env c job_id) (\<lambda>job.
     bind (if json then print_json env (JobBody job)
           else
             bind (println (jr_job_id job @ '' '' @ job_status_as_str (jr_status job) @ '' ''
               @ job_stage_as_str (jr_stage job) @ '' '' @ at (jr_tool job) (jr_revision job))) (\<lambda>_.
             bind (case jr_error job of None \<Rightarrow> ok ()
                   | Some e \<Rightarrow> eprintln (''jit: '' @ je_code e @ '': '' @ je_message e)) (\<lambda>_.
             (case jr_pending_input job of None \<Rightarrow> ok ()
              | Some input \<Rightarrow> eprintln (''jit: awaiting input: '' @ pi_prompt input))))) (\<lambda>_.
     ok 0))"

definition answer_of :: "string option \<Rightarrow> bool \<Rightarrow> bool \<Rightarrow> string option \<Rightarrow> cli_failure + job_input_answer" where
  "answer_of answer approve reject reason =
     (case (answer, approve, reject) of
        (Some text, False, False) \<Rightarrow> Inr (TextAnswer text)
      | (None, True, False) \<Rightarrow> Inr ApproveAnswer
      | (None, False, True) \<Rightarrow> Inr (RejectAnswer reason)
      | _ \<Rightarrow> Inl (local_failure 64 ''answer_required'' ''provide TEXT, --approve, or --reject''))"

definition answer_command :: "'s cli_env \<Rightarrow> client \<Rightarrow> bool \<Rightarrow> string \<Rightarrow> string option \<Rightarrow> bool \<Rightarrow> bool \<Rightarrow> string option
    \<Rightarrow> ('s, int) cli_act" where
  "answer_command env c json job_id answer approve reject reason =
     bind (fetch_job env c job_id) (\<lambda>job.
     bind (lift (ok_or (local_failure 65 ''job_input_not_pending'' ''job has no pending input'')
       (jr_pending_input job))) (\<lambda>pending.
     bind (lift (answer_of answer approve reject reason)) (\<lambda>answer.
     bind (submit_job_answer env c job_id \<lparr>ja_input_id = pi_id pending, ja_answer = answer\<rparr>) (\<lambda>answered.
     bind (if json then print_json env (JobBody answered)
           else bind (println (jr_job_id answered)) (\<lambda>_.
                eprintln ''jit: answer accepted; synthesis re-queued'')) (\<lambda>_.
     ok 0)))))"

definition cancel_command :: "'s cli_env \<Rightarrow> client \<Rightarrow> bool \<Rightarrow> string \<Rightarrow> string \<Rightarrow> ('s, int) cli_act" where
  "cancel_command env c json job_id reason =
     bind (request env as_job (post_request c (''/v1/jobs/'' @ job_id @ ''/cancel'') (CancelJson reason))) (\<lambda>job.
     bind (if json then print_json env (JobBody job)
           else bind (println (jr_job_id job)) (\<lambda>_.
                eprintln (''jit: cancelled '' @ at (jr_tool job) (jr_revision job)))) (\<lambda>_.
     ok 0))"

definition inspect_command :: "'s cli_env \<Rightarrow> client \<Rightarrow> bool \<Rightarrow> string \<Rightarrow> ('s, int) cli_act" where
  "inspect_command env c json tool =
     bind (lift (parse_tool_reference tool)) (\<lambda>(name, revision).
     bind (request env as_tool (get_request c (''/v1/tools/'' @ name)
        (case revision of None \<Rightarrow> [] | Some n \<Rightarrow> [(''revision'', show_nat n)]))) (\<lambda>summary.
     bind (if json then print_json env (ToolBody summary) else print_lines (tool_summary_lines summary)) (\<lambda>_.
     ok 0)))"

definition revoke_command :: "'s cli_env \<Rightarrow> client \<Rightarrow> bool \<Rightarrow> string \<Rightarrow> string \<Rightarrow> ('s, int) cli_act" where
  "revoke_command env c json tool reason =
     bind (lift (parse_tool_reference tool)) (\<lambda>(name, revision).
     bind (lift (ok_or (local_failure 64 ''revision_required'' ''revoke requires an explicit NAME@REVISION'')
       revision)) (\<lambda>revision.
     bind (request env as_revoked (post_request c (''/v1/tools/'' @ name @ ''/versions/'' @ show_nat revision @ ''/revoke'')
        (RevokeJson reason))) (\<lambda>response.
     bind (if json then print_json env (RevokeBody response)
           else bind (println (at (rv_tool response) (rv_revision response))) (\<lambda>_.
                case rv_stable_revision response of
                  Some fallback \<Rightarrow> eprintln (''jit: revoked; stable is now '' @ at name fallback)
                | None \<Rightarrow> eprintln (''jit: revoked; '' @ name @ '' has no callable stable version''))) (\<lambda>_.
     ok 0))))"

definition run_command :: "'s cli_env \<Rightarrow> client \<Rightarrow> bool \<Rightarrow> command \<Rightarrow> ('s, int) cli_act" where
  "run_command env c json command =
     (case command of
        Register name intent examples input_format output_format no_wait timeout \<Rightarrow>
          register_command env c json name intent examples input_format output_format no_wait timeout
      | Call tool input file content_type timeout args \<Rightarrow>
          call_command env c json tool input file content_type timeout args
      | Status job_id \<Rightarrow> status_command env c json job_id
      | Answer job_id answer approve reject reason \<Rightarrow> answer_command env c json job_id answer approve reject reason
      | Cancel job_id reason \<Rightarrow> cancel_command env c json job_id reason
      | Tools query options \<Rightarrow>
          list_command env c (case query of None \<Rightarrow> [] | Some q \<Rightarrow> q) options json
      | Search query options \<Rightarrow> list_command env c query options json
      | Inspect tool \<Rightarrow> inspect_command env c json tool
      | Revoke tool reason \<Rightarrow> revoke_command env c json tool reason)"

text \<open>The server and the token to use: the argument (which \<open>clap\<close> also takes from the environment), or
  the configuration.\<close>

definition first_of :: "string option \<Rightarrow> string option \<Rightarrow> string option" where
  "first_of a b = (case a of None \<Rightarrow> b | Some v \<Rightarrow> Some v)"

definition connect :: "'s cli_env \<Rightarrow> cli \<Rightarrow> cli_failure + client" where
  "connect env ci =
     (case load_config (ce_host env) (ci_config ci) of
        Inl e \<Rightarrow> Inl (local_failure 78 ''invalid_config'' ''configuration'')
      | Inr config \<Rightarrow>
        rbind (ok_or (local_failure 77 ''missing_token''
            ''client token is required via --token, JITFORGE_TOKEN, or configuration'')
          (nonempty (first_of (nonempty (ci_token ci)) (ac_token (jc_auth config))))) (\<lambda>token.
        if \<not> ce_client_builds env then Inl (internal_failure ''failed to initialize HTTP client'')
        else Inr \<lparr>cn_base = trim_end_matches CHR ''/''
               (unwrap_or (first_of (nonempty (ci_server ci)) (cc_server (jc_client config))) ''http://127.0.0.1:8080''),
             cn_token = token\<rparr>))"

definition run :: "'s cli_env \<Rightarrow> cli \<Rightarrow> ('s, int) cli_act" where
  "run env ci = bind (lift (connect env ci)) (\<lambda>c. run_command env c (ci_json ci) (ci_command ci))"

text \<open>\<open>main\<close>: the exit code, after a failure is told on standard error.  \<open>error_json\<close> is the encoded
  \<open>ErrorResponse\<close>.\<close>

definition cli_main :: "'s cli_env \<Rightarrow> (cli_failure \<Rightarrow> string) \<Rightarrow> cli \<Rightarrow> 's cli_world \<Rightarrow> int \<times> 's cli_world" where
  "cli_main env error_json ci w =
     (case run env ci w of
        (Inr exit_code, w') \<Rightarrow> (exit_code, w')
      | (Inl e, w') \<Rightarrow>
        (xf_exit_code e,
         snd (eprintln (if ci_json ci then error_json e else ''jit: '' @ xf_code e @ '': '' @ xf_message e) w')))"

end
