(* ===== verification/Server_Routes.thy ===== *)
theory Server_Routes
  imports Server_Main Cli_Commands
begin

text \<open>
  The protected routes of the server (\<open>build_router\<close> of src/apps/jit-server/src/main.rs) with what the
  extractors read from path, query and body, and the way of a request of the command line to them.
\<close>

section \<open>Routes\<close>

text \<open>\<open>Query\<close> and \<open>Path\<close> read fields of a query string and segments of a path; here both are decoded
  already, so a path stands for one without percent escapes.  A field that appears twice is refused
  (\<open>None\<close>); an absent one is \<open>Some None\<close>.\<close>

definition query_field :: "string \<Rightarrow> (string \<times> string) list \<Rightarrow> string option option" where
  "query_field key query =
     (case filter (\<lambda>(k, _). k = key) query of [] \<Rightarrow> Some None | [(_, s)] \<Rightarrow> Some (Some s) | _ \<Rightarrow> None)"

definition query_number :: "nat \<Rightarrow> string \<Rightarrow> (string \<times> string) list \<Rightarrow> nat option option" where
  "query_number bound key query =
     Option.bind (query_field key query) (\<lambda>field.
     case field of
        None \<Rightarrow> Some None
      | Some s \<Rightarrow> (case parse_u64 s of
            None \<Rightarrow> None | Some n \<Rightarrow> if n \<le> bound then Some (Some n) else None))"

definition query_flag :: "string \<Rightarrow> (string \<times> string) list \<Rightarrow> bool option" where
  "query_flag key query =
     Option.bind (query_field key query) (\<lambda>field.
     case field of
        None \<Rightarrow> Some False
      | Some s \<Rightarrow> if s = ''true'' then Some True else if s = ''false'' then Some False else None)"

definition query_text :: "string \<Rightarrow> (string \<times> string) list \<Rightarrow> string option" where
  "query_text key query =
     Option.bind (query_field key query) (\<lambda>field. Some (case field of None \<Rightarrow> [] | Some s \<Rightarrow> s))"

text \<open>A page: limit and offset, when both can be read.\<close>

definition query_page :: "(string \<times> string) list \<Rightarrow> (nat option \<times> nat option) option" where
  "query_page query =
     Option.bind (query_number u32_max ''limit'' query) (\<lambda>limit.
     Option.bind (query_number u64_max ''offset'' query) (\<lambda>offset. Some (limit, offset)))"

definition route_tools :: "http_verb \<Rightarrow> string list \<Rightarrow> (string \<times> string) list \<Rightarrow> http_body \<Rightarrow> api_call option" where
  "route_tools verb rest query body =
     (case rest of
        [] \<Rightarrow>
          if verb = HttpGet
          then Option.bind (query_page query) (\<lambda>(limit, offset).
               Option.bind (query_flag ''include_unready'' query) (\<lambda>unready.
               Option.bind (query_text ''query'' query) (\<lambda>text.
               Option.bind (query_field ''status'' query) (\<lambda>status.
               Some (ListTools text unready status limit offset)))))
          else None
      | [name] \<Rightarrow>
          if verb = HttpGet
          then Option.bind (query_number u64_max ''revision'' query) (\<lambda>revision. Some (InspectTool name revision))
          else None
      | [name, what] \<Rightarrow>
          if what = ''versions'' \<and> verb = HttpGet
          then Option.bind (query_page query) (\<lambda>(limit, offset). Some (ListToolVersions name limit offset))
          else if what = ''registrations'' \<and> verb = HttpPost
          then (case body of RegistrationJson r \<Rightarrow> Some (RegisterTool name r) | _ \<Rightarrow> None)
          else if what = ''invocations'' \<and> verb = HttpPost
          then (case body of InvocationJson r \<Rightarrow> Some (InvokeTool name r) | _ \<Rightarrow> None)
          else None
      | [name, section, revision, what] \<Rightarrow>
          if section \<noteq> ''versions'' then None
          else Option.bind (parse_u64 revision) (\<lambda>revision.
            if what = ''artifact'' \<and> verb = HttpGet then Some (GetToolArtifact name revision)
            else if what = ''revoke'' \<and> verb = HttpPost
            then (case body of RevokeJson reason \<Rightarrow> Some (RevokeToolVersion name revision reason) | _ \<Rightarrow> None)
            else None)
      | _ \<Rightarrow> None)"

definition route_jobs :: "http_verb \<Rightarrow> string list \<Rightarrow> (string \<times> string) list \<Rightarrow> http_body \<Rightarrow> api_call option" where
  "route_jobs verb rest query body =
     (case rest of
        [] \<Rightarrow>
          if verb = HttpGet
          then Option.bind (query_page query) (\<lambda>(limit, offset).
               Option.bind (query_field ''status'' query) (\<lambda>status. Some (ListJobs status limit offset)))
          else None
      | [job_id] \<Rightarrow>
          (case verb of
             HttpGet \<Rightarrow> Some (GetJob job_id)
           | HttpPost \<Rightarrow> (case body of AnswerJson a \<Rightarrow> Some (AnswerJobInput job_id a) | _ \<Rightarrow> None))
      | [job_id, what] \<Rightarrow>
          if what = ''cancel'' \<and> verb = HttpPost
          then (case body of CancelJson reason \<Rightarrow> Some (CancelJob job_id reason) | _ \<Rightarrow> None)
          else None
      | _ \<Rightarrow> None)"

definition route_capabilities :: "http_verb \<Rightarrow> string list \<Rightarrow> http_body \<Rightarrow> api_call option" where
  "route_capabilities verb rest body =
     (case rest of
        [] \<Rightarrow> if verb = HttpGet then Some ListHttpCapabilityApprovals else None
      | [capability_hash, what] \<Rightarrow>
          if what = ''revoke'' \<and> verb = HttpPost
          then (case body of RevokeJson reason \<Rightarrow> Some (RevokeHttpCapability capability_hash reason) | _ \<Rightarrow> None)
          else None
      | _ \<Rightarrow> None)"

text \<open>The call of a request; \<open>None\<close> is a path, a method, a parameter or a body that axum refuses.  A
  parameter of the path is not empty.\<close>

definition route :: "http_verb \<Rightarrow> string \<Rightarrow> (string \<times> string) list \<Rightarrow> http_body \<Rightarrow> api_call option" where
  "route verb path query body =
     (case split_char CHR ''/'' path of
        root # version # kind # rest \<Rightarrow>
          if root \<noteq> [] \<or> version \<noteq> ''v1'' \<or> [] \<in> set rest then None
          else if kind = ''tools'' then route_tools verb rest query body
          else if kind = ''jobs'' then route_jobs verb rest query body
          else if kind = ''http-capabilities'' then route_capabilities verb rest body
          else None
      | _ \<Rightarrow> None)"

section \<open>Requests of the command line\<close>

text \<open>Text that a URL holds as it is: letters, digits, \<open>-\<close> and \<open>_\<close>, as in tool names and UUIDs.\<close>

definition plain :: "string \<Rightarrow> bool" where
  "plain s \<longleftrightarrow> s \<noteq> [] \<and> list_all (\<lambda>c. is_ascii_alphanumeric c \<or> c = CHR ''-'' \<or> c = CHR ''_'') s"

lemma split_char_append: "d \<notin> set s \<Longrightarrow> split_char d (s @ d # t) = s # split_char d t"
  by (induction s) auto

lemma split_char_whole: "d \<notin> set s \<Longrightarrow> split_char d s = [s]"
  by (induction s) auto

lemma plain_no_slash: "plain s \<Longrightarrow> CHR ''/'' \<notin> set s"
  by (auto simp: plain_def list_all_iff is_ascii_alphanumeric_def is_ascii_lowercase_def is_ascii_uppercase_def
      is_ascii_digit_def)

lemma plain_nonempty: "plain s \<Longrightarrow> s \<noteq> []"
  by (simp add: plain_def)

lemma show_nat_plain: "plain (show_nat n)"
proof (induction n rule: show_nat.induct)
  case (1 n)
  have "is_ascii_alphanumeric (digit_char (n mod 10))"
    by (simp add: is_ascii_alphanumeric_def)
  with 1 show ?case
    by (subst show_nat.simps) (auto simp: plain_def is_ascii_alphanumeric_def)
qed

lemma split_prefix [simp]:
  "split_char CHR ''/'' (''/v1/tools/'' @ s) = [] # ''v1'' # ''tools'' # split_char CHR ''/'' s"
  "split_char CHR ''/'' (''/v1/jobs/'' @ s) = [] # ''v1'' # ''jobs'' # split_char CHR ''/'' s"
  "split_char CHR ''/'' ''/v1/tools'' = [[], ''v1'', ''tools'']"
  by (auto split: list.split)

lemma split_suffix:
  assumes "plain s"
  shows "split_char CHR ''/'' s = [s]"
    and "split_char CHR ''/'' (s @ ''/registrations'') = [s, ''registrations'']"
    and "split_char CHR ''/'' (s @ ''/invocations'') = [s, ''invocations'']"
    and "split_char CHR ''/'' (s @ ''/cancel'') = [s, ''cancel'']"
    and "split_char CHR ''/'' (s @ ''/revoke'') = [s, ''revoke'']"
    and "split_char CHR ''/'' (s @ ''/versions/'' @ t) = s # ''versions'' # split_char CHR ''/'' t"
  using split_char_append [OF plain_no_slash [OF assms]] split_char_whole [OF plain_no_slash [OF assms]]
  by simp_all

end
