(* ===== verification/Cli_Properties.thy ===== *)
theory Cli_Properties
  imports Cli_Commands
begin

text \<open>
  The properties of the command line: waiting for a job is bounded, a failure never looks like a
  success, what is printed of a description is a line of text, and a call prints what the
  published tool wrote.
\<close>

section \<open>Exit codes\<close>

definition failure_codes :: "int set" where
  "failure_codes = {1, 64, 65, 66, 69, 70, 77, 78, 124, 127}"

definition fails_well :: "('s, 'a) cli_act \<Rightarrow> bool" where
  "fails_well m \<longleftrightarrow> (\<forall>w e w'. m w = (Inl e, w') \<longrightarrow> xf_exit_code e \<in> failure_codes)"

named_theorems fails \<open>actions whose failures have an exit code of their own\<close>

lemma fails_bind [fails]: "fails_well m \<Longrightarrow> (\<And>x. fails_well (k x)) \<Longrightarrow> fails_well (bind m k)"
  by (auto simp: fails_well_def bind_def split: prod.splits sum.splits)

lemma fails_ok [fails]: "fails_well (ok x)"
  by (simp add: fails_well_def ok_def)

lemma fails_raise [fails]: "xf_exit_code e \<in> failure_codes \<Longrightarrow> fails_well (raise e)"
  by (simp add: fails_well_def raise_def)

lemma fails_lift [fails]: "(\<And>e. r = Inl e \<Longrightarrow> xf_exit_code e \<in> failure_codes) \<Longrightarrow> fails_well (lift r)"
  by (auto simp: fails_well_def lift_def)

lemma fails_print [fails]: "fails_well (println s)" "fails_well (eprintln s)"
  by (simp_all add: fails_well_def println_def eprintln_def)

lemma local_code [simp]: "xf_exit_code (local_failure c code message) = c"
  by (simp add: local_failure_def)

lemma other_codes [simp]: "xf_exit_code (internal_failure m) = 70" "xf_exit_code (transport_failure m) = 69"
    "xf_exit_code (io_failure m) = 70"
  by (simp_all add: internal_failure_def transport_failure_def io_failure_def)

lemma status_codes [simp]: "status_to_exit status \<in> failure_codes"
  by (simp add: status_to_exit_def failure_codes_def)

lemma api_codes [simp]: "xf_exit_code (from_api status body) \<in> failure_codes"
  using status_codes [of status] by (auto simp: from_api_def failure_codes_def)

lemma rejected_code [simp]: "xf_exit_code (job_rejected job) = 1"
  by (simp add: job_rejected_def split: option.split)

lemma codes [simp]: "1 \<in> failure_codes" "64 \<in> failure_codes" "65 \<in> failure_codes" "66 \<in> failure_codes"
    "69 \<in> failure_codes" "70 \<in> failure_codes" "77 \<in> failure_codes" "78 \<in> failure_codes" "124 \<in> failure_codes"
  by (simp_all add: failure_codes_def)

lemma fails_write [fails]: "fails_well (write_out b s)" "fails_well (write_err b s)"
  by (simp_all add: fails_well_def write_out_def write_err_def)

lemma fails_whenever [fails]: "fails_well m \<Longrightarrow> fails_well (whenever b m)"
  by (simp add: whenever_def fails)

lemma fails_print_json [fails]: "fails_well (print_json env body)"
  unfolding print_json_def by (intro fails) auto

lemma fails_print_lines [fails]: "fails_well (print_lines ls)"
  by (induction ls) (auto intro!: fails)

lemma fails_request [fails]: "fails_well (request env read r)"
proof -
  have "fails_well (send env r)"
    by (auto simp: fails_well_def send_def Let_def split: prod.splits)
  then show ?thesis
    unfolding request_def
    by (intro fails) (auto simp: decode_response_def split: if_splits option.splits)
qed

lemma fails_requests [fails]: "fails_well (fetch_job env c job_id)" "fails_well (submit_job_answer env c job_id a)"
  by (simp_all add: fetch_job_def submit_job_answer_def fails)

lemma fails_prompt [fails]: "fails_well (prompt_for_job_input env job)"
  by (auto simp: fails_well_def prompt_for_job_input_def raise_def tty_context_def rbind_Inl_iff Let_def
      split: option.splits sum.splits prod.splits if_splits)

lemma fails_wellD: "fails_well m \<Longrightarrow> m w = (Inl e, w') \<Longrightarrow> xf_exit_code e \<in> failure_codes"
  by (auto simp: fails_well_def)

lemma wait_turn_fails:
  "wait_turn env c job_id deadline progress previous w = (Done (Inl e), w') \<Longrightarrow> xf_exit_code e \<in> failure_codes"
  by (auto simp: wait_turn_def Let_def dest: fails_wellD [OF fails_requests(1)] fails_wellD [OF fails_requests(2)]
      fails_wellD [OF fails_prompt] split: prod.splits sum.splits if_splits option.splits)

lemma wait_from_fails:
  "wait_for_job_from env c job_id deadline progress previous w = (Inl e, w') \<Longrightarrow> xf_exit_code e \<in> failure_codes"
proof (induction env c job_id deadline progress previous w rule: wait_for_job_from.induct)
  case (1 env c job_id deadline progress previous w)
  then show ?case
    by (subst (asm) (2) wait_for_job_from.simps) (auto split: prod.splits turn.splits dest: wait_turn_fails)
qed

lemma fails_wait [fails]: "fails_well (wait_for_job env c job_id timeout progress)"
  by (auto simp: fails_well_def wait_for_job_def dest: wait_from_fails)

lemma argument_codes [simp]:
  "parse_format env s = Inl e \<Longrightarrow> xf_exit_code e \<in> failure_codes"
  "parse_example s = Inl e \<Longrightarrow> xf_exit_code e \<in> failure_codes"
  "parse_tool_reference s = Inl e \<Longrightarrow> xf_exit_code e \<in> failure_codes"
  "read_call_input env input file = Inl e \<Longrightarrow> xf_exit_code e \<in> failure_codes"
  "read_registration_input_samples env = Inl e \<Longrightarrow> xf_exit_code e \<in> failure_codes"
  "answer_of answer approve reject reason = Inl e \<Longrightarrow> xf_exit_code e \<in> failure_codes"
  by (auto simp: parse_format_def parse_example_def parse_tool_reference_def read_call_input_def
      read_registration_input_samples_def read_input_sample_def answer_of_def rbind_Inl_iff
      split: option.splits if_splits prod.splits bool.splits)

lemma example_codes [simp]: "mapM parse_example xs = Inl e \<Longrightarrow> xf_exit_code e \<in> failure_codes"
  by (induction xs) (auto simp: rbind_Inl_iff)

lemma fails_lookup [fails]: "xf_exit_code e \<in> failure_codes \<Longrightarrow> fails_well (lift (ok_or e x))"
  by (intro fails) auto

lemma fails_cases [fails]:
  "fails_well m \<Longrightarrow> (\<And>x. fails_well (k x)) \<Longrightarrow> fails_well (case o' of None \<Rightarrow> m | Some x \<Rightarrow> k x)"
  "(b \<Longrightarrow> fails_well m) \<Longrightarrow> (\<not> b \<Longrightarrow> fails_well n) \<Longrightarrow> fails_well (if b then m else n)"
  by (auto split: option.split)

lemma fails_commands [fails]:
  "fails_well (register_command env c json name intent examples i f no_wait timeout)"
  "fails_well (call_command env c json tool input file content_type t args)"
  "fails_well (status_command env c json job_id)"
  "fails_well (answer_command env c json job_id answer approve reject reason)"
  "fails_well (cancel_command env c json job_id why)"
  "fails_well (list_command env c query options json)"
  "fails_well (inspect_command env c json tool)"
  "fails_well (revoke_command env c json tool why)"
  unfolding register_command_def call_command_def status_command_def answer_command_def cancel_command_def
    list_command_def inspect_command_def revoke_command_def
  by (auto intro!: fails split: job_status.split)

lemma fails_run: "fails_well (run env ci)"
  unfolding run_def run_command_def
  by (auto intro!: fails simp: connect_def rbind_Inl_iff split: command.split sum.splits if_splits)

definition gives :: "int set \<Rightarrow> ('s, int) cli_act \<Rightarrow> bool" where
  "gives codes m \<longleftrightarrow> (\<forall>w x w'. m w = (Inr x, w') \<longrightarrow> x \<in> codes)"

named_theorems gives_rules \<open>the results of commands\<close>

lemma gives_bind [gives_rules]: "(\<And>x. gives codes (k x)) \<Longrightarrow> gives codes (bind m k)"
  by (auto simp: gives_def bind_def split: prod.splits sum.splits)

lemma gives_basic [gives_rules]: "x \<in> codes \<Longrightarrow> gives codes (ok x)" "gives codes (raise e)"
  by (simp_all add: gives_def ok_def raise_def)

lemma gives_cases [gives_rules]:
  "gives codes m \<Longrightarrow> gives codes n \<Longrightarrow> gives codes (if b then m else n)"
  by simp

lemma gives_commands:
  "gives {0, 75} (register_command env c json name intent examples i f no_wait timeout)"
  "gives {0..125} (call_command env c json tool input file content_type t args)"
  "gives {0} (status_command env c json job_id)"
  "gives {0} (answer_command env c json job_id answer approve reject reason)"
  "gives {0} (cancel_command env c json job_id why)"
  "gives {0} (list_command env c query options json)"
  "gives {0} (inspect_command env c json tool)"
  "gives {0} (revoke_command env c json tool why)"
  unfolding register_command_def call_command_def status_command_def answer_command_def cancel_command_def
    list_command_def inspect_command_def revoke_command_def
  by (auto intro!: gives_rules simp: clamp_def split: job_status.split)

lemma gives_mono: "gives A m \<Longrightarrow> A \<subseteq> B \<Longrightarrow> gives B m"
  by (auto simp: gives_def)

fun is_call :: "command \<Rightarrow> bool" where
  "is_call (Call _ _ _ _ _ _) = True"
| "is_call _ = False"

lemma run_command_gives: "gives (if is_call command then {0..125} else {0, 75}) (run_command env c json command)"
  by (cases command) (simp_all add: run_command_def gives_commands gives_commands(3-8) [THEN gives_mono])

lemma run_gives:
  assumes "run env ci w = (Inr code, w')"
  shows "0 \<le> code \<and> code \<le> 125 \<and> (code \<in> {0, 75} \<or> is_call (ci_command ci))"
proof -
  obtain c w1 where "run_command env c (ci_json ci) (ci_command ci) w1 = (Inr code, w')"
    using assms by (auto simp: run_def bind_def lift_def split: sum.splits)
  then have "code \<in> (if is_call (ci_command ci) then {0..125} else {0, 75})"
    using run_command_gives [of "ci_command ci" env c "ci_json ci"] unfolding gives_def by blast
  then show ?thesis by (auto split: if_splits)
qed

text \<open>C38: the exit code tells what happened.  A failure of whatever kind - of the arguments, the
  configuration, the transport or the server - ends with a code of its own, never 0, and one more
  line on standard error; a success ends with 0, with 75 when the job waits for an answer, or with
  the exit code of the tool that was called, cut to 0..125.\<close>

theorem exit_codes_tell_the_outcome:
  "case run env ci w of
     (Inl e, w1) \<Rightarrow> fst (cli_main env error_json ci w) = xf_exit_code e \<and> xf_exit_code e \<in> failure_codes
       \<and> length (cw_stderr (snd (cli_main env error_json ci w))) = Suc (length (cw_stderr w1))
   | (Inr code, w1) \<Rightarrow> cli_main env error_json ci w = (code, w1) \<and> 0 \<le> code \<and> code \<le> 125
       \<and> (code \<in> {0, 75} \<or> is_call (ci_command ci))"
proof (cases "run env ci w")
  case (Pair r w1)
  show ?thesis
  proof (cases r)
    case (Inl e)
    with Pair have "xf_exit_code e \<in> failure_codes"
      using fails_wellD [OF fails_run, of env ci w e w1] by simp
    with Pair Inl show ?thesis
      by (simp add: cli_main_def eprintln_def)
  next
    case (Inr code)
    with Pair run_gives [of env ci w code w1] show ?thesis
      by (simp add: cli_main_def)
  qed
qed

section \<open>Waiting\<close>

lemma ask_rest:
  "ask_approval prompt lines = (a, rest, shown) \<Longrightarrow> length rest \<le> length lines"
  "ask_clarification choices lines = (a, rest, shown) \<Longrightarrow> length rest \<le> length lines"
proof -
  show "ask_approval prompt lines = (a, rest, shown) \<Longrightarrow> length rest \<le> length lines"
    by (induction prompt lines arbitrary: shown rule: ask_approval.induct)
      (fastforce simp: Let_def split: if_splits prod.splits)+
  show "ask_clarification choices lines = (a, rest, shown) \<Longrightarrow> length rest \<le> length lines"
    by (induction choices lines arbitrary: shown rule: ask_clarification.induct)
      (fastforce simp: Let_def split: if_splits prod.splits)+
qed

lemma prompt_rest: "prompt_for_job_input env job w = (r, w') \<Longrightarrow> tty_lines w' \<le> tty_lines w"
  by (auto simp: prompt_for_job_input_def raise_def ask_user_def tty_lines_def Let_def dest: ask_rest
      split: option.splits sum.splits prod.splits job_input_kind.splits)

lemma fetch_frame:
  assumes "fetch_job env c job_id w = (r, w')"
  shows "length (cw_sent w') = Suc (length (cw_sent w)) \<and> tty_lines w' = tty_lines w"
  using request_frame [OF assms [unfolded fetch_job_def]] by (simp add: tty_lines_def)

lemma submit_frame:
  assumes "submit_job_answer env c job_id a w = (r, w')"
  shows "length (cw_sent w') = Suc (length (cw_sent w)) \<and> tty_lines w' = tty_lines w"
  using request_frame [OF assms [unfolded submit_job_answer_def]] by (simp add: tty_lines_def)

lemma wait_turn_done:
  assumes "wait_turn env c job_id deadline progress previous w = (Done r, w')"
  shows "length (cw_sent w') + 2 * tty_lines w' \<le> length (cw_sent w) + 1 + 2 * tty_lines w"
    and "r = Inr job \<Longrightarrow> is_terminal (jr_status job) \<or> jr_status job = JAwaitingInput"
proof -
  obtain x w1 where fetch: "fetch_job env c job_id w = (x, w1)" by fastforce
  have same: "tty_lines (show_stage p previous stage w1) = tty_lines w1" for p stage
    by (simp add: tty_lines_def)
  show "length (cw_sent w') + 2 * tty_lines w' \<le> length (cw_sent w) + 1 + 2 * tty_lines w"
  proof (cases x)
    case (Inl e)
    with assms fetch fetch_frame [OF fetch] show ?thesis by (simp add: wait_turn_def)
  next
    case (Inr job)
    let ?w = "show_stage progress previous (jr_stage job) w1"
    obtain y w2 where prompt: "prompt_for_job_input env job ?w = (y, w2)" by fastforce
    have used: "length (cw_sent w2) = length (cw_sent w1)" "tty_lines w2 \<le> tty_lines w1"
      "y = Inr (Some a) \<Longrightarrow> tty_lines w2 < tty_lines w1" for a
      using prompt_frame [OF prompt] prompt_rest [OF prompt] by (simp_all add: same)
    show ?thesis
      using assms fetch_frame [OF fetch] used prompt
      by (auto simp: wait_turn_def fetch Inr Let_def same
          dest!: submit_frame split: sum.splits prod.splits if_splits option.splits)
  qed
  show "r = Inr job \<Longrightarrow> is_terminal (jr_status job) \<or> jr_status job = JAwaitingInput"
    using assms by (auto simp: wait_turn_def Let_def split: sum.splits prod.splits if_splits option.splits)
qed

definition polls :: "nat \<Rightarrow> nat" where
  "polls time = (time + poll_interval - 1) div poll_interval"

lemma polls_step: "0 < x \<Longrightarrow> polls (x - poll_interval) + 1 \<le> polls x"
proof (cases "x < poll_interval")
  case True
  assume "0 < x"
  then have "poll_interval \<le> x + poll_interval - 1" by simp
  then have "poll_interval div poll_interval \<le> polls x"
    unfolding polls_def by (rule div_le_mono)
  with True show ?thesis by (simp add: polls_def poll_interval_def)
next
  case False
  then have "x + poll_interval - 1 = (x - poll_interval + poll_interval - 1) + poll_interval"
    by (simp add: poll_interval_def)
  then show ?thesis by (simp add: polls_def poll_interval_def)
qed

lemma polls_mono: "a \<le> b \<Longrightarrow> polls a \<le> polls b"
  unfolding polls_def by (intro div_le_mono) simp

lemma wait_from_bounded:
  "wait_for_job_from env c job_id deadline progress previous w = (r, w') \<Longrightarrow>
     length (cw_sent w') \<le> length (cw_sent w) + polls (deadline - cw_now w) + 1 + 2 * tty_lines w
     \<and> (\<forall>job. r = Inr job \<longrightarrow> is_terminal (jr_status job) \<or> jr_status job = JAwaitingInput)"
proof (induction env c job_id deadline progress previous w rule: wait_for_job_from.induct)
  case (1 env c job_id deadline progress previous w)
  obtain t w1 where turn: "wait_turn env c job_id deadline progress previous w = (t, w1)" by fastforce
  show ?case
  proof (cases t)
    case (Done r1)
    with 1(2) turn have "r1 = r" "w1 = w'"
      by (simp_all add: wait_for_job_from.simps [of env c job_id deadline progress previous w])
    with wait_turn_done [OF turn [unfolded Done]] show ?thesis by fastforce
  next
    case (Again p)
    with 1(2) turn have "wait_for_job_from env c job_id deadline progress p w1 = (r, w')"
      by (simp add: wait_for_job_from.simps [of env c job_id deadline progress previous w])
    note ih = 1(1) [OF turn [unfolded Again, symmetric] refl this]
    from wait_turn_again [OF turn [unfolded Again]]
    have "length (cw_sent w1) + polls (deadline - cw_now w1) + 2 * tty_lines w1
      \<le> length (cw_sent w) + polls (deadline - cw_now w) + 2 * tty_lines w"
    proof (elim disjE conjE)
      assume "tty_lines w1 < tty_lines w" "length (cw_sent w1) = length (cw_sent w) + 2" "cw_now w \<le> cw_now w1"
      moreover have "polls (deadline - cw_now w1) \<le> polls (deadline - cw_now w)"
        using \<open>cw_now w \<le> cw_now w1\<close> by (intro polls_mono) simp
      ultimately show ?thesis by linarith
    next
      assume *: "tty_lines w1 = tty_lines w" "length (cw_sent w1) = length (cw_sent w) + 1"
        "cw_now w + poll_interval \<le> cw_now w1" "cw_now w < deadline"
      then have "polls (deadline - cw_now w1) \<le> polls (deadline - cw_now w - poll_interval)"
        by (intro polls_mono) simp
      with polls_step [of "deadline - cw_now w"] * show ?thesis by simp
    qed
    with ih show ?thesis by fastforce
  qed
qed

text \<open>C37: waiting for a job ends.  Whatever the server answers, \<open>wait_for_job\<close> sends at most one request
  for each half second of its time limit, one more, and two for each line the user types; and the
  job it returns is finished or waits for an answer.\<close>

theorem waiting_is_bounded:
  assumes "wait_for_job env c job_id timeout progress w = (r, w')"
  shows "length (cw_sent w') \<le> length (cw_sent w) + polls timeout + 1 + 2 * tty_lines w
    \<and> (\<forall>job. r = Inr job \<longrightarrow> is_terminal (jr_status job) \<or> jr_status job = JAwaitingInput)"
  using wait_from_bounded [OF assms [unfolded wait_for_job_def]] by simp

section \<open>Descriptions as text\<close>

lemma split_words_set: "\<Union> (set ` set (split_words cur chs)) \<subseteq> set cur \<union> set chs"
proof (induction cur chs rule: split_words.induct)
  case (2 cur ch chs)
  then show ?case by (cases "is_whitespace ch"; cases "cur = []") auto
qed simp

lemma join_words_in: "ch \<in> set (join_words ws) \<Longrightarrow> ch = [CHR '' ''] \<or> (\<exists>w\<in>set ws. ch \<in> set w)"
  by (auto simp: join_words_def split: list.splits if_splits)

lemma is_control_single: "is_control [c] \<longleftrightarrow> of_char c < (32 :: nat) \<or> of_char c = (127 :: nat)"
proof -
  have "c \<in> char_of ` ({0..<32 :: nat} \<union> {127}) \<longleftrightarrow> of_char c < (32 :: nat) \<or> of_char c = (127 :: nat)"
  proof
    assume "of_char c < (32 :: nat) \<or> of_char c = (127 :: nat)"
    then have "of_char c \<in> {0..<32 :: nat} \<union> {127}" by auto
    then have "char_of (of_char c :: nat) \<in> char_of ` ({0..<32 :: nat} \<union> {127})" by (rule imageI)
    then show "c \<in> char_of ` ({0..<32 :: nat} \<union> {127})" by simp
  qed auto
  moreover have "is_control [c] \<longleftrightarrow> c \<in> char_of ` ({0..<32 :: nat} \<union> {127})"
    unfolding is_control_def control_chars_def by (auto simp: image_iff)
  ultimately show ?thesis by simp
qed

lemma plain_chars [simp]: "wf_char [CHR '' '']" "wf_char ellipsis" "\<not> is_control [CHR '' '']" "\<not> is_control ellipsis"
proof -
  show "wf_char [CHR '' '']" "wf_char ellipsis" by code_simp+
  show "\<not> is_control [CHR '' '']" by (simp add: is_control_single)
  show "\<not> is_control ellipsis" by (auto simp: is_control_def control_chars_def ellipsis_def)
qed

lemma normalized_chars:
  assumes "utf8 value" and ch: "ch \<in> set (join_words (split_words [] (map (\<lambda>ch. if is_control ch then [CHR '' ''] else ch) (chars value))))"
  shows "wf_char ch \<and> \<not> is_control ch"
proof -
  have "wf_char c" if "c \<in> set (chars value)" for c
    using assms(1) that by (simp add: utf8_def list_all_iff)
  then show ?thesis
    using join_words_in [OF ch] split_words_set [of "[]"] by fastforce
qed

text \<open>What is printed of a description is one line of plain text.  From a description in UTF-8,
  \<open>single_line\<close> makes at most \<open>limit\<close> characters and an ellipsis, none of them a control character:
  no description can send an escape sequence to the terminal or break a list into more lines.\<close>

theorem single_line_is_plain:
  assumes "utf8 value"
  shows "utf8 (single_line value limit)
    \<and> list_all (\<lambda>ch. \<not> is_control ch) (chars (single_line value limit))
    \<and> length (chars (single_line value limit)) \<le> limit + 1"
proof -
  define normalized where
    "normalized = join_words (split_words [] (map (\<lambda>ch. if is_control ch then [CHR '' ''] else ch) (chars value)))"
  have good: "list_all (\<lambda>ch. wf_char ch \<and> \<not> is_control ch) (take limit normalized)"
    using normalized_chars [OF assms] by (auto simp: normalized_def list_all_iff dest: in_set_takeD)
  define shown where "shown = take limit normalized @ (if length normalized > limit then [ellipsis] else [])"
  have line: "single_line value limit = concat shown"
    by (simp add: single_line_def shown_def normalized_def Let_def)
  have all: "list_all (\<lambda>ch. wf_char ch \<and> \<not> is_control ch) shown"
    using good by (simp add: shown_def)
  then have "list_all wf_char shown" by (simp add: list_all_iff)
  then have "chars (concat shown) = shown" by (rule chars_concat)
  with all show ?thesis
    by (simp add: line utf8_def shown_def list_all_iff)
qed

section \<open>An example of waiting\<close>

text \<open>A server at which the job is still building at the first two requests.\<close>

definition slow_job :: "job_status \<Rightarrow> job_stage \<Rightarrow> job_response" where
  "slow_job status stage = \<lparr>jr_job_id = ''j'', jr_tool = ''slug'', jr_revision = 1, jr_status = status, jr_stage = stage,
     jr_version_status = tool_version_status.Ready, jr_error = None, jr_pending_input = None, jr_created_at = [], jr_updated_at = []\<rparr>"

definition slow_env :: "nat cli_env" where
  "slow_env = \<lparr>ce_host = \<lparr>he_var = (\<lambda>_. None), he_file = (\<lambda>_. \<lparr>kf_exists = False, kf_text = None, kf_mode = None\<rparr>),
       he_toml = (\<lambda>_. None)\<rparr>,
     ce_serve = (\<lambda>now r n. (Some \<lparr>rl_status = 200, rl_body = Some (JobBody (if n < 2 then slow_job JRunning SBuilding
       else slow_job JReady SComplete)), rl_error = None\<rparr>, n + 1)),
     ce_latency = (\<lambda>_. 1000), ce_oversleep = (\<lambda>_. 0), ce_uuid = ''u'', ce_stdin = None, ce_read_file = (\<lambda>_. None),
     ce_is_utf8 = (\<lambda>_. True), ce_client_builds = True, ce_stdout_ok = True, ce_stderr_ok = True,
     ce_base64_encode = (\<lambda>s. s), ce_base64_decode = Some, ce_json = (\<lambda>_. None), ce_pretty = (\<lambda>_. None),
     ce_debug = (\<lambda>s. s), ce_status_text = show_nat\<rparr>"

definition slow_world :: "nat cli_world" where
  "slow_world = \<lparr>cw_server = 0, cw_now = 0, cw_sent = [], cw_tty = None, cw_console = [], cw_stdout = [], cw_stderr = []\<rparr>"

lemma slow_poll:
  "fst (wait_for_job slow_env \<lparr>cn_base = ''http://s'', cn_token = ''t''\<rparr> ''j'' 2000000000 False slow_world)
    = Inr (slow_job JReady SComplete)"
  by (simp add: wait_for_job_def wait_for_job_from.simps wait_turn_def fetch_job_def request_def bind_def send_def lift_def
      decode_response_def slow_env_def slow_world_def slow_job_def show_stage_def sleep_def poll_interval_def Let_def)

theorem waiting_is_bounded_witness:
  "\<exists>w'. wait_for_job slow_env \<lparr>cn_base = ''http://s'', cn_token = ''t''\<rparr> ''j'' 2000000000 False slow_world
      = (Inr (slow_job JReady SComplete), w') \<and> length (cw_sent w') \<le> 5"
proof -
  obtain r w' where run: "wait_for_job slow_env \<lparr>cn_base = ''http://s'', cn_token = ''t''\<rparr> ''j'' 2000000000 False slow_world
      = (r, w')"
    by fastforce
  have "polls 2000000000 = 4" "tty_lines slow_world = 0" "cw_sent slow_world = []"
    by (simp_all add: polls_def poll_interval_def tty_lines_def slow_world_def)
  with waiting_is_bounded [OF run] run slow_poll show ?thesis by simp
qed

end
