(* ===== verification/Worker_Service.thy ===== *)
theory Worker_Service
  imports Runner Server_Api
begin

text \<open>
  The gRPC service of the worker (src/apps/jit-worker/src/service.rs): authentication, the limits on
  a request, the live run of an artifact, and the status of each error of the runner.
\<close>

text \<open>The texts of the errors of the runner, and Docker as it behaves under a time limit in
  milliseconds.\<close>

record service_env =
  sw_web :: web_ext
  sw_token :: string
  sw_artifact :: artifact_ext
  sw_runner :: docker_runner
  sw_docker :: "nat \<Rightarrow> docker"
  sw_describe :: "runner_error \<Rightarrow> string"

definition service_authenticated :: "service_env \<Rightarrow> string option \<Rightarrow> bool" where
  "service_authenticated env authorization =
     (case Option.bind (Option.bind authorization (wx_to_str (sw_web env))) (strip_prefix ''Bearer '') of
        None \<Rightarrow> False
      | Some value \<Rightarrow> length value = length (sw_token env) \<and> wx_ct_eq (sw_web env) value (sw_token env))"

fun map_runner_error :: "(runner_error \<Rightarrow> string) \<Rightarrow> runner_error \<Rightarrow> grpc_status" where
  "map_runner_error describe RunTimeout = \<lparr>gs_code = GrpcDeadlineExceeded, gs_message = describe RunTimeout\<rparr>"
| "map_runner_error describe OutputLimitExceeded =
     \<lparr>gs_code = GrpcResourceExhausted, gs_message = describe OutputLimitExceeded\<rparr>"
| "map_runner_error describe (RuntimeUnavailable s) =
     \<lparr>gs_code = GrpcUnavailable, gs_message = describe (RuntimeUnavailable s)\<rparr>"
| "map_runner_error describe (DockerError s) = \<lparr>gs_code = GrpcUnavailable, gs_message = describe (DockerError s)\<rparr>"
| "map_runner_error describe (RunnerArtifact e) = \<lparr>gs_code = GrpcNotFound, gs_message = describe (RunnerArtifact e)\<rparr>"
| "map_runner_error describe e = \<lparr>gs_code = GrpcInternal, gs_message = describe e\<rparr>"

definition check_execute :: "service_env \<Rightarrow> string option \<Rightarrow> execute_request \<Rightarrow> grpc_status + unit" where
  "check_execute env authorization request =
     (let invalid = (\<lambda>message. Inl \<lparr>gs_code = GrpcInvalidArgument, gs_message = message\<rparr>) in
      if \<not> service_authenticated env authorization
      then Inl \<lparr>gs_code = GrpcUnauthenticated, gs_message = ''invalid worker token''\<rparr>
      else if length (xq_stdin request) > 4 * 1024 * 1024 then invalid ''stdin exceeds 4 MiB''
      else if \<not> (1 \<le> xq_timeout_ms request \<and> xq_timeout_ms request \<le> 30000)
      then invalid ''timeout_ms must be between 1 and 30000''
      else if length (xq_args request) > 128 \<or> list_ex (\<lambda>a. length a > 4096) (xq_args request)
      then invalid ''tool arguments exceed their limit''
      else Inr ())"

text \<open>The answer (\<open>None\<close>: the runner waits for ever) with the commands given to Docker.\<close>

definition service_execute :: "service_env \<Rightarrow> string \<Rightarrow> artifact_store \<Rightarrow> string option \<Rightarrow> db \<Rightarrow> execute_request
    \<Rightarrow> (grpc_status + execute_response) option \<times> string list list" where
  "service_execute env container st authorization d request =
     (case check_execute env authorization request of
        Inl status \<Rightarrow> (Some (Inl status), [])
      | Inr _ \<Rightarrow>
        (case execute (sw_artifact env) (sw_docker env (xq_timeout_ms request)) (sw_runner env) container d st
             (xq_artifact_digest request) (xq_args request) (xq_stdin request) of
           (None, commands) \<Rightarrow> (None, commands)
         | (Some (Inl e), commands) \<Rightarrow> (Some (Inl (map_runner_error (sw_describe env) e)), commands)
         | (Some (Inr output), commands) \<Rightarrow>
             (Some (Inr \<lparr>xr_exit_code = eo_exit_code output, xr_stdout = eo_stdout output,
                         xr_stderr = eo_stderr output, xr_duration_ms = eo_duration_ms output\<rparr>), commands)))"

end
