(* ===== verification/Server_Invocation.thy ===== *)
theory Server_Invocation
  imports Server_Main Worker_Service Runner_Safety
begin

text \<open>
  An invocation from end to end: the record the server keeps of it, the limits of server and worker,
  and the run in the sandbox behind the answer.
\<close>

section \<open>The record of an invocation\<close>

text \<open>Others work on invocations of their own: identifiers are fresh.\<close>

definition keeps_invocation :: "request_context \<Rightarrow> bool" where
  "keeps_invocation ctx \<longleftrightarrow>
     (\<forall>n d. lookup iv_id (rc_uuid ctx 0) (invocations (rc_others ctx n d)) = lookup iv_id (rc_uuid ctx 0) (invocations d))"

definition record_of :: "request_context \<Rightarrow> db \<Rightarrow> invocation_row option" where
  "record_of ctx d = lookup iv_id (rc_uuid ctx 0) (invocations d)"

lemma record_of_others [simp]: "keeps_invocation ctx \<Longrightarrow> record_of ctx (rc_others ctx n d) = record_of ctx d"
  by (simp add: keeps_invocation_def record_of_def)

lemma start_recorded:
  assumes "start_invocation now (rc_uuid ctx 0) resolved n d = Inr (u, d')"
  shows "\<exists>row. record_of ctx d' = Some row \<and> iv_revision row = int (rt_revision resolved)
    \<and> iv_artifact_digest row = rt_artifact_digest resolved"
  using assms
  by (auto simp: start_invocation_def record_of_def rbind_Inr_iff lookup_append lookup_Cons
      split: if_splits option.splits)

lemma end_recorded:
  assumes "status \<in> set invocation_statuses" "record_of ctx d = Some row"
  shows "record_of ctx (record_end ctx status code duration out err d) = Some (row\<lparr>iv_status := status, iv_exit_code := code,
    iv_duration_ms := Some (saturate_i64 duration), iv_stdout_size := Some (saturate_i64 out),
    iv_stderr_size := Some (saturate_i64 err), iv_finished_at := Some (rc_clock ctx 2)\<rparr>)"
  using assms
  by (simp add: record_end_def finish_invocation_def record_of_def lookup_upd)

text \<open>The record of an invocation agrees with the answer to it.\<close>

definition recorded_as :: "request_context \<Rightarrow> api_error + invocation_response \<Rightarrow> invocation_row \<Rightarrow> bool" where
  "recorded_as ctx result row =
     (iv_finished_at row = Some (rc_clock ctx 2) \<and>
      (case result of
         Inr response \<Rightarrow>
           iv_revision row = int (ir_resolved_revision response) \<and> iv_exit_code row = Some (ir_exit_code response)
           \<and> iv_duration_ms row = Some (saturate_i64 (ir_duration_ms response))
           \<and> iv_status row = (if ir_exit_code response = 0 then ''succeeded'' else ''failed'')
       | Inl e \<Rightarrow> iv_exit_code row = None \<and> iv_status row = (if xe_status e = 504 then ''timed_out'' else ''failed'')))"

lemma worker_failure_recorded:
  assumes "worker_failure code = (recorded, http, text)"
  shows "recorded \<in> set invocation_statuses \<and> recorded = (if http = 504 then ''timed_out'' else ''failed'')"
  using assms by (cases code) (auto simp: invocation_statuses_def)

lemma run_recorded:
  assumes "keeps_invocation ctx" "se_metadata_ok env (''Bearer '' @ se_worker_token env)"
    and "record_of ctx d = Some row" "iv_revision row = int (rt_revision resolved)"
    and "run_invocation env ctx resolved args stdin t d = (result, d')"
  shows "\<exists>row'. record_of ctx d' = Some row' \<and> recorded_as ctx result row'
    \<and> iv_artifact_digest row' = iv_artifact_digest row"
  using assms
  by (auto simp: run_invocation_def Let_def recorded_as_def end_recorded invocation_statuses_def
      dest!: worker_failure_recorded split: sum.splits prod.splits)

lemma invoke_cases:
  assumes "invoke_tool env ctx raw request st d = (result, d')"
  obtains (refused) e where "result = Inl e" "d' = d"
  | (not_started) e stdin resolved timeout_ms where
      "admit_invocation env ctx raw request st d = Inr (stdin, resolved, timeout_ms)"
      "result = Inl e" "d' = rc_others ctx 1 d"
  | (started) stdin resolved timeout_ms d2 where
      "admit_invocation env ctx raw request st d = Inr (stdin, resolved, timeout_ms)"
      "start_invocation (rc_clock ctx 1) (rc_uuid ctx 0) resolved (length stdin) (rc_others ctx 1 d) = Inr ((), d2)"
      "run_invocation env ctx resolved (iq_args request) stdin timeout_ms d2 = (result, d')"
  using assms by (auto simp: invoke_tool_def Let_def queried_def split: sum.splits prod.splits)

section \<open>The limits of server and worker\<close>

definition worker_answer :: "service_env \<Rightarrow> string \<Rightarrow> artifact_store \<Rightarrow> db \<Rightarrow> execute_request
    \<Rightarrow> (grpc_status + execute_response) option" where
  "worker_answer senv container st d request =
     map_option (\<lambda>r. case r of
         Inl e \<Rightarrow> Inl (map_runner_error (sw_describe senv) e)
       | Inr output \<Rightarrow> Inr \<lparr>xr_exit_code = eo_exit_code output, xr_stdout = eo_stdout output,
                          xr_stderr = eo_stderr output, xr_duration_ms = eo_duration_ms output\<rparr>)
       (fst (execute (sw_artifact senv) (sw_docker senv (xq_timeout_ms request)) (sw_runner senv) container d st
          (xq_artifact_digest request) (xq_args request) (xq_stdin request)))"

text \<open>The channel to the worker: the service answers every request, and both sides share the token.\<close>

definition served_by :: "server_env \<Rightarrow> service_env \<Rightarrow> string \<Rightarrow> artifact_store \<Rightarrow> bool" where
  "served_by env senv container st \<longleftrightarrow>
     (\<forall>authorization d request. fst (service_execute senv container st (Some authorization) d request)
        = Some (se_worker env authorization d request))
     \<and> sw_token senv = se_worker_token env \<and> compares_bytes (sw_web senv)
     \<and> wx_to_str (sw_web senv) (''Bearer '' @ se_worker_token env) = Some (''Bearer '' @ se_worker_token env)"

lemma admitted:
  assumes "admit_invocation env ctx raw request st d = Inr (stdin, resolved, timeout_ms)"
  obtains name where "tool_name_from_str raw = Inr name" "check_invocation env ctx request = Inr stdin"
    "resolve_tool (se_registry env) name (iq_revision request) d = Inr resolved"
    "timeout_of env ctx st (rt_artifact_digest resolved) (iq_timeout_ms request) = Inr timeout_ms"
  using assms by (auto simp: admit_invocation_def parse_name_def queried_def refuse_def rbind_Inr_iff split: sum.splits)

lemma checked_invocation:
  "check_invocation env ctx request = Inr stdin \<Longrightarrow> se_base64_decode env (iq_stdin_base64 request) = Some stdin
    \<and> length (iq_args request) \<le> 128 \<and> \<not> list_ex (\<lambda>a. length a > 4096) (iq_args request)
    \<and> length stdin \<le> 4 * 1024 * 1024
    \<and> (case iq_timeout_ms request of None \<Rightarrow> True | Some t \<Rightarrow> 1 \<le> t \<and> t \<le> 30000)"
  by (auto simp: check_invocation_def refuse_def not_less split: if_splits option.splits)

lemma admitted_limits:
  assumes "admit_invocation env ctx raw request st d = Inr (stdin, resolved, timeout_ms)"
  shows "length (iq_args request) \<le> 128 \<and> \<not> list_ex (\<lambda>a. length a > 4096) (iq_args request)
    \<and> length stdin \<le> 4 * 1024 * 1024 \<and> 1 \<le> timeout_ms \<and> timeout_ms \<le> 30000"
proof -
  obtain name where check: "check_invocation env ctx request = Inr stdin"
    and "timeout_of env ctx st (rt_artifact_digest resolved) (iq_timeout_ms request) = Inr timeout_ms"
    using assms by (rule admitted)
  then have "1 \<le> timeout_ms \<and> timeout_ms \<le> 30000"
    using checked_invocation [OF check]
    by (auto simp: timeout_of_def default_execution_timeout_ms_def default_http_execution_timeout_ms_def
        split: option.splits sum.splits if_splits)
  then show ?thesis
    using checked_invocation [OF check] by blast
qed

lemma token_accepted:
  assumes "served_by env senv container st"
  shows "service_authenticated senv (Some (''Bearer '' @ se_worker_token env))"
  using assms by (simp add: served_by_def service_authenticated_def compares_bytes_def strip_prefix_def starts_with_def)

lemma worker_answers:
  assumes "served_by env senv container st"
    and "admit_invocation env ctx raw request st d = Inr (stdin, resolved, timeout_ms)"
  shows "worker_answer senv container st d1 \<lparr>xq_invocation_id = i, xq_artifact_digest = digest,
      xq_args = iq_args request, xq_stdin = stdin, xq_timeout_ms = timeout_ms\<rparr>
    = Some (se_worker env (''Bearer '' @ se_worker_token env) d1 \<lparr>xq_invocation_id = i, xq_artifact_digest = digest,
      xq_args = iq_args request, xq_stdin = stdin, xq_timeout_ms = timeout_ms\<rparr>)"
    (is "_ = Some (se_worker env ?a d1 ?r)")
proof -
  have "check_execute senv (Some ?a) ?r = Inr ()"
    using token_accepted [OF assms(1)] admitted_limits [OF assms(2)] by (simp add: check_execute_def)
  moreover have "fst (service_execute senv container st (Some ?a) d1 ?r) = Some (se_worker env ?a d1 ?r)"
    using assms(1) by (simp add: served_by_def)
  ultimately show ?thesis
    by (auto simp: service_execute_def worker_answer_def split: prod.splits option.splits sum.splits)
qed

lemma service_ends:
  assumes "\<And>t command stdin. ps_ending (dk_run (sw_docker env t) command stdin) \<noteq> None"
  shows "fst (service_execute env container st authorization d request) \<noteq> None"
proof (cases "check_execute env authorization request")
  case (Inr u)
  obtain r commands where run: "execute (sw_artifact env) (sw_docker env (xq_timeout_ms request)) (sw_runner env) container d
      st (xq_artifact_digest request) (xq_args request) (xq_stdin request) = (r, commands)"
    by fastforce
  have "fst (execute_inner (sw_artifact env) (sw_docker env (xq_timeout_ms request)) (sw_runner env) container d
      st (xq_artifact_digest request) (xq_args request) (xq_stdin request) None) \<noteq> None"
    by (rule execute_inner_ends) (rule assms)
  with run obtain z where "r = Some z"
    by (auto simp: execute_def)
  with Inr run show ?thesis
    by (cases z) (simp_all add: service_execute_def)
qed (simp add: service_execute_def)

lemma same_checks [simp]:
  "parse_name (env\<lparr>se_worker := worker\<rparr>) ctx raw = parse_name env ctx raw"
  "check_invocation (env\<lparr>se_worker := worker\<rparr>) ctx request = check_invocation env ctx request"
  "queried (env\<lparr>se_worker := worker\<rparr>) ctx r = queried env ctx r"
  "timeout_of (env\<lparr>se_worker := worker\<rparr>) ctx st digest t = timeout_of env ctx st digest t"
  by (auto simp: parse_name_def check_invocation_def queried_def timeout_of_def refuse_def split: sum.split option.split)

lemma same_admission [simp]:
  "admit_invocation (env\<lparr>se_worker := worker\<rparr>) ctx raw request st d = admit_invocation env ctx raw request st d"
  by (simp add: admit_invocation_def)

lemma run_served:
  assumes "served_by env senv container st"
    and "admit_invocation env ctx raw request st d = Inr (stdin, resolved, timeout_ms)"
  shows "run_invocation env ctx resolved (iq_args request) stdin timeout_ms d2 =
    run_invocation (env\<lparr>se_worker := (\<lambda>_ d r. the (worker_answer senv container st d r))\<rparr>) ctx resolved (iq_args request)
      stdin timeout_ms d2"
  by (simp add: run_invocation_def Let_def worker_answers [OF assms] cong: sum.case_cong)

lemma worker_answer_result:
  assumes "worker_answer senv container st d request = Some (Inr x)"
  shows "\<exists>out commands. execute_inner (sw_artifact senv) (sw_docker senv (xq_timeout_ms request)) (sw_runner senv) container
      d st (xq_artifact_digest request) (xq_args request) (xq_stdin request) None = (Some (Inr out), commands)
    \<and> x = \<lparr>xr_exit_code = eo_exit_code out, xr_stdout = eo_stdout out, xr_stderr = eo_stderr out,
      xr_duration_ms = eo_duration_ms out\<rparr>"
proof -
  obtain a commands where run: "execute_inner (sw_artifact senv) (sw_docker senv (xq_timeout_ms request)) (sw_runner senv)
      container d st (xq_artifact_digest request) (xq_args request) (xq_stdin request) None = (a, commands)"
    by fastforce
  with assms obtain z where "a = Some z" "(case z of
         Inl e \<Rightarrow> Inl (map_runner_error (sw_describe senv) e)
       | Inr out \<Rightarrow> Inr \<lparr>xr_exit_code = eo_exit_code out, xr_stdout = eo_stdout out,
                          xr_stderr = eo_stderr out, xr_duration_ms = eo_duration_ms out\<rparr>) = Inr x"
    by (auto simp: worker_answer_def execute_def)
  with run show ?thesis
    by (cases z) auto
qed

text \<open>A response of the server is what the resolved artifact made of the arguments and the input.\<close>

lemma invocation_runs:
  assumes "served_by env senv container st"
    and "invoke_tool env ctx raw request st d = (Inr response, d')"
  shows "\<exists>name resolved stdin timeout_ms d1 out commands.
    tool_name_from_str raw = Inr name
    \<and> resolve_tool (se_registry env) name (iq_revision request) d = Inr resolved
    \<and> se_base64_decode env (iq_stdin_base64 request) = Some stdin
    \<and> execute_inner (sw_artifact senv) (sw_docker senv timeout_ms) (sw_runner senv) container d1 st
        (rt_artifact_digest resolved) (iq_args request) stdin None = (Some (Inr out), commands)
    \<and> ir_resolved_revision response = rt_revision resolved \<and> ir_exit_code response = eo_exit_code out
    \<and> ir_stdout_base64 response = se_base64_encode env (eo_stdout out)
    \<and> ir_stderr_base64 response = se_base64_encode env (eo_stderr out)"
  using assms(2)
proof (cases rule: invoke_cases)
  case (started stdin resolved timeout_ms d2)
  from started(1) obtain name where name: "tool_name_from_str raw = Inr name"
    and check: "check_invocation env ctx request = Inr stdin"
    and resolved: "resolve_tool (se_registry env) name (iq_revision request) d = Inr resolved"
    by (rule admitted)
  let ?d = "rc_others ctx 2 d2" and ?r = "\<lparr>xq_invocation_id = x_show_uuid (se_registry env) (rc_uuid ctx 0),
    xq_artifact_digest = rt_artifact_digest resolved, xq_args = iq_args request, xq_stdin = stdin,
    xq_timeout_ms = timeout_ms\<rparr>"
  obtain x where x: "se_worker env (''Bearer '' @ se_worker_token env) ?d ?r = Inr x"
    and response: "ir_resolved_revision response = rt_revision resolved" "ir_exit_code response = xr_exit_code x"
      "ir_stdout_base64 response = se_base64_encode env (xr_stdout x)"
      "ir_stderr_base64 response = se_base64_encode env (xr_stderr x)"
    using started(3) by (auto simp: run_invocation_def Let_def split: sum.splits prod.splits if_splits)
  have "worker_answer senv container st ?d ?r = Some (Inr x)"
    by (subst worker_answers [OF assms(1) started(1)]) (rule arg_cong [OF x])
  then obtain out commands where
    "execute_inner (sw_artifact senv) (sw_docker senv timeout_ms) (sw_runner senv) container ?d st
        (rt_artifact_digest resolved) (iq_args request) stdin None = (Some (Inr out), commands)"
    "x = \<lparr>xr_exit_code = eo_exit_code out, xr_stdout = eo_stdout out, xr_stderr = eo_stderr out,
      xr_duration_ms = eo_duration_ms out\<rparr>"
    using worker_answer_result [of senv container st ?d ?r x] by auto
  with name resolved response checked_invocation [OF check] show ?thesis
    by (auto intro!: exI)
qed (use assms in simp_all)

end
