(* ===== verification/Server_Properties.thy ===== *)
theory Server_Properties
  imports Server_Invocation
begin

text \<open>
  The properties of the server and of invocations from end to end, with witnesses on a small
  server: the registry of \<open>Registry_Sample\<close> with the published tool \<open>slug\<close>, the toy artifact store,
  and the service of the worker behind the channel.
\<close>

section \<open>A small server\<close>

definition toy_web_ext :: web_ext where
  "toy_web_ext = \<lparr>wx_to_str = Some, wx_ct_eq = (=), wx_rfc3339 = show_int, wx_debug = (\<lambda>s. s)\<rparr>"

definition toy_service :: service_env where
  "toy_service = \<lparr>sw_web = toy_web_ext, sw_token = ''worker'', sw_artifact = ax0, sw_runner = toy_runner,
     sw_docker = (\<lambda>_. toy_docker), sw_describe = (\<lambda>_. ''failure'')\<rparr>"

definition toy_server :: server_env where
  "toy_server = \<lparr>se_web = toy_web_ext, se_registry = ext0, se_artifact = ax0, se_auth_token = ''secret'',
     se_worker_token = ''worker'',
     se_worker = (\<lambda>authorization d request.
       the (fst (service_execute toy_service ''c1'' toy_store (Some authorization) d request))),
     se_metadata_ok = (\<lambda>_. True), se_base64_decode = Some, se_base64_encode = (\<lambda>s. s), se_parse_json = (\<lambda>_. Inl ''no JSON'')\<rparr>"

definition toy_context :: request_context where
  "toy_context = \<lparr>rc_ulid = ''1'', rc_clock = (\<lambda>n. 300 + int n), rc_uuid = (\<lambda>n. 60 + n), rc_others = (\<lambda>_ d. d)\<rparr>"

text \<open>The published tool, with the artifact of the toy store.\<close>

definition db_served :: db where
  "db_served = db_published
     \<lparr>versions := map (\<lambda>v. v\<lparr>v_artifact_digest := Some toy_digest\<rparr>) (versions db_published),
      artifacts := map (\<lambda>a. a\<lparr>af_digest := toy_digest\<rparr>) (artifacts db_published)\<rparr>"

definition toy_invocation :: invocation_request where
  "toy_invocation = \<lparr>iq_revision = None, iq_args = [''x''], iq_content_type = ''text/plain; charset=utf-8'',
     iq_stdin_base64 = ''B'', iq_timeout_ms = Some 1000\<rparr>"

definition toy_session :: web_session where
  "toy_session = \<lparr>wb_id = ''s1'', wb_csrf_token = ''c1'', wb_expires_at = 900\<rparr>"

definition toy_headers :: headers where
  "toy_headers = [(''cookie'', ''theme=dark; jitforge_session=s1''), (''x-jitforge-csrf'', ''c1'')]"

definition toy_state :: server_state where
  "toy_state = \<lparr>sv_db = db_served, sv_store = toy_store, sv_sessions = [toy_session]\<rparr>"

lemma toy_compares: "compares_bytes (se_web toy_server)" "compares_bytes toy_web_ext"
  by (simp_all add: compares_bytes_def toy_server_def toy_web_ext_def)

lemma toy_orders: "visits_all (\<lambda>sessions. sessions)"
  by (simp add: visits_all_def)

lemma toy_served: "served_by toy_server toy_service ''c1'' toy_store"
proof -
  have "fst (service_execute toy_service ''c1'' toy_store authorization d request) \<noteq> None" for authorization d request
    by (rule service_ends) (simp add: toy_service_def toy_docker_def toy_process_def)
  then show ?thesis
    using toy_compares unfolding served_by_def
    by (simp add: toy_server_def toy_service_def [THEN arg_cong, of sw_token] toy_service_def [THEN arg_cong, of sw_web] toy_web_ext_def)
qed

lemma toy_run_live:
  "fst (execute_inner ax0 toy_docker toy_runner c d toy_store toy_digest args stdin None) = Some (Inr toy_output)"
proof -
  have "\<not> has_http (toy_artifact (draft1 ''A''))"
    by code_simp
  moreover obtain tag commands where "build_artifact ax0 toy_docker toy_store toy_digest = (Inr tag, commands)"
    using toy_build by blast
  moreover have "dk_run toy_docker command stdin = toy_process" for command
    by (simp add: toy_docker_def)
  ultimately show ?thesis
    by (simp add: execute_inner_def toy_load_artifact toy_await Let_def)
qed

definition toy_resolved_tool :: resolved_tool where
  "toy_resolved_tool = \<lparr>rt_tool_id = 10, rt_revision = 1, rt_artifact_digest = toy_digest, rt_input_format = Text,
     rt_output_format = Text\<rparr>"

lemma toy_admitted:
  "admit_invocation toy_server toy_context ''slug'' toy_invocation toy_store db_served = Inr (''B'', toy_resolved_tool, 1000)"
proof -
  have "parse_name toy_server toy_context ''slug'' = Inr (ToolName ''slug'')"
    "queried toy_server toy_context (resolve_tool (se_registry toy_server) (ToolName ''slug'') None db_served) = Inr toy_resolved_tool"
    "check_media_type toy_context Text ''text/plain; charset=utf-8'' = Inr ()"
    by code_simp+
  moreover have "check_invocation toy_server toy_context toy_invocation = Inr ''B''"
    by (simp add: check_invocation_def toy_invocation_def toy_server_def)
  ultimately show ?thesis
    by (simp add: admit_invocation_def timeout_of_def toy_invocation_def toy_resolved_tool_def)
qed

lemma toy_started: "\<exists>d. start_invocation 301 60 toy_resolved_tool 1 db_served = Inr ((), d)"
proof -
  have "(case start_invocation 301 60 toy_resolved_tool 1 db_served of Inl _ \<Rightarrow> False | Inr _ \<Rightarrow> True)"
    by code_simp
  then show ?thesis
    by (auto split: sum.splits)
qed

lemma toy_context_fields:
  "rc_clock toy_context n = 300 + int n" "rc_uuid toy_context n = 60 + n" "rc_others toy_context n d = d"
  "iq_args toy_invocation = [''x'']"
  by (simp_all add: toy_context_def toy_invocation_def)

lemma toy_invoked: "\<exists>response d. invoke_tool toy_server toy_context ''slug'' toy_invocation toy_store db_served = (Inr response, d)"
proof -
  obtain d2 where start: "start_invocation 301 60 toy_resolved_tool 1 db_served = Inr ((), d2)"
    using toy_started by blast
  let ?r = "\<lparr>xq_invocation_id = show_nat 60, xq_artifact_digest = toy_digest, xq_args = [''x''], xq_stdin = ''B'', xq_timeout_ms = 1000\<rparr>"
  have "worker_answer toy_service ''c1'' toy_store d2 ?r = Some (Inr \<lparr>xr_exit_code = eo_exit_code toy_output,
      xr_stdout = eo_stdout toy_output, xr_stderr = eo_stderr toy_output, xr_duration_ms = eo_duration_ms toy_output\<rparr>)"
    using toy_run_live [of "''c1''" d2 "[''x'']" "''B''"]
    by (simp add: worker_answer_def execute_def toy_service_def)
  then have "\<exists>response d. run_invocation (toy_server\<lparr>se_worker := (\<lambda>_ d r. the (worker_answer toy_service ''c1'' toy_store d r))\<rparr>)
      toy_context toy_resolved_tool [''x''] ''B'' 1000 d2 = (Inr response, d)"
    by (simp add: run_invocation_def Let_def toy_server_def toy_context_fields ext0_def toy_resolved_tool_def)
  then show ?thesis
    using run_served [OF toy_served toy_admitted, of d2] start
    by (simp add: invoke_tool_def toy_admitted Let_def toy_context_fields)
qed

section \<open>Authorisation and sessions\<close>

text \<open>C8: only authorised requests change the registry.  Whatever the request, when it changes the
  registry it came with the token of the server, or with the cookie of a session that has not
  expired and the CSRF token of that session.\<close>

theorem writes_are_authorised:
  assumes "compares_bytes (se_web env)"
    and "serve env ctx order i csrf database_ready headers call s = (response, s')"
    and "sv_db s' \<noteq> sv_db s"
  shows "may_write env (rc_clock ctx 0) headers (sv_sessions s)"
proof (cases call)
  case (Protected api)
  show ?thesis
  proof (cases "require_auth env ctx (api_method api) headers (sv_sessions s)")
    case (Pair r sessions)
    with Protected assms(2,3) obtain u where r: "r = Inr u"
      and "snd (handle env ctx headers api (sv_store s) (sv_db s)) \<noteq> sv_db s"
      by (cases r) (auto simp: serve_def Let_def split: prod.splits)
    then have "api_method api \<noteq> HttpGet"
      using reads_change_nothing by blast
    with require_auth_admits [OF assms(1), of ctx "api_method api" headers "sv_sessions s" u sessions] Pair r show ?thesis
      by blast
  qed
qed (use assms in \<open>auto simp: serve_def Let_def split: prod.splits\<close>)

theorem writes_are_authorised_witness:
  "may_write toy_server 300 toy_headers [toy_session]"
proof -
  obtain response s' where run: "serve toy_server toy_context (\<lambda>s. s) ''s2'' ''c2'' True toy_headers
      (Protected (RevokeToolVersion ''slug'' 1 ''old'')) toy_state = (response, s')"
    by fastforce
  have "case serve toy_server toy_context (\<lambda>s. s) ''s2'' ''c2'' True toy_headers
      (Protected (RevokeToolVersion ''slug'' 1 ''old'')) toy_state of
    (response, s') \<Rightarrow> map v_status (versions (sv_db s')) \<noteq> map v_status (versions (sv_db toy_state))"
    by code_simp
  then have "sv_db s' \<noteq> sv_db toy_state"
    by (simp only: run prod.case) metis
  from writes_are_authorised [OF toy_compares(1) run this] show ?thesis
    by (simp add: toy_context_def toy_state_def)
qed

text \<open>C24: the server holds at most 1024 sessions, each under its own identifier, and whatever the
  request: a session it holds afterwards it held before, or the request was a login with the
  token of the server, which opens one session for twelve hours.\<close>

theorem sessions_are_bounded_and_earned:
  assumes "compares_bytes (se_web env)" "visits_all order" "sessions_ok (sv_sessions s)"
    and "serve env ctx order i csrf database_ready headers call s = (response, s')"
  shows "sessions_ok (sv_sessions s') \<and> (\<forall>session\<in>set (sv_sessions s').
    session \<in> set (sv_sessions s) \<or> call = Login (se_auth_token env)
      \<and> session = \<lparr>wb_id = i, wb_csrf_token = csrf, wb_expires_at = rc_clock ctx 0 + session_ttl\<rparr>)"
proof (cases call)
  case (Protected api)
  with assms(3,4) show ?thesis
    by (cases "require_auth env ctx (api_method api) headers (sv_sessions s)")
      (auto simp: serve_def Let_def dest!: require_auth_sessions split: prod.splits sum.splits)
next
  case (Login token)
  obtain r sessions where login: "login (se_web env) (se_auth_token env) (rc_ulid ctx) order (rc_clock ctx 0) i csrf token
      (sv_sessions s) = (r, sessions)"
    by fastforce
  moreover have "sessions_ok sessions"
    using login assms(3) session_create_ok [OF assms(2,3), of "rc_clock ctx 0" session_ttl i csrf]
    by (auto simp: login_def Let_def split: if_splits prod.splits)
  ultimately show ?thesis
    using Login assms(4) login_sessions [OF assms(1) login] by (auto simp: serve_def Let_def)
next
  case CurrentSession
  with assms(3,4) show ?thesis
    by (auto simp: serve_def Let_def dest!: current_session_sessions split: prod.splits)
next
  case Logout
  with assms(3,4) show ?thesis
    by (auto simp: serve_def Let_def dest!: logout_sessions split: prod.splits)
qed (use assms in \<open>auto simp: serve_def Let_def split: prod.splits\<close>)

theorem sessions_are_bounded_and_earned_witness:
  "\<exists>response s'. serve toy_server toy_context (\<lambda>s. s) ''s2'' ''c2'' True [] (Login ''secret'') toy_state = (response, s')
     \<and> sessions_ok (sv_sessions s')"
proof -
  obtain response s' where run: "serve toy_server toy_context (\<lambda>s. s) ''s2'' ''c2'' True [] (Login ''secret'') toy_state
      = (response, s')"
    by fastforce
  have "sessions_ok (sv_sessions toy_state)"
    by (simp add: sessions_ok_def toy_state_def max_sessions_def)
  from sessions_are_bounded_and_earned [OF toy_compares(1) toy_orders this run] run show ?thesis
    by blast
qed

section \<open>Invocations\<close>



text \<open>C22: the worker never refuses a call of the server.  With the service behind the channel and the
  token shared, an invocation is answered exactly as when the worker ran every request without
  checking token and limits: what the server lets through is within the worker's limits, for
  requested and for default time limits.\<close>

theorem worker_accepts_the_server:
  assumes "served_by env senv container st"
  shows "invoke_tool env ctx raw request st d =
    invoke_tool (env\<lparr>se_worker := (\<lambda>_ d r. the (worker_answer senv container st d r))\<rparr>) ctx raw request st d"
  using run_served [OF assms]
  by (auto simp: invoke_tool_def Let_def split: sum.split)

theorem worker_accepts_the_server_witness:
  "invoke_tool toy_server toy_context ''slug'' toy_invocation toy_store db_served =
    invoke_tool (toy_server\<lparr>se_worker := (\<lambda>_ d r. the (worker_answer toy_service ''c1'' toy_store d r))\<rparr>)
      toy_context ''slug'' toy_invocation toy_store db_served"
  by (rule worker_accepts_the_server [OF toy_served])

text \<open>An invocation runs what was published.  A result of a call is the result of running, in the
  sandbox, the artifact of the ready revision that the tool's name resolved to, on the decoded
  input with the arguments of the request - for the requested revision, or else the stable one.\<close>

theorem invocation_runs_published_artifact:
  assumes "served_by env senv container st"
    and "invoke_tool env ctx raw request st d = (Inr response, d')"
  shows "\<exists>name resolved stdin timeout_ms d1 out commands.
    tool_name_from_str raw = Inr name
    \<and> resolve_tool (se_registry env) name (iq_revision request) d = Inr resolved
    \<and> se_base64_decode env (iq_stdin_base64 request) = Some stdin
    \<and> execute_inner (sw_artifact senv) (sw_docker senv timeout_ms) (sw_runner senv) container d1 st
        (rt_artifact_digest resolved) (iq_args request) stdin None = (Some (Inr out), commands)
    \<and> ir_resolved_revision response = rt_revision resolved \<and> ir_exit_code response = eo_exit_code out
    \<and> ir_stdout_base64 response = se_base64_encode env (eo_stdout out)
    \<and> ir_stderr_base64 response = se_base64_encode env (eo_stderr out)"
  using assms by (rule invocation_runs)

theorem invocation_runs_published_artifact_witness:
  "\<exists>response d resolved. invoke_tool toy_server toy_context ''slug'' toy_invocation toy_store db_served = (Inr response, d)
     \<and> resolve_tool ext0 (ToolName ''slug'') None db_served = Inr resolved
     \<and> ir_resolved_revision response = rt_revision resolved"
proof -
  obtain response d where run: "invoke_tool toy_server toy_context ''slug'' toy_invocation toy_store db_served = (Inr response, d)"
    using toy_invoked by blast
  have "tool_name_from_str ''slug'' = Inr (ToolName ''slug'')"
    by code_simp
  moreover have "se_registry toy_server = ext0" "iq_revision toy_invocation = None"
    by (simp_all add: toy_server_def toy_invocation_def)
  ultimately show ?thesis
    using invocation_runs_published_artifact [OF toy_served run] run by auto
qed

end
