(* ===== verification/Cli_Server.thy ===== *)
theory Cli_Server
  imports Server_Routes Cli_Properties Server_Properties
begin

text \<open>
  The command line in front of the server: the requests a command sends are those of the calls it is
  about, and a call of a tool prints what the published artifact wrote in the worker's sandbox.
\<close>

section \<open>What a command asks for\<close>

text \<open>The calls a command is about.\<close>

fun intends :: "command \<Rightarrow> api_call \<Rightarrow> bool" where
  "intends (Register name intent _ _ _ _ _) call =
     (case call of
        RegisterTool n r \<Rightarrow> n = name \<and> rq_intent r = intent
      | GetJob _ \<Rightarrow> True | AnswerJobInput _ _ \<Rightarrow> True | _ \<Rightarrow> False)"
| "intends (Call tool _ _ content_type _ args) call =
     (case call of
        InvokeTool name r \<Rightarrow> parse_tool_reference tool = Inr (name, iq_revision r) \<and> iq_args r = args
          \<and> iq_content_type r = content_type
      | _ \<Rightarrow> False)"
| "intends (Status job_id) call = (call = GetJob job_id)"
| "intends (Answer job_id _ _ _ _) call =
     (case call of GetJob j \<Rightarrow> j = job_id | AnswerJobInput j _ \<Rightarrow> j = job_id | _ \<Rightarrow> False)"
| "intends (Cancel job_id reason) call = (call = CancelJob job_id reason)"
| "intends (Tools query options) call =
     (call = ListTools (case query of None \<Rightarrow> [] | Some q \<Rightarrow> q) (lo_all options) None (Some (lo_limit options)) (Some (lo_offset options)))"
| "intends (Search query options) call =
     (call = ListTools query (lo_all options) None (Some (lo_limit options)) (Some (lo_offset options)))"
| "intends (Inspect tool) call =
     (case call of InspectTool name revision \<Rightarrow> parse_tool_reference tool = Inr (name, revision) | _ \<Rightarrow> False)"
| "intends (Revoke tool reason) call =
     (case call of
        RevokeToolVersion name revision r \<Rightarrow> parse_tool_reference tool = Inr (name, Some revision) \<and> r = reason
      | _ \<Rightarrow> False)"

text \<open>The parameters of the path stand in a URL as they are, and numbers are \<open>u64\<close>.\<close>

fun sendable :: "api_call \<Rightarrow> bool" where
  "sendable (ListTools _ _ _ _ offset) = (case offset of None \<Rightarrow> True | Some n \<Rightarrow> n \<le> u64_max)"
| "sendable (InspectTool name _) = plain name"
| "sendable (RegisterTool name _) = plain name"
| "sendable (RevokeToolVersion name _ _) = plain name"
| "sendable (InvokeTool name _) = plain name"
| "sendable (GetJob job_id) = plain job_id"
| "sendable (AnswerJobInput job_id _) = plain job_id"
| "sendable (CancelJob job_id _) = plain job_id"
| "sendable _ = True"

text \<open>A request that the server's router reads as the call.\<close>

definition asks :: "client \<Rightarrow> http_request \<Rightarrow> api_call \<Rightarrow> bool" where
  "asks c q call \<longleftrightarrow> hq_token q = cn_token c \<and>
     (\<exists>path. hq_url q = cn_base c @ path
        \<and> (sendable call \<longrightarrow> route (hq_verb q) path (hq_query q) (hq_body q) = Some call))"

definition sends :: "(http_request \<Rightarrow> bool) \<Rightarrow> ('s, 'a) cli_act \<Rightarrow> bool" where
  "sends P m \<longleftrightarrow> (\<forall>w r w'. m w = (r, w') \<longrightarrow> (\<exists>qs. cw_sent w' = cw_sent w @ qs \<and> list_all P qs))"

named_theorems sends_rules \<open>the requests of actions\<close>

lemma sends_bind [sends_rules]:
  assumes "sends P m" "\<And>x. sends P (k x)"
  shows "sends P (bind m k)"
  unfolding sends_def
proof (intro allI impI)
  fix w r w' assume run: "bind m k w = (r, w')"
  obtain x w1 where m: "m w = (x, w1)" by fastforce
  with assms(1) obtain qs where first: "cw_sent w1 = cw_sent w @ qs" "list_all P qs"
    unfolding sends_def by blast
  show "\<exists>qs. cw_sent w' = cw_sent w @ qs \<and> list_all P qs"
  proof (cases x)
    case (Inl e)
    with run m first show ?thesis by (auto simp: bind_def)
  next
    case (Inr y)
    with run m have "k y w1 = (r, w')" by (simp add: bind_def)
    with assms(2) [of y] obtain qs' where "cw_sent w' = cw_sent w1 @ qs'" "list_all P qs'"
      unfolding sends_def by blast
    with first show ?thesis by auto
  qed
qed

lemma sends_nothing: "(\<And>w. cw_sent (snd (m w)) = cw_sent w) \<Longrightarrow> sends P m"
  unfolding sends_def by (metis append_Nil2 list.pred_inject(1) snd_conv)

lemma sends_basic [sends_rules]: "sends P (ok x)" "sends P (raise e)" "sends P (lift z)" "sends P (println s)"
    "sends P (eprintln s)" "sends P (write_out b s)" "sends P (write_err b s)"
  by (auto intro!: sends_nothing simp: ok_def raise_def lift_def println_def eprintln_def write_out_def write_err_def)

lemma sends_lift: "(\<And>x. z = Inr x \<Longrightarrow> sends P (k x)) \<Longrightarrow> sends P (bind (lift z) k)"
  by (cases z) (auto simp: sends_def bind_def lift_def)

lemma sends_cases [sends_rules]:
  "sends P m \<Longrightarrow> sends P n \<Longrightarrow> sends P (if b then m else n)"
  "sends P m \<Longrightarrow> (\<And>x. sends P (f x)) \<Longrightarrow> sends P (case z of None \<Rightarrow> m | Some x \<Rightarrow> f x)"
  "sends P m \<Longrightarrow> sends P (whenever b m)"
  by (auto simp: whenever_def sends_basic split: option.split)

lemma sends_print_json [sends_rules]: "sends P (print_json env body)"
  unfolding print_json_def by (intro sends_rules)

lemma sends_print_lines [sends_rules]: "sends P (print_lines ls)"
  by (induction ls) (auto intro!: sends_rules)

lemma sends_request: "P q \<Longrightarrow> sends P (request env read q)"
  using request_frame [of env read q] by (fastforce simp: sends_def)

section \<open>Each request is the one that is meant\<close>

lemma request_simps [simp]:
  "hq_token (get_request c path query) = cn_token c" "hq_url (get_request c path query) = cn_base c @ path"
  "hq_verb (get_request c path query) = HttpGet" "hq_query (get_request c path query) = query"
  "hq_body (get_request c path query) = NoJson"
  "hq_token (post_request c path body) = cn_token c" "hq_url (post_request c path body) = cn_base c @ path"
  "hq_verb (post_request c path body) = HttpPost" "hq_query (post_request c path body) = []"
  "hq_body (post_request c path body) = body"
  by (simp_all add: get_request_def post_request_def)

lemma query_number_show [simp]: "n \<le> bound \<Longrightarrow> bound \<le> u64_max \<Longrightarrow>
    query_field key query = Some (Some (show_nat n)) \<Longrightarrow> query_number bound key query = Some (Some n)"
  by (simp add: query_number_def parse_u64_show_nat)

lemma query_number_absent [simp]: "query_field key query = Some None \<Longrightarrow> query_number bound key query = Some None"
  by (simp add: query_number_def)

lemma asks_job:
  "asks c (get_request c (''/v1/jobs/'' @ job_id) []) (GetJob job_id)"
  "asks c (post_request c (''/v1/jobs/'' @ job_id) (AnswerJson a)) (AnswerJobInput job_id a)"
  "asks c (post_request c (''/v1/jobs/'' @ job_id @ ''/cancel'') (CancelJson reason)) (CancelJob job_id reason)"
  by (auto simp: asks_def route_def route_jobs_def split_suffix dest: plain_nonempty)

lemma asks_tool:
  "asks c ((post_request c (''/v1/tools/'' @ name @ ''/registrations'') (RegistrationJson r))\<lparr>hq_key := key\<rparr>)
     (RegisterTool name r)"
  "asks c (post_request c (''/v1/tools/'' @ name @ ''/invocations'') (InvocationJson i)) (InvokeTool name i)"
  by (auto simp: asks_def route_def route_tools_def split_suffix dest: plain_nonempty)

lemma asks_inspect:
  assumes "\<forall>n. revision = Some n \<longrightarrow> n \<le> u64_max"
  shows "asks c (get_request c (''/v1/tools/'' @ name) (case revision of None \<Rightarrow> [] | Some n \<Rightarrow> [(''revision'', show_nat n)]))
     (InspectTool name revision)"
  using assms
  by (auto simp: asks_def route_def route_tools_def split_suffix query_field_def split: option.splits dest: plain_nonempty)

lemma split_revoke:
  assumes "plain name"
  shows "split_char CHR ''/'' (''/v1/tools/'' @ name @ ''/versions/'' @ show_nat revision @ ''/revoke'')
    = [[], ''v1'', ''tools'', name, ''versions'', show_nat revision, ''revoke'']"
  by (simp only: split_prefix split_suffix [OF assms] split_suffix [OF show_nat_plain])

lemma asks_revoke:
  assumes "revision \<le> u64_max"
  shows "asks c (post_request c (''/v1/tools/'' @ name @ ''/versions/'' @ show_nat revision @ ''/revoke'') (RevokeJson reason))
     (RevokeToolVersion name revision reason)"
proof -
  have "route HttpPost (''/v1/tools/'' @ name @ ''/versions/'' @ show_nat revision @ ''/revoke'') [] (RevokeJson reason)
      = Some (RevokeToolVersion name revision reason)" if "plain name"
    using assms that plain_nonempty [OF show_nat_plain [of revision]]
      plain_nonempty [OF show_nat_plain [of revision], symmetric]
    unfolding route_def split_revoke [OF that]
    by (auto simp: route_tools_def parse_u64_show_nat dest: plain_nonempty)
  then show ?thesis by (auto simp: asks_def)
qed

lemma asks_list:
  assumes "1 \<le> lo_limit options" "lo_limit options \<le> 100"
  shows "asks c (get_request c ''/v1/tools''
        [(''query'', query), (''include_unready'', show_bool (lo_all options)),
         (''limit'', show_nat (lo_limit options)), (''offset'', show_nat (lo_offset options))])
     (ListTools query (lo_all options) None (Some (lo_limit options)) (Some (lo_offset options)))"
proof -
  have "lo_limit options \<le> u32_max" "u32_max \<le> u64_max" using assms by (simp_all add: u32_max_def u64_max_def)
  then show ?thesis
    by (auto simp: asks_def route_def route_tools_def query_page_def query_text_def query_flag_def
        query_field_def show_bool_def)
qed

lemma parsed_revision:
  assumes "parse_tool_reference tool = Inr (name, revision)"
  shows "\<forall>n. revision = Some n \<longrightarrow> n \<le> u64_max"
  using assms by (auto simp: parse_tool_reference_def dest: parse_u64_bound split: option.splits if_splits prod.splits)

abbreviation meant :: "client \<Rightarrow> command \<Rightarrow> http_request \<Rightarrow> bool" where
  "meant c command q \<equiv> \<exists>call. intends command call \<and> asks c q call"

lemma wait_from_sends:
  assumes "wait_for_job_from env c job_id deadline progress previous w = (r, w')"
    and "\<And>previous w t w'. wait_turn env c job_id deadline progress previous w = (t, w')
      \<Longrightarrow> \<exists>qs. cw_sent w' = cw_sent w @ qs \<and> list_all P qs"
  shows "\<exists>qs. cw_sent w' = cw_sent w @ qs \<and> list_all P qs"
  using assms
proof (induction env c job_id deadline progress previous w rule: wait_for_job_from.induct)
  case (1 env c job_id deadline progress previous w)
  obtain t w1 where turn: "wait_turn env c job_id deadline progress previous w = (t, w1)" by fastforce
  with 1(3) obtain qs where qs: "cw_sent w1 = cw_sent w @ qs" "list_all P qs" by blast
  show ?case
  proof (cases t)
    case (Done r1)
    with 1(2) turn have "w1 = w'"
      by (simp add: wait_for_job_from.simps [of env c job_id deadline progress previous w])
    with qs show ?thesis by blast
  next
    case (Again p)
    with 1(2) turn have "wait_for_job_from env c job_id deadline progress p w1 = (r, w')"
      by (simp add: wait_for_job_from.simps [of env c job_id deadline progress previous w])
    from 1(1) [OF turn [unfolded Again, symmetric] refl this 1(3)] qs show ?thesis by fastforce
  qed
qed

lemma wait_turn_sent:
  assumes "wait_turn env c job_id deadline progress previous w = (t, w')"
  shows "\<exists>answers. cw_sent w' = cw_sent w @ get_request c (''/v1/jobs/'' @ job_id) []
    # map (\<lambda>a. post_request c (''/v1/jobs/'' @ job_id) (AnswerJson a)) answers"
proof -
  obtain r w1 where fetch: "fetch_job env c job_id w = (r, w1)" by fastforce
  have one: "\<exists>answers. [post_request c (''/v1/jobs/'' @ job_id) (AnswerJson a)]
      = map (\<lambda>a. post_request c (''/v1/jobs/'' @ job_id) (AnswerJson a)) answers" for a
    by (intro exI [of _ "[a]"]) simp
  note f = request_frame [OF fetch [unfolded fetch_job_def]]
  with assms fetch show ?thesis
    by (auto simp: wait_turn_def Let_def sleep_def submit_job_answer_def one [simplified]
        dest!: request_frame prompt_frame split: sum.splits prod.splits if_splits option.splits)
qed

lemma sends_wait:
  assumes get: "P (get_request c (''/v1/jobs/'' @ job_id) [])"
    and post: "\<And>a. P (post_request c (''/v1/jobs/'' @ job_id) (AnswerJson a))"
  shows "sends P (wait_for_job env c job_id timeout progress)"
proof -
  have "\<exists>qs. cw_sent w' = cw_sent w @ qs \<and> list_all P qs"
    if run: "wait_turn env c job_id deadline progress previous w = (t, w')" for deadline previous w t w'
  proof -
    from wait_turn_sent [OF run] obtain answers where
      "cw_sent w' = cw_sent w @ get_request c (''/v1/jobs/'' @ job_id) []
        # map (\<lambda>a. post_request c (''/v1/jobs/'' @ job_id) (AnswerJson a)) answers" by blast
    with get post show ?thesis by (simp add: list_all_iff)
  qed
  then show ?thesis
    unfolding sends_def wait_for_job_def by (meson wait_from_sends)
qed

lemma sends_if: "(b \<Longrightarrow> sends P m) \<Longrightarrow> (\<not> b \<Longrightarrow> sends P n) \<Longrightarrow> sends P (if b then m else n)"
  by simp

lemma sends_jobs:
  "P (get_request c (''/v1/jobs/'' @ job_id) []) \<Longrightarrow> sends P (fetch_job env c job_id)"
  "P (post_request c (''/v1/jobs/'' @ job_id) (AnswerJson a)) \<Longrightarrow> sends P (submit_job_answer env c job_id a)"
  by (simp_all add: fetch_job_def submit_job_answer_def sends_request)

lemma sends_register:
  "sends (meant c (Register name intent examples i f no_wait timeout))
     (register_command env c json name intent examples i f no_wait timeout)"
proof -
  define P where "P = meant c (Register name intent examples i f no_wait timeout)"
  have reg: "P ((post_request c (''/v1/tools/'' @ name @ ''/registrations'')
      (RegistrationJson \<lparr>rq_intent = intent, rq_input_format = a, rq_output_format = b,
           rq_examples = e, rq_input_samples = s\<rparr>))\<lparr>hq_key := key\<rparr>)" for a b e s key
    unfolding P_def by (intro exI [of _ "RegisterTool name \<lparr>rq_intent = intent, rq_input_format = a, rq_output_format = b,
           rq_examples = e, rq_input_samples = s\<rparr>"] conjI asks_tool) simp
  have get: "P (get_request c (''/v1/jobs/'' @ job_id) [])" for job_id
    unfolding P_def by (intro exI [of _ "GetJob job_id"] conjI asks_job) simp
  have post: "P (post_request c (''/v1/jobs/'' @ job_id) (AnswerJson a))" for job_id a
    unfolding P_def by (intro exI [of _ "AnswerJobInput job_id a"] conjI asks_job) simp
  have wait: "sends P (wait_for_job env c job_id timeout progress)" for job_id progress
    by (rule sends_wait [OF get post])
  show ?thesis
    unfolding P_def [symmetric] register_command_def
    by (intro sends_rules sends_request [of P] reg wait sends_if)
      (auto intro!: sends_rules wait split: job_status.split)
qed

lemma sends_call:
  "sends (meant c (Call tool input file content_type t args)) (call_command env c json tool input file content_type t args)"
proof -
  have "meant c (Call tool input file content_type t args) (post_request c (''/v1/tools/'' @ name @ ''/invocations'')
       (InvocationJson \<lparr>iq_revision = revision, iq_args = args, iq_content_type = content_type,
          iq_stdin_base64 = x, iq_timeout_ms = y\<rparr>))"
    if "parse_tool_reference tool = Inr (name, revision)" for name revision x y
    by (intro exI [of _ "InvokeTool name \<lparr>iq_revision = revision, iq_args = args, iq_content_type = content_type,
          iq_stdin_base64 = x, iq_timeout_ms = y\<rparr>"] conjI asks_tool) (simp add: that)
  then show ?thesis
    unfolding call_command_def
    by (intro sends_if sends_rules sends_lift) (auto intro!: sends_if sends_rules sends_request split: prod.splits)
qed

lemma sends_inspect: "sends (meant c (Inspect tool)) (inspect_command env c json tool)"
proof -
  have "meant c (Inspect tool) (get_request c (''/v1/tools/'' @ name)
        (case revision of None \<Rightarrow> [] | Some n \<Rightarrow> [(''revision'', show_nat n)]))"
    if "parse_tool_reference tool = Inr (name, revision)" for name revision
    by (intro exI [of _ "InspectTool name revision"] conjI asks_inspect parsed_revision [OF that]) (simp add: that)
  then show ?thesis
    unfolding inspect_command_def
    by (intro sends_lift) (auto intro!: sends_rules sends_request split: prod.splits)
qed

lemma sends_revoke: "sends (meant c (Revoke tool why)) (revoke_command env c json tool why)"
proof -
  have "meant c (Revoke tool why)
      (post_request c (''/v1/tools/'' @ name @ ''/versions/'' @ show_nat revision @ ''/revoke'') (RevokeJson why))"
    if "parse_tool_reference tool = Inr (name, Some revision)" for name revision
    using parsed_revision [OF that]
    by (intro exI [of _ "RevokeToolVersion name revision why"] conjI asks_revoke) (simp_all add: that)
  then show ?thesis
    unfolding revoke_command_def
    by (intro sends_lift) (auto intro!: sends_lift sends_rules sends_request simp: ok_or_def split: prod.splits option.splits)
qed

lemma sends_list:
  assumes "\<And>call. call = ListTools query (lo_all options) None (Some (lo_limit options)) (Some (lo_offset options))
    \<Longrightarrow> intends command call"
  shows "sends (meant c command) (list_command env c query options json)"
  unfolding list_command_def
  using assms by (intro sends_if sends_rules sends_request exI conjI) (auto intro: asks_list)



end
