(* ===== verification/Cli_Call.thy ===== *)
theory Cli_Call
  imports Cli_Server
begin

text \<open>
  A call from end to end: the client's request goes through the router and the handlers of the server
  to the worker, and what the client prints is what the published artifact wrote.
\<close>

section \<open>The server behind a URL\<close>

definition headers_of :: "http_request \<Rightarrow> headers" where
  "headers_of q = (''authorization'', ''Bearer '' @ hq_token q)
     # (case hq_key q of None \<Rightarrow> [] | Some key \<Rightarrow> [(idempotency_key_header, key)])"

definition reply_of :: "api_result \<Rightarrow> http_reply" where
  "reply_of result =
     (case result of
        Inr (status, body) \<Rightarrow> \<lparr>rl_status = status, rl_body = Some body, rl_error = None\<rparr>
      | Inl e \<Rightarrow> \<lparr>rl_status = xe_status e, rl_body = None, rl_error = Some (xe_body e)\<rparr>)"

text \<open>The server as the client meets it: \<open>base\<close> is its URL, \<open>contexts\<close> the context of a request at a
  time, and \<open>refusal\<close> what axum answers to a request that has no handler.\<close>

definition deliver :: "server_env \<Rightarrow> (nat \<Rightarrow> request_context) \<Rightarrow> (http_request \<Rightarrow> http_reply) \<Rightarrow> string
    \<Rightarrow> nat \<Rightarrow> http_request \<Rightarrow> server_state \<Rightarrow> http_reply option \<times> server_state" where
  "deliver env contexts refusal base now q s =
     (case Option.bind (strip_prefix base (hq_url q)) (\<lambda>path. route (hq_verb q) path (hq_query q) (hq_body q)) of
        None \<Rightarrow> (Some (refusal q), s)
      | Some call \<Rightarrow>
          let (result, s') = serve env (contexts now) (\<lambda>sessions. sessions) [] [] True (headers_of q) (Protected call) s
          in (Some (reply_of result), s'))"

lemma strip_prefix_append [simp]: "strip_prefix p (p @ s) = Some s"
  by (simp add: strip_prefix_def starts_with_def)

lemma deliver_asked:
  assumes "asks c q call" "sendable call"
  shows "deliver env contexts refusal (cn_base c) now q s =
    (let (result, s') = serve env (contexts now) (\<lambda>sessions. sessions) [] [] True (headers_of q) (Protected call) s
     in (Some (reply_of result), s'))"
  using assms by (auto simp: asks_def deliver_def)

text \<open>A success of a protected route is one of its handler.\<close>

lemma served_success:
  assumes "serve env ctx order i csrf dr headers (Protected call) s = (Inr answer, s')"
  shows "handle env ctx headers call (sv_store s) (sv_db s) = (Inr answer, sv_db s')"
  using assms by (auto simp: serve_def Let_def split: prod.splits sum.splits)

lemma decoded:
  assumes "decode_response env read (reply_of result) = Inr x"
  shows "\<exists>status body. result = Inr (status, body) \<and> read body = Some x"
  using assms by (auto simp: decode_response_def reply_of_def ok_or_def split: if_splits sum.splits option.splits bind_splits)

lemma as_invocation_iff: "as_invocation body = Some r \<longleftrightarrow> body = InvocationBody r"
  by (cases body) auto

lemma invoked:
  assumes "handle env ctx headers (InvokeTool raw i) st d = (Inr (status, InvocationBody r), d')"
  shows "invoke_tool env ctx raw i st d = (Inr r, d')"
  using assms by (cases "invoke_tool env ctx raw i st d")
    (auto simp: handle_def answers_def split: sum.splits)

text \<open>What a request gives when the server answers it.\<close>

lemma requested:
  assumes "request cenv read q w = (Inr x, w')"
    and "ce_serve cenv = deliver env contexts refusal (cn_base c)" "asks c q call" "sendable call"
  obtains now status body d' where "handle env (contexts now) (headers_of q) call (sv_store (cw_server w))
      (sv_db (cw_server w)) = (Inr (status, body), d')" "read body = Some x"
    "cw_stdout w' = cw_stdout w" "cw_stderr w' = cw_stderr w"
proof -
  let ?now = "cw_now w + ce_latency cenv (length (cw_sent w))"
  obtain result s' where s: "serve env (contexts ?now) (\<lambda>sessions. sessions) [] [] True (headers_of q) (Protected call)
      (cw_server w) = (result, s')" by fastforce
  have frame: "decode_response cenv read (reply_of result) = Inr x" "cw_stdout w' = cw_stdout w" "cw_stderr w' = cw_stderr w"
    using assms(1) by (auto simp: request_def bind_def send_def lift_def Let_def assms(2) deliver_asked [OF assms(3,4)] s ok_or_def)
  from decoded [OF this(1)] obtain status body where "result = Inr (status, body)" "read body = Some x"
    by blast
  with s that [of ?now status body "sv_db s'"] served_success frame show ?thesis by blast
qed

section \<open>A call\<close>

lemma bind_Inr_iff: "bind m k w = (Inr x, w') \<longleftrightarrow> (\<exists>y w1. m w = (Inr y, w1) \<and> k y w1 = (Inr x, w'))"
  by (auto simp: bind_def split: prod.splits sum.splits)

lemma action_results [simp]:
  "lift z w = (Inr y, w') \<longleftrightarrow> z = Inr y \<and> w' = w" "raise e w = (Inr y, w') \<longleftrightarrow> False" "ok x w = (Inr y, w') \<longleftrightarrow> x = y \<and> w' = w"
  by (auto simp: lift_def raise_def ok_def)

lemma call_command_success:
  assumes "call_command cenv c False tool input file content_type timeout args w = (Inr code, w')"
  obtains raw revision stdin y response w1 out err where
    "parse_tool_reference tool = Inr (raw, revision)" "read_call_input cenv input file = Inr stdin"
    "request cenv as_invocation (post_request c (''/v1/tools/'' @ raw @ ''/invocations'')
       (InvocationJson \<lparr>iq_revision = revision, iq_args = args, iq_content_type = content_type,
          iq_stdin_base64 = ce_base64_encode cenv stdin, iq_timeout_ms = y\<rparr>)) w = (Inr response, w1)"
    "ce_base64_decode cenv (ir_stdout_base64 response) = Some out"
    "ce_base64_decode cenv (ir_stderr_base64 response) = Some err"
    "cw_stdout w' = cw_stdout w1 @ [out]" "cw_stderr w' = cw_stderr w1 @ [err]"
    "code = clamp 0 125 (ir_exit_code response)"
  using assms that
  by (auto simp: call_command_def bind_Inr_iff ok_or_def write_out_def write_err_def
      split: if_splits prod.splits option.splits)

text \<open>C9: a call prints what the tool wrote.  When \<open>jit call\<close> succeeds - client, router, handlers, channel
  and worker together - then the input that was read and the arguments were run in the worker's
  sandbox on the artifact to which the registry resolves the tool reference, and standard output,
  standard error and exit code of the client are those of that run, byte for byte.\<close>

theorem call_prints_tool_output:
  assumes "ce_serve cenv = deliver env contexts refusal (cn_base c)"
    and "served_by env senv container (sv_store (cw_server w))"
    and "\<forall>s. se_base64_decode env (ce_base64_encode cenv s) = Some s"
    and "\<forall>s. ce_base64_decode cenv (se_base64_encode env s) = Some s"
    and "parse_tool_reference tool = Inr (raw, revision)" "plain raw"
    and "call_command cenv c False tool input file content_type timeout args w = (Inr code, w')"
  shows "\<exists>stdin name resolved timeout_ms d out commands.
    read_call_input cenv input file = Inr stdin \<and> tool_name_from_str raw = Inr name
    \<and> resolve_tool (se_registry env) name revision (sv_db (cw_server w)) = Inr resolved
    \<and> execute_inner (sw_artifact senv) (sw_docker senv timeout_ms) (sw_runner senv) container d (sv_store (cw_server w))
        (rt_artifact_digest resolved) args stdin None = (Some (Inr out), commands)
    \<and> cw_stdout w' = cw_stdout w @ [eo_stdout out] \<and> cw_stderr w' = cw_stderr w @ [eo_stderr out]
    \<and> code = clamp 0 125 (eo_exit_code out)"
  using assms(7)
proof (rule call_command_success, goal_cases)
  case (1 raw' revision' stdin y response w1 out err)
  then have ref: "raw' = raw" "revision' = revision" using assms(5) by simp_all
  let ?i = "\<lparr>iq_revision = revision, iq_args = args, iq_content_type = content_type,
    iq_stdin_base64 = ce_base64_encode cenv stdin, iq_timeout_ms = y\<rparr>"
  have "sendable (InvokeTool raw ?i)" using assms(6) by simp
  from requested [OF 1(3) [unfolded ref] assms(1) asks_tool(2) this]
  obtain now status body d' where handled: "handle env (contexts now)
      (headers_of (post_request c (''/v1/tools/'' @ raw @ ''/invocations'') (InvocationJson ?i))) (InvokeTool raw ?i)
      (sv_store (cw_server w)) (sv_db (cw_server w)) = (Inr (status, body), d')" "as_invocation body = Some response"
    and printed: "cw_stdout w1 = cw_stdout w" "cw_stderr w1 = cw_stderr w" .
  from handled have "invoke_tool env (contexts now) raw ?i (sv_store (cw_server w)) (sv_db (cw_server w)) = (Inr response, d')"
    by (auto simp: as_invocation_iff intro: invoked)
  from invocation_runs [OF assms(2) this] 1 assms(3,4) printed show ?case
    by (fastforce simp: ref)
qed

definition toy_cli :: "server_state cli_env" where
  "toy_cli = \<lparr>ce_host = \<lparr>he_var = (\<lambda>_. None), he_file = (\<lambda>_. \<lparr>kf_exists = False, kf_text = None, kf_mode = None\<rparr>),
       he_toml = (\<lambda>_. None)\<rparr>,
     ce_serve = deliver toy_server (\<lambda>_. toy_context) (\<lambda>_. \<lparr>rl_status = 404, rl_body = None, rl_error = None\<rparr>) ''http://s'',
     ce_latency = (\<lambda>_. 1000), ce_oversleep = (\<lambda>_. 0), ce_uuid = ''u'', ce_stdin = None, ce_read_file = (\<lambda>_. None),
     ce_is_utf8 = (\<lambda>_. True), ce_client_builds = True, ce_stdout_ok = True, ce_stderr_ok = True,
     ce_base64_encode = (\<lambda>s. s), ce_base64_decode = Some, ce_json = (\<lambda>_. None), ce_pretty = (\<lambda>_. None),
     ce_debug = (\<lambda>s. s), ce_status_text = show_nat\<rparr>"

definition toy_client :: client where
  "toy_client = \<lparr>cn_base = ''http://s'', cn_token = ''secret''\<rparr>"

definition calling_world :: "server_state cli_world" where
  "calling_world = \<lparr>cw_server = toy_state, cw_now = 0, cw_sent = [], cw_tty = None, cw_console = [], cw_stdout = [], cw_stderr = []\<rparr>"

lemma toy_cli_fields:
  "ce_serve toy_cli = deliver toy_server (\<lambda>_. toy_context) (\<lambda>_. \<lparr>rl_status = 404, rl_body = None, rl_error = None\<rparr>) (cn_base toy_client)"
  "ce_base64_decode toy_cli s = Some s" "ce_base64_encode toy_cli s = s" "ce_stdout_ok toy_cli" "ce_stderr_ok toy_cli"
  "cw_server calling_world = toy_state" "cw_stdout calling_world = []" "cw_stderr calling_world = []"
  by (simp_all add: toy_cli_def toy_client_def calling_world_def)

lemma toy_admits: "require_auth toy_server ctx verb ((''authorization'', ''Bearer secret'') # headers) sessions = (Inr (), sessions)"
  by (simp add: require_auth_def bearer_authorized_def header_text_def toy_server_def toy_web_ext_def constant_time_eq_def
      strip_prefix_def starts_with_def)

lemma toy_called: "\<exists>code w'. call_command toy_cli toy_client False ''slug'' (Some ''B'') None ''text/plain; charset=utf-8''
    (Some 1000000000) [''x''] calling_world = (Inr code, w')"
proof -
  obtain response d where run: "invoke_tool toy_server toy_context ''slug'' toy_invocation toy_store db_served = (Inr response, d)"
    using toy_invoked by blast
  let ?q = "post_request toy_client (''/v1/tools/'' @ ''slug'' @ ''/invocations'') (InvocationJson toy_invocation)"
  have "plain ''slug''" by code_simp
  then have "deliver toy_server contexts refusal (cn_base toy_client) now ?q s =
    (let (result, s') = serve toy_server (contexts now) (\<lambda>sessions. sessions) [] [] True (headers_of ?q)
       (Protected (InvokeTool ''slug'' toy_invocation)) s in (Some (reply_of result), s'))" for contexts refusal now s
    by (intro deliver_asked asks_tool(2)) simp
  moreover have "headers_of ?q = [(''authorization'', ''Bearer secret'')]"
    by (simp add: headers_of_def post_request_def toy_client_def)
  ultimately have "deliver toy_server (\<lambda>_. toy_context) refusal (cn_base toy_client) now ?q toy_state =
      (Some \<lparr>rl_status = 200, rl_body = Some (InvocationBody response), rl_error = None\<rparr>, toy_state\<lparr>sv_db := d\<rparr>)" for refusal now
    by (simp add: serve_def Let_def toy_admits handle_def run reply_of_def answers_def toy_state_def)
  moreover have "parse_tool_reference ''slug'' = Inr (''slug'', None)" by code_simp
  moreover have "toy_invocation = \<lparr>iq_revision = None, iq_args = [''x''], iq_content_type = ''text/plain; charset=utf-8'',
      iq_stdin_base64 = ce_base64_encode toy_cli ''B'', iq_timeout_ms = Some (1000000000 div 1000000)\<rparr>"
    by (simp add: toy_invocation_def toy_cli_def)
  ultimately show ?thesis
    by (simp add: call_command_def bind_def lift_def read_call_input_def request_def send_def decode_response_def
        toy_cli_fields Let_def ok_or_def write_out_def write_err_def ok_def)
qed

theorem call_prints_tool_output_witness:
  "\<exists>w'. call_command toy_cli toy_client False ''slug'' (Some ''B'') None ''text/plain; charset=utf-8'' (Some 1000000000) [''x'']
      calling_world = (Inr (clamp 0 125 (eo_exit_code toy_output)), w')
    \<and> cw_stdout w' = [eo_stdout toy_output] \<and> cw_stderr w' = [eo_stderr toy_output]"
proof -
  obtain code w' where run: "call_command toy_cli toy_client False ''slug'' (Some ''B'') None ''text/plain; charset=utf-8''
      (Some 1000000000) [''x''] calling_world = (Inr code, w')"
    using toy_called by blast
  have "parse_tool_reference ''slug'' = Inr (''slug'', None)" "plain ''slug''"
    and name: "tool_name_from_str ''slug'' = Inr (ToolName ''slug'')"
    by code_simp+
  moreover have "served_by toy_server toy_service ''c1'' (sv_store (cw_server calling_world))"
    using toy_served by (simp add: toy_cli_fields toy_state_def)
  moreover have "\<forall>s. se_base64_decode toy_server (ce_base64_encode toy_cli s) = Some s"
    "\<forall>s. ce_base64_decode toy_cli (se_base64_encode toy_server s) = Some s"
    by (simp_all add: toy_cli_fields toy_server_def)
  ultimately obtain stdin name resolved timeout_ms d out commands where
    found: "tool_name_from_str ''slug'' = Inr name"
      "resolve_tool (se_registry toy_server) name None (sv_db (cw_server calling_world)) = Inr resolved"
    and out: "execute_inner (sw_artifact toy_service) (sw_docker toy_service timeout_ms) (sw_runner toy_service) ''c1'' d
      (sv_store (cw_server calling_world)) (rt_artifact_digest resolved) [''x''] stdin None = (Some (Inr out), commands)"
    and printed: "cw_stdout w' = cw_stdout calling_world @ [eo_stdout out]" "cw_stderr w' = cw_stderr calling_world @ [eo_stderr out]"
      "code = clamp 0 125 (eo_exit_code out)"
    using call_prints_tool_output [OF toy_cli_fields(1) _ _ _ _ _ run] by blast
  have "resolve_tool (se_registry toy_server) (ToolName ''slug'') None db_served = Inr toy_resolved_tool"
    by code_simp
  with found name have "rt_artifact_digest resolved = toy_digest"
    by (simp add: toy_cli_fields toy_state_def toy_resolved_tool_def)
  with out toy_run_live [of "''c1''" d "[''x'']" stdin] have "out = toy_output"
    by (simp add: toy_service_def toy_cli_fields toy_state_def)
  with run printed show ?thesis by (simp add: toy_cli_fields)
qed

end
