(* ===== verification/Worker_Start.thy ===== *)
theory Worker_Start
  imports Config Runner Artifact_Store Synthesis Registry_Lists Web_Safety
begin

text \<open>
  src/apps/jit-worker/src/main.rs: how a worker starts.  The steps are in the order of
  \<open>main\<close>: settings, registry, web access, runner, its prerequisites, the clean-up of what an
  earlier worker left behind, and the synthesizer.  The tasks that then run for ever - the
  heartbeat, the compaction of traces, the job loop and the gRPC service - call operations
  that are modelled with their components.
\<close>

section \<open>Cleaning up\<close>

text \<open>\<open>registry\<close> is \<open>None\<close> when the references cannot be read: then only interrupted writes go.  The
  second result is what the clean-up of images reports, when it is reached.\<close>

definition cleanup_stale_state :: "(string \<Rightarrow> (string \<Rightarrow> bool) option) \<Rightarrow> docker \<Rightarrow> db option \<Rightarrow> artifact_store
    \<Rightarrow> artifact_store \<times> (runner_error + nat) option" where
  "cleanup_stale_state io dk registry st =
     (case map_option referenced_artifacts registry of
        None \<Rightarrow> (cleanup_stale_artifacts io None st, None)
      | Some (digests, sources) \<Rightarrow>
          (cleanup_stale_artifacts io (Some digests) st, Some (cleanup_unreferenced_images dk sources)))"

section \<open>Starting\<close>

datatype synthesizer = RigSynthesizer rig_settings | FixtureSynthesizer

datatype start_error =
    StartConfig setup_error
  | StartDatabase
  | StartWeb web_error
  | StartRunner runner_error
  | StartSynthesizer synthesis_error
  | StartMode string

definition build_synthesizer :: "(string \<Rightarrow> string) \<Rightarrow> bool \<Rightarrow> string \<Rightarrow> llm_settings \<Rightarrow> start_error + synthesizer option" where
  "build_synthesizer debug client_builds mode llm =
     (if mode = ''openai'' \<or> mode = ''rig''
      then (case build_rig_synthesizer debug client_builds (ls_protocol llm) (ls_base_url llm) (ls_api_key llm)
                   (ls_model llm) (ls_verifier_model llm) (ls_thinking llm) of
              Inl e \<Rightarrow> Inl (StartSynthesizer e)
            | Inr settings \<Rightarrow> Inr (Some (RigSynthesizer settings)))
      else if mode = ''fixture'' then Inr (Some FixtureSynthesizer)
      else if mode = ''disabled'' then Inr None
      else Inl (StartMode mode))"

text \<open>What the worker finds: its host, the registry once connected and migrated (\<open>None\<close> when that
  fails) and whether it can be read for the clean-up, the network, Docker and the file system.\<close>

record worker_host =
  wh_host :: host_env
  wh_fresh_id :: string
  wh_registry :: "db option"
  wh_references :: bool
  wh_net :: net
  wh_docker :: docker
  wh_removal :: "string \<Rightarrow> (string \<Rightarrow> bool) option"
  wh_debug :: "string \<Rightarrow> string"
  wh_client_builds :: bool

record worker_process =
  wp_worker_id :: string
  wp_worker_token :: string
  wp_listen_addr :: string
  wp_web :: web_access
  wp_runner :: docker_runner
  wp_synthesizer :: "synthesizer option"

definition prepare_worker :: "worker_host \<Rightarrow> start_error + worker_config \<times> db \<times> web_access \<times> docker_runner" where
  "prepare_worker wh =
     rbind (map_sum StartConfig id (worker_from_env (wh_host wh) (wh_fresh_id wh))) (\<lambda>config.
     rbind (ok_or StartDatabase (wh_registry wh)) (\<lambda>d.
     rbind (map_sum StartWeb id (web_access_new (wh_net wh) (ss_provider (wk_search config))
        (ss_base_url (wk_search config)) (ss_engines (wk_search config)) (wk_http_proxy_url config))) (\<lambda>web.
     rbind (map_sum StartRunner id (runner_new (wh_net wh) (wk_docker_runtime config) (wk_http_mode config)
        (wk_http_proxy_url config))) (\<lambda>runner.
     rbind (map_sum StartRunner id (ensure_ready (wh_docker wh) runner)) (\<lambda>_.
     Inr (config, d, web, runner))))))"

definition start_worker :: "worker_host \<Rightarrow> artifact_store
    \<Rightarrow> (start_error + worker_process) \<times> artifact_store \<times> (runner_error + nat) option" where
  "start_worker wh st =
     (case prepare_worker wh of
        Inl e \<Rightarrow> (Inl e, st, None)
      | Inr (config, d, web, runner) \<Rightarrow>
        (rbind (build_synthesizer (wh_debug wh) (wh_client_builds wh) (wk_synthesizer_mode config) (wk_llm config))
           (\<lambda>synthesizer. Inr \<lparr>wp_worker_id = wk_worker_id config, wp_worker_token = wk_worker_token config,
              wp_listen_addr = wk_listen_addr config, wp_web = web, wp_runner = runner,
              wp_synthesizer = synthesizer\<rparr>),
         cleanup_stale_state (wh_removal wh) (wh_docker wh)
           (if wh_references wh then Some d else None) st))"

section \<open>What a start leaves\<close>

lemma map_sum_Inr_iff [simp]: "map_sum f id r = Inr x \<longleftrightarrow> r = Inr x"
  by (cases r) auto

lemma cleanup_none_kept: "stored_bundle ax (cleanup_stale_artifacts io None st) digest = stored_bundle ax st digest"
  by (simp add: cleanup_stale_artifacts_def Let_def stored_bundle_def cleanup_loads)

lemma cleanup_state_kept:
  "digest \<in> fst (referenced_artifacts d)
    \<Longrightarrow> stored_bundle ax (fst (cleanup_stale_state io dk (if b then Some d else None) st)) digest
      = stored_bundle ax st digest"
  by (auto simp: cleanup_stale_state_def cleanup_none_kept cleanup_stale_kept split: prod.splits)

lemma cleanup_state_swept:
  "digest \<notin> fst (referenced_artifacts d) \<Longrightarrow> (\<And>k. io k = None)
    \<Longrightarrow> stored_bundle ax (fst (cleanup_stale_state io dk (Some d) st)) digest = None"
  by (auto simp: cleanup_stale_state_def cleanup_stale_swept split: prod.splits)

lemma stale_tags_unreferenced:
  "stale_image_tags dk referenced tags = Inr removed \<Longrightarrow> t \<in> set removed
    \<Longrightarrow> \<exists>label. dk_inspect dk t = Some (True, label) \<and> normalize_label dk label \<notin> referenced"
  by (induction dk referenced tags arbitrary: removed rule: stale_image_tags.induct)
    (auto simp: rbind_Inr_iff split: if_splits option.splits prod.splits)

lemma start_outcome:
  assumes "start_worker wh st = (r, st', images)"
  shows "st' = st \<and> (\<exists>e. r = Inl e \<and> prepare_worker wh = Inl e)
    \<or> (\<exists>config d web runner. prepare_worker wh = Inr (config, d, web, runner) \<and> wh_registry wh = Some d
        \<and> st' = fst (cleanup_stale_state (wh_removal wh) (wh_docker wh) (if wh_references wh then Some d else None) st))"
proof (cases "prepare_worker wh")
  case (Inr p)
  moreover have "wh_registry wh = Some (fst (snd p))"
    using Inr by (auto simp: prepare_worker_def rbind_Inr_iff)
  ultimately show ?thesis using assms by (cases p) (auto simp: start_worker_def)
qed (use assms in \<open>auto simp: start_worker_def\<close>)

lemma runner_new_Inr:
  "runner_new net runtime mode proxy = Inr rn \<Longrightarrow> rn_runtime rn = runtime
    \<and> (if rn_http_mode rn = HttpDirect then trim mode = ''direct'' else trim mode = ''disabled'')"
  by (auto simp: runner_new_def rbind_Inr_iff Let_def split: if_splits)

lemma ensure_ready_Inr:
  "ensure_ready dk rn = Inr u \<Longrightarrow>
     \<exists>out err. dk_info dk = Some (True, out, err) \<and> contains_str (dk_lossy dk out) ([CHR 0x22] @ rn_runtime rn @ [CHR 0x22])"
  by (auto simp: ensure_ready_def split: option.splits if_splits)

lemma required_setting_Inr: "required_setting name value = Inr v \<Longrightarrow> v \<noteq> []"
  by (auto simp: required_setting_def split: option.splits if_splits)

lemma rig_settings_complete:
  "build_rig_synthesizer debug builds protocol url key coder verifier thinking = Inr rs \<Longrightarrow>
     rs_api_key rs \<noteq> [] \<and> rs_coder_model rs \<noteq> [] \<and> rs_verifier_model rs \<noteq> []
     \<and> rs_protocol rs \<in> {''chat_completions'', ''responses'', ''anthropic_messages''}"
  by (auto simp: build_rig_synthesizer_def rbind_Inr_iff Let_def dest: required_setting_Inr split: if_splits)

text \<open>The synthesizer a mode gives.\<close>

fun synthesizer_ok :: "string \<Rightarrow> synthesizer option \<Rightarrow> bool" where
  "synthesizer_ok mode None = (mode = ''disabled'')"
| "synthesizer_ok mode (Some FixtureSynthesizer) = (mode = ''fixture'')"
| "synthesizer_ok mode (Some (RigSynthesizer rs)) = (mode \<in> {''openai'', ''rig''}
     \<and> rs_api_key rs \<noteq> [] \<and> rs_coder_model rs \<noteq> [] \<and> rs_verifier_model rs \<noteq> []
     \<and> rs_protocol rs \<in> {''chat_completions'', ''responses'', ''anthropic_messages''})"

lemma build_synthesizer_ok:
  assumes "build_synthesizer debug builds mode llm = Inr s"
  shows "synthesizer_ok mode s"
proof (cases "mode = ''openai'' \<or> mode = ''rig''")
  case True
  with assms obtain rs where rig: "build_rig_synthesizer debug builds (ls_protocol llm) (ls_base_url llm)
      (ls_api_key llm) (ls_model llm) (ls_verifier_model llm) (ls_thinking llm) = Inr rs"
    and s: "s = Some (RigSynthesizer rs)"
    by (auto simp: build_synthesizer_def split: sum.splits)
  from rig_settings_complete [OF rig] True show ?thesis by (auto simp: s)
qed (use assms in \<open>auto simp: build_synthesizer_def split: if_splits\<close>)

lemma prepared:
  assumes "prepare_worker wh = Inr (config, d, web, runner)"
  shows "worker_from_env (wh_host wh) (wh_fresh_id wh) = Inr config"
    and "runner_new (wh_net wh) (wk_docker_runtime config) (wk_http_mode config) (wk_http_proxy_url config) = Inr runner"
    and "ensure_ready (wh_docker wh) runner = Inr ()"
  using assms by (auto simp: prepare_worker_def rbind_Inr_iff)

lemma started:
  assumes "start_worker wh st = (Inr w, st', images)"
  obtains config d web where "prepare_worker wh = Inr (config, d, web, wp_runner w)"
    and "build_synthesizer (wh_debug wh) (wh_client_builds wh) (wk_synthesizer_mode config) (wk_llm config)
      = Inr (wp_synthesizer w)"
    and "wp_worker_token w = wk_worker_token config"
  using assms by (auto simp: start_worker_def rbind_Inr_iff split: sum.splits)


text \<open>A worker that starts is ready to work.  Its token is not empty and comes from the environment
  or a private file, Docker answers and reports the configured sandbox runtime, its
  runner lets tools use HTTP exactly when the mode is \<open>direct\<close>, and it has a synthesizer unless
  the mode is \<open>disabled\<close>: the test-only one only in mode \<open>fixture\<close>, else one with a key, both
  models and a known protocol.\<close>

theorem started_worker_is_ready:
  assumes "start_worker wh st = (Inr w, st', images)"
  shows "\<exists>config. worker_from_env (wh_host wh) (wh_fresh_id wh) = Inr config \<and>
     wp_worker_token w \<noteq> [] \<and>
     token_source (wh_host wh) ''JITFORGE_WORKER_TOKEN'' ac_worker_token (wp_worker_token w) \<and>
     (\<exists>out err. dk_info (wh_docker wh) = Some (True, out, err) \<and> contains_str (dk_lossy (wh_docker wh) out)
        ([CHR 0x22] @ wk_docker_runtime config @ [CHR 0x22])) \<and>
     rn_runtime (wp_runner w) = wk_docker_runtime config \<and>
     (rn_http_mode (wp_runner w) = HttpDirect \<longleftrightarrow> trim (wk_http_mode config) = ''direct'') \<and>
     synthesizer_ok (wk_synthesizer_mode config) (wp_synthesizer w)"
proof -
  from assms obtain config d web where prep: "prepare_worker wh = Inr (config, d, web, wp_runner w)"
    and synth: "build_synthesizer (wh_debug wh) (wh_client_builds wh) (wk_synthesizer_mode config) (wk_llm config)
      = Inr (wp_synthesizer w)"
    and token: "wp_worker_token w = wk_worker_token config"
    by (rule started)
  note config = prepared(1) [OF prep]
  have runner: "rn_runtime (wp_runner w) = wk_docker_runtime config"
    "rn_http_mode (wp_runner w) = HttpDirect \<longleftrightarrow> trim (wk_http_mode config) = ''direct''"
    using runner_new_Inr [OF prepared(2) [OF prep]] by (auto split: if_splits)
  show ?thesis
    using config worker_token_private [OF config] ensure_ready_Inr [OF prepared(3) [OF prep]] runner token
      build_synthesizer_ok [OF synth] by auto
qed

section \<open>An example\<close>

text \<open>A worker configured by its environment, for the registry and a store of the examples: the
  published version has the artifact of source A, the artifact of source B has no reference.\<close>

definition start_env :: host_env where
  "start_env =
     \<lparr>he_var = (\<lambda>name. if name = ''JITFORGE_WORKER_TOKEN'' then Some ''w''
        else if name = ''JITFORGE_SYNTHESIZER_MODE'' then Some ''fixture''
        else if name = ''JITFORGE_SEARCH_BASE_URL'' then Some ''https://a.example/'' else None),
      he_file = (\<lambda>path. \<lparr>kf_exists = False, kf_text = None, kf_mode = None\<rparr>), he_toml = (\<lambda>_. None)\<rparr>"

definition start_docker :: docker where
  "start_docker = \<lparr>dk_info = Some (True, [CHR 0x22] @ ''runsc'' @ [CHR 0x22], []), dk_inspect = (\<lambda>_. None),
     dk_build = (\<lambda>_. None), dk_run = (\<lambda>_ _. undefined), dk_remove_image = (\<lambda>_. None),
     dk_images = Some (True, [], []), dk_from_utf8 = Some, dk_lossy = (\<lambda>s. s), dk_fixtures_json = (\<lambda>_. None)\<rparr>"

definition "db_stored = commit (publish_job ext0 250 20 ''w2'' (artifact0\<lparr>pa_digest := digest_a\<rparr>)) db_resumed"

definition store_both :: artifact_store where
  "store_both = snd (put_artifact ax0 io_fine ''u2'' (draft1 ''B'') store0)"

definition start_host :: worker_host where
  "start_host = \<lparr>wh_host = start_env, wh_fresh_id = ''1'', wh_registry = Some db_stored, wh_references = True,
     wh_net = net0, wh_docker = start_docker, wh_removal = (\<lambda>_. None), wh_debug = (\<lambda>s. s), wh_client_builds = True\<rparr>"

lemma db_stored_reachable: "reachable ext0 db_stored"
  unfolding db_stored_def by (rule commit_reachable [OF sample_reachable(6)]) (simp add: step.publish)

lemma db_stored_ready:
  "\<exists>v\<in>set (versions db_stored). v_status v = ''ready'' \<and> v_artifact_digest v = Some digest_a"
  "digest_b \<notin> fst (referenced_artifacts db_stored)"
  by code_simp+

lemma store_both_holds: "stored_bundle ax0 store_both digest_a = Some (toy_bundle ''A'')"
  "stored_bundle ax0 store_both digest_b = Some (toy_bundle ''B'')"
  by code_simp+

lemma start_settings:
  "nonempty_env start_env ''JITFORGE_WORKER_TOKEN'' = Some ''w''"
  "nonempty_env start_env ''JITFORGE_SYNTHESIZER_MODE'' = Some ''fixture''"
  "nonempty_env start_env ''JITFORGE_SEARCH_BASE_URL'' = Some ''https://a.example/''"
  by code_simp+

lemma start_unset: "name \<notin> {''JITFORGE_WORKER_TOKEN'', ''JITFORGE_SYNTHESIZER_MODE'', ''JITFORGE_SEARCH_BASE_URL''}
    \<Longrightarrow> nonempty_env start_env name = None"
  by (simp add: nonempty_env_def nonempty_def start_env_def)

lemma start_addr: "is_socket_addr ''127.0.0.1:50051''"
  by (simp add: is_socket_addr_def is_bounded_number_def is_ipv4_literal_def is_ascii_digit_def Let_def)

lemma start_loads: "load_config start_env None = Inr default_config"
  by (simp add: load_config_def default_path_def start_unset)

lemma start_configured:
  "configured start_env name None = nonempty_env start_env name"
  by (simp add: configured_def nonempty_def split: option.split)

lemma start_config: "\<exists>config. worker_from_env start_env ''1'' = Inr config \<and> wk_synthesizer_mode config = ''fixture''
    \<and> wk_http_mode config = ''disabled'' \<and> wk_http_proxy_url config = None \<and> wk_docker_runtime config = ''runsc''
    \<and> ss_provider (wk_search config) = ''searxng'' \<and> ss_base_url (wk_search config) = ''https://a.example/''"
  by (simp add: worker_from_env_def start_loads config_result_def default_config_def start_configured start_settings
      start_unset unwrap_or_def socket_setting_def start_addr search_from_env_def)

lemma start_prepares: "\<exists>config web rn. prepare_worker start_host = Inr (config, db_stored, web, rn)
    \<and> wk_synthesizer_mode config = ''fixture''"
proof -
  obtain config where config: "worker_from_env start_env ''1'' = Inr config" "wk_synthesizer_mode config = ''fixture''"
      "wk_http_mode config = ''disabled''" "wk_http_proxy_url config = None" "wk_docker_runtime config = ''runsc''"
      "ss_provider (wk_search config) = ''searxng''" "ss_base_url (wk_search config) = ''https://a.example/''"
    using start_config by blast
  have "n_parse net0 ''https://a.example/'' = Some (page ''a.example'' ''/'')" "n_client net0"
    by (simp_all add: net0_def)
  moreover have "trim ''disabled'' = ''disabled''" by code_simp
  moreover have "contains_str ([CHR 0x22] @ ''runsc'' @ [CHR 0x22]) ([CHR 0x22] @ ''runsc'' @ [CHR 0x22])" by code_simp
  ultimately show ?thesis
    by (simp add: prepare_worker_def start_host_def config web_access_new_def runner_new_def normalize_proxy_url_def
        ensure_ready_def start_docker_def page_def)
qed

lemma start_runs: "\<exists>w st' images. start_worker start_host store_both = (Inr w, st', images)"
proof -
  obtain config web rn where "prepare_worker start_host = Inr (config, db_stored, web, rn)"
    "wk_synthesizer_mode config = ''fixture''"
    using start_prepares by blast
  then show ?thesis
    by (cases "cleanup_stale_state (wh_removal start_host) (wh_docker start_host) (Some db_stored) store_both")
      (simp add: start_worker_def build_synthesizer_def start_host_def)
qed


theorem started_worker_is_ready_witness:
  "\<exists>w st' images. start_worker start_host store_both = (Inr w, st', images) \<and> wp_worker_token w \<noteq> []
     \<and> rn_runtime (wp_runner w) = ''runsc''"
proof -
  obtain w st' images where run: "start_worker start_host store_both = (Inr w, st', images)"
    using start_runs by blast
  from started_worker_is_ready [OF run] start_config run show ?thesis
    by (auto simp: start_host_def)
qed

end
