(* ===== verification/Spec2Isabelle.thy ===== *)
theory Spec2Isabelle
  imports Registry_Lists Web_Text Json_Compare Contract_Checks Model_Calls Runner_Safety Agent_Properties Agent_Schemas
    Cli_Call Worker_Start
begin

text \<open>
  JITForge synthesizes small Unix-style tools with a language model, validates them in a sandbox and
  lets clients call them.  This development models its Rust code and proves what makes it correct.

  \<^bold>\<open>The program.\<close>  A client registers a tool: a name, an intent, examples and input samples.  The
  HTTP server (src/apps/jit-server) writes a version and a queued job to the registry, PostgreSQL
  behind src/crates/jit-storage.  A worker (src/apps/jit-worker) claims the job under a lease and runs
  an agent: a model calls tools to submit a contract with tests, have it reviewed, probe the web under
  approved capabilities, ask the user, and submit source, which the runner executes in Docker against
  every test.  A candidate that passes is stored in the artifact store (src/crates/jit-artifact) and
  published: it becomes the stable revision of the tool.  A call resolves the name to a ready revision
  and sends its digest to the worker's gRPC service, which runs the artifact in the same sandbox.
  src/crates/jit-domain and src/crates/jit-protocol hold the shared types, src/crates/jit-config the
  configuration.

  \<^bold>\<open>Foundations.\<close>  \<open>Prelude\<close> has results with an error (\<open>'e + 'a\<close>), the bounded integers of Rust and
  tables of rows; \<open>Rust_Text\<close> the operations of \<open>str\<close> on UTF-8 bytes, one \<open>char\<close> per byte;
  \<open>Json_Value\<close> the type \<open>serde_json::Value\<close>.  \<open>Domain\<close> and \<open>Protocol\<close> are jit-domain and
  jit-protocol, their enumerations behind the interface \<open>enum_codec\<close>.

  \<^bold>\<open>Registry\<close> (src/crates/jit-storage/src/lib.rs, src/migrations).  \<open>Schema\<close> has the tables as lists of
  records; \<open>Registry_Read\<close>, \<open>Registry\<close> and \<open>Registry_Jobs\<close> have each query and transaction as a
  function of the tables that returns an error or a result with the new tables.  The clock and fresh
  UUIDs are arguments; the functions of PostgreSQL and of the crates are the record \<open>ext\<close>.
  \<open>Registry_Invariant\<close> states the invariant; \<open>Registry_Tables\<close>, \<open>Registry_Keep\<close>, \<open>Registry_Change\<close>,
  \<open>Registry_Events\<close>, \<open>Registry_Preserve\<close>, \<open>Registry_Publish\<close> and \<open>Registry_Register\<close> prove that each
  operation keeps it; \<open>Registry_Transitions\<close> collects the operations in the relation \<open>step\<close> with the
  states it reaches.  On them rest \<open>Registry_States\<close> (jobs and versions agree, a stable revision
  resolves), \<open>Registry_Behaviour\<close> (registration, revocation), \<open>Registry_Leases\<close> (interface
  \<open>lease_fenced\<close>: a worker that lost its lease can change nothing), \<open>Registry_Trace\<close> (the byte budget of
  the trace, cancellation), \<open>Registry_Questions\<close> (suspension and answer, publication, compaction) and
  \<open>Registry_Lists\<close> (pages, interface \<open>paged_source\<close>; capabilities; references).  \<open>Registry_Sample\<close> is
  a concrete history for the witnesses.

  \<^bold>\<open>Artifacts\<close> (src/crates/jit-artifact/src/lib.rs).  \<open>Artifact\<close> is the store as a table of directories,
  with every point at which a write can fail; \<open>Artifact_Store\<close> shows that it refines a map from
  digests to bundles, and the clean-up behind the interface \<open>sweepable\<close>.  SHA-256 and the JSON encoding
  are the record \<open>artifact_ext\<close>; that an encoded bundle parses back is a hypothesis (\<open>parses_back\<close>).

  \<^bold>\<open>The worker\<close> (src/apps/jit-worker/src).  \<open>Web_Access\<close> is web_access.rs; \<open>Web_Safety\<close> shows that every
  request goes to a validated URL at a public address it resolved to, \<open>Web_Text\<close> what the reductions of
  a page keep.  \<open>Runner\<close> is runner.rs, every operation with the command lines it gives to Docker;
  \<open>Runner_Safety\<close> shows the sandbox options and when a container has a network.  \<open>Synthesis\<close> is
  synthesizer.rs: the loop that calls a model with its retries, reviews and verdicts, and the test-only
  synthesizer; \<open>Model_Calls\<close> bounds the requests.  \<open>Contract\<close> and \<open>Json_Compare\<close> are the checks and the
  comparison of outputs in jobs.rs.  \<open>Agent\<close> has the agent's workspace and its actions - functions of
  the registry, the store, the workspace and a log that may fail keeping what was done, or never
  return (\<open>None\<close>) - \<open>Agent_Tools\<close> and \<open>Agent_Inputs\<close> its tools, \<open>Agent_Values\<close> and \<open>Agent_Checkpoint\<close> the
  JSON images, \<open>Agent_Run\<close> the run and the life of a job in the worker.  \<open>Agent_Logic\<close> has weakest
  preconditions and the interface \<open>agent_invariant\<close>, with which \<open>Agent_Invariants\<close> proves that the
  examples of the user and the budgets bind the whole run; \<open>Agent_Publication\<close>, \<open>Agent_Resume\<close> and
  \<open>Agent_Totality\<close> carry the properties of publication, resumption and termination, stated in
  \<open>Agent_Properties\<close> with witnesses on \<open>Agent_Sample\<close> and \<open>Agent_Sample_Run\<close>.  \<open>Agent_Schemas\<close> has
  the tools as advertised and shows that what conforms to a schema can be read.  \<open>Worker_Service\<close> is
  service.rs; \<open>Worker_Start\<close> is main.rs, whose start never removes an artifact in use.

  \<^bold>\<open>The server\<close> (src/apps/jit-server/src).  \<open>Web_Session\<close> is web.rs, its table of sessions behind the
  interface \<open>expiring_map\<close>; \<open>Server_Api\<close> has the handlers of main.rs and \<open>Server_Main\<close> the routes, the
  authorisation and one request as a transition of registry and sessions.  \<open>Server_Invocation\<close> puts the
  server before the worker's service; \<open>Server_Properties\<close> states who may write, what is recorded of an
  invocation and that it runs what was published.  \<open>Config\<close> is src/crates/jit-config/src/lib.rs with the
  settings of both processes.

  \<^bold>\<open>The command line\<close> (src/apps/jit-cli/src/main.rs).  \<open>Cli\<close> has the parsed arguments, the world of a
  command - the server as a function of request, time and its own state, the clock, the terminal, the
  outputs -, failures with their exit codes, the reading of arguments and the questions to the user;
  \<open>Cli_Commands\<close> has the waiting for a job, every command and \<open>main\<close>.  \<open>Cli_Properties\<close> shows that waiting
  is bounded and what an exit code tells.  \<open>Server_Routes\<close> is the router of the server with what it reads
  from path, query and body; \<open>Cli_Server\<close> shows that each request of a command reaches the handler it
  is meant for, and \<open>Cli_Call\<close> puts client, server and worker together: a call prints what the
  published artifact wrote in the sandbox.

  \<^bold>\<open>Concurrency.\<close>  Each transaction of the registry is one step, \<open>set_job_stage\<close> two, as it commits its
  two statements separately.  In the agent and the server, a parameter (\<open>ae_others\<close>, \<open>rc_others\<close>) says
  what other processes do to the registry between two transactions; the properties hold for all of
  them, or for those that satisfy a named hypothesis.

  \<^bold>\<open>Bounds and fuel.\<close>  A run of the agent follows the steps of Rig's \<open>AgentRun\<close>, a library: the list of the
  steps that are left is the fuel, one more than its length is enough, and \<open>job_is_finished\<close> assumes
  that each step uses up some of a measure, as Rig's limits on turns make it do.  A review takes at most
  16 requests.  Waiting for a job ends because a sleep takes at least half a second of the time limit and
  every question uses up a line that the user types, of which there are finitely many.  Processes are described by how they end; one that never ends makes the wait \<open>None\<close>.

  \<^bold>\<open>Not modelled.\<close>  The prompts, prose for the model; the
  text of library errors; axum's and tonic's plumbing (the 6 MiB body limit, request ids, logging,
  shutdown) and the static files of the console; the endless loops of the worker for heartbeat and
  compaction, whose single steps are modelled; the Python side of the sandbox; the argument
  parser of the command line, the HTTP client, and failures of the terminal.  URL parsing, name resolution, HTTP, Docker, SHA-256, Base64, TOML and JSON text
  are parameters.
\<close>

end
